(* ===== verification/JS_Prelude.thy ===== *)
theory JS_Prelude
  imports Main "HOL-Library.Multiset" "HOL-Library.List_Lexorder" "HOL-Library.Char_ord"
begin

text \<open>
  The shared vocabulary of the development: JavaScript values that may be missing or null, errors
  as values of a sum type, and the array and string methods of the standard library that the
  dashboard uses (\<^verbatim>\<open>new Set\<close>, \<^verbatim>\<open>Array.prototype.sort\<close>, \<^verbatim>\<open>join\<close>, \<^verbatim>\<open>split\<close>,
  \<^verbatim>\<open>String.prototype.replace\<close>), each with the generic lemmas the components rest on.

  Strings are lists of 8-bit characters, read as the UTF-8 encoding of the source's strings. Every
  string operation that is modelled (equality, concatenation, splitting at and replacing of ASCII
  characters, lexicographic comparison of ASCII names) commutes with that encoding.
\<close>

named_theorems js_simps \<open>evaluation rules for the modelled standard library\<close>
named_theorems js_sets \<open>the elements of the lists the array methods produce\<close>

section \<open>Missing and null values, errors\<close>

text \<open>
  A field of a JSON object that is declared with type \<open>'a\<close> holds at run time a value of that
  type, or is missing, or is null. The source guards against both.
\<close>

datatype 'a jopt = Undef | Null | Val 'a

fun jopt_nullish :: "'a jopt \<Rightarrow> bool" where
  "jopt_nullish (Val _) = False"
| "jopt_nullish _ = True"

fun jopt_list :: "'a list jopt \<Rightarrow> 'a list" where
  "jopt_list (Val xs) = xs"
| "jopt_list _ = []"

fun truthy_str :: "string jopt \<Rightarrow> bool" where
  "truthy_str (Val s) = (s \<noteq> [])"
| "truthy_str _ = False"

text \<open>The property key (and template literal text) that a string-typed value converts to.\<close>

fun str_key :: "string jopt \<Rightarrow> string" where
  "str_key Undef = ''undefined''"
| "str_key Null = ''null''"
| "str_key (Val s) = s"

text \<open>The values of a list that are present: \<^verbatim>\<open>filter(x => typeof x === T)\<close>.\<close>

fun vals :: "'a jopt list \<Rightarrow> 'a list" where
  "vals [] = []"
| "vals (Val x # xs) = x # vals xs"
| "vals (_ # xs) = vals xs"

lemma set_vals [simp, js_sets]: "set (vals xs) = {x. Val x \<in> set xs}"
  by (induction xs rule: vals.induct) auto

lemma Val_image_iff: "Val x \<in> f ` A \<longleftrightarrow> (\<exists>i\<in>A. f i = Val x)"
  by (force simp: image_iff)

text \<open>\<^verbatim>\<open>filter(Boolean)\<close> on strings drops missing, null and empty ones.\<close>

definition truthy_strs :: "string jopt list \<Rightarrow> string list" where
  "truthy_strs xs = filter (\<lambda>s. s \<noteq> []) (vals xs)"

lemma set_truthy_strs [simp, js_sets]: "set (truthy_strs xs) = {s. Val s \<in> set xs \<and> s \<noteq> []}"
  by (auto simp: truthy_strs_def)

datatype js_error = TypeError | ContextError string

type_synonym 'a result = "js_error + 'a"

definition bindE :: "'a result \<Rightarrow> ('a \<Rightarrow> 'b result) \<Rightarrow> 'b result" where
  "bindE r f = (case r of Inl e \<Rightarrow> Inl e | Inr x \<Rightarrow> f x)"

lemma bindE_simps [simp]: "bindE (Inl e) f = Inl e" "bindE (Inr x) f = f x"
  by (simp_all add: bindE_def)

lemma bindE_eq_Inr: "bindE r f = Inr y \<longleftrightarrow> (\<exists>x. r = Inr x \<and> f x = Inr y)"
  by (cases r) auto

fun mapE :: "('a \<Rightarrow> 'b result) \<Rightarrow> 'a list \<Rightarrow> 'b list result" where
  "mapE f [] = Inr []"
| "mapE f (x # xs) = bindE (f x) (\<lambda>y. bindE (mapE f xs) (\<lambda>ys. Inr (y # ys)))"

fun foldE :: "('s \<Rightarrow> 'a \<Rightarrow> 's result) \<Rightarrow> 's \<Rightarrow> 'a list \<Rightarrow> 's result" where
  "foldE f s [] = Inr s"
| "foldE f s (x # xs) = bindE (f s x) (\<lambda>s'. foldE f s' xs)"

lemma mapE_total: "(\<And>x. x \<in> set xs \<Longrightarrow> f x = Inr (g x)) \<Longrightarrow> mapE f xs = Inr (map g xs)"
  by (induction xs) auto

lemma mapE_length: "mapE f xs = Inr ys \<Longrightarrow> length ys = length xs"
  by (induction xs arbitrary: ys) (auto simp: bindE_eq_Inr)

lemma mapE_nth: "mapE f xs = Inr ys \<Longrightarrow> i < length xs \<Longrightarrow> f (xs ! i) = Inr (ys ! i)"
  by (induction xs arbitrary: ys i) (auto simp: bindE_eq_Inr nth_Cons split: nat.splits)

lemma foldE_append: "foldE f s (xs @ ys) = bindE (foldE f s xs) (\<lambda>s'. foldE f s' ys)"
  by (induction xs arbitrary: s) (auto simp: bindE_def split: sum.splits)

lemma foldE_total:
  assumes "P s" and "\<And>s x. P s \<Longrightarrow> x \<in> set xs \<Longrightarrow> f s x = Inr (g s x) \<and> P (g s x)"
  shows "foldE f s xs = Inr (foldl g s xs) \<and> P (foldl g s xs)"
  using assms by (induction xs arbitrary: s) auto

section \<open>Arrays\<close>

text \<open>\<^verbatim>\<open>[...new Set(xs)]\<close>: the first occurrence of each element, in order.\<close>

fun js_set :: "'a list \<Rightarrow> 'a list" where
  "js_set [] = []"
| "js_set (x # xs) = x # filter (\<lambda>y. y \<noteq> x) (js_set xs)"

lemma set_js_set [simp, js_sets]: "set (js_set xs) = set xs"
  by (induction xs) auto

lemma distinct_js_set [simp]: "distinct (js_set xs)"
  by (induction xs) auto

lemma js_set_distinct: "distinct xs \<Longrightarrow> js_set xs = xs"
  by (induction xs) (auto simp: filter_id_conv)

lemma js_set_snoc: "js_set (xs @ [x]) = (if x \<in> set xs then js_set xs else js_set xs @ [x])"
  by (induction xs) auto

lemma js_set_eq_Nil [simp]: "js_set xs = [] \<longleftrightarrow> xs = []"
  by (cases xs) auto

text \<open>
  \<^verbatim>\<open>Array.prototype.sort(cmp)\<close>. The argument says when \<open>cmp(x, y) > 0\<close>, that is when \<open>x\<close>
  has to come after \<open>y\<close>. The language fixes the result (a stable sort) for a consistent
  comparator; insertion from the right is that stable sort.
\<close>

fun js_insert :: "('a \<Rightarrow> 'a \<Rightarrow> bool) \<Rightarrow> 'a \<Rightarrow> 'a list \<Rightarrow> 'a list" where
  "js_insert after x [] = [x]"
| "js_insert after x (y # ys) = (if after x y then y # js_insert after x ys else x # y # ys)"

definition js_sort :: "('a \<Rightarrow> 'a \<Rightarrow> bool) \<Rightarrow> 'a list \<Rightarrow> 'a list" where
  "js_sort after xs = foldr (js_insert after) xs []"

lemma js_sort_simps [simp]:
  "js_sort after [] = []" "js_sort after (x # xs) = js_insert after x (js_sort after xs)"
  by (simp_all add: js_sort_def)

lemma mset_js_insert [simp]: "mset (js_insert after x xs) = {#x#} + mset xs"
  by (induction xs) auto

lemma mset_js_sort [simp]: "mset (js_sort after xs) = mset xs"
  by (induction xs) auto

lemma set_js_insert [simp]: "set (js_insert after x xs) = insert x (set xs)"
  by (induction xs) auto

lemma set_js_sort [simp, js_sets]: "set (js_sort after xs) = set xs"
  by (induction xs) auto

lemma length_js_sort [simp]: "length (js_sort after xs) = length xs"
  by (metis mset_js_sort size_mset)

lemma distinct_js_sort [simp]: "distinct (js_sort after xs) = distinct xs"
  by (metis mset_js_sort mset_eq_imp_distinct_iff)

text \<open>
  The contract of a comparator: the relation \<open>\<not> after x y\<close> is a total preorder on the elements
  that are sorted. It is the interface between the sort and the comparators the components pass.
\<close>

locale js_comparator =
  fixes after :: "'a \<Rightarrow> 'a \<Rightarrow> bool" and dom :: "'a \<Rightarrow> bool"
  assumes after_asym: "dom x \<Longrightarrow> dom y \<Longrightarrow> after x y \<Longrightarrow> \<not> after y x"
    and after_trans: "dom x \<Longrightarrow> dom y \<Longrightarrow> dom z \<Longrightarrow> \<not> after x y \<Longrightarrow> \<not> after y z \<Longrightarrow> \<not> after x z"
begin

lemma insert_sorted:
  "dom x \<Longrightarrow> \<forall>y\<in>set ys. dom y \<Longrightarrow> sorted_wrt (\<lambda>a b. \<not> after a b) ys \<Longrightarrow>
     sorted_wrt (\<lambda>a b. \<not> after a b) (js_insert after x ys)"
proof (induction ys)
  case Nil
  then show ?case by simp
next
  case (Cons y ys)
  then show ?case
    by (auto dest: after_asym after_trans [of x y])
qed

lemma sort_sorted:
  "\<forall>x\<in>set xs. dom x \<Longrightarrow> sorted_wrt (\<lambda>a b. \<not> after a b) (js_sort after xs)"
  by (induction xs) (auto intro!: insert_sorted)

lemma insert_filter_tied:
  "\<forall>y\<in>set ys. P y \<longrightarrow> \<not> after x y \<Longrightarrow> P x \<Longrightarrow> \<forall>y\<in>set ys. dom y \<Longrightarrow> dom x \<Longrightarrow>
     sorted_wrt (\<lambda>a b. \<not> after a b) ys \<Longrightarrow> filter P (js_insert after x ys) = x # filter P ys"
  by (induction ys) auto

lemma insert_filter_other: "\<not> P x \<Longrightarrow> filter P (js_insert after x ys) = filter P ys"
  by (induction ys) auto

text \<open>Stability: elements that compare equal keep the order they had.\<close>

lemma sort_stable:
  assumes "\<forall>x\<in>set xs. dom x" and "\<forall>x\<in>set xs. \<forall>y\<in>set xs. P x \<longrightarrow> P y \<longrightarrow> \<not> after x y"
  shows "filter P (js_sort after xs) = filter P xs"
  using assms
proof (induction xs)
  case Nil
  then show ?case by simp
next
  case (Cons x xs)
  have "filter P (js_insert after x (js_sort after xs)) =
      (if P x then x # filter P (js_sort after xs) else filter P (js_sort after xs))"
    using Cons.prems by (auto intro!: insert_filter_tied insert_filter_other sort_sorted)
  with Cons show ?case by simp
qed

end

text \<open>\<^verbatim>\<open>xs[0] || d\<close>, with the truthiness test of the element type.\<close>

definition first_or :: "('a \<Rightarrow> bool) \<Rightarrow> 'a list \<Rightarrow> 'a \<Rightarrow> 'a" where
  "first_or truthy xs d = (case xs of [] \<Rightarrow> d | x # _ \<Rightarrow> if truthy x then x else d)"

lemma first_or_in: "xs \<noteq> [] \<Longrightarrow> \<forall>x\<in>set xs. truthy x \<Longrightarrow> first_or truthy xs d \<in> set xs"
  by (cases xs) (auto simp: first_or_def)

lemma first_or_cases: "first_or truthy xs d = d \<or> first_or truthy xs d \<in> set xs"
  by (cases xs) (auto simp: first_or_def)

lemma count_list_distinct: "distinct xs \<Longrightarrow> count_list xs x = (if x \<in> set xs then 1 else 0)"
  by (induction xs) auto

lemma list_all2_map_self: "\<forall>x\<in>set xs. P (f x) x \<Longrightarrow> list_all2 P (map f xs) xs"
  by (simp add: list_all2_conv_all_nth)

section \<open>Strings\<close>

text \<open>\<^verbatim>\<open>xs.join(sep)\<close>\<close>

fun js_join :: "string \<Rightarrow> string list \<Rightarrow> string" where
  "js_join sep [] = []"
| "js_join sep [x] = x"
| "js_join sep (x # y # xs) = x @ sep @ js_join sep (y # xs)"

text \<open>\<^verbatim>\<open>s.split(c)\<close> for a one-character separator; splitting the empty string gives \<^verbatim>\<open>[""]\<close>.\<close>

fun split_char :: "char \<Rightarrow> string \<Rightarrow> string list" where
  "split_char c [] = [[]]"
| "split_char c (x # xs) =
     (if x = c then [] # split_char c xs
      else case split_char c xs of [] \<Rightarrow> [[x]] | y # ys \<Rightarrow> (x # y) # ys)"

lemma split_char_ne [simp]: "split_char c s \<noteq> []"
  by (induction s) (auto split: list.splits)

lemma split_char_no: "c \<notin> set s \<Longrightarrow> split_char c s = [s]"
  by (induction s) auto

lemma split_char_append: "c \<notin> set s \<Longrightarrow> split_char c (s @ c # t) = s # split_char c t"
  by (induction s) auto

lemma split_char_join:
  "xs \<noteq> [] \<Longrightarrow> \<forall>x\<in>set xs. c \<notin> set x \<Longrightarrow> split_char c (js_join [c] xs) = xs"
  by (induction "[c]" xs rule: js_join.induct) (auto simp: split_char_no split_char_append)

lemma hd_split_char_prefix: "c \<notin> set s \<Longrightarrow> hd (split_char c (s @ c # t)) = s"
  by (simp add: split_char_append)

text \<open>\<^verbatim>\<open>s.replace(/__/g, "+")\<close>: left to right, without overlaps.\<close>

fun replace_uu :: "string \<Rightarrow> string" where
  "replace_uu [] = []"
| "replace_uu [c] = [c]"
| "replace_uu (c # d # s) =
     (if c = CHR ''_'' \<and> d = CHR ''_'' then CHR ''+'' # replace_uu s else c # replace_uu (d # s))"

text \<open>\<^verbatim>\<open>s.replace(/\+/g, "__")\<close>\<close>

fun replace_plus :: "string \<Rightarrow> string" where
  "replace_plus [] = []"
| "replace_plus (c # s) = (if c = CHR ''+'' then ''__'' @ replace_plus s else c # replace_plus s)"

lemma replace_plus_uu: "CHR ''+'' \<notin> set s \<Longrightarrow> replace_plus (replace_uu s) = s"
  by (induction s rule: replace_uu.induct) auto

lemma replace_uu_inj:
  "CHR ''+'' \<notin> set s \<Longrightarrow> CHR ''+'' \<notin> set t \<Longrightarrow> replace_uu s = replace_uu t \<Longrightarrow> s = t"
  by (metis replace_plus_uu)

lemma set_replace_uu: "set (replace_uu s) \<subseteq> insert (CHR ''+'') (set s)"
  by (induction s rule: replace_uu.induct) auto

lemma replace_uu_eq_Nil [simp]: "replace_uu s = [] \<longleftrightarrow> s = []"
  by (cases s rule: replace_uu.cases) auto

end
