(* ===== verification/JS_Number.thy ===== *)
theory JS_Number
  imports Complex_Main JS_Prelude
begin

text \<open>
  JavaScript numbers: IEEE 754 binary64 values with round-to-nearest-even arithmetic, and the
  conversions the dashboard calls (\<^verbatim>\<open>Number.parseInt\<close>, \<^verbatim>\<open>Number(s)\<close>, \<^verbatim>\<open>toString\<close>, \<^verbatim>\<open>toFixed\<close>,
  \<^verbatim>\<open>Math.min\<close>, \<^verbatim>\<open>Math.max\<close>). A finite number is the rational it denotes; the two zeros are
  identified, since no operation of the source tells them apart. Equality of the datatype is the
  language's SameValueZero (used by \<^verbatim>\<open>includes\<close> and \<^verbatim>\<open>Set\<close>); \<open>num_eq\<close> is \<^verbatim>\<open>===\<close>.
\<close>

datatype jsnum = NaN | PosInf | NegInf | Fin rat

section \<open>Rounding\<close>

definition half_even :: "rat \<Rightarrow> int" where
  "half_even x =
     (let f = \<lfloor>x\<rfloor>; d = x - of_int f
      in if d < 1/2 then f else if 1/2 < d then f + 1 else if even f then f else f + 1)"

text \<open>The number of base-\<open>b\<close> digits of an integer.\<close>

function int_len :: "int \<Rightarrow> int \<Rightarrow> int" where
  "int_len b x = (if x \<le> 0 \<or> b \<le> 1 then 0 else int_len b (x div b) + 1)"
  by pat_completeness auto
termination
  by (relation "measure (\<lambda>(b, x). nat x)") (auto simp: nat_less_iff int_div_less_self)

declare int_len.simps [simp del]

definition ilog2 :: "rat \<Rightarrow> int" where
  "ilog2 x =
     (let (p, q) = quotient_of x; k = int_len 2 p - int_len 2 q
      in if 2 powi k \<le> x then k else k - 1)"

definition qexp :: "rat \<Rightarrow> int" where
  "qexp x = max (- 1074) (ilog2 \<bar>x\<bar> - 52)"

definition rnd :: "rat \<Rightarrow> rat" where
  "rnd x = (if x = 0 then 0 else of_int (half_even (x / 2 powi qexp x)) * 2 powi qexp x)"

definition fl :: "rat \<Rightarrow> jsnum" where
  "fl x = (let r = rnd x
           in if 2 ^ 1024 \<le> r then PosInf else if r \<le> - (2 ^ 1024) then NegInf else Fin r)"

text \<open>The finite numbers that the language can hold.\<close>

definition is_double :: "rat \<Rightarrow> bool" where
  "is_double x \<longleftrightarrow> fl x = Fin x"

fun wf_num :: "jsnum \<Rightarrow> bool" where
  "wf_num (Fin x) = is_double x"
| "wf_num _ = True"

section \<open>Arithmetic and comparison\<close>

fun num_neg :: "jsnum \<Rightarrow> jsnum" where
  "num_neg NaN = NaN"
| "num_neg PosInf = NegInf"
| "num_neg NegInf = PosInf"
| "num_neg (Fin x) = Fin (- x)"

fun num_add :: "jsnum \<Rightarrow> jsnum \<Rightarrow> jsnum" where
  "num_add (Fin x) (Fin y) = fl (x + y)"
| "num_add NaN _ = NaN"
| "num_add _ NaN = NaN"
| "num_add PosInf NegInf = NaN"
| "num_add NegInf PosInf = NaN"
| "num_add PosInf _ = PosInf"
| "num_add NegInf _ = NegInf"
| "num_add _ PosInf = PosInf"
| "num_add _ NegInf = NegInf"

definition num_sub :: "jsnum \<Rightarrow> jsnum \<Rightarrow> jsnum" where
  "num_sub a b = num_add a (num_neg b)"

definition inf_of_sign :: "rat \<Rightarrow> jsnum" where
  "inf_of_sign x = (if x = 0 then NaN else if 0 < x then PosInf else NegInf)"

fun num_sign :: "jsnum \<Rightarrow> rat" where
  "num_sign NaN = 0"
| "num_sign PosInf = 1"
| "num_sign NegInf = - 1"
| "num_sign (Fin x) = sgn x"

fun num_mul :: "jsnum \<Rightarrow> jsnum \<Rightarrow> jsnum" where
  "num_mul (Fin x) (Fin y) = fl (x * y)"
| "num_mul a b = (if a = NaN \<or> b = NaN then NaN else inf_of_sign (num_sign a * num_sign b))"

fun num_div :: "jsnum \<Rightarrow> jsnum \<Rightarrow> jsnum" where
  "num_div (Fin x) (Fin y) = (if y = 0 then inf_of_sign x else fl (x / y))"
| "num_div NaN _ = NaN"
| "num_div _ NaN = NaN"
| "num_div (Fin x) _ = Fin 0"
| "num_div a (Fin y) = inf_of_sign (num_sign a * (if y = 0 then 1 else sgn y))"
| "num_div _ _ = NaN"

fun num_lt :: "jsnum \<Rightarrow> jsnum \<Rightarrow> bool" where
  "num_lt (Fin x) (Fin y) = (x < y)"
| "num_lt NaN _ = False"
| "num_lt _ NaN = False"
| "num_lt a b = (a \<noteq> b \<and> (a = NegInf \<or> b = PosInf))"

definition num_eq :: "jsnum \<Rightarrow> jsnum \<Rightarrow> bool" where
  "num_eq a b \<longleftrightarrow> a = b \<and> a \<noteq> NaN"

definition num_le :: "jsnum \<Rightarrow> jsnum \<Rightarrow> bool" where
  "num_le a b \<longleftrightarrow> num_lt a b \<or> num_eq a b"

definition num_truthy :: "jsnum \<Rightarrow> bool" where
  "num_truthy a \<longleftrightarrow> a \<noteq> NaN \<and> a \<noteq> Fin 0"

text \<open>\<^verbatim>\<open>(a, b) => a - b\<close> as a comparator: positive means \<open>a\<close> comes after \<open>b\<close>.\<close>

definition num_after :: "jsnum \<Rightarrow> jsnum \<Rightarrow> bool" where
  "num_after a b = num_lt (Fin 0) (num_sub a b)"

abbreviation num_of_int :: "int \<Rightarrow> jsnum" where
  "num_of_int n \<equiv> Fin (of_int n)"

definition math_max :: "jsnum list \<Rightarrow> jsnum" where
  "math_max xs = foldl (\<lambda>m x. if m = NaN \<or> x = NaN then NaN else if num_lt m x then x else m) NegInf xs"

definition math_min :: "jsnum list \<Rightarrow> jsnum" where
  "math_min xs = foldl (\<lambda>m x. if m = NaN \<or> x = NaN then NaN else if num_lt x m then x else m) PosInf xs"

definition num_sum :: "jsnum list \<Rightarrow> jsnum" where
  "num_sum xs = foldl num_add (Fin 0) xs"

text \<open>The number a possibly missing or null operand converts to.\<close>

fun to_num :: "jsnum jopt \<Rightarrow> jsnum" where
  "to_num Undef = NaN"
| "to_num Null = Fin 0"
| "to_num (Val x) = x"

section \<open>Conversions to and from strings\<close>

definition digit_char :: "int \<Rightarrow> char" where
  "digit_char d = char_of (48 + nat d)"

definition is_digit :: "char \<Rightarrow> bool" where
  "is_digit c \<longleftrightarrow> 48 \<le> (of_char c :: nat) \<and> (of_char c :: nat) \<le> 57"

definition digit_val :: "char \<Rightarrow> int" where
  "digit_val c = int (of_char c) - 48"

function nat_str :: "int \<Rightarrow> string" where
  "nat_str n = (if n < 10 then [digit_char n] else nat_str (n div 10) @ [digit_char (n mod 10)])"
  by pat_completeness auto
termination
  by (relation "measure nat") (auto simp: nat_less_iff int_div_less_self)

declare nat_str.simps [simp del]

definition digits_val :: "string \<Rightarrow> int" where
  "digits_val s = foldl (\<lambda>a c. 10 * a + digit_val c) 0 s"

definition int_str :: "int \<Rightarrow> string" where
  "int_str n = (if n < 0 then CHR ''-'' # nat_str (- n) else nat_str n)"

definition js_ws :: "char \<Rightarrow> bool" where
  "js_ws c \<longleftrightarrow> (of_char c :: nat) \<in> {9, 10, 11, 12, 13, 32}"

definition hex_val :: "char \<Rightarrow> int option" where
  "hex_val c =
     (let n = int (of_char c)
      in if 48 \<le> n \<and> n \<le> 57 then Some (n - 48)
         else if 97 \<le> n \<and> n \<le> 102 then Some (n - 87)
         else if 65 \<le> n \<and> n \<le> 70 then Some (n - 55) else None)"

definition hex_digits_val :: "string \<Rightarrow> int" where
  "hex_digits_val s = foldl (\<lambda>a c. 16 * a + the (hex_val c)) 0 s"

definition strip_sign :: "string \<Rightarrow> int \<times> string" where
  "strip_sign s =
     (case s of [] \<Rightarrow> (1, [])
      | c # t \<Rightarrow> if c = CHR ''-'' then (- 1, t) else if c = CHR ''+'' then (1, t) else (1, s))"

definition hex_prefix :: "string \<Rightarrow> bool" where
  "hex_prefix s \<longleftrightarrow> take 2 s = ''0x'' \<or> take 2 s = ''0X''"

text \<open>\<^verbatim>\<open>Number.parseInt(s)\<close> without a radix argument.\<close>

definition js_parseInt :: "string \<Rightarrow> jsnum" where
  "js_parseInt s =
     (let (sg, t) = strip_sign (dropWhile js_ws s)
      in if hex_prefix t then
           (let ds = takeWhile (\<lambda>c. hex_val c \<noteq> None) (drop 2 t)
            in if ds = [] then NaN else fl (of_int (sg * hex_digits_val ds)))
         else
           (let ds = takeWhile is_digit t
            in if ds = [] then NaN else fl (of_int (sg * digits_val ds))))"

text \<open>
  \<^verbatim>\<open>Number.prototype.toString()\<close>: the shortest digit string that reads back as the number.
  \<open>shortest x n k\<close> looks for \<open>k\<close> digits, \<open>k + 1\<close> digits, up to 17, where
  \<open>10 ^ (n - 1) \<le> x < 10 ^ n\<close>.
\<close>

definition try_digits :: "rat \<Rightarrow> int \<Rightarrow> nat \<Rightarrow> int option" where
  "try_digits x n k =
     (let u = 10 powi (n - int k); lo = \<lfloor>x / u\<rfloor>; hi = lo + 1;
          okl = (lo \<noteq> 0 \<and> fl (of_int lo * u) = Fin x); okh = (fl (of_int hi * u) = Fin x)
      in if okl \<and> (\<not> okh \<or> x - of_int lo * u \<le> of_int hi * u - x) then Some lo
         else if okh then Some hi else None)"

fun shortest :: "nat \<Rightarrow> rat \<Rightarrow> int \<Rightarrow> nat \<Rightarrow> int \<times> nat" where
  "shortest 0 x n k = (\<lfloor>x / 10 powi (n - int k)\<rfloor>, k)"
| "shortest (Suc m) x n k =
     (case try_digits x n k of Some s \<Rightarrow> (s, k) | None \<Rightarrow> shortest m x n (Suc k))"

definition ilog10 :: "rat \<Rightarrow> int" where
  "ilog10 x =
     (let (p, q) = quotient_of x; k = int_len 10 p - int_len 10 q
      in if 10 powi k \<le> x then k + 1 else k)"

definition layout_digits :: "string \<Rightarrow> int \<Rightarrow> string" where
  "layout_digits ds n =
     (let k = int (length ds); e = n - 1;
          es = (if e < 0 then ''e-'' else ''e+'') @ nat_str \<bar>e\<bar>
      in if k \<le> n \<and> n \<le> 21 then ds @ replicate (nat (n - k)) (CHR ''0'')
         else if 0 < n \<and> n \<le> 21 then take (nat n) ds @ ''.'' @ drop (nat n) ds
         else if - 6 < n \<and> n \<le> 0 then ''0.'' @ replicate (nat (- n)) (CHR ''0'') @ ds
         else if k = 1 then ds @ es
         else take 1 ds @ ''.'' @ drop 1 ds @ es)"

definition pos_to_string :: "rat \<Rightarrow> string" where
  "pos_to_string x =
     (let n = ilog10 x; (s, k) = shortest 17 x n 1
      in if s = 10 ^ k then layout_digits ''1'' (n + 1) else layout_digits (nat_str s) n)"

fun num_to_string :: "jsnum \<Rightarrow> string" where
  "num_to_string NaN = ''NaN''"
| "num_to_string PosInf = ''Infinity''"
| "num_to_string NegInf = ''-Infinity''"
| "num_to_string (Fin x) =
     (if x = of_int \<lfloor>x\<rfloor> \<and> \<bar>x\<bar> \<le> 2 ^ 53 then int_str \<lfloor>x\<rfloor>
      else if x < 0 then CHR ''-'' # pos_to_string (- x) else pos_to_string x)"

text \<open>\<^verbatim>\<open>String(v)\<close> and template literals on a possibly missing number.\<close>

fun num_key :: "jsnum jopt \<Rightarrow> string" where
  "num_key Undef = ''undefined''"
| "num_key Null = ''null''"
| "num_key (Val x) = num_to_string x"

text \<open>\<^verbatim>\<open>Number(s)\<close>: decimal literals, signed infinities and hexadecimal literals.\<close>

definition exp_part :: "string \<Rightarrow> int option" where
  "exp_part s =
     (case s of [] \<Rightarrow> Some 0
      | c # t \<Rightarrow> if c = CHR ''e'' \<or> c = CHR ''E'' then
          (let (sg, ds) = strip_sign t
           in if ds \<noteq> [] \<and> list_all is_digit ds then Some (sg * digits_val ds) else None)
        else None)"

definition dec_value :: "string \<Rightarrow> rat option" where
  "dec_value s =
     (let ip = takeWhile is_digit s; r1 = dropWhile is_digit s;
          fp = (if r1 \<noteq> [] \<and> hd r1 = CHR ''.'' then takeWhile is_digit (tl r1) else []);
          r2 = (if r1 \<noteq> [] \<and> hd r1 = CHR ''.'' then dropWhile is_digit (tl r1) else r1)
      in if ip = [] \<and> fp = [] then None
         else case exp_part r2 of None \<Rightarrow> None
           | Some e \<Rightarrow> Some (of_int (digits_val (ip @ fp)) * 10 powi (e - int (length fp))))"

definition js_trim :: "string \<Rightarrow> string" where
  "js_trim s = rev (dropWhile js_ws (rev (dropWhile js_ws s)))"

definition string_to_num :: "string \<Rightarrow> jsnum" where
  "string_to_num s =
     (let t = js_trim s
      in if t = [] then Fin 0
         else if hex_prefix t then
           (if drop 2 t \<noteq> [] \<and> list_all (\<lambda>c. hex_val c \<noteq> None) (drop 2 t)
            then fl (of_int (hex_digits_val (drop 2 t))) else NaN)
         else
           (let (sg, u) = strip_sign t
            in if u = ''Infinity'' then (if sg < 0 then NegInf else PosInf)
               else case dec_value u of None \<Rightarrow> NaN | Some x \<Rightarrow> fl (of_int sg * x)))"

text \<open>\<^verbatim>\<open>x.toFixed(f)\<close>\<close>

definition pos_to_fixed :: "rat \<Rightarrow> nat \<Rightarrow> string" where
  "pos_to_fixed x f =
     (let n = \<lfloor>x * 10 ^ f + 1/2\<rfloor>; m = nat_str n;
          z = replicate (Suc f - length m) (CHR ''0'') @ m; k = length z
      in if f = 0 then m else take (k - f) z @ ''.'' @ drop (k - f) z)"

fun to_fixed :: "jsnum \<Rightarrow> nat \<Rightarrow> string" where
  "to_fixed (Fin x) f =
     (if 10 ^ 21 \<le> \<bar>x\<bar> then num_to_string (Fin x)
      else if x < 0 then CHR ''-'' # pos_to_fixed (- x) f else pos_to_fixed x f)"
| "to_fixed v f = num_to_string v"

section \<open>Rounding is monotone and exact where it should be\<close>

lemma half_even_bounds:
  "of_int (half_even x) - 1/2 \<le> x" "x \<le> of_int (half_even x) + 1/2"
proof -
  have "of_int \<lfloor>x\<rfloor> \<le> x" "x < of_int \<lfloor>x\<rfloor> + 1" by linarith+
  then show "of_int (half_even x) - 1/2 \<le> x" "x \<le> of_int (half_even x) + 1/2"
    by (simp_all add: half_even_def Let_def del: of_int_floor_le)
qed

lemma half_even_int [simp]: "half_even (of_int n) = n"
  by (simp add: half_even_def)

lemma half_even_cases:
  "half_even x = \<lfloor>x\<rfloor> \<or> half_even x = \<lfloor>x\<rfloor> + 1"
  by (auto simp: half_even_def Let_def)

lemma half_even_mono:
  assumes "x \<le> y"
  shows "half_even x \<le> half_even y"
proof (cases "\<lfloor>x\<rfloor> = \<lfloor>y\<rfloor>")
  case True
  with assms show ?thesis by (auto simp: half_even_def Let_def)
next
  case False
  with assms have "\<lfloor>x\<rfloor> + 1 \<le> \<lfloor>y\<rfloor>" by (meson floor_mono add1_zle_eq order_le_less)
  with half_even_cases [of x] half_even_cases [of y] show ?thesis by linarith
qed

lemma half_even_uminus [simp]: "half_even (- x) = - half_even x"
proof (cases "x = of_int \<lfloor>x\<rfloor>")
  case True
  then have "- x = of_int (- \<lfloor>x\<rfloor>)" by simp
  then have "half_even (- x) = - \<lfloor>x\<rfloor>" by (metis half_even_int)
  moreover have "half_even x = \<lfloor>x\<rfloor>" using True by (metis half_even_int)
  ultimately show ?thesis by simp
next
  case False
  then have "\<lfloor>- x\<rfloor> = - \<lfloor>x\<rfloor> - 1" by linarith
  then show ?thesis by (auto simp: half_even_def Let_def)
qed

lemma int_len_bounds:
  assumes "1 < b" "0 < x"
  shows "0 < int_len b x \<and> (of_int b :: rat) powi (int_len b x - 1) \<le> of_int x \<and>
     of_int x < (of_int b :: rat) powi (int_len b x)"
  using assms
proof (induction b x rule: int_len.induct)
  case (1 b x)
  show ?case
  proof (cases "x div b = 0")
    case True
    then have "x < b" using 1 by (metis less_numeral_extra(3) not_le order_less_trans pos_imp_zdiv_pos_iff zero_less_one)
    moreover have "int_len b x = 1" using 1 True by (simp add: int_len.simps [of b x] int_len.simps [of b 0])
    ultimately show ?thesis using 1 by simp
  next
    case False
    let ?k = "int_len b (x div b)"
    have pos: "0 < x div b" using False 1 by (metis pos_imp_zdiv_nonneg_iff less_le order_less_trans zero_less_one)
    have IH: "0 < ?k" "(of_int b :: rat) powi (?k - 1) \<le> of_int (x div b)"
        "of_int (x div b) < (of_int b :: rat) powi ?k"
      using 1 pos by auto
    have len: "int_len b x = ?k + 1" using 1 by (simp add: int_len.simps [of b x])
    have pw: "(of_int b :: rat) powi ?k = of_int b * of_int b powi (?k - 1)"
      using 1 power_int_minus_mult [of "of_int b :: rat" ?k] by (simp add: mult.commute)
    have "(of_int b :: rat) powi ?k \<le> of_int b * of_int (x div b)"
      using IH(2) 1 by (simp add: pw)
    also have "\<dots> \<le> of_int x"
      proof -
      have "b * (x div b) \<le> x" using 1 mult_div_mod_eq [of b x] pos_mod_sign [of b x] by linarith
      then show ?thesis by (metis of_int_le_iff of_int_mult)
    qed
    finally have lo: "(of_int b :: rat) powi ?k \<le> of_int x" .
    have "(of_int b :: rat) powi ?k = of_int (b ^ nat ?k)"
      using IH(1) by (simp add: power_int_def)
    with IH(3) have "x div b + 1 \<le> b ^ nat ?k" by (metis add1_zle_eq of_int_less_iff)
    then have "(x div b + 1) * b \<le> b ^ nat ?k * b" using 1 by (simp add: mult_right_mono)
    moreover have "x < (x div b + 1) * b"
      using "1.prems" pos_mod_bound [of b x] div_mult_mod_eq [of x b] unfolding distrib_right by linarith
    ultimately have "x < b ^ nat (?k + 1)" using IH(1) by (simp add: nat_add_distrib mult.commute)
    then have "of_int x < (of_int b :: rat) powi (?k + 1)"
      using IH(1) of_int_less_iff [of x "b ^ nat (?k + 1)", where 'a = rat] by (simp add: power_int_def)
    with lo IH(1) show ?thesis by (simp add: len)
  qed
qed

lemma quotient_of_pos:
  assumes "0 < x" "quotient_of x = (p, q)"
  shows "0 < p" "0 < q" "x = of_int p / of_int q"
proof -
  show q: "0 < q" using assms(2) by (rule quotient_of_denom_pos)
  show x: "x = of_int p / of_int q" using assms(2) by (rule quotient_of_div)
  show "0 < p" using assms(1) q x by (simp add: zero_less_divide_iff)
qed

lemma ilog2_bounds:
  assumes "0 < x"
  shows "2 powi ilog2 x \<le> x" "x < 2 powi (ilog2 x + 1)"
proof -
  obtain p q where pq: "quotient_of x = (p, q)" by (cases "quotient_of x")
  note P = quotient_of_pos [OF assms pq]
  let ?p = "int_len 2 p" and ?q = "int_len 2 q"
  have p: "2 powi (?p - 1) \<le> (of_int p :: rat)" "of_int p < (2 :: rat) powi ?p"
    and q: "2 powi (?q - 1) \<le> (of_int q :: rat)" "of_int q < (2 :: rat) powi ?q"
    using int_len_bounds [of 2 p] int_len_bounds [of 2 q] P by auto
  have "x < 2 powi ?p / 2 powi (?q - 1)"
    unfolding P(3) using p q P by (intro frac_less) auto
  also have "\<dots> = 2 powi (?p - ?q + 1)" by (simp add: power_int_diff power_int_add)
  finally have hi: "x < 2 powi (?p - ?q + 1)" .
  have "2 powi (?p - 1) / 2 powi ?q \<le> x"
    unfolding P(3) using p q P by (intro frac_le) auto
  moreover have "(2 :: rat) powi (?p - 1) / 2 powi ?q = 2 powi (?p - ?q - 1)"
    by (simp add: power_int_diff)
  ultimately have lo: "2 powi (?p - ?q - 1) \<le> x" by simp
  show "2 powi ilog2 x \<le> x" "x < 2 powi (ilog2 x + 1)"
    using hi lo by (auto simp: ilog2_def pq Let_def)
qed

lemma powi2_le_iff [simp]: "(2 :: rat) powi m \<le> 2 powi n \<longleftrightarrow> m \<le> n"
  by (metis power_int_increasing power_int_strict_increasing linorder_not_le one_le_numeral one_less_numeral_iff semiring_norm(76))

lemma powi2_less_iff [simp]: "(2 :: rat) powi m < 2 powi n \<longleftrightarrow> m < n"
  by (metis powi2_le_iff linorder_not_le)

lemma ilog2_unique:
  assumes "2 powi k \<le> x" "x < 2 powi (k + 1)"
  shows "ilog2 x = k"
proof -
  have "0 < x" using assms(1) by (metis order_less_le_trans zero_less_numeral zero_less_power_int)
  note b = ilog2_bounds [OF this]
  have "(2 :: rat) powi k < 2 powi (ilog2 x + 1)" "(2 :: rat) powi ilog2 x < 2 powi (k + 1)"
    using b assms by linarith+
  then show ?thesis by simp
qed

lemma ilog2_mono:
  assumes "0 < x" "x \<le> y"
  shows "ilog2 x \<le> ilog2 y"
proof -
  have "(2 :: rat) powi ilog2 x < 2 powi (ilog2 y + 1)"
    using ilog2_bounds [of x] ilog2_bounds [of y] assms by linarith
  then show ?thesis by simp
qed

lemma rnd_0 [simp]: "rnd 0 = 0"
  by (simp add: rnd_def)

lemma rnd_uminus [simp]: "rnd (- x) = - rnd x"
  by (simp add: rnd_def qexp_def)

lemma rnd_nonneg: "0 \<le> x \<Longrightarrow> 0 \<le> rnd x"
  using half_even_mono [of 0 "x / 2 powi qexp x"] half_even_int [of 0]
  by (auto simp: rnd_def)

lemma qexp_pos: "0 < x \<Longrightarrow> qexp x = max (- 1074) (ilog2 x - 52)"
  by (simp add: qexp_def)

lemma half_even_le_int: "x \<le> of_int n \<Longrightarrow> half_even x \<le> n"
  using half_even_mono [of x "of_int n"] by simp

lemma half_even_ge_int: "of_int n \<le> x \<Longrightarrow> n \<le> half_even x"
  using half_even_mono [of "of_int n" x] by simp

lemma powi2_int: "0 \<le> k \<Longrightarrow> (2 :: rat) powi k = of_int (2 ^ nat k)"
  by (simp add: power_int_def)

lemma rnd_le_powi:
  assumes "0 < x" "x \<le> 2 powi k" "qexp x \<le> k"
  shows "rnd x \<le> 2 powi k"
proof -
  have "x / 2 powi qexp x \<le> 2 powi k / 2 powi qexp x"
    using assms(2) by (simp add: divide_right_mono)
  also have "\<dots> = 2 powi (k - qexp x)" by (simp add: power_int_diff)
  finally have "half_even (x / 2 powi qexp x) \<le> 2 ^ nat (k - qexp x)"
    using assms(3) by (intro half_even_le_int) (simp add: powi2_int)
  then have "of_int (half_even (x / 2 powi qexp x)) \<le> (2 :: rat) powi (k - qexp x)"
    using assms(3) by (simp add: powi2_int del: of_int_power)
  then have "of_int (half_even (x / 2 powi qexp x)) * 2 powi qexp x \<le>
      (2 :: rat) powi (k - qexp x) * 2 powi qexp x"
    by (simp add: mult_right_mono)
  also have "\<dots> = 2 powi k" by (simp add: power_int_diff)
  finally show ?thesis using assms(1) by (simp add: rnd_def)
qed

lemma rnd_ge_powi:
  assumes "2 powi k \<le> x" "qexp x \<le> k"
  shows "2 powi k \<le> rnd x"
proof -
  have "2 powi (k - qexp x) = (2 :: rat) powi k / 2 powi qexp x" by (simp add: power_int_diff)
  also have "\<dots> \<le> x / 2 powi qexp x" using assms(1) by (simp add: divide_right_mono)
  finally have "2 ^ nat (k - qexp x) \<le> half_even (x / 2 powi qexp x)"
    using assms(2) by (intro half_even_ge_int) (simp add: powi2_int)
  then have "(2 :: rat) powi (k - qexp x) \<le> of_int (half_even (x / 2 powi qexp x))"
    using assms(2) by (simp add: powi2_int del: of_int_power)
  then have "(2 :: rat) powi (k - qexp x) * 2 powi qexp x \<le>
      of_int (half_even (x / 2 powi qexp x)) * 2 powi qexp x"
    by (simp add: mult_right_mono)
  moreover have "(2 :: rat) powi (k - qexp x) * 2 powi qexp x = 2 powi k"
    by (simp add: power_int_diff)
  moreover have "x \<noteq> 0" using assms(1) by (metis linorder_not_le zero_less_numeral zero_less_power_int)
  ultimately show ?thesis by (simp add: rnd_def)
qed

lemma rnd_mono_pos:
  assumes "0 < x" "x \<le> y"
  shows "rnd x \<le> rnd y"
proof (cases "qexp x = qexp y")
  case True
  have "half_even (x / 2 powi qexp y) \<le> half_even (y / 2 powi qexp y)"
    using assms(2) by (intro half_even_mono divide_right_mono) auto
  then have "(of_int (half_even (x / 2 powi qexp y)) :: rat) \<le> of_int (half_even (y / 2 powi qexp y))"
    by simp
  then show ?thesis using assms True by (simp add: rnd_def mult_right_mono)
next
  case False
  let ?k = "ilog2 y"
  have y: "0 < y" using assms by linarith
  have "ilog2 x \<le> ?k" using assms by (rule ilog2_mono)
  then have lt: "ilog2 x < ?k" "qexp x < qexp y" "qexp y = ?k - 52"
    using False assms y by (auto simp: qexp_pos)
  have "x \<le> 2 powi ?k"
  proof -
    have "x < 2 powi (ilog2 x + 1)" using assms ilog2_bounds by blast
    also have "\<dots> \<le> 2 powi ?k" using lt by simp
    finally show ?thesis by simp
  qed
  then have "rnd x \<le> 2 powi ?k" using assms lt by (intro rnd_le_powi) auto
  also have "\<dots> \<le> rnd y" using ilog2_bounds(1) [OF y] lt by (intro rnd_ge_powi) auto
  finally show ?thesis .
qed

lemma rnd_mono: "x \<le> y \<Longrightarrow> rnd x \<le> rnd y"
proof -
  assume le: "x \<le> y"
  consider "0 < x" | "x \<le> 0" "0 \<le> y" | "y < 0" by linarith
  then show ?thesis
  proof cases
    case 1
    with le show ?thesis by (rule rnd_mono_pos [rotated -1])
  next
    case 2
    then show ?thesis using rnd_nonneg [of "- x"] rnd_nonneg [of y] by simp
  next
    case 3
    with le have "rnd (- y) \<le> rnd (- x)" by (intro rnd_mono_pos) auto
    then show ?thesis by simp
  qed
qed

text \<open>The rationals with a 53-bit significand and an exponent in range, and no others, are fixed.\<close>

lemma rnd_form:
  "\<exists>m e. rnd x = of_int m * 2 powi e \<and> \<bar>m\<bar> \<le> 2 ^ 53 \<and> - 1074 \<le> e"
proof (cases "x = 0")
  case True
  have "rnd x = of_int 0 * 2 powi 0" "\<bar>0\<bar> \<le> (2 ^ 53 :: int)" "- 1074 \<le> (0 :: int)"
    using True by auto
  then show ?thesis by blast
next
  case False
  let ?q = "qexp x" and ?k = "ilog2 \<bar>x\<bar>"
  have "\<bar>x\<bar> < 2 powi (?k + 1)" using False by (intro ilog2_bounds) simp
  also have "\<dots> \<le> 2 powi (?q + 53)" by (simp add: qexp_def)
  finally have "\<bar>x\<bar> / 2 powi ?q \<le> 2 powi (?q + 53) / 2 powi ?q"
    by (intro divide_right_mono) auto
  also have "(2 :: rat) powi (?q + 53) / 2 powi ?q = 2 ^ 53" by (simp add: power_int_add)
  finally have b: "\<bar>x / 2 powi ?q\<bar> \<le> of_int (2 ^ 53)" by (simp add: abs_divide)
  have "x / 2 powi ?q \<le> of_int (2 ^ 53)" "of_int (- (2 ^ 53)) \<le> x / 2 powi ?q"
    using b unfolding abs_le_iff of_int_minus by linarith+
  then have "half_even (x / 2 powi ?q) \<le> 2 ^ 53" "- (2 ^ 53) \<le> half_even (x / 2 powi ?q)"
    by (blast intro: half_even_le_int half_even_ge_int)+
  then have "\<bar>half_even (x / 2 powi ?q)\<bar> \<le> 2 ^ 53" by linarith
  moreover have "- 1074 \<le> ?q" by (simp add: qexp_def)
  moreover have "rnd x = of_int (half_even (x / 2 powi ?q)) * 2 powi ?q"
    using False by (simp add: rnd_def)
  ultimately show ?thesis by blast
qed

lemma rnd_exact:
  assumes x: "x = of_int m * 2 powi e" and m: "\<bar>m\<bar> \<le> 2 ^ 53" and e: "- 1074 \<le> e"
  shows "rnd x = x"
proof (cases "x = 0")
  case True
  then show ?thesis by simp
next
  case False
  let ?q = "qexp x"
  have "\<exists>n. x / 2 powi ?q = of_int n"
  proof (cases "?q \<le> e")
    case True
    then have "(2 :: rat) powi e / 2 powi ?q = of_int (2 ^ nat (e - ?q))"
      using powi2_int [of "e - ?q"] by (simp add: power_int_diff)
    then have "x / 2 powi ?q = of_int (m * 2 ^ nat (e - ?q))"
      unfolding of_int_mult by (metis times_divide_eq_right x)
    then show ?thesis by blast
  next
    case False
    then have q: "?q = ilog2 \<bar>x\<bar> - 52" "e + 53 \<le> ilog2 \<bar>x\<bar>" using e by (auto simp: qexp_def)
    have "(2 :: rat) powi (e + 53) \<le> 2 powi ilog2 \<bar>x\<bar>" using q by simp
    also have "\<dots> \<le> \<bar>x\<bar>" using \<open>x \<noteq> 0\<close> by (intro ilog2_bounds) simp
    finally have lo: "(2 :: rat) powi (e + 53) \<le> \<bar>x\<bar>" .
    have "(of_int \<bar>m\<bar> :: rat) \<le> of_int (2 ^ 53)" using m by (simp only: of_int_le_iff)
    then have "\<bar>x\<bar> \<le> 2 ^ 53 * 2 powi e" by (simp add: x abs_mult mult_right_mono)
    then have "\<bar>x\<bar> \<le> 2 powi (e + 53)" by (simp add: power_int_add mult.commute)
    with lo have ax: "\<bar>x\<bar> = 2 powi (e + 53)" by simp
    then have "ilog2 \<bar>x\<bar> = e + 53" by (intro ilog2_unique) auto
    with q have "?q = e + 1" by simp
    then have "\<bar>x\<bar> / 2 powi ?q = of_int (2 ^ 52)" by (simp add: ax power_int_add)
    then have "x / 2 powi ?q = of_int (2 ^ 52) \<or> x / 2 powi ?q = of_int (- (2 ^ 52))"
      by (cases "0 \<le> x") (auto simp: minus_equation_iff)
    then show ?thesis by blast
  qed
  then obtain n where "x / 2 powi ?q = of_int n" ..
  moreover from this have "x = of_int n * 2 powi ?q" by (simp add: divide_eq_eq)
  ultimately show ?thesis using False by (simp add: rnd_def)
qed

lemma rnd_idem [simp]: "rnd (rnd x) = rnd x"
  using rnd_form [of x] rnd_exact by metis

lemma rnd_int: "\<bar>n\<bar> \<le> 2 ^ 53 \<Longrightarrow> rnd (of_int n) = of_int n"
  by (rule rnd_exact [of _ n 0]) auto

lemma rnd_eq_0:
  assumes "rnd x = x" "rnd y = y" "rnd (x - y) = 0"
  shows "x = y"
proof -
  obtain m e where x: "x = of_int m * 2 powi e" "- 1074 \<le> e" using rnd_form [of x] assms(1) by metis
  obtain n f where y: "y = of_int n * 2 powi f" "- 1074 \<le> f" using rnd_form [of y] assms(2) by metis
  define u where "u = (2 :: rat) powi (- 1074)"
  have u: "0 < u" by (simp add: u_def)
  have "\<exists>k. x - y = of_int k * u"
  proof -
    have "x = of_int (m * 2 ^ nat (e + 1074)) * u" "y = of_int (n * 2 ^ nat (f + 1074)) * u"
      using x y powi2_int [of "e + 1074"] powi2_int [of "f + 1074"]
      by (simp_all add: u_def power_int_add power_int_minus field_simps)
    then have "x - y = of_int (m * 2 ^ nat (e + 1074) - n * 2 ^ nat (f + 1074)) * u"
      by (simp add: left_diff_distrib)
    then show ?thesis by blast
  qed
  then obtain k where k: "x - y = of_int k * u" ..
  show ?thesis
  proof (rule ccontr)
    assume "x \<noteq> y"
    with k have "k \<noteq> 0" by auto
    have ru: "rnd u = u" unfolding u_def by (rule rnd_exact [of _ 1]) auto
    show False
    proof (cases "0 < k")
      case True
      then have "u \<le> x - y" using k u by (simp add: mult_le_cancel_right1)
      then have "u \<le> rnd (x - y)" using rnd_mono ru by metis
      with assms(3) u show False by simp
    next
      case False
      then have "k \<le> - 1" using \<open>k \<noteq> 0\<close> by simp
      then have "(of_int k :: rat) * u \<le> - 1 * u" using u by (intro mult_right_mono) auto
      then have "x - y \<le> - u" using k by simp
      then have "rnd (x - y) \<le> - u" using rnd_mono [of "x - y" "- u"] ru by simp
      with assms(3) u show False by simp
    qed
  qed
qed

lemma fl_eq_Fin: "fl x = Fin y \<longleftrightarrow> y = rnd x \<and> \<bar>rnd x\<bar> < 2 ^ 1024"
  by (auto simp: fl_def Let_def)

lemma is_double_iff: "is_double x \<longleftrightarrow> rnd x = x \<and> \<bar>x\<bar> < 2 ^ 1024"
  by (auto simp: is_double_def fl_eq_Fin)

lemma fl_int: "\<bar>n\<bar> \<le> 2 ^ 53 \<Longrightarrow> fl (of_int n) = Fin (of_int n)"
proof -
  assume n: "\<bar>n\<bar> \<le> 2 ^ 53"
  have "\<bar>n\<bar> < 2 ^ 1024" using n by (rule order_le_less_trans) simp
  then have "\<bar>of_int n :: rat\<bar> < 2 ^ 1024"
    by (metis of_int_abs of_int_less_numeral_power_cancel_iff)
  with n show ?thesis by (simp add: fl_eq_Fin rnd_int)
qed

lemma is_double_int: "\<bar>n\<bar> \<le> 2 ^ 53 \<Longrightarrow> is_double (of_int n)"
  by (simp add: is_double_def fl_int)

lemma wf_num_fl [simp, intro]: "wf_num (fl x)"
proof (cases "fl x")
  case (Fin y)
  then have "y = rnd x \<and> \<bar>rnd x\<bar> < 2 ^ 1024" by (simp only: fl_eq_Fin)
  with Fin show ?thesis by (simp add: is_double_iff)
qed auto

lemma is_double_uminus [simp]: "is_double (- x) = is_double x"
  by (simp add: is_double_iff)

lemma wf_num_neg [simp]: "wf_num (num_neg a) = wf_num a"
  by (cases a) auto

lemma wf_num_add [simp, intro]: "wf_num (num_add a b)"
  by (cases "(a, b)" rule: num_add.cases) auto

lemma wf_num_sub [simp, intro]: "wf_num (num_sub a b)"
  by (simp add: num_sub_def)

lemma is_double_0 [simp]: "is_double 0"
  using is_double_int [of 0] by simp

lemma is_double_1 [simp]: "is_double 1"
  using is_double_int [of 1] by simp

lemma is_double_numeral [simp]: "(numeral n :: int) \<le> 2 ^ 53 \<Longrightarrow> is_double (numeral n)"
  using is_double_int [of "numeral n"] by simp

lemma wf_num_inf_of_sign [simp]: "wf_num (inf_of_sign x)"
  by (simp add: inf_of_sign_def)

lemma wf_num_mul [simp, intro]: "wf_num (num_mul a b)"
  by (cases "(a, b)" rule: num_mul.cases) auto

lemma wf_num_div [simp, intro]: "wf_num (num_div a b)"
  by (cases "(a, b)" rule: num_div.cases) auto

section \<open>Order\<close>

lemma num_lt_irrefl [simp]: "\<not> num_lt a a"
  by (cases a) auto

lemma num_lt_trans: "num_lt a b \<Longrightarrow> num_lt b c \<Longrightarrow> num_lt a c"
  by (cases a; cases b; cases c) auto

lemma num_lt_asym: "num_lt a b \<Longrightarrow> \<not> num_lt b a"
  by (cases a; cases b) auto

lemma num_lt_total: "a \<noteq> NaN \<Longrightarrow> b \<noteq> NaN \<Longrightarrow> num_lt a b \<or> a = b \<or> num_lt b a"
  by (cases a; cases b) auto

lemma num_lt_NaN [simp]: "\<not> num_lt NaN a" "\<not> num_lt a NaN"
  by (cases a; simp)+

lemma num_le_not_lt: "a \<noteq> NaN \<Longrightarrow> b \<noteq> NaN \<Longrightarrow> num_le a b \<longleftrightarrow> \<not> num_lt b a"
  by (metis num_eq_def num_le_def num_lt_asym num_lt_irrefl num_lt_total)

lemma num_le_trans: "num_le a b \<Longrightarrow> num_le b c \<Longrightarrow> num_le a c"
  by (auto simp: num_le_def num_eq_def intro: num_lt_trans)

lemma num_le_Fin [simp]: "num_le (Fin x) (Fin y) \<longleftrightarrow> x \<le> y"
  by (auto simp: num_le_def num_eq_def)

lemma num_lt_0_fl_diff:
  assumes "is_double x" "is_double y"
  shows "num_lt (Fin 0) (fl (x - y)) \<longleftrightarrow> y < x"
proof (cases "y < x")
  case True
  then have "0 \<le> rnd (x - y)" by (intro rnd_nonneg) simp
  moreover have "rnd (x - y) \<noteq> 0" using rnd_eq_0 assms True by (auto simp: is_double_iff)
  ultimately have "0 < rnd (x - y)" by simp
  with True show ?thesis by (auto simp: fl_def Let_def)
next
  case False
  then have "0 \<le> rnd (y - x)" by (intro rnd_nonneg) simp
  moreover have "rnd (y - x) = - rnd (x - y)" using rnd_uminus [of "x - y"] by simp
  ultimately have "rnd (x - y) \<le> 0" by simp
  with False show ?thesis by (auto simp: fl_def Let_def)
qed

lemma num_after_iff:
  assumes "wf_num a" "wf_num b"
  shows "num_after a b \<longleftrightarrow> num_lt b a"
  using assms num_lt_0_fl_diff by (cases a; cases b) (auto simp: num_after_def num_sub_def)

text \<open>The comparator \<open>(a, b) => a - b\<close> sorts every list of numbers that holds no NaN.\<close>

interpretation num_cmp: js_comparator num_after "\<lambda>a. wf_num a \<and> a \<noteq> NaN"
proof unfold_locales
  fix x y z
  assume "wf_num x \<and> x \<noteq> NaN" "wf_num y \<and> y \<noteq> NaN"
  then show "num_after x y \<Longrightarrow> \<not> num_after y x" by (auto simp: num_after_iff dest: num_lt_asym)
  assume "wf_num x \<and> x \<noteq> NaN" "wf_num y \<and> y \<noteq> NaN" "wf_num z \<and> z \<noteq> NaN"
    and "\<not> num_after x y" "\<not> num_after y z"
  then have "num_le x y" "num_le y z" by (auto simp: num_after_iff num_le_not_lt)
  then have "num_le x z" by (rule num_le_trans)
  with \<open>wf_num x \<and> x \<noteq> NaN\<close> \<open>wf_num z \<and> z \<noteq> NaN\<close> show "\<not> num_after x z"
    by (auto simp: num_after_iff num_le_not_lt)
qed

lemma js_sort_num_sorted:
  assumes "\<forall>x\<in>set xs. wf_num x \<and> x \<noteq> NaN"
  shows "sorted_wrt num_le (js_sort num_after xs)"
proof -
  have "sorted_wrt (\<lambda>a b. \<not> num_after a b) (js_sort num_after xs)"
    using assms by (rule num_cmp.sort_sorted)
  then show ?thesis
    by (rule sorted_wrt_mono_rel [rotated])
      (use assms in \<open>auto simp: num_after_iff num_le_not_lt\<close>)
qed

section \<open>Extrema\<close>

lemma math_max_snoc:
  "math_max (xs @ [x]) =
     (if math_max xs = NaN \<or> x = NaN then NaN else if num_lt (math_max xs) x then x else math_max xs)"
  by (simp add: math_max_def)

lemma math_min_snoc:
  "math_min (xs @ [x]) =
     (if math_min xs = NaN \<or> x = NaN then NaN else if num_lt x (math_min xs) then x else math_min xs)"
  by (simp add: math_min_def)

lemma math_max_NaN: "math_max xs = NaN \<longleftrightarrow> NaN \<in> set xs"
  by (induction xs rule: rev_induct) (auto simp: math_max_snoc, simp add: math_max_def)

lemma math_min_NaN: "math_min xs = NaN \<longleftrightarrow> NaN \<in> set xs"
  by (induction xs rule: rev_induct) (auto simp: math_min_snoc, simp add: math_min_def)

lemma num_le_refl: "a \<noteq> NaN \<Longrightarrow> num_le a a"
  by (simp add: num_le_def num_eq_def)

lemma math_max_upper: "NaN \<notin> set xs \<Longrightarrow> x \<in> set xs \<Longrightarrow> num_le x (math_max xs)"
proof (induction xs rule: rev_induct)
  case Nil
  then show ?case by simp
next
  case (snoc y xs)
  have n: "math_max xs \<noteq> NaN" using snoc.prems by (simp add: math_max_NaN)
  show ?case
  proof (cases "num_lt (math_max xs) y")
    case True
    then show ?thesis using snoc n
      by (auto simp: math_max_snoc num_le_refl) (meson num_le_def num_le_trans)
  next
    case False
    then show ?thesis using snoc n by (auto simp: math_max_snoc num_le_not_lt)
  qed
qed

lemma math_min_lower: "NaN \<notin> set xs \<Longrightarrow> x \<in> set xs \<Longrightarrow> num_le (math_min xs) x"
proof (induction xs rule: rev_induct)
  case Nil
  then show ?case by simp
next
  case (snoc y xs)
  have n: "math_min xs \<noteq> NaN" using snoc.prems by (simp add: math_min_NaN)
  show ?case
  proof (cases "num_lt y (math_min xs)")
    case True
    then show ?thesis using snoc n
      by (auto simp: math_min_snoc num_le_refl) (meson num_le_def num_le_trans)
  next
    case False
    then show ?thesis using snoc n by (auto simp: math_min_snoc num_le_not_lt)
  qed
qed

lemma math_max_in: "NaN \<notin> set xs \<Longrightarrow> xs \<noteq> [] \<Longrightarrow> math_max xs \<in> set xs"
proof (induction xs rule: rev_induct)
  case (snoc y xs)
  show ?case
  proof (cases "xs = []")
    case True
    then show ?thesis using snoc.prems by (cases y) (auto simp: math_max_def)
  next
    case False
    then show ?thesis using snoc by (auto simp: math_max_snoc math_max_NaN)
  qed
qed simp

lemma math_min_in: "NaN \<notin> set xs \<Longrightarrow> xs \<noteq> [] \<Longrightarrow> math_min xs \<in> set xs"
proof (induction xs rule: rev_induct)
  case (snoc y xs)
  show ?case
  proof (cases "xs = []")
    case True
    then show ?thesis using snoc.prems by (cases y) (auto simp: math_min_def)
  next
    case False
    then show ?thesis using snoc by (auto simp: math_min_snoc math_min_NaN)
  qed
qed simp

section \<open>Printing and reading integers\<close>

lemma of_char_digit_char: "0 \<le> d \<Longrightarrow> d < 10 \<Longrightarrow> (of_char (digit_char d) :: nat) = 48 + nat d"
  by (simp add: digit_char_def of_char_of nat_less_iff)

lemma is_digit_digit_char [simp]: "0 \<le> d \<Longrightarrow> d < 10 \<Longrightarrow> is_digit (digit_char d)"
  by (simp add: is_digit_def of_char_digit_char)

lemma digit_val_digit_char [simp]: "0 \<le> d \<Longrightarrow> d < 10 \<Longrightarrow> digit_val (digit_char d) = d"
  by (simp add: digit_val_def of_char_digit_char)

lemma nat_str_digits: "0 \<le> n \<Longrightarrow> \<forall>c\<in>set (nat_str n). is_digit c"
proof (induction n rule: nat_str.induct)
  case (1 n)
  then show ?case
    by (cases "n < 10") (auto simp: nat_str.simps [of n] pos_imp_zdiv_nonneg_iff)
qed

lemma nat_str_ne [simp]: "nat_str n \<noteq> []"
  by (subst nat_str.simps) simp

lemma digits_val_snoc: "digits_val (s @ [c]) = 10 * digits_val s + digit_val c"
  by (simp add: digits_val_def)

lemma digits_val_nat_str [simp]: "0 \<le> n \<Longrightarrow> digits_val (nat_str n) = n"
proof (induction n rule: nat_str.induct)
  case (1 n)
  show ?case
  proof (cases "n < 10")
    case True
    with 1 show ?thesis by (simp add: nat_str.simps [of n] digits_val_def)
  next
    case False
    with 1 have "digits_val (nat_str (n div 10)) = n div 10" by (simp add: pos_imp_zdiv_nonneg_iff)
    with False show ?thesis by (simp add: nat_str.simps [of n] digits_val_snoc)
  qed
qed

lemma is_digit_not_special:
  "is_digit c \<Longrightarrow> \<not> js_ws c \<and> c \<noteq> CHR ''-'' \<and> c \<noteq> CHR ''+'' \<and> c \<noteq> CHR ''x'' \<and> c \<noteq> CHR ''X''
     \<and> c \<noteq> CHR ''I'' \<and> c \<noteq> CHR ''_'' \<and> c \<noteq> CHR '','' \<and> c \<noteq> CHR ''.''"
  by (auto simp: is_digit_def js_ws_def)

lemma hex_prefix_digits: "\<forall>c\<in>set s. is_digit c \<Longrightarrow> \<not> hex_prefix s"
proof
  assume d: "\<forall>c\<in>set s. is_digit c" and "hex_prefix s"
  then have "CHR ''x'' \<in> set (take 2 s) \<or> CHR ''X'' \<in> set (take 2 s)"
    by (auto simp: hex_prefix_def)
  then show False using d by (auto dest!: in_set_takeD is_digit_not_special)
qed

lemma strip_sign_digits: "\<forall>c\<in>set s. is_digit c \<Longrightarrow> strip_sign s = (1, s)"
  by (cases s) (auto simp: strip_sign_def dest: is_digit_not_special)

lemma strip_sign_minus [simp]: "strip_sign (CHR ''-'' # s) = (- 1, s)"
  by (simp add: strip_sign_def)

lemma strip_sign_int_str:
  "strip_sign (int_str n) = (if n < 0 then - 1 else 1, nat_str \<bar>n\<bar>)"
  using nat_str_digits [of n] by (auto simp: int_str_def strip_sign_digits)

lemma dropWhile_ws_int_str [simp]: "dropWhile js_ws (int_str n) = int_str n"
proof (cases "n < 0")
  case True
  then show ?thesis by (simp add: int_str_def js_ws_def)
next
  case False
  then have "\<forall>c\<in>set (nat_str n). \<not> js_ws c" using nat_str_digits [of n] is_digit_not_special by auto
  with False show ?thesis by (cases "nat_str n") (auto simp: int_str_def)
qed

lemma takeWhile_digits: "\<forall>c\<in>set s. is_digit c \<Longrightarrow> takeWhile is_digit s = s"
  by (simp add: takeWhile_eq_all_conv)

lemma dropWhile_digits: "\<forall>c\<in>set s. is_digit c \<Longrightarrow> dropWhile is_digit s = []"
  by simp

text \<open>\<^verbatim>\<open>Number.parseInt(n.toString())\<close> gives back every integer up to \<open>2 ^ 53\<close>.\<close>

lemma js_parseInt_int_str:
  assumes "\<bar>n\<bar> \<le> 2 ^ 53"
  shows "js_parseInt (int_str n) = num_of_int n"
proof -
  have d: "\<forall>c\<in>set (nat_str \<bar>n\<bar>). is_digit c" by (rule nat_str_digits) simp
  have "(if n < 0 then - 1 else 1) * \<bar>n\<bar> = n" by simp
  then show ?thesis
    using hex_prefix_digits [OF d] d fl_int [OF assms]
    by (cases "n < 0") (simp_all add: js_parseInt_def strip_sign_int_str Let_def takeWhile_digits)
qed

lemma num_to_string_int: "\<bar>n\<bar> \<le> 2 ^ 53 \<Longrightarrow> num_to_string (num_of_int n) = int_str n"
proof -
  assume "\<bar>n\<bar> \<le> 2 ^ 53"
  then have "(of_int \<bar>n\<bar> :: rat) \<le> of_int (2 ^ 53)" by (simp only: of_int_le_iff)
  then show ?thesis by simp
qed

lemma int_str_ne [simp]: "int_str n \<noteq> []"
  by (simp add: int_str_def)

lemma int_str_inj: "\<bar>m\<bar> \<le> 2 ^ 53 \<Longrightarrow> \<bar>n\<bar> \<le> 2 ^ 53 \<Longrightarrow> int_str m = int_str n \<Longrightarrow> m = n"
  by (metis js_parseInt_int_str jsnum.inject of_int_eq_iff)

lemma js_trim_int_str [simp]: "js_trim (int_str n) = int_str n"
proof -
  have d: "\<forall>c\<in>set (nat_str \<bar>n\<bar>). \<not> js_ws c"
    using nat_str_digits [of "\<bar>n\<bar>"] is_digit_not_special by auto
  then have "\<forall>c\<in>set (int_str n). \<not> js_ws c" by (auto simp: int_str_def js_ws_def split: if_splits)
  then have "dropWhile js_ws (rev (int_str n)) = rev (int_str n)"
    by (metis dropWhile_eq_self_iff hd_in_set set_rev)
  then show ?thesis by (simp add: js_trim_def)
qed

lemma dec_value_digits:
  assumes "\<forall>c\<in>set s. is_digit c" "s \<noteq> []"
  shows "dec_value s = Some (of_int (digits_val s))"
  using assms by (simp add: dec_value_def exp_part_def takeWhile_digits dropWhile_digits Let_def)

lemma string_to_num_int_str:
  assumes "\<bar>n\<bar> \<le> 2 ^ 53"
  shows "string_to_num (int_str n) = num_of_int n"
proof -
  have d: "\<forall>c\<in>set (nat_str \<bar>n\<bar>). is_digit c" by (rule nat_str_digits) simp
  have h: "\<not> hex_prefix (int_str n)"
    using hex_prefix_digits [OF d] by (auto simp: int_str_def hex_prefix_def)
  have "CHR ''I'' \<notin> set (nat_str \<bar>n\<bar>)" using d is_digit_not_special by blast
  then have i: "nat_str \<bar>n\<bar> \<noteq> ''Infinity''" by (metis list.set_intros(1))
  have v: "dec_value (nat_str \<bar>n\<bar>) = Some (of_int \<bar>n\<bar>)" using d by (simp add: dec_value_digits)
  have "fl (of_int (if n < 0 then - 1 else 1) * of_int \<bar>n\<bar>) = num_of_int n"
    using fl_int [OF assms] by simp
  with h i v show ?thesis by (simp add: string_to_num_def strip_sign_int_str)
qed

section \<open>Sums and means\<close>

text \<open>Rounding stays between representable bounds.\<close>

lemma fl_between:
  assumes "is_double a" "is_double b" "a \<le> x" "x \<le> b"
  shows "\<exists>y. fl x = Fin y \<and> a \<le> y \<and> y \<le> b"
proof -
  have ab: "rnd a = a" "rnd b = b" "\<bar>a\<bar> < 2 ^ 1024" "\<bar>b\<bar> < 2 ^ 1024" using assms(1,2) by (simp_all add: is_double_iff)
  have "a \<le> rnd x" "rnd x \<le> b" using rnd_mono [OF assms(3)] rnd_mono [OF assms(4)] ab by simp_all
  moreover from this have "\<bar>rnd x\<bar> < 2 ^ 1024" using ab(3,4) by linarith
  ultimately show ?thesis by (simp add: fl_eq_Fin)
qed

text \<open>A sum of whole numbers is exact as long as it can not leave the range of exact integers.\<close>

lemma num_sum_int:
  "sum_list (map abs ns) \<le> 2 ^ 53 \<Longrightarrow> num_sum (map num_of_int ns) = num_of_int (sum_list ns)"
proof (induction ns rule: rev_induct)
  case Nil
  then show ?case by (simp add: num_sum_def)
next
  case (snoc n ns)
  have "0 \<le> \<bar>n\<bar>" "0 \<le> \<bar>sum_list ns\<bar>" by simp_all
  moreover have "\<bar>sum_list ns\<bar> \<le> sum_list (map abs ns)" by (rule sum_list_abs)
  ultimately have "\<bar>sum_list ns + n\<bar> \<le> 2 ^ 53" "sum_list (map abs ns) \<le> 2 ^ 53"
    using snoc.prems by simp_all
  then show ?case using snoc.IH fl_int [of "sum_list ns + n"] by (simp add: num_sum_def)
qed

lemma abs_le_sum_list: "n \<in> set ns \<Longrightarrow> \<bar>n :: int\<bar> \<le> sum_list (map abs ns)"
proof (induction ns)
  case (Cons m ns)
  have "0 \<le> \<bar>sum_list ns\<bar>" "\<bar>sum_list ns\<bar> \<le> sum_list (map abs ns)" by (simp_all add: sum_list_abs)
  then show ?case using Cons by auto
qed simp

lemma sum_list_bounds:
  fixes ns :: "int list"
  assumes "\<forall>n\<in>set ns. a \<le> n \<and> n \<le> b"
  shows "int (length ns) * a \<le> sum_list ns" "sum_list ns \<le> int (length ns) * b"
  using assms by (induction ns) (auto simp: algebra_simps)

lemma mean_between:
  fixes ns :: "int list"
  assumes "ns \<noteq> []" "\<forall>n\<in>set ns. a \<le> n \<and> n \<le> b"
  shows "of_int a \<le> (of_int (sum_list ns) / of_int (int (length ns)) :: rat)"
    "(of_int (sum_list ns) / of_int (int (length ns)) :: rat) \<le> of_int b"
proof -
  have pos: "0 < (of_int (int (length ns)) :: rat)" using assms(1) by simp
  have "(of_int (int (length ns) * a) :: rat) \<le> of_int (sum_list ns)"
    "(of_int (sum_list ns) :: rat) \<le> of_int (int (length ns) * b)"
    using sum_list_bounds [OF assms(2)] by (simp_all only: of_int_le_iff)
  then show "of_int a \<le> (of_int (sum_list ns) / of_int (int (length ns)) :: rat)"
    "(of_int (sum_list ns) / of_int (int (length ns)) :: rat) \<le> of_int b"
    using pos by (simp_all only: pos_le_divide_eq pos_divide_le_eq of_int_mult mult.commute)
qed

end
