(* ===== verification/JS_Order.thy ===== *)
theory JS_Order
  imports JS_Number
begin

text \<open>
  JavaScript numbers as a linear order, NaN last. On the other numbers it is the order of the
  language, so that \<^verbatim>\<open>Math.min\<close>, \<^verbatim>\<open>Math.max\<close> and a sort by difference are the library's \<^const>\<open>Min\<close>,
  \<^const>\<open>Max\<close> and \<^const>\<open>sort\<close>.
\<close>

instantiation jsnum :: linorder
begin

definition less_eq_jsnum :: "jsnum \<Rightarrow> jsnum \<Rightarrow> bool" where
  "a \<le> b \<longleftrightarrow> b = NaN \<or> num_le a b"

definition less_jsnum :: "jsnum \<Rightarrow> jsnum \<Rightarrow> bool" where
  "a < b \<longleftrightarrow> a \<noteq> NaN \<and> (b = NaN \<or> num_lt a b)"

instance
proof
  fix a b c :: jsnum
  show "a < b \<longleftrightarrow> a \<le> b \<and> \<not> b \<le> a"
    by (cases "a = NaN"; cases "b = NaN")
      (auto simp: less_eq_jsnum_def less_jsnum_def num_le_def num_eq_def dest: num_lt_asym)
  show "a \<le> a" by (auto simp: less_eq_jsnum_def intro: num_le_refl)
  show "a \<le> b \<Longrightarrow> b \<le> c \<Longrightarrow> a \<le> c"
    by (auto simp: less_eq_jsnum_def num_le_def num_eq_def intro: num_lt_trans)
  show "a \<le> b \<Longrightarrow> b \<le> a \<Longrightarrow> a = b"
    by (auto simp: less_eq_jsnum_def num_le_def num_eq_def dest: num_lt_asym)
  show "a \<le> b \<or> b \<le> a"
    using num_lt_total [of a b] by (auto simp: less_eq_jsnum_def num_le_def num_eq_def)
qed

end

lemma num_le_order: "a \<noteq> NaN \<Longrightarrow> b \<noteq> NaN \<Longrightarrow> num_le a b \<longleftrightarrow> a \<le> b"
  by (simp add: less_eq_jsnum_def)

lemma Fin_le_iff [simp]: "Fin x \<le> Fin y \<longleftrightarrow> x \<le> y" "Fin x < Fin y \<longleftrightarrow> x < y"
  by (simp_all add: less_eq_jsnum_def less_jsnum_def)

lemma math_min_Min:
  assumes "NaN \<notin> set xs" "xs \<noteq> []"
  shows "math_min xs = Min (set xs)"
  using math_min_in [OF assms] math_min_lower [OF assms(1)]
  by (intro Min_eqI [symmetric]) (auto simp: less_eq_jsnum_def)

lemma math_max_Max:
  assumes "NaN \<notin> set xs" "xs \<noteq> []"
  shows "math_max xs = Max (set xs)"
  using math_max_in [OF assms] math_max_upper [OF assms(1)]
  by (intro Max_eqI [symmetric]) (auto simp: less_eq_jsnum_def)

lemma js_sort_sort:
  assumes "\<forall>x\<in>set xs. wf_num x \<and> x \<noteq> NaN"
  shows "js_sort num_after xs = sort xs"
proof (rule properties_for_sort [symmetric])
  show "sorted (js_sort num_after xs)"
    using js_sort_num_sorted [OF assms] by (rule sorted_wrt_mono_rel [rotated]) (simp add: less_eq_jsnum_def)
qed simp

end
