(* ===== verification/JS_Object.thy ===== *)
theory JS_Object
  imports JS_Order
begin

text \<open>
  Plain JavaScript objects used as dictionaries (\<^verbatim>\<open>Record<string, T>\<close>): the own properties in
  creation order, property lookup that falls back to \<^verbatim>\<open>Object.prototype\<close>, assignment, and the
  enumeration order of \<^verbatim>\<open>Object.keys\<close>, \<^verbatim>\<open>Object.entries\<close> and \<^verbatim>\<open>Object.values\<close> (array indices in
  ascending order first, then the other keys in creation order).

  The locale \<open>js_dict\<close> states what the clients rely on; its interpretation on these definitions is
  what the properties of the components use.
\<close>

type_synonym 'v jsobj = "(string \<times> 'v) list"

datatype 'v slot = Own 'v | Inherited | Absent

text \<open>The names every plain object inherits from \<^verbatim>\<open>Object.prototype\<close>.\<close>

definition proto_names :: "string list" where
  "proto_names = [''constructor'', ''__proto__'', ''__defineGetter__'', ''__defineSetter__'',
     ''__lookupGetter__'', ''__lookupSetter__'', ''hasOwnProperty'', ''isPrototypeOf'',
     ''propertyIsEnumerable'', ''toString'', ''toLocaleString'', ''valueOf'']"

definition plain_key :: "string \<Rightarrow> bool" where
  "plain_key k \<longleftrightarrow> k \<notin> set proto_names"

definition obj_get :: "'v jsobj \<Rightarrow> string \<Rightarrow> 'v slot" where
  "obj_get m k =
     (case map_of m k of Some v \<Rightarrow> Own v
      | None \<Rightarrow> if k \<in> set proto_names then Inherited else Absent)"

fun upd :: "string \<Rightarrow> 'v \<Rightarrow> 'v jsobj \<Rightarrow> 'v jsobj" where
  "upd k v [] = [(k, v)]"
| "upd k v ((k', v') # m) = (if k = k' then (k, v) # m else (k', v') # upd k v m)"

text \<open>Assigning a primitive value to \<^verbatim>\<open>__proto__\<close> creates no property.\<close>

definition obj_set :: "'v jsobj \<Rightarrow> string \<Rightarrow> 'v \<Rightarrow> 'v jsobj" where
  "obj_set m k v = (if k = ''__proto__'' then m else upd k v m)"

text \<open>Array indices: the canonical decimal strings of \<open>0, \<dots>, 2 ^ 32 - 2\<close>.\<close>

definition array_index :: "string \<Rightarrow> bool" where
  "array_index k \<longleftrightarrow>
     k \<noteq> [] \<and> list_all is_digit k \<and> (k = ''0'' \<or> hd k \<noteq> CHR ''0'') \<and> digits_val k < 2 ^ 32 - 1"

definition obj_entries :: "'v jsobj \<Rightarrow> 'v jsobj" where
  "obj_entries m =
     js_sort (\<lambda>a b. digits_val (fst b) < digits_val (fst a)) (filter (\<lambda>e. array_index (fst e)) m)
     @ filter (\<lambda>e. \<not> array_index (fst e)) m"

definition obj_keys :: "'v jsobj \<Rightarrow> string list" where
  "obj_keys m = map fst (obj_entries m)"

definition obj_values :: "'v jsobj \<Rightarrow> 'v list" where
  "obj_values m = map snd (obj_entries m)"

text \<open>No two own properties have the same name.\<close>

definition obj_wf :: "'v jsobj \<Rightarrow> bool" where
  "obj_wf m \<longleftrightarrow> distinct (map fst m) \<and> ''__proto__'' \<notin> fst ` set m"

lemma map_of_upd [simp]: "map_of (upd k v m) = (map_of m)(k \<mapsto> v)"
  by (induction k v m rule: upd.induct) (auto simp: fun_eq_iff)

lemma fst_set_upd [simp]: "fst ` set (upd k v m) = insert k (fst ` set m)"
  by (induction k v m rule: upd.induct) auto

lemma set_map_fst_upd [simp]: "set (map fst (upd k v m)) = insert k (set (map fst m))"
  by (metis fst_set_upd list.set_map)

lemma distinct_upd [simp]: "distinct (map fst m) \<Longrightarrow> distinct (map fst (upd k v m))"
  by (induction k v m rule: upd.induct) auto

lemma map_fst_upd_mem: "k \<in> fst ` set m \<Longrightarrow> map fst (upd k v m) = map fst m"
  by (induction k v m rule: upd.induct) auto

lemma upd_new: "k \<notin> fst ` set m \<Longrightarrow> upd k v m = m @ [(k, v)]"
  by (induction k v m rule: upd.induct) auto

lemma map_of_rev_distinct: "distinct (map fst kvs) \<Longrightarrow> map_of (rev kvs) = map_of kvs"
  by (rule map_of_inject_set [THEN iffD2]) (simp_all add: rev_map [symmetric])

lemma obj_wf_Nil [simp]: "obj_wf []"
  by (simp add: obj_wf_def)

lemma obj_wf_set [simp, intro]: "obj_wf m \<Longrightarrow> obj_wf (obj_set m k v)"
  by (auto simp: obj_wf_def obj_set_def)

lemma proto_in_names: "''__proto__'' \<in> set proto_names"
  by (simp add: proto_names_def)

lemma plain_key_not_proto: "plain_key k \<Longrightarrow> k \<noteq> ''__proto__''"
  using proto_in_names by (auto simp: plain_key_def)

lemma obj_get_Nil: "obj_get [] k = (if plain_key k then Absent else Inherited)"
  by (simp add: obj_get_def plain_key_def)

lemma obj_get_Cons: "obj_get ((a, v) # m) k = (if k = a then Own v else obj_get m k)"
  by (simp add: obj_get_def)

lemma obj_get_set:
  "obj_get (obj_set m k v) k' = (if k = k' \<and> k \<noteq> ''__proto__'' then Own v else obj_get m k')"
  by (auto simp: obj_get_def obj_set_def)

lemma fst_set_obj_set [simp]: "plain_key k \<Longrightarrow> fst ` set (obj_set m k v) = insert k (fst ` set m)"
  by (simp add: obj_set_def plain_key_not_proto)

lemma obj_get_Own: "obj_get m k = Own v \<longleftrightarrow> map_of m k = Some v"
  by (auto simp: obj_get_def split: option.splits)

lemma obj_get_plain: "plain_key k \<Longrightarrow> obj_get m k = (case map_of m k of Some v \<Rightarrow> Own v | None \<Rightarrow> Absent)"
  by (auto simp: obj_get_def plain_key_def split: option.splits)

lemma mset_obj_entries [simp]: "mset (obj_entries m) = mset m"
  by (simp add: obj_entries_def)

lemma set_obj_entries [simp]: "set (obj_entries m) = set m"
  by (metis mset_obj_entries set_mset_mset)

lemma length_obj_entries [simp]: "length (obj_entries m) = length m"
  by (metis mset_obj_entries size_mset)

lemma set_obj_keys [simp, js_sets]: "set (obj_keys m) = fst ` set m"
  by (simp add: obj_keys_def)

lemma set_obj_values [simp, js_sets]: "set (obj_values m) = snd ` set m"
  by (simp add: obj_values_def)

lemma mset_obj_keys: "mset (obj_keys m) = mset (map fst m)"
  by (simp add: obj_keys_def)

lemma distinct_obj_keys [simp]: "obj_wf m \<Longrightarrow> distinct (obj_keys m)"
  by (metis mset_eq_imp_distinct_iff mset_obj_keys obj_wf_def)

lemma obj_entries_get: "obj_wf m \<Longrightarrow> (k, v) \<in> set (obj_entries m) \<longleftrightarrow> obj_get m k = Own v"
  by (simp add: obj_get_Own obj_wf_def)

text \<open>The keys keep creation order when none of them is an array index.\<close>

lemma obj_keys_no_index: "\<forall>k\<in>fst ` set m. \<not> array_index k \<Longrightarrow> obj_keys m = map fst m"
proof -
  assume "\<forall>k\<in>fst ` set m. \<not> array_index k"
  then have "filter (\<lambda>e. array_index (fst e)) m = []" "filter (\<lambda>e. \<not> array_index (fst e)) m = m"
    by (auto simp: filter_empty_conv filter_id_conv)
  then show ?thesis by (simp add: obj_keys_def obj_entries_def)
qed

text \<open>What the code relies on when it uses an object as a dictionary.\<close>

locale js_dict =
  fixes wf :: "'m \<Rightarrow> bool" and empty :: 'm and get :: "'m \<Rightarrow> string \<Rightarrow> 'v slot"
    and put :: "'m \<Rightarrow> string \<Rightarrow> 'v \<Rightarrow> 'm" and keys :: "'m \<Rightarrow> string list"
  assumes wf_empty: "wf empty"
    and wf_put: "wf m \<Longrightarrow> wf (put m k v)"
    and get_empty: "plain_key k \<Longrightarrow> get empty k = Absent"
    and get_put_same: "plain_key k \<Longrightarrow> get (put m k v) k = Own v"
    and get_put_other: "k \<noteq> k' \<Longrightarrow> get (put m k v) k' = get m k'"
    and keys_iff: "wf m \<Longrightarrow> k \<in> set (keys m) \<longleftrightarrow> (\<exists>v. get m k = Own v)"
    and keys_distinct: "wf m \<Longrightarrow> distinct (keys m)"
begin

text \<open>Filling a dictionary from a list of keys: each key gets the value the last write gave it.\<close>

lemma wf_fill: "wf m \<Longrightarrow> wf (foldl (\<lambda>m k. put m k (f k)) m ks)"
  by (induction ks arbitrary: m) (auto intro: wf_put)

lemma get_fill:
  "\<forall>k\<in>set ks. plain_key k \<Longrightarrow>
     get (foldl (\<lambda>m k. put m k (f k)) m ks) k = (if k \<in> set ks then Own (f k) else get m k)"
proof (induction ks arbitrary: m)
  case Nil
  then show ?case by simp
next
  case (Cons a ks)
  then show ?case by (cases "k = a") (auto simp: get_put_same get_put_other)
qed

text \<open>A sequence of assignments: the last one to a key decides.\<close>

lemma get_put_all:
  assumes "plain_key k"
  shows "get (foldl (\<lambda>m (k, v). put m k v) m kvs) k =
     (case map_of (rev kvs) k of Some v \<Rightarrow> Own v | None \<Rightarrow> get m k)"
proof (induction kvs rule: rev_induct)
  case Nil
  then show ?case by simp
next
  case (snoc kv kvs)
  obtain a b where "kv = (a, b)" by (cases kv)
  then show ?case using snoc assms by (cases "a = k") (auto simp: get_put_same get_put_other)
qed

lemma wf_put_all: "wf m \<Longrightarrow> wf (foldl (\<lambda>m (k, v). put m k v) m kvs)"
  by (induction kvs arbitrary: m) (auto intro: wf_put)

lemma keys_put: "wf m \<Longrightarrow> plain_key k \<Longrightarrow> set (keys (put m k v)) = insert k (set (keys m))"
  by (auto simp: keys_iff wf_put) (metis get_put_other get_put_same slot.inject)+

lemma keys_fill:
  "wf m \<Longrightarrow> \<forall>k\<in>set ks. plain_key k \<Longrightarrow>
     set (keys (foldl (\<lambda>m k. put m k (f k)) m ks)) = set (keys m) \<union> set ks"
  by (induction ks arbitrary: m) (auto simp: keys_put wf_put)

lemma keys_empty: "\<forall>k\<in>set (keys empty). \<not> plain_key k"
  by (metis get_empty keys_iff slot.distinct(3) wf_empty)

end

interpretation obj: js_dict obj_wf "[]" obj_get obj_set obj_keys
proof unfold_locales
  show "obj_wf m \<Longrightarrow> (k \<in> set (obj_keys m)) = (\<exists>v. obj_get m k = Own v)" for m :: "'a jsobj" and k
    by (auto simp: obj_get_Own obj_wf_def) (metis fst_conv image_eqI map_of_SomeD map_of_eq_Some_iff)+
qed (auto simp: obj_get_Nil obj_get_set plain_key_not_proto)

end
