(* ===== verification/Benchmark_Data.thy ===== *)
theory Benchmark_Data
  imports JS_Object
begin

text \<open>
  The benchmark data model of \<^verbatim>\<open>components/benchmark-dashboard.tsx\<close>: the hierarchical JSON (CPU,
  group, test, server, result), its flattening into tagged results, and the filter options that
  are extracted from the flat list. Every field may be missing or null at run time (\<open>jopt\<close>), so
  each guard of the source (\<^verbatim>\<open>?.\<close>, \<^verbatim>\<open>Array.isArray\<close>, \<^verbatim>\<open>filter(Boolean)\<close>, \<^verbatim>\<open>typeof\<close>) is a branch of the
  model; a value that is not an array where an array is declared behaves as a missing one.
\<close>

section \<open>Types\<close>

record metrics =
  successRate :: "jsnum jopt"
  total :: "jsnum jopt"
  slowest :: "jsnum jopt"
  fastest :: "jsnum jopt"
  average :: "jsnum jopt"
  requestsPerSec :: "jsnum jopt"
  totalData :: "jsnum jopt"
  sizePerRequest :: "jsnum jopt"
  sizePerSec :: "jsnum jopt"
  errorDistribution :: "jsnum jsobj jopt"
  p95_latency :: "jsnum jopt"

record benchmark_result =
  server :: "string jopt"
  version :: "string jopt"
  test_case :: "string jopt"
  threads :: "jsnum jopt"
  workers :: "jsnum jopt"
  http2 :: "bool jopt"
  concurrency :: "jsnum jopt"
  rss_mb :: "jsnum jopt"
  results :: "metrics jopt"
  timestamp :: "string jopt"

text \<open>\<^verbatim>\<open>BenchmarkResult & { cpu: string; group: string }\<close>\<close>

record tagged_result = benchmark_result +
  cpu :: "string jopt"
  group :: "string jopt"

record server_data =
  sd_server :: "string jopt"
  sd_results :: "benchmark_result jopt list jopt"

record test_data =
  td_test :: "string jopt"
  td_servers :: "server_data jopt list jopt"

record group_data =
  gd_group :: "string jopt"
  gd_tests :: "test_data jopt list jopt"

record cpu_data =
  cd_cpu :: "string jopt"
  cd_groups :: "group_data jopt list jopt"

type_synonym hierarchical_data = "cpu_data jopt list jopt"

section \<open>Flattening\<close>

text \<open>\<^verbatim>\<open>{ ...result, cpu, group }\<close>; spreading a null or missing result contributes no field.\<close>

definition empty_result :: benchmark_result where
  "empty_result = \<lparr>server = Undef, version = Undef, test_case = Undef, threads = Undef, workers = Undef,
     http2 = Undef, concurrency = Undef, rss_mb = Undef, results = Undef, timestamp = Undef\<rparr>"

definition tag :: "string jopt \<Rightarrow> string jopt \<Rightarrow> benchmark_result jopt \<Rightarrow> tagged_result" where
  "tag c g r =
     (let x = (case r of Val x \<Rightarrow> x | _ \<Rightarrow> empty_result)
      in \<lparr>server = server x, version = version x, test_case = test_case x, threads = threads x,
          workers = workers x, http2 = http2 x, concurrency = concurrency x, rss_mb = rss_mb x,
          results = results x, timestamp = timestamp x, cpu = c, group = g\<rparr>)"

definition flat_server :: "string jopt \<Rightarrow> string jopt \<Rightarrow> server_data jopt \<Rightarrow> tagged_result list" where
  "flat_server c g serverData =
     (case serverData of Val d \<Rightarrow> map (tag c g) (jopt_list (sd_results d)) | _ \<Rightarrow> [])"

definition flat_test :: "string jopt \<Rightarrow> string jopt \<Rightarrow> test_data jopt \<Rightarrow> tagged_result list" where
  "flat_test c g testData =
     (case testData of Val d \<Rightarrow> concat (map (flat_server c g) (jopt_list (td_servers d))) | _ \<Rightarrow> [])"

definition flat_group :: "string jopt \<Rightarrow> group_data jopt \<Rightarrow> tagged_result list" where
  "flat_group c groupData =
     (case groupData of Val d \<Rightarrow> concat (map (flat_test c (gd_group d)) (jopt_list (gd_tests d))) | _ \<Rightarrow> [])"

definition flat_cpu :: "cpu_data jopt \<Rightarrow> tagged_result list" where
  "flat_cpu cpuData =
     (case cpuData of Val d \<Rightarrow> concat (map (flat_group (cd_cpu d)) (jopt_list (cd_groups d))) | _ \<Rightarrow> [])"

definition flattenedData :: "hierarchical_data \<Rightarrow> tagged_result list" where
  "flattenedData data = concat (map flat_cpu (jopt_list data))"

section \<open>Filter options\<close>

datatype http2_option = All | Http2 bool

record filter_options =
  fo_cpus :: "string list"
  fo_testCases :: "string list"
  fo_servers :: "string list"
  fo_threads :: "jsnum list"
  fo_workers :: "jsnum list"
  fo_concurrencyLevels :: "jsnum list"
  fo_http2Options :: "http2_option list"

text \<open>
  The three shapes of option list: \<^verbatim>\<open>[...new Set(items.map(f).filter(Boolean))]\<close>,
  \<^verbatim>\<open>[...new Set(items.map(f).filter(typeof number))].sort((a, b) => a - b)\<close> and
  \<^verbatim>\<open>["all", ...new Set(items.map(f).filter(typeof boolean))]\<close>.
\<close>

definition str_options :: "(tagged_result \<Rightarrow> string jopt) \<Rightarrow> tagged_result list \<Rightarrow> string list" where
  "str_options f items = js_set (truthy_strs (map f items))"

definition num_options :: "(tagged_result \<Rightarrow> jsnum jopt) \<Rightarrow> tagged_result list \<Rightarrow> jsnum list" where
  "num_options f items = js_sort num_after (js_set (vals (map f items)))"

definition bool_options :: "tagged_result list \<Rightarrow> http2_option list" where
  "bool_options items = All # map Http2 (js_set (vals (map http2 items)))"

definition default_options :: filter_options where
  "default_options = \<lparr>fo_cpus = [], fo_testCases = [], fo_servers = [], fo_threads = [], fo_workers = [],
     fo_concurrencyLevels = [], fo_http2Options = [All]\<rparr>"

text \<open>\<^verbatim>\<open>cpuData.cpu\<close> without a guard: reading a property of null or undefined throws.\<close>

definition cpu_of :: "cpu_data jopt \<Rightarrow> string jopt result" where
  "cpu_of cpuData = (case cpuData of Val d \<Rightarrow> Inr (cd_cpu d) | _ \<Rightarrow> Inl TypeError)"

definition allFilterOptions :: "hierarchical_data \<Rightarrow> filter_options result" where
  "allFilterOptions data =
     (case data of
        Val (c # cs) \<Rightarrow>
          bindE (mapE cpu_of (c # cs)) (\<lambda>cpus.
            let items = flattenedData data
            in Inr \<lparr>fo_cpus = truthy_strs cpus,
                    fo_testCases = str_options test_case items,
                    fo_servers = str_options server items,
                    fo_threads = num_options threads items,
                    fo_workers = num_options workers items,
                    fo_concurrencyLevels = num_options concurrency items,
                    fo_http2Options = bool_options items\<rparr>)
      | _ \<Rightarrow> Inr default_options)"

section \<open>Numbers that JSON can hold\<close>

fun json_num :: "jsnum jopt \<Rightarrow> bool" where
  "json_num (Val x) = (wf_num x \<and> x \<noteq> NaN)"
| "json_num _ = True"

definition json_item :: "tagged_result \<Rightarrow> bool" where
  "json_item i \<longleftrightarrow> json_num (threads i) \<and> json_num (workers i) \<and> json_num (concurrency i)"

section \<open>Lemmas\<close>

lemma set_jopt_list: "x \<in> set (jopt_list v) \<longleftrightarrow> (\<exists>xs. v = Val xs \<and> x \<in> set xs)"
  by (cases v) auto

lemmas flat_defs = flat_server_def flat_test_def flat_group_def flat_cpu_def flattenedData_def

lemma set_flat_server:
  "i \<in> set (flat_server c g sd) \<longleftrightarrow> (\<exists>d r. sd = Val d \<and> r \<in> set (jopt_list (sd_results d)) \<and> i = tag c g r)"
  by (cases sd) (auto simp: flat_server_def)

lemma set_flat_test:
  "i \<in> set (flat_test c g td) \<longleftrightarrow>
     (\<exists>d s. td = Val d \<and> s \<in> set (jopt_list (td_servers d)) \<and> i \<in> set (flat_server c g s))"
  by (cases td) (auto simp: flat_test_def)

lemma set_flat_group:
  "i \<in> set (flat_group c gd) \<longleftrightarrow>
     (\<exists>d t. gd = Val d \<and> t \<in> set (jopt_list (gd_tests d)) \<and> i \<in> set (flat_test c (gd_group d) t))"
  by (cases gd) (auto simp: flat_group_def)

lemma set_flat_cpu:
  "i \<in> set (flat_cpu cd) \<longleftrightarrow>
     (\<exists>d g. cd = Val d \<and> g \<in> set (jopt_list (cd_groups d)) \<and> i \<in> set (flat_group (cd_cpu d) g))"
  by (cases cd) (auto simp: flat_cpu_def)

lemma set_flattenedData: "i \<in> set (flattenedData data) \<longleftrightarrow> (\<exists>c\<in>set (jopt_list data). i \<in> set (flat_cpu c))"
  by (auto simp: flattenedData_def)

lemmas set_flat = set_flat_server set_flat_test set_flat_group set_flat_cpu set_flattenedData

lemma set_str_options [simp, js_sets]:
  "set (str_options f items) = {s. s \<noteq> [] \<and> (\<exists>i\<in>set items. f i = Val s)}"
  by (auto simp: str_options_def Val_image_iff)

lemma distinct_str_options [simp]: "distinct (str_options f items)"
  by (simp add: str_options_def)

lemma set_num_options [simp, js_sets]: "set (num_options f items) = {x. \<exists>i\<in>set items. f i = Val x}"
  by (auto simp: num_options_def Val_image_iff)

lemma distinct_num_options [simp]: "distinct (num_options f items)"
  by (simp add: num_options_def)

lemma sorted_num_options:
  "\<forall>i\<in>set items. json_num (f i) \<Longrightarrow> sorted (num_options f items)"
  unfolding num_options_def by (subst js_sort_sort) (auto simp: Val_image_iff)

lemma set_bool_options [simp, js_sets]:
  "set (bool_options items) = insert All (Http2 ` {b. \<exists>i\<in>set items. http2 i = Val b})"
  by (auto simp: bool_options_def Val_image_iff)

lemma distinct_bool_options [simp]: "distinct (bool_options items)"
  by (auto simp: bool_options_def distinct_map inj_on_def)

lemma hd_bool_options [simp]: "hd (bool_options items) = All" "bool_options items \<noteq> []"
  by (simp_all add: bool_options_def)

lemma mapE_cpu_of:
  "mapE cpu_of cs = (if \<exists>c\<in>set cs. jopt_nullish c then Inl TypeError else
     Inr (map (\<lambda>c. case c of Val d \<Rightarrow> cd_cpu d) cs))"
proof (induction cs)
  case Nil
  then show ?case by simp
next
  case (Cons c cs)
  then show ?case by (cases c) (auto simp: cpu_of_def)
qed

section \<open>Properties\<close>

text \<open>Concrete results for the witnesses.\<close>

definition sample_metrics :: "jsnum jopt \<Rightarrow> jsnum jopt \<Rightarrow> jsnum jopt \<Rightarrow> metrics" where
  "sample_metrics rps p95 success =
     \<lparr>successRate = success, total = Val (Fin 3), slowest = Undef, fastest = Undef, average = Undef,
      requestsPerSec = rps, totalData = Undef, sizePerRequest = Undef, sizePerSec = Undef,
      errorDistribution = Undef, p95_latency = p95\<rparr>"

definition sample_result ::
  "string \<Rightarrow> string \<Rightarrow> rat \<Rightarrow> rat \<Rightarrow> rat \<Rightarrow> bool \<Rightarrow> rat \<Rightarrow> benchmark_result" where
  "sample_result srv t th w c h rps =
     \<lparr>server = Val srv, version = Val ''1'', test_case = Val t, threads = Val (Fin th), workers = Val (Fin w),
      http2 = Val h, concurrency = Val (Fin c), rss_mb = Undef,
      results = Val (sample_metrics (Val (Fin rps)) (Val (Fin 2)) (Val (Fin 1))), timestamp = Undef\<rparr>"

definition sample_item ::
  "string \<Rightarrow> string \<Rightarrow> rat \<Rightarrow> rat \<Rightarrow> rat \<Rightarrow> bool \<Rightarrow> rat \<Rightarrow> tagged_result" where
  "sample_item srv t th w c h rps = tag (Val ''M1'') (Val ''rack'') (Val (sample_result srv t th w c h rps))"

definition sample_cpu :: "benchmark_result jopt list \<Rightarrow> cpu_data jopt" where
  "sample_cpu rs = Val \<lparr>cd_cpu = Val ''M1'', cd_groups = Val [Null, Val \<lparr>gd_group = Val ''rack'', gd_tests = Val
     [Val \<lparr>td_test = Val ''hello'', td_servers = Val [Val \<lparr>sd_server = Val ''itsi'', sd_results = Val rs\<rparr>]\<rparr>]\<rparr>]\<rparr>"



lemmas sample_defs = sample_cpu_def sample_item_def sample_result_def sample_metrics_def tag_def


text \<open>
  C36 (a null CPU entry is not tolerated). Extracting the options throws exactly when the array
  has a null or undefined entry, which flattening skips.
\<close>

theorem allFilterOptions_throws_iff:
  "(allFilterOptions data = Inl e \<longleftrightarrow> e = TypeError \<and> (\<exists>cs. data = Val cs \<and> (\<exists>c\<in>set cs. jopt_nullish c)))
   \<and> flattenedData (Val (cs1 @ Null # cs2)) = flattenedData (Val (cs1 @ cs2))"
proof
  show "allFilterOptions data = Inl e \<longleftrightarrow> e = TypeError \<and> (\<exists>cs. data = Val cs \<and> (\<exists>c\<in>set cs. jopt_nullish c))"
  proof (cases "\<exists>c cs. data = Val (c # cs)")
    case True
    then obtain c cs where data: "data = Val (c # cs)" by blast
    show ?thesis unfolding data allFilterOptions_def jopt.case list.case mapE_cpu_of
      by (auto simp: Let_def simp del: mapE.simps)
  next
    case False
    then show ?thesis by (auto simp: allFilterOptions_def split: jopt.split list.split)
  qed
next
  show "flattenedData (Val (cs1 @ Null # cs2)) = flattenedData (Val (cs1 @ cs2))"
    by (simp add: flattenedData_def flat_cpu_def)
qed

end
