(* ===== verification/Web_Url.thy ===== *)
theory Web_Url
  imports JS_Object
begin

text \<open>
  The part of the URL API the dashboard uses: \<^verbatim>\<open>URLSearchParams\<close> (\<^verbatim>\<open>get\<close>, \<^verbatim>\<open>set\<close>, \<^verbatim>\<open>delete\<close>) as a list
  of name/value pairs, the \<^verbatim>\<open>application/x-www-form-urlencoded\<close> serialiser and parser, and the
  browser's location. The locale \<open>param_store\<close> is the contract of the parameter list.
\<close>

section \<open>Form encoding\<close>

definition url_safe :: "char \<Rightarrow> bool" where
  "url_safe c \<longleftrightarrow>
     (let n = of_char c :: nat
      in (48 \<le> n \<and> n \<le> 57) \<or> (65 \<le> n \<and> n \<le> 90) \<or> (97 \<le> n \<and> n \<le> 122) \<or> n \<in> {42, 45, 46, 95})"

definition hex_char :: "int \<Rightarrow> char" where
  "hex_char d = char_of (if d < 10 then 48 + nat d else 55 + nat d)"

definition enc_char :: "char \<Rightarrow> string" where
  "enc_char c =
     (if url_safe c then [c] else if c = CHR '' '' then ''+''
      else [CHR ''%'', hex_char (int (of_char c) div 16), hex_char (int (of_char c) mod 16)])"

definition url_encode :: "string \<Rightarrow> string" where
  "url_encode s = concat (map enc_char s)"

fun url_decode :: "string \<Rightarrow> string" where
  "url_decode [] = []"
| "url_decode (c # s) =
     (if c = CHR ''+'' then CHR '' '' # url_decode s
      else if c = CHR ''%'' then
        (case s of
           a # b # t \<Rightarrow>
             (case hex_val a of None \<Rightarrow> c # url_decode s
              | Some x \<Rightarrow> (case hex_val b of None \<Rightarrow> c # url_decode s
                 | Some y \<Rightarrow> char_of (nat (16 * x + y)) # url_decode t))
         | _ \<Rightarrow> c # url_decode s)
      else c # url_decode s)"

type_synonym params = "(string \<times> string) list"

definition serialize_params :: "params \<Rightarrow> string" where
  "serialize_params ps = js_join ''&'' (map (\<lambda>(n, v). url_encode n @ ''='' @ url_encode v) ps)"

definition parse_pair :: "string \<Rightarrow> string \<times> string" where
  "parse_pair s =
     (url_decode (takeWhile (\<lambda>c. c \<noteq> CHR ''='') s), url_decode (drop 1 (dropWhile (\<lambda>c. c \<noteq> CHR ''='') s)))"

definition parse_params :: "string \<Rightarrow> params" where
  "parse_params s = map parse_pair (filter (\<lambda>p. p \<noteq> []) (split_char (CHR ''&'') s))"

section \<open>The parameter list\<close>

definition params_get :: "params \<Rightarrow> string \<Rightarrow> string option" where
  "params_get ps n = map_of ps n"

fun params_set :: "params \<Rightarrow> string \<Rightarrow> string \<Rightarrow> params" where
  "params_set [] n v = [(n, v)]"
| "params_set ((m, w) # ps) n v =
     (if m = n then (n, v) # filter (\<lambda>p. fst p \<noteq> n) ps else (m, w) # params_set ps n v)"

definition params_delete :: "params \<Rightarrow> string \<Rightarrow> params" where
  "params_delete ps n = filter (\<lambda>p. fst p \<noteq> n) ps"

section \<open>The location\<close>

text \<open>
  \<^verbatim>\<open>window.location\<close>: what precedes the query, the query (with its question mark, or empty) and
  the fragment.
\<close>

record location =
  base :: string
  search :: string
  hash :: string

definition search_params :: "location \<Rightarrow> params" where
  "search_params l =
     parse_params (case search l of [] \<Rightarrow> [] | c # s \<Rightarrow> if c = CHR ''?'' then s else c # s)"

definition with_params :: "location \<Rightarrow> params \<Rightarrow> location" where
  "with_params l ps = l\<lparr>search := (if ps = [] then [] else CHR ''?'' # serialize_params ps)\<rparr>"

section \<open>Round trip\<close>

lemma of_char_lt: "(of_char c :: nat) < 256"
  by (cases c) (simp add: of_char_def horner_sum_simps split: bool.splits)

lemma nibble_cases:
  "0 \<le> (d :: int) \<Longrightarrow> d < 16 \<Longrightarrow> d \<in> {0, 1, 2, 3, 4, 5, 6, 7, 8, 9, 10, 11, 12, 13, 14, 15}"
  unfolding insert_iff empty_iff by arith

lemma hex_val_hex_char: "0 \<le> d \<Longrightarrow> d < 16 \<Longrightarrow> hex_val (hex_char d) = Some d"
  by (drule (1) nibble_cases) (auto simp: hex_char_def hex_val_def)

lemma char_nibbles:
  "0 \<le> int (of_char c) div 16" "int (of_char c) div 16 < 16"
  "0 \<le> int (of_char c) mod 16" "int (of_char c) mod 16 < 16"
  using of_char_lt [of c] by linarith+

lemma url_decode_percent:
  "hex_val a = Some x \<Longrightarrow> hex_val b = Some y \<Longrightarrow>
     url_decode (CHR ''%'' # a # b # s) = char_of (nat (16 * x + y)) # url_decode s"
  by simp

lemma url_decode_enc_char: "url_decode (enc_char c @ s) = c # url_decode s"
proof (cases "url_safe c \<or> c = CHR '' ''")
  case True
  then have "c \<noteq> CHR ''+'' \<and> c \<noteq> CHR ''%''" by (auto simp: url_safe_def)
  with True show ?thesis by (auto simp: enc_char_def)
next
  case False
  let ?n = "int (of_char c)"
  have "url_decode (CHR ''%'' # hex_char (?n div 16) # hex_char (?n mod 16) # s) =
      char_of (nat (16 * (?n div 16) + ?n mod 16)) # url_decode s"
    by (intro url_decode_percent hex_val_hex_char char_nibbles)
  also have "char_of (nat (16 * (?n div 16) + ?n mod 16)) = c" by simp
  finally show ?thesis using False by (simp add: enc_char_def del: url_decode.simps)
qed

lemma url_decode_encode [simp]: "url_decode (url_encode s) = s"
  by (induction s) (simp_all add: url_encode_def url_decode_enc_char)

lemma hex_char_safe: "0 \<le> d \<Longrightarrow> d < 16 \<Longrightarrow> url_safe (hex_char d)"
  by (drule (1) nibble_cases) (auto simp: hex_char_def url_safe_def)

lemma enc_char_chars: "x \<in> set (enc_char c) \<Longrightarrow> url_safe x \<or> x = CHR ''+'' \<or> x = CHR ''%''"
  by (auto simp: enc_char_def hex_char_safe char_nibbles split: if_splits)

lemma url_encode_no_sep:
  "CHR ''&'' \<notin> set (url_encode s)" "CHR ''='' \<notin> set (url_encode s)" "CHR ''?'' \<notin> set (url_encode s)"
  by (auto simp: url_encode_def url_safe_def dest!: enc_char_chars)

lemma parse_pair_serialize: "parse_pair (url_encode n @ ''='' @ url_encode v) = (n, v)"
proof -
  have "\<forall>c\<in>set (url_encode n). c \<noteq> CHR ''=''" using url_encode_no_sep by metis
  then show ?thesis by (simp add: parse_pair_def)
qed

lemma parse_serialize [simp]: "parse_params (serialize_params ps) = ps"
proof (cases "ps = []")
  case True
  then show ?thesis by (simp add: parse_params_def serialize_params_def)
next
  case False
  let ?f = "\<lambda>(n, v). url_encode n @ ''='' @ url_encode v"
  have "\<forall>x\<in>set (map ?f ps). CHR ''&'' \<notin> set x" using url_encode_no_sep(1) by auto
  with False have "split_char (CHR ''&'') (js_join ''&'' (map ?f ps)) = map ?f ps"
    by (intro split_char_join) auto
  moreover have "filter (\<lambda>p. p \<noteq> []) (map ?f ps) = map ?f ps" by (auto simp: filter_id_conv)
  moreover have "parse_pair (?f p) = p" for p
    by (cases p) (simp only: prod.case parse_pair_serialize)
  ultimately show ?thesis by (simp add: parse_params_def serialize_params_def comp_def)
qed

lemma search_params_with_params [simp]: "search_params (with_params l ps) = ps"
proof (cases "ps = []")
  case True
  then show ?thesis by (simp add: search_params_def with_params_def parse_params_def)
next
  case False
  then show ?thesis by (simp add: search_params_def with_params_def)
qed

lemma with_params_frame [simp]: "base (with_params l ps) = base l" "hash (with_params l ps) = hash l"
  by (simp_all add: with_params_def)

section \<open>The contract of the parameter list\<close>

locale param_store =
  fixes get :: "'p \<Rightarrow> string \<Rightarrow> string option" and put :: "'p \<Rightarrow> string \<Rightarrow> string \<Rightarrow> 'p"
    and del :: "'p \<Rightarrow> string \<Rightarrow> 'p"
  assumes get_put: "get (put p n v) m = (if m = n then Some v else get p m)"
    and get_del: "get (del p n) m = (if m = n then None else get p m)"
begin

text \<open>Writing a list of parameters: each reads back as its last value, the others are untouched.\<close>

lemma get_put_all:
  "get (foldl (\<lambda>p (n, v). put p n v) p nvs) m =
     (case map_of (rev nvs) m of Some v \<Rightarrow> Some v | None \<Rightarrow> get p m)"
proof (induction nvs arbitrary: p)
  case Nil
  then show ?case by simp
next
  case (Cons a nvs)
  then show ?case by (cases a) (auto simp: get_put map_add_def split: option.splits)
qed

end

lemma params_get_set:
  "params_get (params_set ps n v) m = (if m = n then Some v else params_get ps m)"
proof (induction ps)
  case Nil
  then show ?case by (simp add: params_get_def)
next
  case (Cons a ps)
  have "m \<noteq> n \<Longrightarrow> map_of (filter (\<lambda>p. fst p \<noteq> n) ps) m = map_of ps m" by (induction ps) auto
  then show ?case using Cons by (cases a) (auto simp: params_get_def)
qed

lemma params_get_delete:
  "params_get (params_delete ps n) m = (if m = n then None else params_get ps m)"
  by (induction ps) (auto simp: params_get_def params_delete_def)

interpretation query: param_store params_get params_set params_delete
  by unfold_locales (simp_all add: params_get_set params_get_delete)

end
