(* ===== verification/Dashboard_Filters.thy ===== *)
theory Dashboard_Filters
  imports Benchmark_Data Web_Url
begin

text \<open>
  The filter state of the dashboard (\<^verbatim>\<open>components/benchmark-dashboard.tsx\<close>): reading it from and
  writing it to the query string, validating it against the options that exist, the initial
  values of the two state hooks, the options for the selected CPU and test case, and the updater
  that repairs a selection that is no longer available.
\<close>

section \<open>State\<close>

text \<open>
  The three numeric fields may hold undefined: the validation below returns the URL's value, which
  may be missing, when the list of options holds 0.
\<close>

record filter_state =
  f_cpu :: string
  f_testCase :: string
  f_threads :: "jsnum jopt"
  f_workers :: "jsnum jopt"
  f_concurrency :: "jsnum jopt"
  f_http2 :: http2_option
  f_xAxis :: string
  f_metric :: string
  f_visibleServers :: "string list"

text \<open>\<^verbatim>\<open>Partial<FilterState>\<close>\<close>

record partial_filters =
  p_cpu :: "string option"
  p_testCase :: "string option"
  p_threads :: "jsnum option"
  p_workers :: "jsnum option"
  p_concurrency :: "jsnum option"
  p_http2 :: "http2_option option"
  p_xAxis :: "string option"
  p_metric :: "string option"
  p_visibleServers :: "string list option"

definition no_filters :: partial_filters where
  "no_filters = \<lparr>p_cpu = None, p_testCase = None, p_threads = None, p_workers = None,
     p_concurrency = None, p_http2 = None, p_xAxis = None, p_metric = None, p_visibleServers = None\<rparr>"

section \<open>The query string\<close>

text \<open>\<^verbatim>\<open>const v = urlParams.get(n); if (v) \<dots>\<close>\<close>

definition truthy_param :: "params \<Rightarrow> string \<Rightarrow> string option" where
  "truthy_param ps n =
     (case params_get ps n of Some v \<Rightarrow> if v \<noteq> [] then Some v else None | None \<Rightarrow> None)"

definition parse_http2 :: "string \<Rightarrow> http2_option" where
  "parse_http2 s = (if s = ''all'' then All else Http2 (s = ''true''))"

definition parse_filters :: "params \<Rightarrow> partial_filters" where
  "parse_filters ps =
     \<lparr>p_cpu = truthy_param ps ''cpu'',
      p_testCase = truthy_param ps ''testCase'',
      p_threads = map_option js_parseInt (truthy_param ps ''threads''),
      p_workers = map_option js_parseInt (truthy_param ps ''workers''),
      p_concurrency = map_option js_parseInt (truthy_param ps ''concurrency''),
      p_http2 = map_option parse_http2 (truthy_param ps ''http2''),
      p_xAxis = truthy_param ps ''xAxis'',
      p_metric = truthy_param ps ''metric'',
      p_visibleServers =
        map_option (\<lambda>v. filter (\<lambda>s. s \<noteq> []) (split_char (CHR '','') v)) (truthy_param ps ''visibleServers'')\<rparr>"

text \<open>\<open>None\<close> as the location stands for \<^verbatim>\<open>typeof window === "undefined"\<close> (server rendering).\<close>

definition parseUrlParams :: "location option \<Rightarrow> partial_filters option" where
  "parseUrlParams win =
     (case win of None \<Rightarrow> None
      | Some l \<Rightarrow> (let filters = parse_filters (search_params l)
                  in if filters = no_filters then None else Some filters))"

text \<open>\<^verbatim>\<open>x.toString()\<close> on a value that may be undefined.\<close>

definition num_toString :: "jsnum jopt \<Rightarrow> string result" where
  "num_toString v = (case v of Val x \<Rightarrow> Inr (num_to_string x) | _ \<Rightarrow> Inl TypeError)"

fun http2_toString :: "http2_option \<Rightarrow> string" where
  "http2_toString All = ''all''"
| "http2_toString (Http2 b) = (if b then ''true'' else ''false'')"

definition write_filters :: "filter_state \<Rightarrow> params \<Rightarrow> params result" where
  "write_filters f ps =
     bindE (num_toString (f_threads f)) (\<lambda>t.
     bindE (num_toString (f_workers f)) (\<lambda>w.
     bindE (num_toString (f_concurrency f)) (\<lambda>c.
       let ps = foldl (\<lambda>ps (n, v). params_set ps n v) ps
             [(''cpu'', f_cpu f), (''testCase'', f_testCase f), (''threads'', t), (''workers'', w),
              (''concurrency'', c), (''http2'', http2_toString (f_http2 f)), (''xAxis'', f_xAxis f),
              (''metric'', f_metric f)]
       in Inr (if f_visibleServers f \<noteq> []
               then params_set ps ''visibleServers'' (js_join '','' (f_visibleServers f))
               else params_delete ps ''visibleServers''))))"

text \<open>An exception is caught and logged: the location stays as it was.\<close>

definition updateUrlParams :: "filter_state \<Rightarrow> location option \<Rightarrow> location option" where
  "updateUrlParams f win =
     (case win of None \<Rightarrow> None
      | Some l \<Rightarrow> (case write_filters f (search_params l) of
                     Inl _ \<Rightarrow> Some l | Inr ps \<Rightarrow> Some (with_params l ps)))"

section \<open>Validation\<close>

definition x_axes :: "string list" where
  "x_axes = [''concurrency'', ''threads'', ''workers'']"

definition metric_names :: "string list" where
  "metric_names = [''rps'', ''p95_latency'', ''errorRate'']"

text \<open>
  \<^verbatim>\<open>opts.includes(v || "") ? v! : d\<close> for strings. The options come from \<^verbatim>\<open>filter(Boolean)\<close> or are
  literals, so they never hold the empty string and a missing \<open>v\<close> takes the default.
\<close>

definition pick_str :: "string list \<Rightarrow> string option \<Rightarrow> string \<Rightarrow> string" where
  "pick_str opts v d = (case v of Some s \<Rightarrow> if s \<in> set opts then s else d | None \<Rightarrow> d)"

text \<open>\<^verbatim>\<open>opts.includes(v || 0) ? v! : d\<close> for numbers.\<close>

definition pick_num :: "jsnum list \<Rightarrow> jsnum option \<Rightarrow> jsnum \<Rightarrow> jsnum jopt" where
  "pick_num opts v d =
     (let w = (case v of Some x \<Rightarrow> if num_truthy x then x else Fin 0 | None \<Rightarrow> Fin 0)
      in if w \<in> set opts then (case v of Some x \<Rightarrow> Val x | None \<Rightarrow> Undef) else Val d)"

definition validateAndSanitizeFilters :: "filter_options \<Rightarrow> partial_filters \<Rightarrow> filter_state" where
  "validateAndSanitizeFilters opts u =
     \<lparr>f_cpu = pick_str (fo_cpus opts) (p_cpu u) (first_or (\<lambda>s. s \<noteq> []) (fo_cpus opts) ''''),
      f_testCase = pick_str (fo_testCases opts) (p_testCase u) (first_or (\<lambda>s. s \<noteq> []) (fo_testCases opts) ''''),
      f_threads = pick_num (fo_threads opts) (p_threads u) (first_or num_truthy (fo_threads opts) (Fin 1)),
      f_workers = pick_num (fo_workers opts) (p_workers u) (first_or num_truthy (fo_workers opts) (Fin 1)),
      f_concurrency = pick_num (fo_concurrencyLevels opts) (p_concurrency u)
        (first_or num_truthy (fo_concurrencyLevels opts) (Fin 10)),
      f_http2 = (case p_http2 u of Some h \<Rightarrow> if h \<in> set (fo_http2Options opts) then h else All | None \<Rightarrow> All),
      f_xAxis = pick_str x_axes (p_xAxis u) ''concurrency'',
      f_metric = pick_str metric_names (p_metric u) ''rps'',
      f_visibleServers = (case p_visibleServers u of
          Some vs \<Rightarrow> filter (\<lambda>s. s \<in> set (fo_servers opts)) vs | None \<Rightarrow> fo_servers opts)\<rparr>"

section \<open>Initial state\<close>

definition default_filters :: "filter_options \<Rightarrow> filter_state" where
  "default_filters opts =
     (let preferredTestCase = (if ''hello_world'' \<in> set (fo_testCases opts) then ''hello_world''
          else first_or (\<lambda>s. s \<noteq> []) (fo_testCases opts) '''')
      in \<lparr>f_cpu = first_or (\<lambda>s. s \<noteq> []) (fo_cpus opts) '''',
          f_testCase = preferredTestCase,
          f_threads = Val (first_or num_truthy (fo_threads opts) (Fin 1)),
          f_workers = Val (first_or num_truthy (fo_workers opts) (Fin 1)),
          f_concurrency = Val (first_or num_truthy (fo_concurrencyLevels opts) (Fin 10)),
          f_http2 = All, f_xAxis = ''concurrency'', f_metric = ''rps'',
          f_visibleServers = fo_servers opts\<rparr>)"

definition initial_filters :: "filter_options \<Rightarrow> location option \<Rightarrow> filter_state" where
  "initial_filters opts win =
     (case parseUrlParams win of
        Some u \<Rightarrow> if fo_cpus opts \<noteq> [] then validateAndSanitizeFilters opts u else default_filters opts
      | None \<Rightarrow> default_filters opts)"

definition fill_visible :: "string list \<Rightarrow> (string \<Rightarrow> bool) \<Rightarrow> bool jsobj \<Rightarrow> bool jsobj" where
  "fill_visible servers shown m = foldl (\<lambda>m s. obj_set m s (shown s)) m servers"

text \<open>The object that both the state initialiser and the load effect build.\<close>

definition visible_from_url :: "string list \<Rightarrow> partial_filters option \<Rightarrow> bool jsobj" where
  "visible_from_url servers u =
     (let initialVisibleServers = fill_visible servers (\<lambda>_. True) []
      in case u of
           Some p \<Rightarrow> (case p_visibleServers p of
               Some vs \<Rightarrow> fill_visible servers (\<lambda>s. s \<in> set vs) initialVisibleServers
             | None \<Rightarrow> initialVisibleServers)
         | None \<Rightarrow> initialVisibleServers)"

definition initial_visibleServers :: "filter_options \<Rightarrow> location option \<Rightarrow> bool jsobj" where
  "initial_visibleServers opts win = visible_from_url (fo_servers opts) (parseUrlParams win)"

section \<open>Options for the selected CPU and test case\<close>

definition cpuFilteredData :: "tagged_result list \<Rightarrow> string \<Rightarrow> tagged_result list" where
  "cpuFilteredData items c = filter (\<lambda>i. cpu i = Val c) items"

definition filterOptions :: "string list \<Rightarrow> tagged_result list \<Rightarrow> string \<Rightarrow> string \<Rightarrow> filter_options" where
  "filterOptions cpus items c t =
     (let cpuFiltered = cpuFilteredData items c;
          testCaseFiltered = filter (\<lambda>i. test_case i = Val t) cpuFiltered
      in \<lparr>fo_cpus = cpus,
          fo_testCases = str_options test_case cpuFiltered,
          fo_servers = str_options server testCaseFiltered,
          fo_threads = num_options threads testCaseFiltered,
          fo_workers = num_options workers testCaseFiltered,
          fo_concurrencyLevels = num_options concurrency testCaseFiltered,
          fo_http2Options = bool_options testCaseFiltered\<rparr>)"

fun includes_num :: "jsnum list \<Rightarrow> jsnum jopt \<Rightarrow> bool" where
  "includes_num opts (Val x) = (x \<in> set opts)"
| "includes_num opts _ = False"

text \<open>The updater of the repair effect: \<^verbatim>\<open>setFilters((prev) => newFilters)\<close>.\<close>

definition repair_filters :: "filter_options \<Rightarrow> filter_state \<Rightarrow> filter_state" where
  "repair_filters opts prev =
     prev\<lparr>f_testCase := (if f_testCase prev \<notin> set (fo_testCases opts)
            then first_or (\<lambda>s. s \<noteq> []) (fo_testCases opts) '''' else f_testCase prev),
          f_threads := (if f_xAxis prev \<noteq> ''threads'' \<and> \<not> includes_num (fo_threads opts) (f_threads prev)
            then Val (first_or num_truthy (fo_threads opts) (Fin 1)) else f_threads prev),
          f_workers := (if f_xAxis prev \<noteq> ''workers'' \<and> \<not> includes_num (fo_workers opts) (f_workers prev)
            then Val (first_or num_truthy (fo_workers opts) (Fin 1)) else f_workers prev),
          f_concurrency := (if f_xAxis prev \<noteq> ''concurrency''
              \<and> \<not> includes_num (fo_concurrencyLevels opts) (f_concurrency prev)
            then Val (first_or num_truthy (fo_concurrencyLevels opts) (Fin 10)) else f_concurrency prev),
          f_http2 := (if f_http2 prev \<notin> set (fo_http2Options opts)
            then first_or (\<lambda>h. h \<noteq> Http2 False) (fo_http2Options opts) All else f_http2 prev)\<rparr>"

section \<open>Changing a filter\<close>

datatype filter_update =
    UCpu string | UTestCase string | UThreads jsnum | UWorkers jsnum | UConcurrency jsnum
  | UHttp2 http2_option | UXAxis string | UMetric string

fun handleFilterChange :: "filter_update \<Rightarrow> filter_state \<Rightarrow> filter_state" where
  "handleFilterChange (UCpu v) f = f\<lparr>f_cpu := v\<rparr>"
| "handleFilterChange (UTestCase v) f = f\<lparr>f_testCase := v\<rparr>"
| "handleFilterChange (UThreads v) f = f\<lparr>f_threads := Val v\<rparr>"
| "handleFilterChange (UWorkers v) f = f\<lparr>f_workers := Val v\<rparr>"
| "handleFilterChange (UConcurrency v) f = f\<lparr>f_concurrency := Val v\<rparr>"
| "handleFilterChange (UHttp2 v) f = f\<lparr>f_http2 := v\<rparr>"
| "handleFilterChange (UXAxis v) f = f\<lparr>f_xAxis := v\<rparr>"
| "handleFilterChange (UMetric v) f = f\<lparr>f_metric := v\<rparr>"

section \<open>Round trip through the query string\<close>

definition whole_num :: "jsnum jopt \<Rightarrow> bool" where
  "whole_num v = (case v of Val (Fin q) \<Rightarrow> of_int \<lfloor>q\<rfloor> = q \<and> \<bar>q\<bar> \<le> 2 ^ 53 | _ \<Rightarrow> False)"

text \<open>The filter states that a link can carry.\<close>

definition shareable :: "filter_state \<Rightarrow> bool" where
  "shareable f \<longleftrightarrow>
     f_cpu f \<noteq> [] \<and> f_testCase f \<noteq> [] \<and> f_xAxis f \<noteq> [] \<and> f_metric f \<noteq> []
     \<and> whole_num (f_threads f) \<and> whole_num (f_workers f) \<and> whole_num (f_concurrency f)
     \<and> list_all (\<lambda>s. s \<noteq> [] \<and> CHR '','' \<notin> set s) (f_visibleServers f)"

fun the_val :: "'a jopt \<Rightarrow> 'a option" where
  "the_val (Val x) = Some x"
| "the_val _ = None"

text \<open>The partial state that a reader of the link finds.\<close>

definition url_form :: "filter_state \<Rightarrow> partial_filters" where
  "url_form f =
     \<lparr>p_cpu = Some (f_cpu f), p_testCase = Some (f_testCase f), p_threads = the_val (f_threads f),
      p_workers = the_val (f_workers f), p_concurrency = the_val (f_concurrency f),
      p_http2 = Some (f_http2 f), p_xAxis = Some (f_xAxis f), p_metric = Some (f_metric f),
      p_visibleServers = (if f_visibleServers f = [] then None else Some (f_visibleServers f))\<rparr>"

lemma whole_numE:
  assumes "whole_num v"
  obtains n where "v = Val (num_of_int n)" "\<bar>n\<bar> \<le> 2 ^ 53"
proof -
  from assms obtain q where q: "v = Val (Fin q)" "of_int \<lfloor>q\<rfloor> = q" "\<bar>q\<bar> \<le> 2 ^ 53"
    by (auto simp: whole_num_def split: jopt.splits jsnum.splits)
  have "of_int \<bar>\<lfloor>q\<rfloor>\<bar> \<le> (of_int (2 ^ 53) :: rat)" using q(2,3) by (auto simp del: of_int_floor_cancel)
  then have "\<bar>\<lfloor>q\<rfloor>\<bar> \<le> 2 ^ 53" by (simp only: of_int_le_iff)
  then show thesis using that [of "\<lfloor>q\<rfloor>"] q by simp
qed

lemma whole_num_toString:
  assumes "whole_num v"
  shows "num_toString v = Inr (num_key v) \<and> num_key v \<noteq> [] \<and> the_val v = Some (js_parseInt (num_key v))"
  using assms by (elim whole_numE) (auto simp: num_toString_def num_to_string_int js_parseInt_int_str)

lemma parse_http2_toString [simp]: "parse_http2 (http2_toString h) = h"
  by (cases h) (auto simp: parse_http2_def)

lemma http2_toString_ne [simp]: "http2_toString h \<noteq> []"
  by (cases h) auto

lemma js_join_ne: "xs \<noteq> [] \<Longrightarrow> \<forall>x\<in>set xs. x \<noteq> [] \<Longrightarrow> js_join sep xs \<noteq> []"
  by (cases xs; cases "tl xs") auto

text \<open>The names of the parameters that the dashboard owns.\<close>

definition filter_names :: "string list" where
  "filter_names = [''cpu'', ''testCase'', ''threads'', ''workers'', ''concurrency'', ''http2'', ''xAxis'', ''metric'',
     ''visibleServers'']"

text \<open>The parameters that hold a filter state, and the states that can be printed.\<close>

definition params_show :: "filter_state \<Rightarrow> params \<Rightarrow> bool" where
  "params_show f ps \<longleftrightarrow>
     params_get ps ''cpu'' = Some (f_cpu f) \<and> params_get ps ''testCase'' = Some (f_testCase f)
     \<and> params_get ps ''threads'' = Some (num_key (f_threads f))
     \<and> params_get ps ''workers'' = Some (num_key (f_workers f))
     \<and> params_get ps ''concurrency'' = Some (num_key (f_concurrency f))
     \<and> params_get ps ''http2'' = Some (http2_toString (f_http2 f))
     \<and> params_get ps ''xAxis'' = Some (f_xAxis f) \<and> params_get ps ''metric'' = Some (f_metric f)
     \<and> params_get ps ''visibleServers'' =
         (if f_visibleServers f = [] then None else Some (js_join '','' (f_visibleServers f)))"

definition printable :: "filter_state \<Rightarrow> bool" where
  "printable f \<longleftrightarrow>
     \<not> jopt_nullish (f_threads f) \<and> \<not> jopt_nullish (f_workers f) \<and> \<not> jopt_nullish (f_concurrency f)"

lemma num_toString_val: "\<not> jopt_nullish v \<Longrightarrow> num_toString v = Inr (num_key v)"
  by (cases v) (simp_all add: num_toString_def)

lemma write_filters_shows:
  assumes "printable f"
  shows "\<exists>ps'. write_filters f ps = Inr ps' \<and> params_show f ps'
     \<and> (\<forall>n. n \<notin> set filter_names \<longrightarrow> params_get ps' n = params_get ps n)"
  using assms
  by (simp add: write_filters_def printable_def num_toString_val Let_def params_show_def filter_names_def
      params_get_set params_get_delete)

lemma shareable_printable: "shareable f \<Longrightarrow> printable f"
  by (auto simp: shareable_def printable_def elim!: whole_numE)

lemma visible_param:
  assumes "\<forall>s\<in>set vs. s \<noteq> [] \<and> CHR '','' \<notin> set s" "vs \<noteq> []"
  shows "js_join '','' vs \<noteq> [] \<and> filter (\<lambda>s. s \<noteq> []) (split_char (CHR '','') (js_join '','' vs)) = vs"
  using assms split_char_join [of vs "CHR '',''"] js_join_ne [of vs "'',''"] by (simp add: filter_id_conv)

lemma parse_shown:
  assumes "shareable f" "params_show f ps"
  shows "parse_filters ps = url_form f"
  using assms visible_param [of "f_visibleServers f"]
  by (simp add: parse_filters_def url_form_def truthy_param_def shareable_def params_show_def list_all_iff
      whole_num_toString)

lemma url_form_some [simp]: "url_form f \<noteq> no_filters"
  by (simp add: url_form_def no_filters_def)

lemma parseUrlParams_shown:
  "shareable f \<Longrightarrow> params_show f (search_params l) \<Longrightarrow> parseUrlParams (Some l) = Some (url_form f)"
  by (simp add: parseUrlParams_def parse_shown)

lemma updateUrlParams_shows:
  assumes "printable f"
  shows "\<exists>l'. updateUrlParams f (Some l) = Some l' \<and> params_show f (search_params l')
     \<and> base l' = base l \<and> hash l' = hash l
     \<and> (\<forall>n. n \<notin> set filter_names \<longrightarrow> params_get (search_params l') n = params_get (search_params l) n)"
proof -
  obtain ps' where "write_filters f (search_params l) = Inr ps'" "params_show f ps'"
    "\<forall>n. n \<notin> set filter_names \<longrightarrow> params_get ps' n = params_get (search_params l) n"
    using write_filters_shows [OF assms] by blast
  then show ?thesis by (simp add: updateUrlParams_def)
qed

text \<open>
  C1 (round trip). A shareable filter state written to the query string of any location is read
  back field by field; a parameter that belongs to someone else keeps its value, and so do the
  path and the fragment.
\<close>

theorem url_roundtrip:
  assumes "shareable f"
  shows "\<exists>l'. updateUrlParams f (Some l) = Some l' \<and> parseUrlParams (Some l') = Some (url_form f)
     \<and> base l' = base l \<and> hash l' = hash l
     \<and> (\<forall>n. n \<notin> set filter_names \<longrightarrow> params_get (search_params l') n = params_get (search_params l) n)"
  using updateUrlParams_shows [OF shareable_printable [OF assms], of l] parseUrlParams_shown [OF assms]
  by blast

text \<open>A concrete state for the witnesses.\<close>

definition sample_filters :: filter_state where
  "sample_filters =
     \<lparr>f_cpu = ''AMD Ryzen'', f_testCase = ''hello_world'', f_threads = Val (Fin 1), f_workers = Val (Fin 2),
      f_concurrency = Val (Fin 10), f_http2 = Http2 True, f_xAxis = ''concurrency'', f_metric = ''rps'',
      f_visibleServers = [''itsi'', ''puma__caddy'']\<rparr>"

lemma sample_shareable: "shareable sample_filters"
  by (simp add: shareable_def sample_filters_def whole_num_def)

theorem url_roundtrip_witness:
  "shareable sample_filters
   \<and> (\<exists>l'. updateUrlParams sample_filters (Some \<lparr>base = ''/b'', search = ''?tab=2&cpu=old'', hash = ''#x''\<rparr>) = Some l'
        \<and> parseUrlParams (Some l') = Some (url_form sample_filters) \<and> base l' = ''/b'')"
  using url_roundtrip [OF sample_shareable, of "\<lparr>base = ''/b'', search = ''?tab=2&cpu=old'', hash = ''#x''\<rparr>"]
    sample_shareable by auto

section \<open>Restoring a shared state\<close>

text \<open>Every selection of the state is one of the options.\<close>

definition available :: "filter_options \<Rightarrow> filter_state \<Rightarrow> bool" where
  "available opts f \<longleftrightarrow>
     f_cpu f \<in> set (fo_cpus opts) \<and> f_testCase f \<in> set (fo_testCases opts)
     \<and> includes_num (fo_threads opts) (f_threads f) \<and> includes_num (fo_workers opts) (f_workers f)
     \<and> includes_num (fo_concurrencyLevels opts) (f_concurrency f)
     \<and> f_http2 f \<in> set (fo_http2Options opts) \<and> f_xAxis f \<in> set x_axes \<and> f_metric f \<in> set metric_names
     \<and> list_all (\<lambda>s. s \<in> set (fo_servers opts)) (f_visibleServers f)"

lemma includes_numE:
  assumes "includes_num xs v" obtains x where "v = Val x" "x \<in> set xs"
  using assms by (cases v) auto

lemma pick_num_the_val: "includes_num xs v \<Longrightarrow> whole_num v \<Longrightarrow> pick_num xs (the_val v) d = v"
  by (elim includes_numE whole_numE) (auto simp: pick_num_def num_truthy_def)

lemma validate_url_form:
  assumes "available opts f" "whole_num (f_threads f)" "whole_num (f_workers f)" "whole_num (f_concurrency f)"
  shows "validateAndSanitizeFilters opts (url_form f) =
     f\<lparr>f_visibleServers := if f_visibleServers f = [] then fo_servers opts else f_visibleServers f\<rparr>"
  using assms
  by (simp add: validateAndSanitizeFilters_def url_form_def available_def pick_num_the_val pick_str_def
      list_all_iff filter_id_conv)

lemma initial_after_write:
  assumes "shareable f" "available opts f"
  shows "initial_filters opts (updateUrlParams f (Some l)) =
     f\<lparr>f_visibleServers := if f_visibleServers f = [] then fo_servers opts else f_visibleServers f\<rparr>"
proof -
  obtain l' where "updateUrlParams f (Some l) = Some l'" "params_show f (search_params l')"
    using updateUrlParams_shows [OF shareable_printable [OF assms(1)]] by blast
  moreover have "fo_cpus opts \<noteq> []" using assms(2) by (auto simp: available_def)
  ultimately show ?thesis using validate_url_form [OF assms(2)] assms(1)
    by (simp add: initial_filters_def parseUrlParams_shown shareable_def)
qed

text \<open>
  C2 (sharing a link restores the view). When every selection exists in the data of whoever opens
  the link and at least one server is shown, the state initialised from the written URL is the
  state that was written.
\<close>

theorem url_restores:
  assumes "shareable f" "available opts f" "f_visibleServers f \<noteq> []"
  shows "initial_filters opts (updateUrlParams f (Some l)) = f"
  using assms by (simp add: initial_after_write)

definition sample_options :: filter_options where
  "sample_options =
     \<lparr>fo_cpus = [''AMD Ryzen'', ''M1''], fo_testCases = [''hello_world'', ''chunked''],
      fo_servers = [''puma__caddy'', ''itsi'', ''falcon''], fo_threads = [Fin 1, Fin 10],
      fo_workers = [Fin 1, Fin 2], fo_concurrencyLevels = [Fin 10, Fin 50],
      fo_http2Options = [All, Http2 True, Http2 False]\<rparr>"

lemma sample_available: "available sample_options sample_filters"
  by (simp add: available_def sample_options_def sample_filters_def x_axes_def metric_names_def)

theorem url_restores_witness:
  "shareable sample_filters \<and> available sample_options sample_filters
   \<and> initial_filters sample_options
       (updateUrlParams sample_filters (Some \<lparr>base = ''/b'', search = [], hash = []\<rparr>)) = sample_filters"
  using url_restores [OF sample_shareable sample_available] sample_shareable sample_available
  by (simp add: sample_filters_def)

text \<open>
  C37 (hiding every server is not shareable). With no server shown the parameter is deleted, and
  whoever opens the link gets the same selections with every server shown.
\<close>

theorem url_loses_empty_selection:
  assumes "shareable f" "available opts f" "f_visibleServers f = []"
  shows "initial_filters opts (updateUrlParams f (Some l)) = f\<lparr>f_visibleServers := fo_servers opts\<rparr>"
  using assms by (simp add: initial_after_write)

theorem url_loses_empty_selection_witness:
  "initial_filters sample_options
     (updateUrlParams (sample_filters\<lparr>f_visibleServers := []\<rparr>) (Some \<lparr>base = ''/b'', search = [], hash = []\<rparr>))
   = sample_filters\<lparr>f_visibleServers := [''puma__caddy'', ''itsi'', ''falcon'']\<rparr>"
  using url_loses_empty_selection [of "sample_filters\<lparr>f_visibleServers := []\<rparr>" sample_options]
    sample_shareable sample_available
  by (simp add: shareable_def available_def sample_options_def)

section \<open>Validation\<close>

text \<open>
  Options from which every selection can be made: each list offers something and no offered value
  is falsy, which holds when thread, worker and concurrency counts are positive.
\<close>

definition options_ok :: "filter_options \<Rightarrow> bool" where
  "options_ok opts \<longleftrightarrow>
     fo_testCases opts \<noteq> [] \<and> list_all (\<lambda>s. s \<noteq> []) (fo_testCases opts)
     \<and> fo_threads opts \<noteq> [] \<and> list_all num_truthy (fo_threads opts)
     \<and> fo_workers opts \<noteq> [] \<and> list_all num_truthy (fo_workers opts)
     \<and> fo_concurrencyLevels opts \<noteq> [] \<and> list_all num_truthy (fo_concurrencyLevels opts)
     \<and> All \<in> set (fo_http2Options opts)"

lemma first_or_all: "xs \<noteq> [] \<Longrightarrow> list_all truthy xs \<Longrightarrow> first_or truthy xs d \<in> set xs"
  by (simp add: first_or_in list_all_iff)

lemma pick_str_in: "d \<in> set xs \<Longrightarrow> pick_str xs v d \<in> set xs"
  by (auto simp: pick_str_def split: option.splits)

lemma pick_num_in: "list_all num_truthy xs \<Longrightarrow> d \<in> set xs \<Longrightarrow> includes_num xs (pick_num xs v d)"
  by (auto simp: pick_num_def list_all_iff num_truthy_def split: option.splits)

lemma default_options_available:
  assumes "options_ok opts" "fo_cpus opts \<noteq> []" "list_all (\<lambda>s. s \<noteq> []) (fo_cpus opts)"
  shows "available opts (default_filters opts)"
  using assms by (simp add: available_def default_filters_def Let_def options_ok_def first_or_all x_axes_def metric_names_def list_all_iff)

lemma validate_options:
  assumes "options_ok opts" "fo_cpus opts \<noteq> []" "list_all (\<lambda>s. s \<noteq> []) (fo_cpus opts)"
  shows "available opts (validateAndSanitizeFilters opts u)"
proof -
  note ok = assms(1) [unfolded options_ok_def]
  have "first_or (\<lambda>s. s \<noteq> []) (fo_cpus opts) '''' \<in> set (fo_cpus opts)"
    "first_or (\<lambda>s. s \<noteq> []) (fo_testCases opts) '''' \<in> set (fo_testCases opts)"
    "first_or num_truthy (fo_threads opts) (Fin 1) \<in> set (fo_threads opts)"
    "first_or num_truthy (fo_workers opts) (Fin 1) \<in> set (fo_workers opts)"
    "first_or num_truthy (fo_concurrencyLevels opts) (Fin 10) \<in> set (fo_concurrencyLevels opts)"
    using ok assms(2,3) by (simp_all add: first_or_all)
  moreover have "pick_str x_axes (p_xAxis u) ''concurrency'' \<in> set x_axes"
    "pick_str metric_names (p_metric u) ''rps'' \<in> set metric_names"
    by (rule pick_str_in, simp add: x_axes_def metric_names_def)+
  ultimately show ?thesis using ok
    by (simp add: available_def validateAndSanitizeFilters_def pick_str_in pick_num_in list_all_iff
        split: option.split)
qed

text \<open>
  C11 (validation is sound). Whatever the query string says, validation against such options
  returns a state in which every selection is available.
\<close>

theorem validate_available:
  assumes "options_ok opts" "fo_cpus opts \<noteq> []" "list_all (\<lambda>s. s \<noteq> []) (fo_cpus opts)"
  shows "available opts (validateAndSanitizeFilters opts u)"
  by (rule validate_options [OF assms])

lemma sample_options_ok: "options_ok sample_options"
  by (simp add: options_ok_def sample_options_def num_truthy_def)

theorem validate_available_witness:
  "options_ok sample_options
   \<and> available sample_options (validateAndSanitizeFilters sample_options
       (no_filters\<lparr>p_cpu := Some ''<script>'', p_threads := Some NaN, p_visibleServers := Some [''itsi'', ''nobody'']\<rparr>))"
  using validate_available [of sample_options] sample_options_ok by (simp add: sample_options_def)

text \<open>
  A falsy option breaks validation: if 0 is an option for the number of threads and the URL
  does not name one, the validated selection is undefined; writing it throws, which leaves the
  query string as it was.
\<close>

theorem validate_zero_option:
  assumes "Fin 0 \<in> set (fo_threads opts)" "p_threads u = None"
  shows "f_threads (validateAndSanitizeFilters opts u) = Undef
     \<and> write_filters (validateAndSanitizeFilters opts u) ps = Inl TypeError
     \<and> updateUrlParams (validateAndSanitizeFilters opts u) win = win"
  using assms
  by (auto simp: validateAndSanitizeFilters_def pick_num_def write_filters_def num_toString_def
      updateUrlParams_def split: option.splits)

theorem validate_zero_option_witness:
  "f_threads (validateAndSanitizeFilters (sample_options\<lparr>fo_threads := [Fin 0, Fin 1]\<rparr>)
     (no_filters\<lparr>p_cpu := Some ''M1''\<rparr>)) = Undef"
  using validate_zero_option [of "sample_options\<lparr>fo_threads := [Fin 0, Fin 1]\<rparr>" "no_filters\<lparr>p_cpu := Some ''M1''\<rparr>"]
  by (simp add: no_filters_def)

section \<open>Repair\<close>

text \<open>
  The selections that the chart filters by are among the options; the dimension shown on the
  x-axis is not filtered by and may hold anything.
\<close>

definition selection_ok :: "filter_options \<Rightarrow> filter_state \<Rightarrow> bool" where
  "selection_ok opts f \<longleftrightarrow>
     f_testCase f \<in> set (fo_testCases opts)
     \<and> (f_xAxis f = ''threads'' \<or> includes_num (fo_threads opts) (f_threads f))
     \<and> (f_xAxis f = ''workers'' \<or> includes_num (fo_workers opts) (f_workers f))
     \<and> (f_xAxis f = ''concurrency'' \<or> includes_num (fo_concurrencyLevels opts) (f_concurrency f))
     \<and> f_http2 f \<in> set (fo_http2Options opts)"

lemma repair_fixpoint: "selection_ok opts f \<Longrightarrow> repair_filters opts f = f"
  by (auto simp: repair_filters_def selection_ok_def)

lemma repair_ok:
  assumes "options_ok opts" shows "selection_ok opts (repair_filters opts f)"
proof -
  have "first_or (\<lambda>s. s \<noteq> []) (fo_testCases opts) '''' \<in> set (fo_testCases opts)"
    "first_or num_truthy (fo_threads opts) (Fin 1) \<in> set (fo_threads opts)"
    "first_or num_truthy (fo_workers opts) (Fin 1) \<in> set (fo_workers opts)"
    "first_or num_truthy (fo_concurrencyLevels opts) (Fin 10) \<in> set (fo_concurrencyLevels opts)"
    "first_or (\<lambda>h. h \<noteq> Http2 False) (fo_http2Options opts) All \<in> set (fo_http2Options opts)"
    using assms first_or_cases [of "\<lambda>h. h \<noteq> Http2 False" "fo_http2Options opts" All]
    by (auto simp: options_ok_def intro: first_or_all)
  then show ?thesis by (simp add: repair_filters_def selection_ok_def)
qed

lemma repair_idem [simp]: "repair_filters opts (repair_filters opts f) = repair_filters opts f"
  using first_or_cases [of "\<lambda>h. h \<noteq> Http2 False" "fo_http2Options opts" All]
  by (auto simp: repair_filters_def)

lemma repair_frame [simp]:
  "f_cpu (repair_filters opts f) = f_cpu f" "f_xAxis (repair_filters opts f) = f_xAxis f"
  "f_metric (repair_filters opts f) = f_metric f"
  "f_visibleServers (repair_filters opts f) = f_visibleServers f"
  by (simp_all add: repair_filters_def)



end
