(* ===== verification/Dashboard_Chart.thy ===== *)
theory Dashboard_Chart
  imports Dashboard_Filters
begin

text \<open>
  The derived values of \<^verbatim>\<open>components/benchmark-dashboard.tsx\<close>: server colours, grouped test cases
  and the filtered results. Each is a memoised
  pure function of the data and the state; those that can throw return a \<open>result\<close>.

  \<^verbatim>\<open>String.prototype.localeCompare\<close> depends on the host's locale data: it is the parameter
  \<open>localeCompare\<close> (negative, zero or positive) of the sorts that call it.
\<close>

section \<open>Names and colours\<close>

definition formatServerName :: "string jopt \<Rightarrow> string result" where
  "formatServerName serverName = (case serverName of Val s \<Rightarrow> Inr (replace_uu s) | _ \<Rightarrow> Inl TypeError)"

definition itsiColor :: string where
  "itsiColor = ''#ff7f0e''"

definition palette :: "string list" where
  "palette = [''#1f77b4'', ''#2ca02c'', ''#d62728'', ''#9467bd'', ''#8c564b'', ''#e377c2'', ''#7f7f7f'',
     ''#bcbd22'', ''#17becf'', ''#393b79'', ''#a55194'']"

definition serverColors :: "string list \<Rightarrow> string jsobj" where
  "serverColors servers =
     (let colorMap = (if ''itsi'' \<in> set servers then obj_set [] ''itsi'' itsiColor else []);
          rest = remove1 ''itsi'' servers
      in foldl (\<lambda>m (index, s). obj_set m s (palette ! (index mod length palette))) colorMap
           (enumerate 0 rest))"

text \<open>The truth value of \<^verbatim>\<open>visibleServers[k]\<close>; an inherited property is a function or object.\<close>

fun truthy_slot :: "bool slot \<Rightarrow> bool" where
  "truthy_slot (Own b) = b"
| "truthy_slot Inherited = True"
| "truthy_slot Absent = False"

section \<open>Grouped test cases\<close>

definition add_test :: "string list jsobj \<Rightarrow> tagged_result \<Rightarrow> string list jsobj result" where
  "add_test groupedTests item =
     (if \<not> truthy_str (group item) \<or> \<not> truthy_str (test_case item) then Inr groupedTests
      else let g = str_key (group item); t = str_key (test_case item)
           in case obj_get groupedTests g of
                Absent \<Rightarrow> Inr (obj_set groupedTests g [t])
              | Own ts \<Rightarrow> Inr (if t \<in> set ts then groupedTests else obj_set groupedTests g (ts @ [t]))
              | Inherited \<Rightarrow> Inl TypeError)"

definition group_after :: "(string \<Rightarrow> string \<Rightarrow> int) \<Rightarrow> string \<Rightarrow> string \<Rightarrow> bool" where
  "group_after localeCompare a b =
     (if a = ''rack'' then False else if b = ''rack'' then True else 0 < localeCompare a b)"

definition groupedTestCases ::
  "(string \<Rightarrow> string \<Rightarrow> int) \<Rightarrow> tagged_result list \<Rightarrow> string \<Rightarrow> (string list jsobj \<times> string list) result" where
  "groupedTestCases localeCompare items c =
     bindE (foldE add_test [] (cpuFilteredData items c)) (\<lambda>groupedTests.
       let groupedTests = map (\<lambda>(g, ts). (g, sort ts)) groupedTests
       in Inr (groupedTests, js_sort (group_after localeCompare) (obj_keys groupedTests)))"

section \<open>Filtered results\<close>

text \<open>\<^verbatim>\<open>===\<close> on numbers that may be undefined or null\<close>

fun num_strict_eq :: "jsnum jopt \<Rightarrow> jsnum jopt \<Rightarrow> bool" where
  "num_strict_eq (Val x) (Val y) = num_eq x y"
| "num_strict_eq Undef Undef = True"
| "num_strict_eq Null Null = True"
| "num_strict_eq _ _ = False"

definition keep_item :: "filter_state \<Rightarrow> tagged_result \<Rightarrow> bool" where
  "keep_item f item =
     (if cpu item \<noteq> Val (f_cpu f) then False
      else if test_case item \<noteq> Val (f_testCase f) then False
      else if f_xAxis f \<noteq> ''threads'' \<and> \<not> num_strict_eq (threads item) (f_threads f) then False
      else if f_xAxis f \<noteq> ''workers'' \<and> \<not> num_strict_eq (workers item) (f_workers f) then False
      else if f_xAxis f \<noteq> ''concurrency'' \<and> \<not> num_strict_eq (concurrency item) (f_concurrency f) then False
      else case f_http2 f of All \<Rightarrow> True | Http2 b \<Rightarrow> http2 item = Val b)"

definition filteredData :: "tagged_result list \<Rightarrow> filter_state \<Rightarrow> tagged_result list" where
  "filteredData items f = filter (keep_item f) items"

section \<open>Colours\<close>

text \<open>The colours as assignments in order: the servers other than itsi by position.\<close>

definition color_pairs :: "string list \<Rightarrow> (string \<times> string) list" where
  "color_pairs rest = map (\<lambda>(i, s). (s, palette ! (i mod length palette))) (enumerate 0 rest)"

lemma serverColors_pairs:
  "serverColors servers =
     foldl (\<lambda>m (s, c). obj_set m s c) (if ''itsi'' \<in> set servers then obj_set [] ''itsi'' itsiColor else [])
       (color_pairs (remove1 ''itsi'' servers))"
  by (simp add: serverColors_def color_pairs_def foldl_map Let_def case_prod_unfold)

lemma fst_color_pairs [simp]: "map fst (color_pairs rest) = rest"
  by (simp add: color_pairs_def case_prod_beta comp_def)

lemma color_pairs_nth:
  "i < length rest \<Longrightarrow> color_pairs rest ! i = (rest ! i, palette ! (i mod length palette))"
  by (simp add: color_pairs_def nth_enumerate_eq)

lemma length_color_pairs [simp]: "length (color_pairs rest) = length rest"
  by (simp add: color_pairs_def)

lemma serverColors_nth:
  assumes "distinct servers" "\<forall>s\<in>set servers. plain_key s" "i < length (remove1 ''itsi'' servers)"
  shows "obj_get (serverColors servers) (remove1 ''itsi'' servers ! i) = Own (palette ! (i mod length palette))"
proof -
  let ?rest = "remove1 ''itsi'' servers"
  have dist: "distinct (map fst (color_pairs ?rest))" using assms(1) by simp
  have "(?rest ! i, palette ! (i mod length palette)) \<in> set (color_pairs ?rest)"
    using assms(3) by (metis color_pairs_nth length_color_pairs nth_mem)
  then have "map_of (rev (color_pairs ?rest)) (?rest ! i) = Some (palette ! (i mod length palette))"
    using dist by (simp add: map_of_rev_distinct map_of_eq_Some_iff)
  moreover have "plain_key (?rest ! i)" using assms(2,3) by (meson notin_set_remove1 nth_mem)
  ultimately show ?thesis unfolding serverColors_pairs by (simp add: obj.get_put_all)
qed

lemma serverColors_itsi:
  assumes "distinct servers" "''itsi'' \<in> set servers"
  shows "obj_get (serverColors servers) ''itsi'' = Own itsiColor"
proof -
  have "''itsi'' \<notin> set (remove1 ''itsi'' servers)" using assms(1) by simp
  then have "map_of (rev (color_pairs (remove1 ''itsi'' servers))) ''itsi'' = None"
    by (simp add: map_of_eq_None_iff rev_map [symmetric] image_set del: set_map) 
  then show ?thesis unfolding serverColors_pairs
    using assms(2) by (simp add: obj.get_put_all plain_key_def proto_names_def obj_get_set)
qed

lemma serverColors_other:
  assumes "distinct servers" "\<forall>s\<in>set servers. plain_key s" "s \<in> set servers" "s \<noteq> ''itsi''"
  obtains i where "i < length (remove1 ''itsi'' servers)" "remove1 ''itsi'' servers ! i = s"
    "obj_get (serverColors servers) s = Own (palette ! (i mod length palette))"
proof -
  have "s \<in> set (remove1 ''itsi'' servers)" using assms(3,4) by simp
  then obtain i where "i < length (remove1 ''itsi'' servers)" "remove1 ''itsi'' servers ! i = s"
    by (auto simp: in_set_conv_nth)
  then show thesis using that serverColors_nth [OF assms(1,2)] by blast
qed

lemma palette_facts: "distinct palette" "itsiColor \<notin> set palette" "length palette = 11" "[] \<notin> set palette"
  "itsiColor \<noteq> []"
  by (simp_all add: palette_def itsiColor_def)

lemma palette_at: "palette ! (i mod length palette) \<in> set palette"
  by (rule nth_mem) (simp add: palette_facts)

lemma serverColors_orange:
  assumes "distinct servers" "\<forall>s\<in>set servers. plain_key s" "s \<in> set servers"
  shows "obj_get (serverColors servers) s = Own itsiColor \<longleftrightarrow> s = ''itsi''"
proof (cases "s = ''itsi''")
  case True
  then show ?thesis using assms(3) serverColors_itsi [OF assms(1)] by simp
next
  case False
  obtain i where "obj_get (serverColors servers) s = Own (palette ! (i mod length palette))"
    using assms(3) False by (rule serverColors_other [OF assms(1,2)])
  then show ?thesis using False palette_facts(2) palette_at [of i] by auto
qed

lemma serverColors_inj:
  assumes "distinct servers" "\<forall>s\<in>set servers. plain_key s"
    and few: "length (remove1 ''itsi'' servers) \<le> length palette"
  shows "inj_on (obj_get (serverColors servers)) (set servers)"
proof (rule inj_onI)
  fix s t
  assume s: "s \<in> set servers" and t: "t \<in> set servers"
    and same: "obj_get (serverColors servers) s = obj_get (serverColors servers) t"
  show "s = t"
  proof (cases "s = ''itsi'' \<or> t = ''itsi''")
    case True
    then show ?thesis using same serverColors_orange [OF assms(1,2)] s t by metis
  next
    case False
    obtain i where i: "i < length (remove1 ''itsi'' servers)" "remove1 ''itsi'' servers ! i = s"
      "obj_get (serverColors servers) s = Own (palette ! (i mod length palette))"
      using s False by (auto intro: serverColors_other [OF assms(1,2)])
    obtain j where j: "j < length (remove1 ''itsi'' servers)" "remove1 ''itsi'' servers ! j = t"
      "obj_get (serverColors servers) t = Own (palette ! (j mod length palette))"
      using t False by (auto intro: serverColors_other [OF assms(1,2)])
    have "i < length palette" "j < length palette" using i(1) j(1) few by simp_all
    then have "palette ! i = palette ! j" using same i(3) j(3) by simp
    then have "i = j" using palette_facts(1) \<open>i < length palette\<close> \<open>j < length palette\<close>
      by (simp add: nth_eq_iff_index_eq)
    then show ?thesis using i(2) j(2) by simp
  qed
qed

text \<open>
  C19 (colours). Every server has a colour, orange belongs to itsi alone, and as long as the
  palette has a colour for each of the other servers no two servers share one.
\<close>

theorem serverColors_spec:
  assumes "distinct servers" "\<forall>s\<in>set servers. plain_key s"
  shows "(\<forall>s\<in>set servers. obj_get (serverColors servers) s = Own itsiColor \<longleftrightarrow> s = ''itsi'')
     \<and> (\<forall>s\<in>set servers. s \<noteq> ''itsi'' \<longrightarrow> (\<exists>c\<in>set palette. obj_get (serverColors servers) s = Own c))
     \<and> (length (remove1 ''itsi'' servers) \<le> length palette \<longrightarrow> inj_on (obj_get (serverColors servers)) (set servers))"
proof (intro conjI ballI impI)
  fix s assume "s \<in> set servers" "s \<noteq> ''itsi''"
  then obtain i where "obj_get (serverColors servers) s = Own (palette ! (i mod length palette))"
    by (rule serverColors_other [OF assms])
  then show "\<exists>c\<in>set palette. obj_get (serverColors servers) s = Own c" using palette_at by blast
qed (auto intro: serverColors_inj [OF assms] simp: serverColors_orange [OF assms])

theorem serverColors_spec_witness:
  "obj_get (serverColors [''puma'', ''itsi'', ''falcon'']) ''itsi'' = Own ''#ff7f0e''
   \<and> inj_on (obj_get (serverColors [''puma'', ''itsi'', ''falcon''])) {''puma'', ''itsi'', ''falcon''}"
  using serverColors_spec [of "[''puma'', ''itsi'', ''falcon'']"]
  by (auto simp: plain_key_def proto_names_def palette_facts itsiColor_def)

section \<open>Grouping test cases\<close>

text \<open>The reference: the test cases of a group in order of first occurrence.\<close>

definition counts_for :: "string \<Rightarrow> tagged_result \<Rightarrow> bool" where
  "counts_for g i \<longleftrightarrow> group i = Val g \<and> g \<noteq> [] \<and> truthy_str (test_case i)"

definition tests_of :: "string \<Rightarrow> tagged_result list \<Rightarrow> string list" where
  "tests_of g items = map (\<lambda>i. str_key (test_case i)) (filter (counts_for g) items)"

definition plain_group :: "tagged_result \<Rightarrow> bool" where
  "plain_group i \<longleftrightarrow> (truthy_str (group i) \<and> truthy_str (test_case i) \<longrightarrow> plain_key (str_key (group i)))"

definition plain_groups :: "tagged_result list \<Rightarrow> bool" where
  "plain_groups items \<longleftrightarrow> list_all plain_group items"

definition groups_table :: "tagged_result list \<Rightarrow> string list jsobj \<Rightarrow> bool" where
  "groups_table items m \<longleftrightarrow> obj_wf m \<and> (\<forall>g\<in>fst ` set m. plain_key g)
     \<and> (\<forall>g. plain_key g \<longrightarrow>
          obj_get m g = (if tests_of g items = [] then Absent else Own (js_set (tests_of g items))))"

lemma tests_of_snoc:
  "tests_of g (items @ [i]) = tests_of g items @ (if counts_for g i then [str_key (test_case i)] else [])"
  by (simp add: tests_of_def)

lemma groups_table_set:
  assumes "groups_table items m" "plain_key g" "\<And>g'. counts_for g' i \<longleftrightarrow> g' = g" "str_key (test_case i) = t"
  shows "groups_table (items @ [i]) (obj_set m g (js_set (tests_of g items @ [t])))"
  using assms
  by (simp add: groups_table_def obj_wf_set obj_get_set tests_of_snoc plain_key_not_proto)

lemma groups_table_same:
  assumes "groups_table items m" "\<And>g'. counts_for g' i \<longrightarrow> str_key (test_case i) \<in> set (tests_of g' items)"
  shows "groups_table (items @ [i]) m"
proof -
  have "js_set (tests_of g (items @ [i])) = js_set (tests_of g items)"
    "tests_of g (items @ [i]) = [] \<longleftrightarrow> tests_of g items = []" for g
    using assms(2) [of g] by (auto simp: tests_of_snoc js_set_snoc)
  then show ?thesis using assms(1) by (simp add: groups_table_def)
qed

lemma add_test_table:
  assumes "groups_table items m" "plain_group i"
  shows "\<exists>m'. add_test m i = Inr m' \<and> groups_table (items @ [i]) m'"
proof (cases "truthy_str (group i) \<and> truthy_str (test_case i)")
  case False
  then have "\<not> counts_for g i" for g by (auto simp: counts_for_def)
  then have "groups_table (items @ [i]) m" using groups_table_same [OF assms(1)] by blast
  then show ?thesis using False by (auto simp: add_test_def)
next
  case True
  then obtain g t where g: "group i = Val g" "g \<noteq> []" and t: "test_case i = Val t" "t \<noteq> []"
    by (cases "group i"; cases "test_case i") auto
  have plain: "plain_key g" using assms(2) g True by (simp add: plain_group_def)
  have counts: "counts_for g' i \<longleftrightarrow> g' = g" for g' using g t by (auto simp: counts_for_def)
  have own: "obj_get m g = (if tests_of g items = [] then Absent else Own (js_set (tests_of g items)))"
    using assms(1) plain by (simp add: groups_table_def)
  show ?thesis
  proof (cases "t \<in> set (tests_of g items)")
    case True
    then have "groups_table (items @ [i]) m" using groups_table_same [OF assms(1)] counts t by simp
    then show ?thesis using True own g t by (auto simp: add_test_def)
  next
    case False
    then have "add_test m i = Inr (obj_set m g (js_set (tests_of g items @ [t])))"
      using own g t by (simp add: add_test_def js_set_snoc)
    then show ?thesis using groups_table_set [OF assms(1) plain counts] t by simp
  qed
qed

lemma foldE_add_test:
  "plain_groups items \<Longrightarrow> \<exists>m. foldE add_test [] items = Inr m \<and> groups_table items m"
proof (induction items rule: rev_induct)
  case Nil
  then show ?case by (simp add: groups_table_def tests_of_def obj_get_Nil)
next
  case (snoc i items)
  then obtain m where m: "foldE add_test [] items = Inr m" "groups_table items m" by (auto simp: plain_groups_def)
  obtain m' where "add_test m i = Inr m'" "groups_table (items @ [i]) m'"
    using add_test_table [OF m(2), of i] snoc.prems by (auto simp: plain_groups_def)
  then show ?case using m(1) by (simp add: foldE_append)
qed

lemma groups_table_keys:
  assumes "groups_table items m" "plain_groups items"
  shows "g \<in> fst ` set m \<longleftrightarrow> tests_of g items \<noteq> []"
proof (cases "plain_key g")
  case True
  have "g \<in> fst ` set m \<longleftrightarrow> (\<exists>v. obj_get m g = Own v)"
    using assms(1) obj.keys_iff [of m g] by (simp add: groups_table_def)
  then show ?thesis using assms(1) True by (auto simp: groups_table_def split: if_splits)
next
  case False
  then have "\<not> counts_for g i" if "i \<in> set items" for i
    using that assms(2) by (auto simp: counts_for_def plain_groups_def plain_group_def list_all_iff)
  then have "tests_of g items = []" by (simp add: tests_of_def filter_empty_conv)
  then show ?thesis using assms(1) False by (auto simp: groups_table_def)
qed

text \<open>What the sort relies on: \<^verbatim>\<open>localeCompare\<close> orders strings consistently.\<close>

definition compare_law :: "(string \<Rightarrow> string \<Rightarrow> int) \<Rightarrow> bool" where
  "compare_law lc \<longleftrightarrow> (\<forall>a b. 0 < lc a b \<longrightarrow> \<not> 0 < lc b a)
     \<and> (\<forall>a b c. \<not> 0 < lc a b \<longrightarrow> \<not> 0 < lc b c \<longrightarrow> \<not> 0 < lc a c)"

lemma group_comparator:
  assumes "compare_law lc" shows "js_comparator (group_after lc) (\<lambda>_. True)"
proof unfold_locales
  fix x y z
  have asym: "0 < lc x y \<Longrightarrow> \<not> 0 < lc y x" and trans: "\<not> 0 < lc x y \<Longrightarrow> \<not> 0 < lc y z \<Longrightarrow> \<not> 0 < lc x z"
    using assms unfolding compare_law_def by blast+
  show "group_after lc x y \<Longrightarrow> \<not> group_after lc y x"
    using asym by (simp add: group_after_def split: if_splits)
  show "\<not> group_after lc x y \<Longrightarrow> \<not> group_after lc y z \<Longrightarrow> \<not> group_after lc x z"
    using trans by (simp add: group_after_def split: if_splits)
qed

definition sort_tests :: "string list jsobj \<Rightarrow> string list jsobj" where
  "sort_tests m = map (\<lambda>(g, ts). (g, sort ts)) m"

lemma map_of_sort_tests: "map_of (sort_tests m) g = map_option sort (map_of m g)"
  by (induction m) (auto simp: sort_tests_def)

lemma fst_sort_tests: "map fst (sort_tests m) = map fst m"
  by (simp add: sort_tests_def case_prod_beta comp_def)

lemma obj_wf_sort_tests: "obj_wf (sort_tests m) = obj_wf m"
  by (simp only: obj_wf_def set_map [symmetric] fst_sort_tests)

lemma obj_get_sort_tests:
  "obj_get (sort_tests m) g = (case obj_get m g of Own ts \<Rightarrow> Own (sort ts) | s \<Rightarrow> s)"
  by (simp add: obj_get_def map_of_sort_tests split: option.split)

lemma add_test_throws:
  assumes "groups_table items m" "\<not> plain_group i"
  shows "add_test m i = Inl TypeError"
proof -
  have bad: "truthy_str (group i)" "truthy_str (test_case i)" "\<not> plain_key (str_key (group i))"
    using assms(2) by (auto simp: plain_group_def)
  then have "map_of m (str_key (group i)) = None"
    using assms(1) by (auto simp: groups_table_def map_of_eq_None_iff)
  then show ?thesis using bad by (simp add: add_test_def obj_get_def plain_key_def)
qed

lemma foldE_add_test_throws: "\<not> plain_groups items \<Longrightarrow> foldE add_test [] items = Inl TypeError"
proof -
  assume "\<not> plain_groups items"
  then have "\<exists>i\<in>set items. \<not> plain_group i" by (auto simp: plain_groups_def list_all_iff)
  then obtain ys i zs where split: "items = ys @ i # zs" "\<not> plain_group i" "\<forall>y\<in>set ys. plain_group y"
    using split_list_first_prop [of items "\<lambda>i. \<not> plain_group i"] by blast
  then obtain m where "foldE add_test [] ys = Inr m" "groups_table ys m"
    using foldE_add_test [of ys] by (auto simp: plain_groups_def list_all_iff)
  then show ?thesis using split add_test_throws by (simp add: foldE_append)
qed

lemma groupedTestCases_content:
  assumes "groupedTestCases lc items c = Inr (groups, order)"
  shows "set order = {g. tests_of g (cpuFilteredData items c) \<noteq> []}"
    and "\<forall>g\<in>set order. obj_get groups g = Own (sort (js_set (tests_of g (cpuFilteredData items c))))"
proof -
  let ?items = "cpuFilteredData items c"
  have plain: "plain_groups ?items"
    using assms by (rule contrapos_pp) (simp add: groupedTestCases_def foldE_add_test_throws)
  obtain m where m: "foldE add_test [] ?items = Inr m" "groups_table ?items m"
    using foldE_add_test [OF plain] by blast
  have r: "groups = sort_tests m" "order = js_sort (group_after lc) (obj_keys (sort_tests m))"
    using assms m(1) by (auto simp: groupedTestCases_def sort_tests_def Let_def)
  have keys: "set order = fst ` set m" using r(2) fst_sort_tests [of m] by (metis set_js_sort set_map set_obj_keys)
  then show "set order = {g. tests_of g ?items \<noteq> []}" using groups_table_keys [OF m(2) plain] by auto
  show "\<forall>g\<in>set order. obj_get groups g = Own (sort (js_set (tests_of g ?items)))"
  proof
    fix g assume g: "g \<in> set order"
    then have "plain_key g" using keys m(2) by (auto simp: groups_table_def)
    then show "obj_get groups g = Own (sort (js_set (tests_of g ?items)))"
      using m(2) g keys groups_table_keys [OF m(2) plain, of g] r(1)
      by (simp add: obj_get_sort_tests groups_table_def)
  qed
qed

text \<open>
  C21 (the test-case menu). For group names that are not property names of every object, each group
  of the selected CPU lists exactly its test cases, sorted and without repetition; the groups are
  listed once each, \<^verbatim>\<open>rack\<close> first and the others in the order of the locale.
\<close>

theorem groupedTestCases_spec:
  assumes "plain_groups (cpuFilteredData items c)" "compare_law lc"
  shows "\<exists>groups order. groupedTestCases lc items c = Inr (groups, order)
     \<and> distinct order \<and> set order = {g. tests_of g (cpuFilteredData items c) \<noteq> []}
     \<and> (\<forall>g\<in>set order. obj_get groups g = Own (sort (js_set (tests_of g (cpuFilteredData items c)))))
     \<and> sorted_wrt (\<lambda>a b. b = ''rack'' \<longrightarrow> a = ''rack'') order
     \<and> sorted_wrt (\<lambda>a b. a = ''rack'' \<or> b = ''rack'' \<or> \<not> 0 < lc a b) order"
proof -
  let ?items = "cpuFilteredData items c"
  obtain m where m: "foldE add_test [] ?items = Inr m" "groups_table ?items m"
    using foldE_add_test [OF assms(1)] by blast
  let ?order = "js_sort (group_after lc) (obj_keys (sort_tests m))"
  have run: "groupedTestCases lc items c = Inr (sort_tests m, ?order)"
    using m(1) by (simp add: groupedTestCases_def sort_tests_def Let_def)
  have "distinct ?order" using m(2) by (simp add: obj_wf_sort_tests groups_table_def)
  moreover have sorted: "sorted_wrt (\<lambda>a b. \<not> group_after lc a b) ?order"
    using js_comparator.sort_sorted [OF group_comparator [OF assms(2)]] by simp
  have "sorted_wrt (\<lambda>a b. b = ''rack'' \<longrightarrow> a = ''rack'') ?order"
    "sorted_wrt (\<lambda>a b. a = ''rack'' \<or> b = ''rack'' \<or> \<not> 0 < lc a b) ?order"
    by (rule sorted_wrt_mono_rel [OF _ sorted], simp add: group_after_def split: if_splits)+
  ultimately show ?thesis using run groupedTestCases_content [OF run] by blast
qed

theorem groupedTestCases_spec_witness:
  "\<exists>groups order. groupedTestCases (\<lambda>a b. if a < b then - 1 else if a = b then 0 else 1)
       [sample_item ''itsi'' ''hello'' 1 2 10 True 500, sample_item ''itsi'' ''chunked'' 1 2 10 True 500] ''M1'' =
       Inr (groups, order)
     \<and> set order = {''rack''} \<and> obj_get groups ''rack'' = Own [''chunked'', ''hello'']"
proof -
  let ?lc = "\<lambda>a b :: string. if a < b then - 1 else if a = b then 0 else 1 :: int"
  let ?items = "[sample_item ''itsi'' ''hello'' 1 2 10 True 500, sample_item ''itsi'' ''chunked'' 1 2 10 True 500]"
  have cpu: "cpuFilteredData ?items ''M1'' = ?items" by (simp add: cpuFilteredData_def sample_defs)
  have "compare_law ?lc" by (auto simp: compare_law_def)
  moreover have "plain_groups (cpuFilteredData ?items ''M1'')" unfolding cpu
    by (simp add: plain_groups_def plain_group_def sample_defs plain_key_def proto_names_def)
  ultimately obtain groups order where r: "groupedTestCases ?lc ?items ''M1'' = Inr (groups, order)"
    "set order = {g. tests_of g ?items \<noteq> []}" "\<forall>g\<in>set order. obj_get groups g = Own (sort (js_set (tests_of g ?items)))"
    using groupedTestCases_spec [of ?items "''M1''" ?lc] unfolding cpu by blast
  have tests: "tests_of g ?items = (if g = ''rack'' then [''hello'', ''chunked''] else [])" for g
    by (simp add: tests_of_def counts_for_def sample_defs)
  then have "set order = {''rack''}" using r(2) by simp
  moreover have "obj_get groups ''rack'' = Own (sort (js_set (tests_of ''rack'' ?items)))" using r(3) calculation by simp
  moreover have "sort [''hello'', ''chunked''] = [''chunked'', ''hello'']" by code_simp
  ultimately show ?thesis using r(1) tests by (intro exI [of _ groups] exI [of _ order]) simp
qed

text \<open>
  C39 (group names that every object inherits). Building the menu throws exactly when some result
  of the selected CPU has a test case and a group named like a property of every object, such as
  \<^verbatim>\<open>constructor\<close>.
\<close>

theorem groupedTestCases_throws_iff:
  "groupedTestCases lc items c = Inl e \<longleftrightarrow> e = TypeError \<and> \<not> plain_groups (cpuFilteredData items c)"
proof (cases "plain_groups (cpuFilteredData items c)")
  case True
  then obtain m where "foldE add_test [] (cpuFilteredData items c) = Inr m" using foldE_add_test by blast
  then show ?thesis using True by (simp add: groupedTestCases_def Let_def)
qed (auto simp: groupedTestCases_def foldE_add_test_throws)

end
