(* ===== verification/Dashboard_Points.thy ===== *)
theory Dashboard_Points
  imports Dashboard_Chart
begin

text \<open>
  The bars of the chart in \<^verbatim>\<open>components/benchmark-dashboard.tsx\<close>: the points grouped by the x-axis,
  the data keys, the hover handler and the fill of a bar.
\<close>

section \<open>Chart points\<close>

datatype point_val = PStr string | PNum "jsnum jopt" | PItem tagged_result

type_synonym point = "point_val jsobj"

text \<open>\<^verbatim>\<open>String(item[key])\<close>\<close>

definition item_text :: "tagged_result \<Rightarrow> string \<Rightarrow> string" where
  "item_text item key =
     (if key = ''threads'' then num_key (threads item)
      else if key = ''workers'' then num_key (workers item)
      else if key = ''concurrency'' then num_key (concurrency item)
      else if key = ''server'' then str_key (server item)
      else if key = ''version'' then str_key (version item)
      else if key = ''test_case'' then str_key (test_case item)
      else if key = ''timestamp'' then str_key (timestamp item)
      else if key = ''cpu'' then str_key (cpu item)
      else if key = ''group'' then str_key (group item)
      else if key = ''rss_mb'' then num_key (rss_mb item)
      else if key = ''http2'' then
        (case http2 item of Val b \<Rightarrow> if b then ''true'' else ''false'' | Null \<Rightarrow> ''null'' | Undef \<Rightarrow> ''undefined'')
      else if key = ''results'' then
        (case results item of Val _ \<Rightarrow> ''[object Object]'' | Null \<Rightarrow> ''null'' | Undef \<Rightarrow> ''undefined'')
      else ''undefined'')"

text \<open>\<^verbatim>\<open>if (!m[k]) m[k] = []; m[k].push(x)\<close>\<close>

definition push_group :: "'a list jsobj \<Rightarrow> string \<Rightarrow> 'a \<Rightarrow> 'a list jsobj result" where
  "push_group m k x =
     (case obj_get m k of
        Absent \<Rightarrow> Inr (obj_set m k [x])
      | Own xs \<Rightarrow> Inr (obj_set m k (xs @ [x]))
      | Inherited \<Rightarrow> Inl TypeError)"

definition groupedByXAxis :: "string \<Rightarrow> tagged_result list \<Rightarrow> tagged_result list jsobj result" where
  "groupedByXAxis xAxis items = foldE (\<lambda>m item. push_group m (item_text item xAxis) item) [] items"

text \<open>The \<^verbatim>\<open>switch (filters.metric)\<close> of the chart and of the summary.\<close>

definition metric_of :: "string \<Rightarrow> tagged_result \<Rightarrow> jsnum jopt result" where
  "metric_of metric item =
     (case results item of
        Val r \<Rightarrow> Inr (if metric = ''p95_latency'' then p95_latency r
                     else if metric = ''errorRate'' then Val (num_sub (Fin 1) (to_num (successRate r)))
                     else requestsPerSec r)
      | _ \<Rightarrow> Inl TypeError)"

definition data_key :: "filter_state \<Rightarrow> tagged_result \<Rightarrow> string result" where
  "data_key f item =
     bindE (formatServerName (server item)) (\<lambda>name.
       Inr (if f_http2 f = All
            then name @ (if http2 item = Val True then '' (HTTP/2)'' else '' (HTTP/1.1)'') else name))"

definition add_to_point ::
  "filter_state \<Rightarrow> bool jsobj \<Rightarrow> point \<Rightarrow> tagged_result \<Rightarrow> point result" where
  "add_to_point f visible point item =
     (if truthy_slot (obj_get visible (str_key (server item)))
      then bindE (metric_of (f_metric f) item) (\<lambda>metricValue.
           bindE (data_key f item) (\<lambda>dataKey.
             Inr (obj_set (obj_set point dataKey (PNum metricValue)) (dataKey @ ''_data'') (PItem item))))
      else Inr point)"

definition build_point ::
  "filter_state \<Rightarrow> bool jsobj \<Rightarrow> string \<times> tagged_result list \<Rightarrow> point result" where
  "build_point f visible entry =
     foldE (add_to_point f visible) [(f_xAxis f, PStr (fst entry))] (snd entry)"

fun val_num :: "point_val slot \<Rightarrow> jsnum" where
  "val_num (Own (PStr s)) = string_to_num s"
| "val_num (Own (PNum v)) = to_num v"
| "val_num _ = NaN"

fun val_text :: "point_val slot \<Rightarrow> string" where
  "val_text (Own (PStr s)) = s"
| "val_text (Own (PNum v)) = num_key v"
| "val_text (Own (PItem _)) = ''[object Object]''"
| "val_text _ = ''undefined''"

definition point_after :: "(string \<Rightarrow> string \<Rightarrow> int) \<Rightarrow> string \<Rightarrow> point \<Rightarrow> point \<Rightarrow> bool" where
  "point_after localeCompare xAxis a b =
     (let aVal = obj_get a xAxis; bVal = obj_get b xAxis
      in if val_num aVal \<noteq> NaN \<and> val_num bVal \<noteq> NaN then num_after (val_num aVal) (val_num bVal)
         else 0 < localeCompare (val_text aVal) (val_text bVal))"

definition chartData ::
  "(string \<Rightarrow> string \<Rightarrow> int) \<Rightarrow> tagged_result list \<Rightarrow> filter_state \<Rightarrow> bool jsobj \<Rightarrow> point list result" where
  "chartData localeCompare items f visible =
     bindE (groupedByXAxis (f_xAxis f) (filteredData items f)) (\<lambda>groups.
     bindE (mapE (build_point f visible) (obj_entries groups)) (\<lambda>points.
       Inr (js_sort (point_after localeCompare (f_xAxis f)) points)))"

section \<open>Hover, data keys, protocol\<close>

fun truthy_val :: "point_val \<Rightarrow> bool" where
  "truthy_val (PStr s) = (s \<noteq> [])"
| "truthy_val (PNum (Val x)) = num_truthy x"
| "truthy_val (PNum _) = False"
| "truthy_val (PItem _) = True"

text \<open>
  \<^verbatim>\<open>props.activePayload\<close>: the data key and the chart point under the pointer, if any. The result is
  the new hovered value and active key; \<open>None\<close> clears both. No inherited name ends in \<^verbatim>\<open>_data\<close>.
\<close>

definition handleChartHover :: "(string \<times> point) list jopt \<Rightarrow> (point_val \<times> string) option" where
  "handleChartHover activePayload =
     (case activePayload of
        Val ((dataKey, payload) # _) \<Rightarrow>
          (case obj_get payload (dataKey @ ''_data'') of
             Own serverData \<Rightarrow> if truthy_val serverData then Some (serverData, dataKey) else None
           | _ \<Rightarrow> None)
      | _ \<Rightarrow> None)"

definition server_keys ::
  "filter_state \<Rightarrow> bool jsobj \<Rightarrow> tagged_result list \<Rightarrow> string \<Rightarrow> string list" where
  "server_keys f visible filtered s =
     (if truthy_slot (obj_get visible s)
      then if f_http2 f = All
           then let serverData = filter (\<lambda>i. server i = Val s) filtered;
                    hasHttp1 = (\<exists>i\<in>set serverData. http2 i \<noteq> Val True);
                    hasHttp2 = (\<exists>i\<in>set serverData. http2 i = Val True)
                in (if hasHttp1 then [replace_uu s @ '' (HTTP/1.1)''] else [])
                   @ (if hasHttp2 then [replace_uu s @ '' (HTTP/2)''] else [])
           else [replace_uu s]
      else [])"

definition visibleDataKeys ::
  "string list \<Rightarrow> filter_state \<Rightarrow> bool jsobj \<Rightarrow> tagged_result list \<Rightarrow> string list" where
  "visibleDataKeys servers f visible filtered = concat (map (server_keys f visible filtered) servers)"

fun getProtocolDisplay :: "http2_option \<Rightarrow> string" where
  "getProtocolDisplay All = ''All Protocols''"
| "getProtocolDisplay (Http2 b) = (if b then ''HTTP/2'' else ''HTTP/1.1'')"

text \<open>The fill of a bar: the colour found by undoing the formatting of the key, or one by position.\<close>

definition nth_color :: "string jsobj \<Rightarrow> nat \<Rightarrow> string slot" where
  "nth_color colors index =
     (let ks = obj_keys colors
      in obj_get colors (if ks = [] then ''undefined'' else ks ! (index mod length ks)))"

definition bar_fill :: "string jsobj \<Rightarrow> string \<Rightarrow> nat \<Rightarrow> string slot" where
  "bar_fill colors dataKey index =
     (case obj_get colors (replace_plus (hd (split_char (CHR '' '') dataKey))) of
        Own c \<Rightarrow> if c \<noteq> [] then Own c else nth_color colors index
      | Inherited \<Rightarrow> Inherited
      | Absent \<Rightarrow> nth_color colors index)"

section \<open>Bars\<close>

lemma server_keys_form:
  "k \<in> set (server_keys f visible filtered s) \<Longrightarrow>
     k = replace_uu s \<or> (\<exists>t. k = replace_uu s @ CHR '' '' # t)"
  by (auto simp: server_keys_def Let_def split: if_splits)

lemma server_name_of_key:
  assumes "k \<in> set (server_keys f visible filtered s)" "CHR ''+'' \<notin> set s" "CHR '' '' \<notin> set s"
  shows "replace_plus (hd (split_char (CHR '' '') k)) = s"
proof -
  have "CHR '' '' \<notin> set (replace_uu s)" using set_replace_uu [of s] assms(3) by auto
  then have "hd (split_char (CHR '' '') k) = replace_uu s"
    using server_keys_form [OF assms(1)] by (auto simp: split_char_no split_char_append)
  then show ?thesis using replace_plus_uu [OF assms(2)] by simp
qed

text \<open>
  C20 (a bar has the colour of its server). The fill looked up by undoing the formatting of the
  data key is the colour of the server the key was made for, for every name without a plus sign
  and without a space.
\<close>

theorem bar_fill_server_color:
  assumes "distinct servers" "\<forall>t\<in>set servers. plain_key t" "s \<in> set servers"
    and "k \<in> set (server_keys f visible filtered s)" "CHR ''+'' \<notin> set s" "CHR '' '' \<notin> set s"
  shows "bar_fill (serverColors servers) k index = obj_get (serverColors servers) s"
proof (cases "s = ''itsi''")
  case True
  then show ?thesis
    using serverColors_itsi [OF assms(1)] assms(3) server_name_of_key [OF assms(4-6)] palette_facts(5)
    by (simp add: bar_fill_def)
next
  case False
  obtain i where "obj_get (serverColors servers) s = Own (palette ! (i mod length palette))"
    using assms(3) False by (rule serverColors_other [OF assms(1,2)])
  then show ?thesis using server_name_of_key [OF assms(4-6)] palette_at [of i] palette_facts(4)
    by (auto simp: bar_fill_def)
qed

theorem bar_fill_server_color_witness:
  "bar_fill (serverColors [''puma__caddy'', ''itsi'']) ''puma+caddy (HTTP/2)'' 7
   = obj_get (serverColors [''puma__caddy'', ''itsi'']) ''puma__caddy''"
  using bar_fill_server_color [of "[''puma__caddy'', ''itsi'']" "''puma__caddy''" "''puma+caddy (HTTP/2)''"
      "sample_filters\<lparr>f_http2 := All\<rparr>" "[(''puma__caddy'', True)]"
      "[sample_item ''puma__caddy'' ''hello'' 1 2 10 True 500]" 7]
  by (simp add: plain_key_def proto_names_def server_keys_def obj_get_def sample_defs)

section \<open>Grouping by the x-axis\<close>

text \<open>The reference: under each key the elements that have it, in order.\<close>

definition grouped_table :: "('a \<Rightarrow> string) \<Rightarrow> 'a list \<Rightarrow> 'a list jsobj \<Rightarrow> bool" where
  "grouped_table key xs m \<longleftrightarrow> obj_wf m \<and> (\<forall>k\<in>fst ` set m. plain_key k)
     \<and> (\<forall>k. plain_key k \<longrightarrow>
          obj_get m k = (if filter (\<lambda>x. key x = k) xs = [] then Absent else Own (filter (\<lambda>x. key x = k) xs)))"

lemma push_group_table:
  assumes "grouped_table key xs m" "plain_key (key x)"
  shows "push_group m (key x) x = Inr (obj_set m (key x) (filter (\<lambda>y. key y = key x) (xs @ [x])))
     \<and> grouped_table key (xs @ [x]) (obj_set m (key x) (filter (\<lambda>y. key y = key x) (xs @ [x])))"
  using assms
  by (auto simp: grouped_table_def push_group_def obj_get_set plain_key_not_proto obj_wf_set)

lemma foldE_push_group:
  "\<forall>x\<in>set xs. plain_key (key x) \<Longrightarrow>
     \<exists>m. foldE (\<lambda>m x. push_group m (key x) x) [] xs = Inr m \<and> grouped_table key xs m"
proof (induction xs rule: rev_induct)
  case Nil
  then show ?case by (simp add: grouped_table_def obj_get_Nil)
next
  case (snoc x xs)
  then obtain m where m: "foldE (\<lambda>m x. push_group m (key x) x) [] xs = Inr m" "grouped_table key xs m" by auto
  then show ?case using push_group_table [OF m(2), of x] snoc.prems by (auto simp: foldE_append)
qed

lemma grouped_table_entry:
  assumes "grouped_table key xs m"
  shows "(k, ys) \<in> set m \<longleftrightarrow> plain_key k \<and> ys = filter (\<lambda>x. key x = k) xs \<and> ys \<noteq> []"
proof -
  have "(k, ys) \<in> set m \<longleftrightarrow> plain_key k \<and> obj_get m k = Own ys"
    using assms obj_entries_get [of m k ys] by (force simp: grouped_table_def)
  then show ?thesis using assms by (auto simp: grouped_table_def split: if_splits)
qed

section \<open>One point\<close>

text \<open>What a result adds to its point, as assignments in order.\<close>

definition point_entries :: "filter_state \<Rightarrow> bool jsobj \<Rightarrow> tagged_result \<Rightarrow> (string \<times> point_val) list" where
  "point_entries f visible item =
     (if truthy_slot (obj_get visible (str_key (server item)))
      then case (metric_of (f_metric f) item, data_key f item) of
             (Inr v, Inr k) \<Rightarrow> [(k, PNum v), (k @ ''_data'', PItem item)]
           | _ \<Rightarrow> []
      else [])"

text \<open>A result that can be drawn: a whole number on the axis, a server and metrics.\<close>

definition axis_value :: "string \<Rightarrow> tagged_result \<Rightarrow> jsnum jopt" where
  "axis_value xAxis item =
     (if xAxis = ''threads'' then threads item else if xAxis = ''workers'' then workers item else concurrency item)"

definition chartable :: "filter_state \<Rightarrow> tagged_result \<Rightarrow> bool" where
  "chartable f item \<longleftrightarrow> whole_num (axis_value (f_xAxis f) item) \<and> \<not> jopt_nullish (server item)
     \<and> \<not> jopt_nullish (results item) \<and> data_key f item \<noteq> Inr (f_xAxis f)"

lemma add_to_point_entries:
  assumes "chartable f item"
  shows "add_to_point f visible p item = Inr (foldl (\<lambda>m (k, v). obj_set m k v) p (point_entries f visible item))"
proof -
  obtain s r where "server item = Val s" "results item = Val r"
    using assms by (cases "server item"; cases "results item") (auto simp: chartable_def)
  then show ?thesis
    by (simp add: add_to_point_def point_entries_def metric_of_def data_key_def formatServerName_def)
qed

lemma foldE_add_to_point:
  "\<forall>i\<in>set items. chartable f i \<Longrightarrow> foldE (add_to_point f visible) p items =
     Inr (foldl (\<lambda>m (k, v). obj_set m k v) p (concat (map (point_entries f visible) items)))"
  by (induction items arbitrary: p) (auto simp: add_to_point_entries)

definition reference_point :: "filter_state \<Rightarrow> bool jsobj \<Rightarrow> string \<times> tagged_result list \<Rightarrow> point" where
  "reference_point f visible entry =
     foldl (\<lambda>m (k, v). obj_set m k v) [(f_xAxis f, PStr (fst entry))]
       (concat (map (point_entries f visible) (snd entry)))"

lemma build_point_reference:
  "\<forall>i\<in>set (snd entry). chartable f i \<Longrightarrow> build_point f visible entry = Inr (reference_point f visible entry)"
  by (simp add: build_point_def reference_point_def foldE_add_to_point)

lemma axis_not_data: "x \<in> set x_axes \<Longrightarrow> k @ ''_data'' \<noteq> x"
proof
  assume "x \<in> set x_axes" "k @ ''_data'' = x"
  then have "last x = CHR ''a''" "last x \<noteq> CHR ''a''" by (auto simp: x_axes_def)
  then show False by simp
qed

lemma axis_plain: "x \<in> set x_axes \<Longrightarrow> plain_key x"
  by (auto simp: x_axes_def plain_key_def proto_names_def)

lemma point_entries_cases:
  "point_entries f visible i = [] \<or>
     (\<exists>d w. data_key f i = Inr d \<and> point_entries f visible i = [(d, PNum w), (d @ ''_data'', PItem i)])"
  by (cases "metric_of (f_metric f) i"; cases "data_key f i") (simp_all add: point_entries_def)

lemma entries_not_axis:
  assumes "chartable f i" "f_xAxis f \<in> set x_axes" "e \<in> set (point_entries f visible i)"
  shows "fst e \<noteq> f_xAxis f"
proof -
  obtain d w where d: "data_key f i = Inr d" "point_entries f visible i = [(d, PNum w), (d @ ''_data'', PItem i)]"
    using point_entries_cases [of f visible i] assms(3) by force
  have "d \<noteq> f_xAxis f" using assms(1) d(1) by (auto simp: chartable_def)
  moreover have "fst e = d \<or> fst e = d @ ''_data''" using assms(3) unfolding d(2) set_simps insert_iff empty_iff by (elim disjE FalseE) (simp_all only: fst_conv simp_thms)
  ultimately show ?thesis using axis_not_data [OF assms(2), of d] by metis
qed

lemma reference_point_axis:
  assumes "\<forall>i\<in>set (snd entry). chartable f i" "f_xAxis f \<in> set x_axes"
  shows "obj_get (reference_point f visible entry) (f_xAxis f) = Own (PStr (fst entry))"
proof -
  let ?es = "concat (map (point_entries f visible) (snd entry))"
  have "f_xAxis f \<notin> fst ` set ?es" using assms entries_not_axis by fastforce
  then have "map_of (rev ?es) (f_xAxis f) = None" by (simp add: map_of_eq_None_iff)
  then show ?thesis using axis_plain [OF assms(2)]
    by (simp add: reference_point_def obj.get_put_all obj_get_Cons)
qed

lemma reference_point_get:
  assumes "plain_key k" "k \<noteq> f_xAxis f"
  shows "obj_get (reference_point f visible entry) k =
     (case map_of (rev (concat (map (point_entries f visible) (snd entry)))) k of Some v \<Rightarrow> Own v | None \<Rightarrow> Absent)"
  using assms by (simp add: reference_point_def obj.get_put_all obj_get_Cons obj_get_Nil
      split: option.split)

section \<open>The chart\<close>

text \<open>The reference for the point at a whole number on the axis.\<close>

definition point_for ::
  "filter_state \<Rightarrow> bool jsobj \<Rightarrow> tagged_result list \<Rightarrow> int \<Rightarrow> point \<Rightarrow> bool" where
  "point_for f visible filtered n p \<longleftrightarrow>
     obj_get p (f_xAxis f) = Own (PStr (int_str n))
     \<and> (\<forall>k. plain_key k \<longrightarrow> k \<noteq> f_xAxis f \<longrightarrow> obj_get p k =
          (case map_of (rev (concat (map (point_entries f visible)
                  (filter (\<lambda>i. axis_value (f_xAxis f) i = Val (num_of_int n)) filtered)))) k of
             Some v \<Rightarrow> Own v | None \<Rightarrow> Absent))"

lemma int_str_plain: "plain_key (int_str n)"
proof -
  have "hd (int_str n) = CHR ''-'' \<or> is_digit (hd (int_str n))"
    using nat_str_digits [of "\<bar>n\<bar>"] nat_str_ne [of "\<bar>n\<bar>"]
    by (auto simp: int_str_def list_all_iff)
  then show ?thesis by (auto simp: plain_key_def proto_names_def is_digit_def)
qed

lemma item_text_axis:
  assumes "x \<in> set x_axes" "axis_value x i = Val (num_of_int n)" "\<bar>n\<bar> \<le> 2 ^ 53"
  shows "item_text i x = int_str n"
proof -
  have "item_text i ''threads'' = num_key (threads i)" "item_text i ''workers'' = num_key (workers i)"
    "item_text i ''concurrency'' = num_key (concurrency i)"
    by (simp_all add: item_text_def)
  then have "item_text i x = num_key (axis_value x i)"
    using assms(1) unfolding x_axes_def axis_value_def by auto
  then show ?thesis unfolding assms(2) num_key.simps num_to_string_int [OF assms(3)] .
qed

lemma chartable_axis:
  assumes "chartable f i" obtains n where "axis_value (f_xAxis f) i = Val (num_of_int n)" "\<bar>n\<bar> \<le> 2 ^ 53"
  using assms by (auto simp: chartable_def elim: whole_numE)

lemma item_text_eq_iff:
  assumes "x \<in> set x_axes" "axis_value x i = Val (num_of_int m)" "\<bar>m\<bar> \<le> 2 ^ 53" "\<bar>n\<bar> \<le> 2 ^ 53"
  shows "item_text i x = int_str n \<longleftrightarrow> axis_value x i = Val (num_of_int n)"
  using item_text_axis [OF assms(1-3)] int_str_inj [OF assms(3,4)] assms(2) by auto

text \<open>The numbers on the axis that occur.\<close>

definition axis_numbers :: "string \<Rightarrow> tagged_result list \<Rightarrow> int set" where
  "axis_numbers x filtered = {n. \<exists>i\<in>set filtered. axis_value x i = Val (num_of_int n)}"

lemma axis_numbers_bound:
  assumes "\<forall>i\<in>set filtered. chartable f i" "n \<in> axis_numbers (f_xAxis f) filtered"
  shows "\<bar>n\<bar> \<le> 2 ^ 53"
proof -
  obtain i where i: "i \<in> set filtered" "axis_value (f_xAxis f) i = Val (num_of_int n)"
    using assms(2) by (auto simp: axis_numbers_def)
  obtain k where "axis_value (f_xAxis f) i = Val (num_of_int k)" "\<bar>k\<bar> \<le> 2 ^ 53"
    using chartable_axis [OF bspec [OF assms(1) i(1)]] by blast
  then show ?thesis using i(2) by simp
qed

lemma entry_point_for:
  assumes "\<forall>i\<in>set filtered. chartable f i" "f_xAxis f \<in> set x_axes"
    and "grouped_table (\<lambda>i. item_text i (f_xAxis f)) filtered m" "(k, ys) \<in> set m"
  shows "\<exists>n\<in>axis_numbers (f_xAxis f) filtered. k = int_str n
     \<and> point_for f visible filtered n (reference_point f visible (k, ys))"
proof -
  let ?x = "f_xAxis f"
  have ys: "ys = filter (\<lambda>i. item_text i ?x = k) filtered" "ys \<noteq> []"
    using grouped_table_entry [OF assms(3)] assms(4) by auto
  then obtain i where i: "i \<in> set filtered" "item_text i ?x = k" by (metis (mono_tags) filter_empty_conv)
  obtain n where n: "axis_value ?x i = Val (num_of_int n)" "\<bar>n\<bar> \<le> 2 ^ 53"
    using chartable_axis [OF bspec [OF assms(1) i(1)]] by blast
  have k: "k = int_str n" using item_text_axis [OF assms(2) n] i(2) by simp
  have same: "ys = filter (\<lambda>j. axis_value ?x j = Val (num_of_int n)) filtered"
    unfolding ys(1)
  proof (rule filter_cong [OF refl])
    fix j assume "j \<in> set filtered"
    then obtain l where "axis_value ?x j = Val (num_of_int l)" "\<bar>l\<bar> \<le> 2 ^ 53"
      using chartable_axis [OF bspec [OF assms(1)]] by blast
    then show "(item_text j ?x = k) = (axis_value ?x j = Val (num_of_int n))"
      unfolding k by (intro item_text_eq_iff assms(2) n(2))
  qed
  have "\<forall>j\<in>set ys. chartable f j" using ys(1) assms(1) by auto
  then have "point_for f visible filtered n (reference_point f visible (k, ys))"
    using reference_point_axis [of "(k, ys)" f] reference_point_get [of _ f visible "(k, ys)"] assms(2) same k
    by (simp add: point_for_def)
  then show ?thesis using k n i(1) by (auto simp: axis_numbers_def)
qed

lemma axis_number_entry:
  assumes "\<forall>i\<in>set filtered. chartable f i" "f_xAxis f \<in> set x_axes"
    and "grouped_table (\<lambda>i. item_text i (f_xAxis f)) filtered m" "n \<in> axis_numbers (f_xAxis f) filtered"
  shows "int_str n \<in> fst ` set m"
proof -
  obtain i where i: "i \<in> set filtered" "axis_value (f_xAxis f) i = Val (num_of_int n)"
    using assms(4) by (auto simp: axis_numbers_def)
  have "item_text i (f_xAxis f) = int_str n"
    using item_text_axis [OF assms(2) i(2)] axis_numbers_bound [OF assms(1,4)] by simp
  then have "filter (\<lambda>i. item_text i (f_xAxis f) = int_str n) filtered \<noteq> []"
    using i(1) by (auto simp: filter_empty_conv)
  then have "(int_str n, filter (\<lambda>i. item_text i (f_xAxis f) = int_str n) filtered) \<in> set m"
    using grouped_table_entry [OF assms(3)] int_str_plain by blast
  then show ?thesis by force
qed

text \<open>The sort compares the numbers on the axis.\<close>

definition point_num :: "string \<Rightarrow> point \<Rightarrow> int" where
  "point_num x p = (case val_num (obj_get p x) of Fin q \<Rightarrow> \<lfloor>q\<rfloor> | _ \<Rightarrow> 0)"

definition on_axis :: "string \<Rightarrow> point \<Rightarrow> bool" where
  "on_axis x p \<longleftrightarrow> (\<exists>n. \<bar>n\<bar> \<le> 2 ^ 53 \<and> obj_get p x = Own (PStr (int_str n)))"

lemma on_axis_num:
  assumes "obj_get p x = Own (PStr (int_str n))" "\<bar>n\<bar> \<le> 2 ^ 53"
  shows "val_num (obj_get p x) = num_of_int n" "point_num x p = n"
proof -
  show "val_num (obj_get p x) = num_of_int n" unfolding assms(1) val_num.simps by (rule string_to_num_int_str [OF assms(2)])
  then show "point_num x p = n" by (simp add: point_num_def)
qed

lemma point_after_num:
  assumes "on_axis x p" "on_axis x q"
  shows "point_after lc x p q \<longleftrightarrow> point_num x q < point_num x p"
proof -
  obtain m n where m: "\<bar>m\<bar> \<le> 2 ^ 53" "obj_get p x = Own (PStr (int_str m))"
    and n: "\<bar>n\<bar> \<le> 2 ^ 53" "obj_get q x = Own (PStr (int_str n))"
    using assms unfolding on_axis_def by blast
  have "num_after (num_of_int m) (num_of_int n) \<longleftrightarrow> n < m"
    using num_after_iff [of "num_of_int m" "num_of_int n"] is_double_int [OF m(1)] is_double_int [OF n(1)] by simp
  then show ?thesis using on_axis_num [OF m(2,1)] on_axis_num [OF n(2,1)]
    by (simp add: point_after_def Let_def)
qed

lemma point_comparator: "js_comparator (point_after lc x) (on_axis x)"
  by unfold_locales (auto simp: point_after_num)

lemma sort_points:
  assumes "\<forall>p\<in>set ps. on_axis x p" "distinct (map (point_num x) ps)"
  shows "sorted_wrt (<) (map (point_num x) (js_sort (point_after lc x) ps))"
proof -
  let ?qs = "js_sort (point_after lc x) ps"
  have "sorted_wrt (\<lambda>p q. \<not> point_after lc x p q) ?qs"
    using js_comparator.sort_sorted [OF point_comparator] assms(1) by blast
  then have "sorted_wrt (\<lambda>p q. point_num x p \<le> point_num x q) ?qs"
    by (rule sorted_wrt_mono_rel [rotated]) (use assms(1) point_after_num in \<open>simp add: not_less\<close>)
  then have "sorted (map (point_num x) ?qs)" by (simp add: sorted_wrt_map)
  moreover have "distinct (map (point_num x) ?qs)"
    using assms(2) by (metis mset_eq_imp_distinct_iff mset_js_sort mset_map)
  ultimately show ?thesis by (simp add: strict_sorted_iff)
qed

text \<open>The points before sorting: one per number on the axis, as the reference says.\<close>

definition point_ok :: "filter_state \<Rightarrow> bool jsobj \<Rightarrow> tagged_result list \<Rightarrow> point \<Rightarrow> bool" where
  "point_ok f visible filtered p \<longleftrightarrow>
     point_num (f_xAxis f) p \<in> axis_numbers (f_xAxis f) filtered \<and> on_axis (f_xAxis f) p
     \<and> point_for f visible filtered (point_num (f_xAxis f) p) p"

lemma reference_point_ok:
  assumes "f_xAxis f \<in> set x_axes" "\<forall>i\<in>set filtered. chartable f i"
    and "grouped_table (\<lambda>i. item_text i (f_xAxis f)) filtered m" "e \<in> set m"
  shows "point_ok f visible filtered (reference_point f visible e)
     \<and> int_str (point_num (f_xAxis f) (reference_point f visible e)) = fst e"
proof -
  obtain n where n: "n \<in> axis_numbers (f_xAxis f) filtered" "fst e = int_str n"
    "point_for f visible filtered n (reference_point f visible e)"
    using entry_point_for [OF assms(2,1,3), of "fst e" "snd e"] assms(4) by auto
  have bound: "\<bar>n\<bar> \<le> 2 ^ 53" by (rule axis_numbers_bound [OF assms(2) n(1)])
  have axis: "obj_get (reference_point f visible e) (f_xAxis f) = Own (PStr (int_str n))"
    using n(3) by (simp add: point_for_def)
  show ?thesis unfolding point_ok_def on_axis_num(2) [OF axis bound] on_axis_def using n bound axis by auto
qed

lemma chartData_reference:
  assumes "f_xAxis f \<in> set x_axes" "\<forall>i\<in>set (filteredData items f). chartable f i"
  shows "\<exists>m. grouped_table (\<lambda>i. item_text i (f_xAxis f)) (filteredData items f) m
     \<and> chartData lc items f visible =
         Inr (js_sort (point_after lc (f_xAxis f)) (map (reference_point f visible) (obj_entries m)))"
proof -
  let ?x = "f_xAxis f" and ?items = "filteredData items f"
  have "\<forall>i\<in>set ?items. plain_key (item_text i ?x)"
    using assms item_text_axis [OF assms(1)] chartable_axis int_str_plain by metis
  then obtain m where m: "groupedByXAxis ?x ?items = Inr m" "grouped_table (\<lambda>i. item_text i ?x) ?items m"
    using foldE_push_group [of ?items "\<lambda>i. item_text i ?x"] unfolding groupedByXAxis_def by blast
  have "build_point f visible e = Inr (reference_point f visible e)" if "e \<in> set (obj_entries m)" for e
    using that grouped_table_entry [OF m(2), of "fst e" "snd e"] assms(2)
    by (intro build_point_reference) auto
  then have "mapE (build_point f visible) (obj_entries m) = Inr (map (reference_point f visible) (obj_entries m))"
    by (rule mapE_total)
  then show ?thesis using m by (auto simp: chartData_def)
qed

lemma chartData_points:
  assumes "f_xAxis f \<in> set x_axes" "\<forall>i\<in>set (filteredData items f). chartable f i"
  shows "\<exists>points ns. chartData lc items f visible = Inr points
     \<and> sorted_wrt (<) ns \<and> set ns = axis_numbers (f_xAxis f) (filteredData items f)
     \<and> list_all2 (point_for f visible (filteredData items f)) ns points"
proof -
  let ?x = "f_xAxis f" and ?items = "filteredData items f"
  obtain m where m: "grouped_table (\<lambda>i. item_text i ?x) ?items m" and
    run: "chartData lc items f visible =
      Inr (js_sort (point_after lc ?x) (map (reference_point f visible) (obj_entries m)))"
    using chartData_reference [OF assms] by blast
  let ?ps = "map (reference_point f visible) (obj_entries m)"
  let ?qs = "js_sort (point_after lc ?x) ?ps"
  have ok: "point_ok f visible ?items (reference_point f visible e)"
    "int_str (point_num ?x (reference_point f visible e)) = fst e" if "e \<in> set m" for e
    using reference_point_ok [OF assms m that] by auto
  have "map int_str (map (point_num ?x) ?ps) = obj_keys m"
    using ok(2) by (simp add: obj_keys_def)
  then have "distinct (map (point_num ?x) ?ps)"
    using m distinct_obj_keys [of m] by (metis distinct_map grouped_table_def)
  then have "sorted_wrt (<) (map (point_num ?x) ?qs)"
    by (intro sort_points) (use ok(1) in \<open>auto simp: point_ok_def\<close>)
  moreover have "set (map (point_num ?x) ?qs) = axis_numbers ?x ?items"
  proof (intro equalityI subsetI)
    fix n assume n: "n \<in> axis_numbers ?x ?items"
    obtain e where e: "e \<in> set m" "fst e = int_str n"
      using axis_number_entry [OF assms(2,1) m n] by (metis imageE)
    have "point_num ?x (reference_point f visible e) = n"
      using ok [OF e(1)] e(2) axis_numbers_bound [OF assms(2)] n int_str_inj by (metis point_ok_def)
    then show "n \<in> set (map (point_num ?x) ?qs)" using e(1) by force
  qed (use ok(1) in \<open>auto simp: point_ok_def\<close>)
  moreover have "list_all2 (point_for f visible ?items) (map (point_num ?x) ?qs) ?qs"
  proof -
    have "\<forall>q\<in>set ?qs. point_for f visible ?items (point_num ?x q) q" using ok(1) by (auto simp: point_ok_def)
    then show ?thesis by (rule list_all2_map_self)
  qed
  ultimately show ?thesis using run by blast
qed

text \<open>
  C16 (the chart). When every filtered result has a whole number on the axis, a server and
  metrics, and no data key is the name of the axis, the chart has one point for each number that
  occurs on the axis, in ascending order, and each point holds exactly what the visible results
  at that number assign: their metric under their data key and the result itself under that key
  with \<^verbatim>\<open>_data\<close>, the last assignment to a key deciding.
\<close>

theorem chartData_spec:
  assumes "f_xAxis f \<in> set x_axes" "\<forall>i\<in>set (filteredData items f). chartable f i"
  shows "\<exists>points ns. chartData lc items f visible = Inr points
     \<and> sorted_wrt (<) ns \<and> set ns = axis_numbers (f_xAxis f) (filteredData items f)
     \<and> list_all2 (point_for f visible (filteredData items f)) ns points"
  by (rule chartData_points [OF assms])

definition chart_filters :: filter_state where
  "chart_filters = sample_filters\<lparr>f_cpu := ''M1'', f_testCase := ''hello'', f_http2 := All\<rparr>"

definition chart_items :: "tagged_result list" where
  "chart_items = [sample_item ''itsi'' ''hello'' 1 2 50 True 900, sample_item ''puma'' ''hello'' 1 2 10 False 400,
     sample_item ''itsi'' ''hello'' 1 2 10 True 500, sample_item ''itsi'' ''other'' 1 2 99 True 1]"

lemma chart_items_filtered: "filteredData chart_items chart_filters = take 3 chart_items"
  by (simp add: filteredData_def keep_item_def chart_items_def chart_filters_def sample_filters_def sample_defs num_eq_def)

lemma chart_items_ok: "f_xAxis chart_filters \<in> set x_axes" "\<forall>i\<in>set (filteredData chart_items chart_filters). chartable chart_filters i"
  unfolding chart_items_filtered
  by (simp_all add: chart_filters_def sample_filters_def x_axes_def chart_items_def chartable_def axis_value_def
      sample_defs whole_num_def data_key_def formatServerName_def)

lemma of_int_numeral_iff: "(of_int n :: rat) = numeral k \<longleftrightarrow> n = numeral k"
  by (metis of_int_eq_iff of_int_numeral)

theorem chartData_spec_witness:
  "\<exists>points ns. chartData (\<lambda>_ _. 0) chart_items chart_filters [(''itsi'', True)] = Inr points
     \<and> sorted_wrt (<) ns \<and> set ns = {10, 50 :: int} \<and> length points = length ns"
proof -
  obtain points ns where r: "chartData (\<lambda>_ _. 0) chart_items chart_filters [(''itsi'', True)] = Inr points"
    "sorted_wrt (<) ns" "set ns = axis_numbers (f_xAxis chart_filters) (filteredData chart_items chart_filters)"
    "list_all2 (point_for chart_filters [(''itsi'', True)] (filteredData chart_items chart_filters)) ns points"
    using chartData_spec [OF chart_items_ok, of "\<lambda>_ _. 0" "[(''itsi'', True)]"] by blast
  have "axis_numbers (f_xAxis chart_filters) (filteredData chart_items chart_filters) = {10, 50}"
    unfolding chart_items_filtered axis_numbers_def
    by (auto simp: chart_items_def chart_filters_def sample_filters_def axis_value_def sample_defs of_int_numeral_iff)
  then show ?thesis using r(1-3) list_all2_lengthD [OF r(4)] by (intro exI [of _ points] exI [of _ ns]) simp
qed

section \<open>Hovering\<close>

lemma data_key_plain: "plain_key (k @ ''_data'')"
proof -
  have "last (k @ ''_data'') = CHR ''a''" by simp
  then show ?thesis by (auto simp: plain_key_def proto_names_def)
qed

text \<open>
  C18 (hovering a bar shows its result). The payload of a bar is the visible result that set it:
  hovering the bar of a data key selects the last result at that number which has the key, unless
  a later server's key is the same key with \<^verbatim>\<open>_data\<close>.
\<close>

theorem hover_shows_result:
  assumes "point_for f visible filtered n p" "f_xAxis f \<in> set x_axes"
    and "filter (\<lambda>j. axis_value (f_xAxis f) j = Val (num_of_int n)) filtered = ys @ i # zs"
    and "chartable f i" "truthy_slot (obj_get visible (str_key (server i)))" "data_key f i = Inr k"
    and "\<forall>j\<in>set zs. data_key f j \<noteq> Inr k \<and> data_key f j \<noteq> Inr (k @ ''_data'')"
  shows "handleChartHover (Val ((k, p) # rest)) = Some (PItem i, k)"
proof -
  let ?es = "\<lambda>js. rev (concat (map (point_entries f visible) js))"
  obtain r where "results i = Val r" using assms(4) by (cases "results i") (auto simp: chartable_def)
  then obtain w where i: "point_entries f visible i = [(k, PNum w), (k @ ''_data'', PItem i)]"
    using assms(5,6) by (simp add: point_entries_def metric_of_def)
  have "k @ ''_data'' \<noteq> fst e" if "e \<in> set (point_entries f visible j)" "j \<in> set zs" for e j
    using point_entries_cases [of f visible j] that assms(7) by auto
  then have "k @ ''_data'' \<notin> fst ` set (?es zs)" by fastforce
  then have "map_of (?es zs) (k @ ''_data'') = None" by (simp only: map_of_eq_None_iff not_False_eq_True)
  then have "map_of (?es (ys @ i # zs)) (k @ ''_data'') = Some (PItem i)"
    using i by (simp add: map_add_def)
  then have "obj_get p (k @ ''_data'') = Own (PItem i)"
    using assms(1) data_key_plain axis_not_data [OF assms(2)] unfolding point_for_def assms(3) by simp
  then show ?thesis by (simp add: handleChartHover_def)
qed

theorem hover_shows_result_witness:
  "\<exists>p. handleChartHover (Val [(''itsi (HTTP/2)'', p)]) =
     Some (PItem (sample_item ''itsi'' ''hello'' 1 2 10 True 500), ''itsi (HTTP/2)'')"
proof -
  obtain points ns where r: "set ns = axis_numbers (f_xAxis chart_filters) (filteredData chart_items chart_filters)"
    "list_all2 (point_for chart_filters [(''itsi'', True)] (filteredData chart_items chart_filters)) ns points"
    using chartData_points [OF chart_items_ok, of "\<lambda>_ _. 0" "[(''itsi'', True)]"] by blast
  have axis: "f_xAxis chart_filters = ''concurrency''" by (simp add: chart_filters_def sample_filters_def)
  let ?i = "sample_item ''itsi'' ''hello'' 1 2 10 True 500" and ?j = "sample_item ''puma'' ''hello'' 1 2 10 False 400"
  have at10: "filter (\<lambda>j. axis_value ''concurrency'' j = Val (num_of_int 10)) (filteredData chart_items chart_filters)
      = [?j] @ ?i # []"
    unfolding chart_items_filtered by (simp add: chart_items_def axis_value_def sample_defs)
  then have "?i \<in> set (filter (\<lambda>j. axis_value ''concurrency'' j = Val (num_of_int 10)) (filteredData chart_items chart_filters))"
    by simp
  then have "10 \<in> set ns" and chartable: "chartable chart_filters ?i"
    using r(1) chart_items_ok(2) by (auto simp: axis axis_numbers_def)
  then obtain p where p: "point_for chart_filters [(''itsi'', True)] (filteredData chart_items chart_filters) 10 p"
    using r(2) by (metis in_set_conv_nth list_all2_conv_all_nth)
  have "handleChartHover (Val [(''itsi (HTTP/2)'', p)]) = Some (PItem ?i, ''itsi (HTTP/2)'')"
    by (rule hover_shows_result [OF p chart_items_ok(1) at10 [folded axis] chartable])
      (simp_all add: sample_defs obj_get_def data_key_def formatServerName_def chart_filters_def)
  then show ?thesis by blast
qed

section \<open>The bars that are drawn\<close>

lemma mem_server_keys_all:
  assumes "f_http2 f = All"
  shows "k \<in> set (server_keys f visible filtered s) \<longleftrightarrow>
     truthy_slot (obj_get visible s) \<and> (\<exists>i\<in>set filtered. server i = Val s \<and> data_key f i = Inr k)"
proof -
  define k1 where "k1 = replace_uu s @ '' (HTTP/1.1)''"
  define k2 where "k2 = replace_uu s @ '' (HTTP/2)''"
  have keys: "k \<in> set (server_keys f visible filtered s) \<longleftrightarrow> truthy_slot (obj_get visible s)
      \<and> ((\<exists>i\<in>set filtered. server i = Val s \<and> http2 i \<noteq> Val True) \<and> k = k1
         \<or> (\<exists>i\<in>set filtered. server i = Val s \<and> http2 i = Val True) \<and> k = k2)"
    unfolding server_keys_def Let_def k1_def [symmetric] k2_def [symmetric] using assms by (simp add: Bex_def) blast
  have "data_key f i = Inr (if http2 i = Val True then k2 else k1)" if "server i = Val s" for i
    using that assms by (simp add: data_key_def formatServerName_def k1_def k2_def)
  then have "data_key f i = Inr k \<longleftrightarrow> k = (if http2 i = Val True then k2 else k1)" if "server i = Val s" for i
    using that by auto
  then show ?thesis unfolding keys by (auto split: if_splits)
qed

text \<open>
  C17 (the bars match the points). With all protocols shown, the data keys for which the chart
  draws a bar are exactly the data keys under which the visible filtered results are stored.
\<close>

theorem visibleDataKeys_exact:
  assumes "f_http2 f = All" "\<forall>i\<in>set (filteredData items f). truthy_str (server i)"
  shows "set (visibleDataKeys (fo_servers (filterOptions cpus items (f_cpu f) (f_testCase f))) f visible
       (filteredData items f)) =
     {k. \<exists>i\<in>set (filteredData items f). truthy_slot (obj_get visible (str_key (server i))) \<and> data_key f i = Inr k}"
proof -
  let ?servers = "fo_servers (filterOptions cpus items (f_cpu f) (f_testCase f))"
  have "server i = Val s \<longrightarrow> s \<in> set ?servers" if "i \<in> set (filteredData items f)" for i s
    using that assms(2)
    by (fastforce simp: filterOptions_def cpuFilteredData_def Let_def filteredData_def keep_item_def split: if_splits)
  moreover have "\<exists>s. server i = Val s" if "i \<in> set (filteredData items f)" for i
    using that assms(2) by (cases "server i") auto
  ultimately show ?thesis unfolding visibleDataKeys_def
    by (auto simp: mem_server_keys_all [OF assms(1)]) (metis str_key.simps(3))+
qed

theorem visibleDataKeys_exact_witness:
  "''itsi (HTTP/2)'' \<in> set (visibleDataKeys (fo_servers (filterOptions [''M1''] chart_items ''M1'' ''hello'')) chart_filters
     [(''itsi'', True)] (filteredData chart_items chart_filters))"
proof -
  have f: "f_cpu chart_filters = ''M1''" "f_testCase chart_filters = ''hello''" "f_http2 chart_filters = All"
    by (simp_all add: chart_filters_def)
  have "\<forall>i\<in>set (filteredData chart_items chart_filters). truthy_str (server i)"
    unfolding chart_items_filtered by (simp add: chart_items_def sample_defs)
  then have "set (visibleDataKeys (fo_servers (filterOptions [''M1''] chart_items ''M1'' ''hello'')) chart_filters
      [(''itsi'', True)] (filteredData chart_items chart_filters)) = {k. \<exists>i\<in>set (filteredData chart_items chart_filters).
        truthy_slot (obj_get [(''itsi'', True)] (str_key (server i))) \<and> data_key chart_filters i = Inr k}"
    using visibleDataKeys_exact [OF f(3), of chart_items "[''M1'']" "[(''itsi'', True)]"] unfolding f by blast
  then show ?thesis unfolding chart_items_filtered
    by (simp add: chart_items_def sample_defs obj_get_def data_key_def formatServerName_def f)
qed

end
