(* ===== verification/Dashboard_State.thy ===== *)
theory Dashboard_State
  imports Dashboard_Points
begin

text \<open>
  The dashboard as a state machine: the React state of \<^verbatim>\<open>BenchmarkDashboard\<close>, its four effects run
  in order after each commit, the re-rendering they cause until nothing changes any more, and the
  event handlers. React's rules that the model follows: the effects of a commit run in source
  order; each runs when one of its dependencies differs from the previous commit (all run on
  mount); they see the values of the render they belong to; the state updates they queue are
  applied in order before the next render; an updater that returns a fresh object re-renders.
\<close>

section \<open>State\<close>

record dash =
  d_filters :: filter_state
  d_visible :: "bool jsobj"
  d_hovered :: "point_val option"
  d_activeKey :: "string option"
  d_window :: "location option"

text \<open>
  What changed since the previous commit: the identity of the two state objects, and the CPU and
  test case the repair effect last saw (\<open>None\<close> before the mount).
\<close>

record commit_deps =
  cd_filters :: bool
  cd_visible :: bool
  cd_key :: "(string \<times> string) option"

definition visibleServersForUrl :: "bool jsobj \<Rightarrow> string list" where
  "visibleServersForUrl visible = filter (\<lambda>s. truthy_slot (obj_get visible s)) (obj_keys visible)"

text \<open>\<^verbatim>\<open>{ ...filters, visibleServers: visibleServersForUrl }\<close>\<close>

definition shown_filters :: "dash \<Rightarrow> filter_state" where
  "shown_filters s = (d_filters s)\<lparr>f_visibleServers := visibleServersForUrl (d_visible s)\<rparr>"

definition filter_key :: "filter_state \<Rightarrow> string \<times> string" where
  "filter_key f = (f_cpu f, f_testCase f)"

definition options_for :: "filter_options \<Rightarrow> tagged_result list \<Rightarrow> filter_state \<Rightarrow> filter_options" where
  "options_for opts items f = filterOptions (fo_cpus opts) items (f_cpu f) (f_testCase f)"

section \<open>Effects\<close>

text \<open>Write the filters to the URL when they changed.\<close>

definition write_effect :: "commit_deps \<Rightarrow> dash \<Rightarrow> location option \<Rightarrow> location option" where
  "write_effect p s win =
     (if cd_key p = None \<or> cd_filters p then updateUrlParams (d_filters s) win else win)"

text \<open>
  Load the filters from the URL once the data is there. Its dependencies change only with the
  data, so it runs on mount. The result is what \<^verbatim>\<open>setFilters\<close> and \<^verbatim>\<open>setVisibleServers\<close> are called with.
\<close>

definition load_effect ::
  "filter_options \<Rightarrow> commit_deps \<Rightarrow> location option \<Rightarrow> (filter_state \<times> bool jsobj) option" where
  "load_effect opts p win =
     (if cd_key p = None \<and> fo_cpus opts \<noteq> []
      then map_option (\<lambda>u. (validateAndSanitizeFilters opts u, visible_from_url (fo_servers opts) (Some u)))
             (parseUrlParams win)
      else None)"

text \<open>Repair the selection when the CPU or the options changed: the queued updater.\<close>

definition repair_effect ::
  "filter_options \<Rightarrow> tagged_result list \<Rightarrow> commit_deps \<Rightarrow> dash \<Rightarrow> (filter_state \<Rightarrow> filter_state) option" where
  "repair_effect opts items p s =
     (if cd_key p = Some (filter_key (d_filters s)) then None
      else Some (repair_filters (options_for opts items (d_filters s))))"

text \<open>Write the filters with the visible servers when either changed.\<close>

definition write_visible_effect :: "commit_deps \<Rightarrow> dash \<Rightarrow> location option \<Rightarrow> location option" where
  "write_visible_effect p s win =
     (if cd_key p = None \<or> cd_filters p \<or> cd_visible p
      then updateUrlParams (shown_filters s) win else win)"

text \<open>One commit: the effects in source order, then the queued updates.\<close>

definition run_effects ::
  "filter_options \<Rightarrow> tagged_result list \<Rightarrow> commit_deps \<Rightarrow> dash \<Rightarrow> dash \<times> commit_deps" where
  "run_effects opts items p s =
     (let win1 = write_effect p s (d_window s);
          load = load_effect opts p win1;
          repair = repair_effect opts items p s;
          win2 = write_visible_effect p s win1;
          filters1 = (case load of Some (f, _) \<Rightarrow> f | None \<Rightarrow> d_filters s);
          filters2 = (case repair of Some repair_upd \<Rightarrow> repair_upd filters1 | None \<Rightarrow> filters1);
          visible1 = (case load of Some (_, v) \<Rightarrow> v | None \<Rightarrow> d_visible s)
      in (s\<lparr>d_filters := filters2, d_visible := visible1, d_window := win2\<rparr>,
          \<lparr>cd_filters = (load \<noteq> None \<or> repair \<noteq> None), cd_visible = (load \<noteq> None),
           cd_key = Some (filter_key (d_filters s))\<rparr>))"

text \<open>Re-render until a commit queues no update; \<open>None\<close> would be an endless loop of renders.\<close>

partial_function (option) settle ::
  "filter_options \<Rightarrow> tagged_result list \<Rightarrow> commit_deps \<Rightarrow> dash \<Rightarrow> dash option" where
  "settle opts items p s =
     (let r = run_effects opts items p s
      in if cd_filters (snd r) \<or> cd_visible (snd r) then settle opts items (snd r) (fst r)
         else Some (fst r))"

definition initial_dash :: "filter_options \<Rightarrow> location option \<Rightarrow> dash" where
  "initial_dash opts win =
     \<lparr>d_filters = initial_filters opts win, d_visible = initial_visibleServers opts win,
      d_hovered = None, d_activeKey = None, d_window = win\<rparr>"

definition mount :: "filter_options \<Rightarrow> tagged_result list \<Rightarrow> location option \<Rightarrow> dash option" where
  "mount opts items win =
     settle opts items \<lparr>cd_filters = True, cd_visible = True, cd_key = None\<rparr> (initial_dash opts win)"

section \<open>Events\<close>

text \<open>
  \<^verbatim>\<open>{ ...prev, [server]: !prev[server] }\<close> defines the computed key, whatever its name, where an
  assignment to \<^verbatim>\<open>__proto__\<close> would be ignored.
\<close>

definition handleLegendClick :: "string list \<Rightarrow> string \<Rightarrow> bool \<Rightarrow> bool jsobj \<Rightarrow> bool jsobj" where
  "handleLegendClick servers s isExclusiveMode prev =
     (if isExclusiveMode then fill_visible servers (\<lambda>t. t = s) []
      else upd s (\<not> truthy_slot (obj_get prev s)) prev)"

datatype event =
    FilterChange filter_update
  | LegendClick string bool
  | ChartHover "(string \<times> point) list jopt"
  | ChartLeave

text \<open>The state update of an event and which of the two state objects it replaces.\<close>

fun on_event :: "filter_options \<Rightarrow> event \<Rightarrow> dash \<Rightarrow> dash \<times> bool \<times> bool" where
  "on_event opts (FilterChange u) s = (s\<lparr>d_filters := handleFilterChange u (d_filters s)\<rparr>, True, False)"
| "on_event opts (LegendClick srv ex) s =
     (s\<lparr>d_visible := handleLegendClick (fo_servers opts) srv ex (d_visible s)\<rparr>, False, True)"
| "on_event opts (ChartHover pl) s =
     (s\<lparr>d_hovered := map_option fst (handleChartHover pl), d_activeKey := map_option snd (handleChartHover pl)\<rparr>,
      False, False)"
| "on_event opts ChartLeave s = (s\<lparr>d_hovered := None, d_activeKey := None\<rparr>, False, False)"

definition dispatch_event ::
  "filter_options \<Rightarrow> tagged_result list \<Rightarrow> event \<Rightarrow> dash \<Rightarrow> dash option" where
  "dispatch_event opts items e s =
     (case on_event opts e s of
        (s', chgF, chgV) \<Rightarrow>
          settle opts items
            \<lparr>cd_filters = chgF, cd_visible = chgV, cd_key = Some (filter_key (d_filters s))\<rparr> s')"

inductive dash_reachable ::
  "filter_options \<Rightarrow> tagged_result list \<Rightarrow> location option \<Rightarrow> dash \<Rightarrow> bool"
  for opts :: filter_options and items :: "tagged_result list" and win :: "location option" where
  reach_mount: "mount opts items win = Some s \<Longrightarrow> dash_reachable opts items win s"
| reach_event: "dash_reachable opts items win s \<Longrightarrow> dispatch_event opts items e s = Some s' \<Longrightarrow>
     dash_reachable opts items win s'"

section \<open>What holds after every render has settled\<close>

text \<open>The repair effect has nothing left to repair.\<close>

definition selection_settled :: "filter_options \<Rightarrow> tagged_result list \<Rightarrow> dash \<Rightarrow> bool" where
  "selection_settled opts items s \<longleftrightarrow>
     repair_filters (options_for opts items (d_filters s)) (d_filters s) = d_filters s"

text \<open>The query string shows the filters with the servers that are visible.\<close>

definition url_synced :: "dash \<Rightarrow> bool" where
  "url_synced s \<longleftrightarrow> (case d_window s of None \<Rightarrow> True
     | Some l \<Rightarrow> printable (d_filters s) \<longrightarrow> params_show (shown_filters s) (search_params l))"

section \<open>The effects\<close>

lemma options_for_key: "filter_key f = filter_key g \<Longrightarrow> options_for opts items f = options_for opts items g"
  by (simp add: options_for_def filter_key_def)

lemma key_fst_repair [simp]: "fst (filter_key (repair_filters o' f)) = fst (filter_key f)"
  by (simp add: filter_key_def)

text \<open>The test case is one of the CPU's test cases, or empty when it has none.\<close>

definition test_case_ok :: "filter_options \<Rightarrow> tagged_result list \<Rightarrow> filter_state \<Rightarrow> bool" where
  "test_case_ok opts items f \<longleftrightarrow>
     (let cases = fo_testCases (options_for opts items f)
      in if cases = [] then f_testCase f = [] else f_testCase f \<in> set cases)"

lemma testCases_for: "fo_testCases (options_for opts items f) = str_options test_case (cpuFilteredData items (f_cpu f))"
  by (simp add: options_for_def filterOptions_def Let_def)

lemma testCases_ne: "s \<in> set (fo_testCases (options_for opts items f)) \<Longrightarrow> s \<noteq> []"
  by (simp add: testCases_for)

lemma first_test_case:
  "xs = str_options f items \<Longrightarrow> xs \<noteq> [] \<Longrightarrow> first_or (\<lambda>s. s \<noteq> []) xs d \<in> set xs"
  by (rule first_or_in) simp_all

lemma repair_test_case:
  assumes "f_cpu g = f_cpu f"
  shows "test_case_ok opts items (repair_filters (options_for opts items g) f)"
proof (cases "str_options test_case (cpuFilteredData items (f_cpu f)) = []")
  case True
  then show ?thesis using assms by (simp add: test_case_ok_def testCases_for repair_filters_def first_or_def)
next
  case False
  then show ?thesis using assms first_test_case [OF refl False, of "[]"]
    by (simp add: test_case_ok_def testCases_for repair_filters_def del: set_str_options)
qed

text \<open>The step of one commit: whether it re-renders, and the repaired filters.\<close>

lemma run_effects_quiet:
  assumes "cd_key p = Some (filter_key (d_filters s))"
  shows "run_effects opts items p s =
     (s\<lparr>d_window := write_visible_effect p s (write_effect p s (d_window s))\<rparr>,
      \<lparr>cd_filters = False, cd_visible = False, cd_key = Some (filter_key (d_filters s))\<rparr>)"
  using assms by (simp add: run_effects_def load_effect_def repair_effect_def Let_def)

lemma run_effects_repair:
  assumes "cd_key p = Some k" "k \<noteq> filter_key (d_filters s)"
  shows "run_effects opts items p s =
     (s\<lparr>d_filters := repair_filters (options_for opts items (d_filters s)) (d_filters s),
        d_window := write_visible_effect p s (write_effect p s (d_window s))\<rparr>,
      \<lparr>cd_filters = True, cd_visible = False, cd_key = Some (filter_key (d_filters s))\<rparr>)"
  using assms by (simp add: run_effects_def load_effect_def repair_effect_def Let_def)

lemma run_effects_mount:
  assumes "cd_key p = None"
  shows "cd_filters (snd (run_effects opts items p s))" "cd_key (snd (run_effects opts items p s)) \<noteq> None"
  using assms by (simp_all add: run_effects_def repair_effect_def Let_def)

section \<open>Every render settles\<close>

lemma settle_quiet:
  "cd_key p = Some (filter_key (d_filters s)) \<Longrightarrow> settle opts items p s =
     Some (s\<lparr>d_window := write_visible_effect p s (write_effect p s (d_window s))\<rparr>)"
  by (subst settle.simps) (simp add: run_effects_quiet Let_def)

lemma settle_step:
  "cd_filters (snd (run_effects opts items p s)) \<Longrightarrow> settle opts items p s =
     settle opts items (snd (run_effects opts items p s)) (fst (run_effects opts items p s))"
  by (subst settle.simps) (simp add: Let_def)

text \<open>A repaired test case survives the next repair, so the key changes at most once more.\<close>

lemma repair_key:
  assumes "test_case_ok opts items f" "f_cpu g = f_cpu f"
  shows "filter_key (repair_filters (options_for opts items g) f) = filter_key f"
  using assms by (auto simp: filter_key_def repair_filters_def test_case_ok_def Let_def testCases_for first_or_def
      split: if_splits)

lemma settle_ok:
  assumes "test_case_ok opts items (d_filters s)" "cd_key p = Some k"
  shows "\<exists>s'. settle opts items p s = Some s'"
proof (cases "k = filter_key (d_filters s)")
  case True
  then show ?thesis using settle_quiet assms(2) by blast
next
  case False
  note step = run_effects_repair [OF assms(2) False, of opts items]
  have "filter_key (d_filters (fst (run_effects opts items p s))) = filter_key (d_filters s)"
    using step repair_key [OF assms(1) refl] by simp
  then show ?thesis
    using settle_step [of opts items p s] step
      settle_quiet [of "snd (run_effects opts items p s)" "fst (run_effects opts items p s)"] by simp
qed

lemma settle_after_mount:
  assumes "cd_key p = Some k"
  shows "\<exists>s'. settle opts items p s = Some s'"
proof (cases "k = filter_key (d_filters s)")
  case True
  then show ?thesis using settle_quiet assms by blast
next
  case False
  note step = run_effects_repair [OF assms False, of opts items]
  have "test_case_ok opts items (d_filters (fst (run_effects opts items p s)))"
    using step repair_test_case [of "d_filters s" "d_filters s"] by simp
  then show ?thesis
    using settle_step [of opts items p s] settle_ok step by simp
qed

lemma settle_total: "\<exists>s'. settle opts items p s = Some s'"
proof (cases "cd_key p")
  case None
  then show ?thesis
    using run_effects_mount [OF None, of opts items s] settle_step [of opts items p s] settle_after_mount
    by (metis not_None_eq)
qed (rule settle_after_mount)

section \<open>Invariants of settling\<close>

lemma run_effects_unchanged:
  assumes "\<not> cd_filters (snd (run_effects opts items p s))"
  shows "cd_key p = Some (filter_key (d_filters s))"
  using assms by (cases "cd_key p = Some (filter_key (d_filters s))") (auto simp: run_effects_def repair_effect_def Let_def)

text \<open>
  What every commit preserves holds of the settled state, together with dependencies that say
  nothing is pending.
\<close>

lemma settle_invariant:
  assumes "settle opts items p s = Some s'" "I p s"
    and pres: "\<And>p s. I p s \<Longrightarrow> I (snd (run_effects opts items p s)) (fst (run_effects opts items p s))"
  shows "\<exists>p'. I p' s' \<and> \<not> cd_filters p' \<and> \<not> cd_visible p' \<and> cd_key p' = Some (filter_key (d_filters s'))"
proof -
  let ?Q = "\<lambda>s'. \<exists>p'. I p' s' \<and> \<not> cd_filters p' \<and> \<not> cd_visible p' \<and> cd_key p' = Some (filter_key (d_filters s'))"
  have "opts = opts \<longrightarrow> items = items \<longrightarrow> I p s \<longrightarrow> ?Q s'"
  proof (rule settle.raw_induct [where P = "\<lambda>o' i p s s'. o' = opts \<longrightarrow> i = items \<longrightarrow> I p s \<longrightarrow> ?Q s'", OF _ assms(1)],
      intro impI)
    fix rec o' i p s s'
    assume IH: "\<And>o' i p s s'. rec o' i p s = Some s' \<Longrightarrow> o' = opts \<longrightarrow> i = items \<longrightarrow> I p s \<longrightarrow> ?Q s'"
      and body: "(let r = run_effects o' i p s
        in if cd_filters (snd r) \<or> cd_visible (snd r) then rec o' i (snd r) (fst r) else Some (fst r)) = Some s'"
      and eqs: "o' = opts" "i = items" and I: "I p s"
    let ?r = "run_effects opts items p s"
    show "?Q s'"
    proof (cases "cd_filters (snd ?r) \<or> cd_visible (snd ?r)")
      case True
      then show ?thesis using body eqs IH pres [OF I] by (simp add: Let_def)
    next
      case False
      then have "cd_key p = Some (filter_key (d_filters s))" by (intro run_effects_unchanged [of opts items]) simp
      moreover have "s' = fst ?r" using body eqs False by (simp add: Let_def)
      ultimately show ?thesis using pres [OF I] False
        by (intro exI [of _ "snd ?r"]) (simp add: run_effects_quiet)
    qed
  qed
  then show ?thesis using assms(2) by simp
qed

text \<open>The repair effect leaves nothing to repair for the key it ran on.\<close>

definition repair_inv :: "filter_options \<Rightarrow> tagged_result list \<Rightarrow> commit_deps \<Rightarrow> dash \<Rightarrow> bool" where
  "repair_inv opts items p s \<longleftrightarrow>
     (cd_key p = Some (filter_key (d_filters s)) \<longrightarrow> selection_settled opts items s)"

lemma repair_inv_step:
  assumes "repair_inv opts items p s"
  shows "repair_inv opts items (snd (run_effects opts items p s)) (fst (run_effects opts items p s))"
proof (cases "cd_key p = Some (filter_key (d_filters s))")
  case True
  then show ?thesis using assms by (simp add: run_effects_quiet repair_inv_def selection_settled_def)
next
  case False
  then obtain f1 where
    "d_filters (fst (run_effects opts items p s)) = repair_filters (options_for opts items (d_filters s)) f1"
    "cd_key (snd (run_effects opts items p s)) = Some (filter_key (d_filters s))"
    by (auto simp: run_effects_def repair_effect_def Let_def)
  then show ?thesis
    using options_for_key [of "d_filters (fst (run_effects opts items p s))" "d_filters s" opts items]
    by (simp add: repair_inv_def selection_settled_def)
qed

definition test_case_inv :: "filter_options \<Rightarrow> tagged_result list \<Rightarrow> commit_deps \<Rightarrow> dash \<Rightarrow> bool" where
  "test_case_inv opts items p s \<longleftrightarrow>
     (cd_key p = Some (filter_key (d_filters s)) \<longrightarrow> test_case_ok opts items (d_filters s))"

lemma test_case_ok_key:
  "filter_key f = filter_key g \<Longrightarrow> test_case_ok opts items f = test_case_ok opts items g"
  by (simp add: test_case_ok_def filter_key_def testCases_for Let_def)

lemma test_case_inv_step:
  assumes "test_case_inv opts items p s"
  shows "test_case_inv opts items (snd (run_effects opts items p s)) (fst (run_effects opts items p s))"
proof (cases "cd_key p = Some (filter_key (d_filters s))")
  case True
  then show ?thesis using assms by (simp add: run_effects_quiet test_case_inv_def)
next
  case False
  then obtain f1 where f1:
    "d_filters (fst (run_effects opts items p s)) = repair_filters (options_for opts items (d_filters s)) f1"
    "cd_key (snd (run_effects opts items p s)) = Some (filter_key (d_filters s))"
    by (auto simp: run_effects_def repair_effect_def Let_def)
  show ?thesis unfolding test_case_inv_def f1
  proof
    assume "Some (filter_key (d_filters s)) = Some (filter_key (repair_filters (options_for opts items (d_filters s)) f1))"
    then have "f_cpu (d_filters s) = f_cpu f1" by (simp add: filter_key_def)
    then show "test_case_ok opts items (repair_filters (options_for opts items (d_filters s)) f1)"
      by (rule repair_test_case)
  qed
qed

definition url_inv :: "commit_deps \<Rightarrow> dash \<Rightarrow> bool" where
  "url_inv p s \<longleftrightarrow> (cd_key p \<noteq> None \<and> \<not> cd_filters p \<and> \<not> cd_visible p \<longrightarrow> url_synced s)"

lemma shown_filters_window [simp]: "shown_filters (s\<lparr>d_window := w\<rparr>) = shown_filters s"
  by (simp add: shown_filters_def)

lemma printable_shown [simp]: "printable (shown_filters s) = printable (d_filters s)"
  by (simp add: printable_def shown_filters_def)

lemma url_synced_written:
  "url_synced (s\<lparr>d_window := updateUrlParams (shown_filters s) win\<rparr>)"
proof (cases win)
  case None
  then show ?thesis by (simp add: url_synced_def updateUrlParams_def)
next
  case (Some l)
  then show ?thesis using updateUrlParams_shows [of "shown_filters s" l]
    by (auto simp: url_synced_def split: option.split)
qed

lemma url_inv_step:
  assumes "url_inv p s"
  shows "url_inv (snd (run_effects opts items p s)) (fst (run_effects opts items p s))"
proof (cases "cd_key p = Some (filter_key (d_filters s))")
  case True
  show ?thesis
  proof (cases "cd_filters p \<or> cd_visible p")
    case changed: True
    then show ?thesis using True url_synced_written
      by (simp add: run_effects_quiet url_inv_def write_visible_effect_def)
  next
    case False
    then have "url_synced s" using assms True by (simp add: url_inv_def)
    then show ?thesis using True False
      by (simp add: run_effects_quiet url_inv_def write_visible_effect_def write_effect_def url_synced_def
          shown_filters_def)
  qed
next
  case False
  then show ?thesis by (auto simp: run_effects_def repair_effect_def url_inv_def Let_def)
qed

section \<open>The life of the dashboard\<close>

text \<open>
  C9 (rendering ends). Whatever the data, the options, the URL and the event, mounting and every
  event settle after finitely many renders: the effects never feed each other forever.
\<close>

theorem renders_settle:
  "(\<exists>s. mount opts items win = Some s) \<and> (\<exists>s'. dispatch_event opts items e s = Some s')"
  using settle_total by (auto simp: mount_def dispatch_event_def split: prod.split)

lemma settle_selection:
  "settle opts items p s = Some s' \<Longrightarrow> repair_inv opts items p s \<Longrightarrow> selection_settled opts items s'"
  using settle_invariant [of opts items p s s' "repair_inv opts items"] repair_inv_step
  by (auto simp: repair_inv_def)

lemma settle_test_case:
  "settle opts items p s = Some s' \<Longrightarrow> test_case_inv opts items p s \<Longrightarrow> test_case_ok opts items (d_filters s')"
  using settle_invariant [of opts items p s s' "test_case_inv opts items"] test_case_inv_step
  by (auto simp: test_case_inv_def)

lemma settle_url:
  "settle opts items p s = Some s' \<Longrightarrow> url_inv p s \<Longrightarrow> url_synced s'"
  using settle_invariant [of opts items p s s' url_inv] url_inv_step
  by (auto simp: url_inv_def)


lemma event_url_inv:
  assumes "url_synced s" "on_event opts e s = (s', chgF, chgV)"
  shows "url_inv \<lparr>cd_filters = chgF, cd_visible = chgV, cd_key = Some k\<rparr> s'"
  using assms by (cases e) (auto simp: url_inv_def url_synced_def shown_filters_def split: option.splits)

lemma event_test_case_inv:
  assumes "test_case_ok opts items (d_filters s)" "on_event opts e s = (s', chgF, chgV)"
  shows "test_case_inv opts items \<lparr>cd_filters = chgF, cd_visible = chgV, cd_key = Some (filter_key (d_filters s))\<rparr> s'"
  using assms test_case_ok_key [of "d_filters s" "d_filters s'"] by (auto simp: test_case_inv_def)

text \<open>
  C3 (invariant of every reachable state). After any sequence of events, with any arguments, the
  test case exists for the selected CPU (or is empty when the CPU has none) and the query string
  shows the filters and the visible servers.
\<close>

theorem reachable_consistent:
  assumes "dash_reachable opts items win s"
  shows "test_case_ok opts items (d_filters s) \<and> url_synced s"
  using assms
proof induction
  case (reach_mount s)
  then show ?case
    using settle_test_case settle_url by (auto simp: mount_def test_case_inv_def url_inv_def)
next
  case (reach_event s e s')
  obtain s1 chgF chgV where ev: "on_event opts e s = (s1, chgF, chgV)" by (metis prod_cases3)
  then show ?case
    using reach_event settle_test_case settle_url event_url_inv [OF _ ev] event_test_case_inv [OF _ ev]
    by (auto simp: dispatch_event_def)
qed

text \<open>The choices that the controls offer in a state.\<close>

fun offered :: "filter_options \<Rightarrow> event \<Rightarrow> bool" where
  "offered o' (FilterChange (UCpu v)) = (v \<in> set (fo_cpus o'))"
| "offered o' (FilterChange (UTestCase v)) = (v \<in> set (fo_testCases o'))"
| "offered o' (FilterChange (UThreads v)) = (v \<in> set (fo_threads o'))"
| "offered o' (FilterChange (UWorkers v)) = (v \<in> set (fo_workers o'))"
| "offered o' (FilterChange (UConcurrency v)) = (v \<in> set (fo_concurrencyLevels o'))"
| "offered o' (FilterChange (UHttp2 v)) = (v \<in> set (fo_http2Options o'))"
| "offered o' (FilterChange (UXAxis v)) = (v \<in> set x_axes)"
| "offered o' (FilterChange (UMetric v)) = (v \<in> set metric_names)"
| "offered o' _ = True"

fun changes_axis :: "event \<Rightarrow> bool" where
  "changes_axis (FilterChange (UXAxis _)) = True"
| "changes_axis _ = False"

lemma repair_after_change:
  assumes "repair_filters o' f = f" "offered o' (FilterChange u)" "\<not> changes_axis (FilterChange u)"
    "filter_key (handleFilterChange u f) = filter_key f"
  shows "repair_filters o' (handleFilterChange u f) = handleFilterChange u f"
  using assms by (cases u; cases f) (auto simp: repair_filters_def filter_key_def split: if_splits)

lemma event_repair_inv:
  assumes "selection_settled opts items s" "offered (options_for opts items (d_filters s)) e" "\<not> changes_axis e"
    "on_event opts e s = (s', chgF, chgV)"
  shows "repair_inv opts items \<lparr>cd_filters = chgF, cd_visible = chgV, cd_key = Some (filter_key (d_filters s))\<rparr> s'"
proof (cases "\<exists>u. e = FilterChange u")
  case True
  then obtain u where u: "e = FilterChange u" by blast
  then have s': "d_filters s' = handleFilterChange u (d_filters s)" using assms(4) by auto
  show ?thesis unfolding repair_inv_def
  proof
    assume "cd_key \<lparr>cd_filters = chgF, cd_visible = chgV, cd_key = Some (filter_key (d_filters s))\<rparr>
      = Some (filter_key (d_filters s'))"
    then have key: "filter_key (d_filters s') = filter_key (d_filters s)" by simp
    then have "options_for opts items (d_filters s') = options_for opts items (d_filters s)"
      by (rule options_for_key)
    then show "selection_settled opts items s'"
      using repair_after_change [of _ "d_filters s" u] assms(1-3) key s' u by (simp add: selection_settled_def)
  qed
next
  case False
  then have "d_filters s' = d_filters s" using assms(4) by (cases e) auto
  then show ?thesis using assms(1) by (simp add: repair_inv_def selection_settled_def)
qed

text \<open>
  C12 (offered choices keep the selection repaired). From a state whose selection needs no repair,
  every choice a control offers except a change of the x-axis leads to another such state.
\<close>

theorem offered_event_settles:
  assumes "selection_settled opts items s" "offered (options_for opts items (d_filters s)) e" "\<not> changes_axis e"
  shows "\<exists>s'. dispatch_event opts items e s = Some s' \<and> selection_settled opts items s'"
proof -
  obtain s1 chgF chgV where ev: "on_event opts e s = (s1, chgF, chgV)" by (metis prod_cases3)
  obtain s' where "dispatch_event opts items e s = Some s'"
    unfolding dispatch_event_def ev prod.case using settle_total by blast
  then show ?thesis using settle_selection event_repair_inv [OF assms ev] by (auto simp: dispatch_event_def ev)
qed

text \<open>
  C38 (changing the x-axis can empty the chart). While the threads are on the x-axis their
  selection is not repaired, and moving another dimension to the axis does not repair it either:
  the dashboard then filters by a number of threads that the test case does not have and shows
  nothing.
\<close>

theorem axis_change_hides_data:
  assumes "f_threads (d_filters s) = Val x"
    "x \<notin> set (fo_threads (options_for opts items (d_filters s)))"
  shows "\<exists>s'. dispatch_event opts items (FilterChange (UXAxis ''concurrency'')) s = Some s'
     \<and> f_threads (d_filters s') = Val x \<and> filteredData items (d_filters s') = []"
proof -
  let ?s = "s\<lparr>d_filters := (d_filters s)\<lparr>f_xAxis := ''concurrency''\<rparr>\<rparr>"
  let ?p = "\<lparr>cd_filters = True, cd_visible = False, cd_key = Some (filter_key (d_filters s))\<rparr>"
  have "dispatch_event opts items (FilterChange (UXAxis ''concurrency'')) s =
      Some (?s\<lparr>d_window := write_visible_effect ?p ?s (write_effect ?p ?s (d_window ?s))\<rparr>)"
    by (simp add: dispatch_event_def settle_quiet filter_key_def)
  moreover have "filteredData items ((d_filters s)\<lparr>f_xAxis := ''concurrency''\<rparr>) = []"
  proof -
    have "\<not> num_strict_eq (threads i) (Val x)"
      if "i \<in> set items" "cpu i = Val (f_cpu (d_filters s))" "test_case i = Val (f_testCase (d_filters s))" for i
      using assms(2) that
      by (cases "threads i") (auto simp: options_for_def filterOptions_def cpuFilteredData_def Let_def num_eq_def)
    then show ?thesis by (auto simp: filteredData_def filter_empty_conv keep_item_def assms(1))
  qed
  ultimately show ?thesis using assms(1) by simp
qed

text \<open>Two test cases with different numbers of threads, viewed with the threads on the x-axis.\<close>

definition sample_items :: "tagged_result list" where
  "sample_items = [sample_item ''itsi'' ''hello'' 1 2 10 True 500, sample_item ''itsi'' ''chunked'' 4 2 10 True 300]"

definition sample_dash_options :: filter_options where
  "sample_dash_options =
     \<lparr>fo_cpus = [''M1''], fo_testCases = [''hello'', ''chunked''], fo_servers = [''itsi''], fo_threads = [Fin 1, Fin 4],
      fo_workers = [Fin 2], fo_concurrencyLevels = [Fin 10], fo_http2Options = [All, Http2 True]\<rparr>"

definition sample_dash :: dash where
  "sample_dash =
     \<lparr>d_filters = \<lparr>f_cpu = ''M1'', f_testCase = ''chunked'', f_threads = Val (Fin 1), f_workers = Val (Fin 2),
        f_concurrency = Val (Fin 10), f_http2 = All, f_xAxis = ''threads'', f_metric = ''rps'',
        f_visibleServers = [''itsi'']\<rparr>,
      d_visible = [(''itsi'', True)], d_hovered = None, d_activeKey = None, d_window = None\<rparr>"

lemma sample_dash_options_for:
  "options_for sample_dash_options sample_items (d_filters sample_dash) =
     \<lparr>fo_cpus = [''M1''], fo_testCases = [''hello'', ''chunked''], fo_servers = [''itsi''], fo_threads = [Fin 4],
      fo_workers = [Fin 2], fo_concurrencyLevels = [Fin 10], fo_http2Options = [All, Http2 True]\<rparr>"
  by (simp add: options_for_def filterOptions_def cpuFilteredData_def sample_dash_def sample_dash_options_def
      sample_items_def sample_defs str_options_def num_options_def bool_options_def truthy_strs_def)

lemma sample_dash_settled: "selection_settled sample_dash_options sample_items sample_dash"
  unfolding selection_settled_def sample_dash_options_for
  by (simp add: repair_filters_def sample_dash_def)

theorem reachable_consistent_witness:
  "\<exists>s. dash_reachable sample_dash_options sample_items None s
     \<and> test_case_ok sample_dash_options sample_items (d_filters s) \<and> url_synced s"
proof -
  obtain s where "mount sample_dash_options sample_items None = Some s" unfolding mount_def using settle_total by blast
  then have "dash_reachable sample_dash_options sample_items None s" by (rule reach_mount)
  then show ?thesis using reachable_consistent by blast
qed

theorem offered_event_settles_witness:
  "selection_settled sample_dash_options sample_items sample_dash
   \<and> (\<exists>s'. dispatch_event sample_dash_options sample_items (FilterChange (UTestCase ''hello'')) sample_dash = Some s'
        \<and> selection_settled sample_dash_options sample_items s')"
  using offered_event_settles [OF sample_dash_settled, of "FilterChange (UTestCase ''hello'')"] sample_dash_settled
  by (simp add: sample_dash_options_for)

theorem axis_change_hides_data_witness:
  "filteredData sample_items (d_filters sample_dash) = [sample_item ''itsi'' ''chunked'' 4 2 10 True 300]
   \<and> (\<exists>s'. dispatch_event sample_dash_options sample_items (FilterChange (UXAxis ''concurrency'')) sample_dash = Some s'
        \<and> filteredData sample_items (d_filters s') = [])"
proof
  show "filteredData sample_items (d_filters sample_dash) = [sample_item ''itsi'' ''chunked'' 4 2 10 True 300]"
    by (simp add: filteredData_def keep_item_def sample_items_def sample_dash_def sample_defs num_eq_def)
  show "\<exists>s'. dispatch_event sample_dash_options sample_items (FilterChange (UXAxis ''concurrency'')) sample_dash = Some s'
      \<and> filteredData sample_items (d_filters s') = []"
    using axis_change_hides_data [of sample_dash "Fin 1" sample_dash_options sample_items]
    unfolding sample_dash_options_for by (simp add: sample_dash_def) blast
qed

section \<open>Reloading the page\<close>

lemma fill_visible_get:
  "\<forall>s\<in>set servers. plain_key s \<Longrightarrow>
     obj_get (fill_visible servers shown m) s = (if s \<in> set servers then Own (shown s) else obj_get m s)"
  unfolding fill_visible_def by (rule obj.get_fill)

lemma visible_for_url_iff:
  assumes "obj_wf visible" "plain_key srv"
  shows "srv \<in> set (visibleServersForUrl visible) \<longleftrightarrow> truthy_slot (obj_get visible srv)"
  using assms obj.keys_iff [of visible srv]
  by (cases "obj_get visible srv") (auto simp: visibleServersForUrl_def obj_get_plain split: option.splits)

lemma repair_visibleServers:
  "repair_filters o' (f\<lparr>f_visibleServers := vs\<rparr>) = (repair_filters o' f)\<lparr>f_visibleServers := vs\<rparr>"
  by (simp add: repair_filters_def)

lemma options_for_visibleServers [simp]:
  "options_for opts items (f\<lparr>f_visibleServers := vs\<rparr>) = options_for opts items f"
  by (rule options_for_key) (simp add: filter_key_def)

text \<open>Mounting from a URL that shows an available, repaired state: one commit changes nothing.\<close>

lemma mount_from_shown:
  assumes share: "shareable f" and avail: "available opts f" and ne: "f_visibleServers f \<noteq> []"
    and fixp: "repair_filters (options_for opts items f) f = f" and shown: "params_show f (search_params l)"
  shows "\<exists>s. mount opts items (Some l) = Some s \<and> d_filters s = f
     \<and> d_visible s = visible_from_url (fo_servers opts) (Some (url_form f))"
proof -
  have cpus: "fo_cpus opts \<noteq> []" using avail by (auto simp: available_def)
  have valid: "validateAndSanitizeFilters opts (url_form f) = f"
    using validate_url_form [OF avail] share ne by (simp add: shareable_def)
  have parsed: "parseUrlParams (Some l) = Some (url_form f)" by (rule parseUrlParams_shown [OF share shown])
  obtain l1 where l1: "updateUrlParams f (Some l) = Some l1" "params_show f (search_params l1)"
    using updateUrlParams_shows [OF shareable_printable [OF share]] by blast
  let ?s = "initial_dash opts (Some l)" and ?p = "\<lparr>cd_filters = True, cd_visible = True, cd_key = None\<rparr>"
  let ?r = "run_effects opts items ?p ?s"
  have init: "d_filters ?s = f" "d_visible ?s = visible_from_url (fo_servers opts) (Some (url_form f))"
    "d_window ?s = Some l"
    using parsed cpus valid by (simp_all add: initial_dash_def initial_filters_def initial_visibleServers_def)
  have load: "load_effect opts ?p (Some l1) = Some (f, d_visible ?s)"
    using parseUrlParams_shown [OF share l1(2)] cpus valid init(2) by (simp add: load_effect_def)
  have "d_filters (fst ?r) = f" "d_visible (fst ?r) = d_visible ?s" "cd_filters (snd ?r)"
    "cd_key (snd ?r) = Some (filter_key f)"
    using init load l1(1) fixp by (simp_all add: run_effects_def write_effect_def repair_effect_def Let_def)
  then show ?thesis
    using settle_step [of opts items ?p ?s] settle_quiet [of "snd ?r" "fst ?r"] init(2) by (simp add: mount_def)
qed

text \<open>
  Reloading the page keeps the view: reloading with the URL that a consistent state left
  behind mounts the same filters, and every server is shown or hidden as before, provided the
  state is shareable, its selections are available and at least one server is shown.
\<close>

theorem reload_restores:
  assumes "url_synced s" "selection_settled opts items s" "d_window s = Some l"
    and "shareable (shown_filters s)" "available opts (shown_filters s)" "visibleServersForUrl (d_visible s) \<noteq> []"
    and "obj_wf (d_visible s)" "\<forall>srv\<in>set (fo_servers opts). plain_key srv"
  shows "\<exists>s'. mount opts items (d_window s) = Some s' \<and> d_filters s' = shown_filters s
     \<and> (\<forall>srv\<in>set (fo_servers opts).
          truthy_slot (obj_get (d_visible s') srv) = truthy_slot (obj_get (d_visible s) srv))"
proof -
  let ?f = "shown_filters s"
  have "printable (d_filters s)" using shareable_printable [OF assms(4)] by simp
  then have shown: "params_show ?f (search_params l)" using assms(1,3) by (simp add: url_synced_def)
  have fixp: "repair_filters (options_for opts items ?f) ?f = ?f"
    using assms(2) by (simp add: selection_settled_def shown_filters_def repair_visibleServers)
  have ne: "f_visibleServers ?f \<noteq> []" using assms(6) by (simp add: shown_filters_def)
  obtain s' where s': "mount opts items (Some l) = Some s'" "d_filters s' = ?f"
    "d_visible s' = visible_from_url (fo_servers opts) (Some (url_form ?f))"
    using mount_from_shown [OF assms(4,5) ne fixp shown] by blast
  have "truthy_slot (obj_get (d_visible s') srv) = truthy_slot (obj_get (d_visible s) srv)"
    if "srv \<in> set (fo_servers opts)" for srv
    using that assms(6-8) s'(3) visible_for_url_iff [OF assms(7), of srv]
    by (simp add: visible_from_url_def url_form_def fill_visible_get shown_filters_def)
  then show ?thesis using s' assms(3) by (intro exI [of _ s']) simp
qed

lemma sample_shown: "shareable (shown_filters sample_dash)" "available sample_dash_options (shown_filters sample_dash)"
  "visibleServersForUrl (d_visible sample_dash) = [''itsi'']"
  by (simp_all add: shareable_def available_def shown_filters_def sample_dash_def sample_dash_options_def
      visibleServersForUrl_def obj_keys_def obj_entries_def array_index_def is_digit_def obj_get_def
      whole_num_def x_axes_def metric_names_def)

theorem reload_restores_witness:
  "\<exists>l s s'. s = sample_dash\<lparr>d_window := Some l\<rparr> \<and> url_synced s
     \<and> mount sample_dash_options sample_items (d_window s) = Some s' \<and> d_filters s' = shown_filters sample_dash"
proof -
  let ?l0 = "\<lparr>base = ''/benchmarks'', search = ''?tab=1'', hash = []\<rparr>"
  obtain l where l: "updateUrlParams (shown_filters sample_dash) (Some ?l0) = Some l"
    using updateUrlParams_shows [OF shareable_printable [OF sample_shown(1)]] by blast
  let ?s = "sample_dash\<lparr>d_window := Some l\<rparr>"
  have "url_synced ?s" using url_synced_written [of sample_dash "Some ?l0"] l by simp
  moreover have "selection_settled sample_dash_options sample_items ?s"
    using sample_dash_settled by (simp add: selection_settled_def)
  moreover have "obj_wf (d_visible ?s)" by (simp add: obj_wf_def sample_dash_def)
  moreover have "\<forall>srv\<in>set (fo_servers sample_dash_options). plain_key srv"
    by (simp add: sample_dash_options_def plain_key_def proto_names_def)
  ultimately obtain s' where "mount sample_dash_options sample_items (d_window ?s) = Some s'"
    "d_filters s' = shown_filters ?s" "url_synced ?s"
    using reload_restores [of ?s sample_dash_options sample_items l] sample_shown by auto
  then show ?thesis by (intro exI [of _ l] exI [of _ ?s] exI [of _ s']) simp
qed

section \<open>The legend\<close>

lemma obj_get_upd: "obj_get (upd k v m) k' = (if k' = k then Own v else obj_get m k')"
  by (simp add: obj_get_def)

text \<open>
  C15 (legend). A plain click flips the clicked server and no other; a click with Ctrl or Cmd shows
  exactly the clicked server; both keep the visibility table well-formed.
\<close>

theorem handleLegendClick_spec:
  assumes "\<forall>t\<in>set servers. plain_key t" "obj_wf prev" "s \<in> set servers"
  shows "(\<forall>t. truthy_slot (obj_get (handleLegendClick servers s False prev) t) =
       (if t = s then \<not> truthy_slot (obj_get prev t) else truthy_slot (obj_get prev t)))
     \<and> (\<forall>t\<in>set servers. truthy_slot (obj_get (handleLegendClick servers s True prev) t) \<longleftrightarrow> t = s)
     \<and> obj_wf (handleLegendClick servers s ex prev)"
  using assms obj.wf_fill [of "[]" "\<lambda>t. t = s" servers] plain_key_not_proto [of s]
  by (simp add: handleLegendClick_def obj_get_upd fill_visible_get fill_visible_def [symmetric])
    (auto simp: obj_wf_def)

theorem handleLegendClick_spec_witness:
  "truthy_slot (obj_get (handleLegendClick [''itsi'', ''puma''] ''puma'' True [(''itsi'', True), (''puma'', False)]) ''puma'')
   \<and> \<not> truthy_slot (obj_get (handleLegendClick [''itsi'', ''puma''] ''puma'' True [(''itsi'', True), (''puma'', False)]) ''itsi'')"
  using handleLegendClick_spec [of "[''itsi'', ''puma'']" "[(''itsi'', True), (''puma'', False)]" "''puma''"]
  by (simp add: plain_key_def proto_names_def obj_wf_def)

end
