(* ===== verification/Dashboard_Summary.thy ===== *)
theory Dashboard_Summary
  imports Dashboard_Points
begin

text \<open>
  What \<^verbatim>\<open>components/benchmark-dashboard.tsx\<close> computes beside the chart: the description of the metric
  with its formatter, the summary statistics, and the ranking of the top performers.
\<close>

section \<open>Metric description\<close>

definition formatCompact :: "jsnum \<Rightarrow> nat \<Rightarrow> string" where
  "formatCompact value decimals =
     (if num_le (Fin 1000000) value then to_fixed (num_div value (Fin 1000000)) decimals @ ''M''
      else if num_le (Fin 1000) value then to_fixed (num_div value (Fin 1000)) decimals @ ''K''
      else to_fixed value decimals)"

datatype icon = TrendingUp | TrendingDown

record metric_info =
  mi_label :: string
  mi_isBetter :: string
  mi_icon :: icon
  mi_formatter :: "jsnum \<Rightarrow> string"

definition metricInfo :: "string \<Rightarrow> metric_info" where
  "metricInfo metric =
     (if metric = ''p95_latency'' then
        \<lparr>mi_label = ''P95 Latency (ms)'', mi_isBetter = ''lower'', mi_icon = TrendingDown,
         mi_formatter = (\<lambda>value. if num_le (Fin 1000) value then formatCompact value 1 else to_fixed value 2)\<rparr>
      else if metric = ''errorRate'' then
        \<lparr>mi_label = ''Error Rate'', mi_isBetter = ''lower'', mi_icon = TrendingDown,
         mi_formatter = (\<lambda>value. to_fixed (num_mul value (Fin 100)) 1 @ ''%'')\<rparr>
      else
        \<lparr>mi_label = ''Requests per Second'', mi_isBetter = ''higher'', mi_icon = TrendingUp,
         mi_formatter = (\<lambda>value. formatCompact value 1)\<rparr>)"

section \<open>Summary statistics\<close>

record summary =
  s_count :: nat
  s_min :: jsnum
  s_max :: jsnum
  s_avg :: jsnum

definition summaryStats :: "tagged_result list \<Rightarrow> string \<Rightarrow> summary option result" where
  "summaryStats filtered metric =
     (if filtered = [] then Inr None
      else bindE (mapE (metric_of metric) filtered) (\<lambda>raw.
        let values = map to_num raw
        in Inr (Some \<lparr>s_count = length filtered, s_min = math_min values, s_max = math_max values,
             s_avg = num_div (num_sum values) (num_of_int (int (length values)))\<rparr>)))"

section \<open>Top performers\<close>

definition perf_key :: "tagged_result \<Rightarrow> string" where
  "perf_key item = str_key (test_case item) @ ''_'' @ num_key (threads item) @ ''_''
     @ num_key (workers item) @ ''_'' @ num_key (concurrency item)"

text \<open>\<^verbatim>\<open>{ true: [...], false: [...] }\<close>\<close>

record variants =
  v_true :: "jsnum jopt list"
  v_false :: "jsnum jopt list"

definition push_variant :: "variants \<Rightarrow> tagged_result \<Rightarrow> variants result" where
  "push_variant v item =
     (case (http2 item, results item) of
        (Val b, Val r) \<Rightarrow> Inr (if b then v\<lparr>v_true := v_true v @ [requestsPerSec r]\<rparr>
                             else v\<lparr>v_false := v_false v @ [requestsPerSec r]\<rparr>)
      | _ \<Rightarrow> Inl TypeError)"

definition add_performance :: "variants jsobj jsobj \<Rightarrow> tagged_result \<Rightarrow> variants jsobj jsobj result" where
  "add_performance m item =
     (let key = perf_key item; s = str_key (server item)
      in case obj_get m key of
           Inherited \<Rightarrow> Inl TypeError
         | slot \<Rightarrow>
             (let servers = (case slot of Own o' \<Rightarrow> o' | _ \<Rightarrow> [])
              in case obj_get servers s of
                   Inherited \<Rightarrow> Inl TypeError
                 | slot' \<Rightarrow> bindE (push_variant (case slot' of Own v \<Rightarrow> v
                       | _ \<Rightarrow> \<lparr>v_true = [], v_false = []\<rparr>) item) (\<lambda>v.
                     Inr (obj_set m key (obj_set servers s v)))))"

definition performanceMap :: "tagged_result list \<Rightarrow> variants jsobj jsobj result" where
  "performanceMap items = foldE add_performance [] items"

definition mean :: "jsnum jopt list \<Rightarrow> jsnum" where
  "mean vs = num_div (num_sum (map to_num vs)) (num_of_int (int (length vs)))"

definition scores_of :: "string \<times> variants \<Rightarrow> (string \<times> jsnum) list" where
  "scores_of e =
     (if v_true (snd e) \<noteq> [] then [(fst e @ ''___true'', mean (v_true (snd e)))] else [])
     @ (if v_false (snd e) \<noteq> [] then [(fst e @ ''___false'', mean (v_false (snd e)))] else [])"

definition allScores :: "variants jsobj \<Rightarrow> (string \<times> jsnum) list" where
  "allScores serverResults = concat (map scores_of (obj_entries serverResults))"

text \<open>\<^verbatim>\<open>k.split("___")[0]\<close>\<close>

fun before_uuu :: "string \<Rightarrow> string" where
  "before_uuu [] = []"
| "before_uuu (c # s) = (if take 3 (c # s) = ''___'' then [] else c # before_uuu s)"

definition winningServers :: "variants jsobj \<Rightarrow> string list" where
  "winningServers serverResults =
     (let scores = allScores serverResults; bestScore = math_max (map snd scores)
      in js_set (map (\<lambda>(k, _). before_uuu k) (filter (\<lambda>(_, v). num_eq v bestScore) scores)))"

text \<open>
  \<^verbatim>\<open>winCounts[server] = (winCounts[server] || 0) + 1\<close>. An inherited value is a function; adding 1
  gives a string that is NaN in the comparisons that follow.
\<close>

definition count_win :: "jsnum jsobj \<Rightarrow> string \<Rightarrow> jsnum jsobj" where
  "count_win winCounts s =
     obj_set winCounts s
       (case obj_get winCounts s of
          Own n \<Rightarrow> num_add (if num_truthy n then n else Fin 0) (Fin 1)
        | Absent \<Rightarrow> num_add (Fin 0) (Fin 1)
        | Inherited \<Rightarrow> NaN)"

definition count_wins :: "jsnum jsobj \<Rightarrow> variants jsobj \<Rightarrow> jsnum jsobj" where
  "count_wins winCounts serverResults =
     (if allScores serverResults = [] then winCounts
      else foldl count_win winCounts (winningServers serverResults))"

definition rank_wins :: "jsnum jsobj \<Rightarrow> (string \<times> jsnum) list" where
  "rank_wins winCounts = take 8 (js_sort (\<lambda>a b. num_after (snd b) (snd a)) (obj_entries winCounts))"

definition topPerformers ::
  "tagged_result list \<Rightarrow> filter_state \<Rightarrow> tagged_result list \<Rightarrow> (string \<times> jsnum) list result" where
  "topPerformers items f filtered =
     (case filtered of [] \<Rightarrow> Inr []
      | first # _ \<Rightarrow>
          if \<not> truthy_str (group first) then Inr []
          else bindE (performanceMap (filter (\<lambda>i. cpu i = Val (f_cpu f) \<and> group i = group first) items))
            (\<lambda>m. Inr (rank_wins (foldl count_wins [] (obj_values m)))))"

section \<open>Properties of the summary\<close>

text \<open>The values that the summary is computed from.\<close>

definition metric_value :: "string \<Rightarrow> tagged_result \<Rightarrow> jsnum" where
  "metric_value metric item = (case metric_of metric item of Inr v \<Rightarrow> to_num v | Inl _ \<Rightarrow> NaN)"

lemma summaryStats_values:
  assumes "filtered \<noteq> []" "\<forall>i\<in>set filtered. \<not> jopt_nullish (results i)"
  shows "summaryStats filtered metric =
     Inr (Some \<lparr>s_count = length filtered, s_min = math_min (map (metric_value metric) filtered),
       s_max = math_max (map (metric_value metric) filtered),
       s_avg = num_div (num_sum (map (metric_value metric) filtered)) (num_of_int (int (length filtered)))\<rparr>)"
proof -
  have "metric_of metric i = Inr (projr (metric_of metric i))" if "i \<in> set filtered" for i
    using assms(2) that by (cases "results i") (auto simp: metric_of_def)
  then have run: "mapE (metric_of metric) filtered = Inr (map (\<lambda>i. projr (metric_of metric i)) filtered)"
    by (rule mapE_total)
  have "map to_num (map (\<lambda>i. projr (metric_of metric i)) filtered) = map (metric_value metric) filtered"
    using assms(2) by (auto simp: metric_value_def metric_of_def split: jopt.split)
  then show ?thesis using assms(1) run by (simp add: summaryStats_def Let_def del: map_map)
qed

text \<open>
  C22 (summary bounds). For results that all have their metrics, none of them NaN, the summary
  counts them and its minimum and maximum are the least and the greatest of their values.
\<close>

theorem summaryStats_bounds:
  assumes "filtered \<noteq> []" "\<forall>i\<in>set filtered. \<not> jopt_nullish (results i)"
    and "NaN \<notin> metric_value metric ` set filtered"
  shows "\<exists>s. summaryStats filtered metric = Inr (Some s) \<and> s_count s = length filtered
     \<and> s_min s = Min (metric_value metric ` set filtered) \<and> s_max s = Max (metric_value metric ` set filtered)"
  using summaryStats_values [OF assms(1,2), of metric] assms(1,3) by (simp add: math_min_Min math_max_Max)

lemma summary_sample_results:
  "\<forall>i\<in>set [sample_item ''itsi'' ''hello'' 1 2 10 True 500, sample_item ''puma'' ''hello'' 1 2 10 True 300].
     \<not> jopt_nullish (results i)"
  by (simp add: sample_defs)

theorem summaryStats_bounds_witness:
  "\<exists>s. summaryStats [sample_item ''itsi'' ''hello'' 1 2 10 True 500, sample_item ''puma'' ''hello'' 1 2 10 True 300] ''rps''
       = Inr (Some s) \<and> s_count s = 2 \<and> s_min s = Fin 300 \<and> s_max s = Fin 500"
  using summaryStats_bounds [OF _ summary_sample_results, of "''rps''"]
  by (auto simp: sample_defs metric_value_def metric_of_def)

text \<open>
  C23 (summary mean). For whole-number values whose magnitudes add up to at most \<open>2 ^ 53\<close>, the
  average is the exact mean rounded once, and lies between the minimum and the maximum.
\<close>

theorem summaryStats_mean:
  assumes "filtered \<noteq> []" "\<forall>i\<in>set filtered. \<not> jopt_nullish (results i)"
    and "map (metric_value metric) filtered = map num_of_int ns" "sum_list (map abs ns) \<le> 2 ^ 53"
  shows "\<exists>s. summaryStats filtered metric = Inr (Some s)
     \<and> s_avg s = fl (of_int (sum_list ns) / of_int (int (length ns)))
     \<and> num_le (s_min s) (s_avg s) \<and> num_le (s_avg s) (s_max s)"
proof -
  let ?vs = "map num_of_int ns"
  have len: "length ns = length filtered" using assms(3) by (metis length_map)
  then have ne: "ns \<noteq> []" using assms(1) by auto
  have avg: "num_div (num_sum ?vs) (num_of_int (int (length filtered))) =
      fl (of_int (sum_list ns) / of_int (int (length ns)))"
    using num_sum_int [OF assms(4)] len assms(1) by simp
  have nan: "NaN \<notin> set ?vs" and vs_ne: "?vs \<noteq> []" using ne by auto
  obtain a where a: "a \<in> set ns" "math_min ?vs = num_of_int a" using math_min_in [OF nan vs_ne] by auto
  obtain b where b: "b \<in> set ns" "math_max ?vs = num_of_int b" using math_max_in [OF nan vs_ne] by auto
  have bounds: "\<forall>n\<in>set ns. a \<le> n \<and> n \<le> b"
    using math_min_lower [OF nan] math_max_upper [OF nan] a(2) b(2) by fastforce
  have "\<bar>n\<bar> \<le> 2 ^ 53" if "n \<in> set ns" for n
    using abs_le_sum_list [OF that] assms(4) by (rule order_trans)
  then obtain y where "fl (of_int (sum_list ns) / of_int (int (length ns))) = Fin y" "of_int a \<le> y" "y \<le> of_int b"
    using fl_between [OF is_double_int is_double_int mean_between [OF ne bounds]] a(1) b(1) by blast
  then show ?thesis using summaryStats_values [OF assms(1,2), of metric] assms(3) avg a(2) b(2) by simp
qed

theorem summaryStats_mean_witness:
  "\<exists>s. summaryStats [sample_item ''itsi'' ''hello'' 1 2 10 True 500, sample_item ''puma'' ''hello'' 1 2 10 True 300] ''rps''
       = Inr (Some s) \<and> num_le (s_min s) (s_avg s) \<and> num_le (s_avg s) (s_max s)"
  using summaryStats_mean [OF _ summary_sample_results, of "''rps''" "[500, 300]"]
  by (auto simp: sample_defs metric_value_def metric_of_def)

text \<open>
  C40 (missing latencies count as zero). A result whose latency is null contributes 0, so that with
  non-negative latencies otherwise the reported minimum is 0, a latency that nothing had.
\<close>

theorem summaryStats_null_is_zero:
  assumes "i \<in> set filtered" "results i = Val r" "p95_latency r = Null"
    and "\<forall>j\<in>set filtered. \<not> jopt_nullish (results j)"
    and "\<forall>j\<in>set filtered. num_le (Fin 0) (metric_value ''p95_latency'' j)"
  shows "\<exists>s. summaryStats filtered ''p95_latency'' = Inr (Some s) \<and> s_min s = Fin 0"
proof -
  let ?vs = "map (metric_value ''p95_latency'') filtered"
  have zero: "Fin 0 \<in> set ?vs" using assms(1-3) by (force simp: metric_value_def metric_of_def)
  have nan: "NaN \<notin> set ?vs" using assms(5) by (auto simp: num_le_def num_eq_def)
  have ne: "filtered \<noteq> []" using assms(1) by auto
  then have "math_min ?vs \<in> set ?vs" by (intro math_min_in nan) simp
  then have "num_le (Fin 0) (math_min ?vs)" using assms(5) by auto
  moreover have "num_le (math_min ?vs) (Fin 0)" by (rule math_min_lower [OF nan zero])
  ultimately have "math_min ?vs = Fin 0" by (cases "math_min ?vs") (auto simp: num_le_def num_eq_def)
  then show ?thesis using summaryStats_values [OF ne assms(4)] by simp
qed

theorem summaryStats_null_is_zero_witness:
  "\<exists>s. summaryStats [(sample_item ''itsi'' ''hello'' 1 2 10 True 500)\<lparr>results := Val (sample_metrics Undef Null Undef)\<rparr>,
       sample_item ''puma'' ''hello'' 1 2 10 True 300] ''p95_latency'' = Inr (Some s) \<and> s_min s = Fin 0"
  by (rule summaryStats_null_is_zero
      [of "(sample_item ''itsi'' ''hello'' 1 2 10 True 500)\<lparr>results := Val (sample_metrics Undef Null Undef)\<rparr>"])
    (auto simp: sample_defs metric_value_def metric_of_def)

text \<open>
  Error rates are rates: for a success rate between 0 and 1 the error rate shown is the
  rounded difference to 1 and lies between 0 and 1.
\<close>

theorem errorRate_bounds:
  assumes "results i = Val r" "successRate r = Val (Fin q)" "0 \<le> q" "q \<le> 1"
  shows "\<exists>y. metric_value ''errorRate'' i = Fin y \<and> metric_value ''errorRate'' i = fl (1 - q) \<and> 0 \<le> y \<and> y \<le> 1"
proof -
  obtain y where "fl (1 - q) = Fin y" "0 \<le> y" "y \<le> 1"
    using fl_between [of 0 1 "1 - q"] assms(3,4) by auto
  then show ?thesis using assms(1,2) by (simp add: metric_value_def metric_of_def num_sub_def)
qed

theorem errorRate_bounds_witness:
  "\<exists>y. metric_value ''errorRate''
       ((sample_item ''itsi'' ''hello'' 1 2 10 True 500)\<lparr>results := Val (sample_metrics Undef Undef (Val (Fin (1 / 2))))\<rparr>) = Fin y
     \<and> 0 \<le> y \<and> y \<le> 1"
  using errorRate_bounds [of "(sample_item ''itsi'' ''hello'' 1 2 10 True 500)\<lparr>results := Val (sample_metrics Undef Undef (Val (Fin (1 / 2))))\<rparr>"
      "sample_metrics Undef Undef (Val (Fin (1 / 2)))" "1 / 2"]
  by (auto simp: sample_metrics_def)

section \<open>Properties of the ranking\<close>

text \<open>Names that the split at \<^verbatim>\<open>___\<close> gives back: no three underscores in a row once the separator follows.\<close>

fun splittable :: "string \<Rightarrow> bool" where
  "splittable [] = True"
| "splittable (c # s) = (take 3 (c # s @ ''___'') \<noteq> ''___'' \<and> splittable s)"

lemma before_uuu_append: "splittable s \<Longrightarrow> before_uuu (s @ ''___'' @ t) = s"
proof (induction s)
  case Nil
  then show ?case by simp
next
  case (Cons c s)
  have "take 3 (c # s @ ''___'' @ t) = take 3 (c # s @ ''___'')" by (cases s; cases "tl s") auto
  then show ?case using Cons by simp
qed

lemma eq_math_max_iff:
  assumes "NaN \<notin> set xs" "x \<in> set xs"
  shows "num_eq x (math_max xs) \<longleftrightarrow> (\<forall>y\<in>set xs. num_le y x)"
proof
  assume "num_eq x (math_max xs)"
  then show "\<forall>y\<in>set xs. num_le y x" using math_max_upper [OF assms(1)] by (simp add: num_eq_def)
next
  assume "\<forall>y\<in>set xs. num_le y x"
  then have "num_le (math_max xs) x" "num_le x (math_max xs)"
    using math_max_in [OF assms(1)] math_max_upper [OF assms] assms(2) by force+
  then show "num_eq x (math_max xs)" by (auto simp: num_le_def num_eq_def dest: num_lt_asym)
qed

text \<open>The mean scores of a server in a configuration, one per protocol it was measured with.\<close>

definition has_score :: "variants \<Rightarrow> jsnum \<Rightarrow> bool" where
  "has_score v x \<longleftrightarrow> v_true v \<noteq> [] \<and> x = mean (v_true v) \<or> v_false v \<noteq> [] \<and> x = mean (v_false v)"

lemma mem_scores_of:
  assumes "splittable (fst e)"
  shows "(\<exists>k. (k, x) \<in> set (scores_of e) \<and> before_uuu k = t) \<longleftrightarrow> has_score (snd e) x \<and> t = fst e"
proof -
  define k1 where "k1 = fst e @ ''___true''"
  define k2 where "k2 = fst e @ ''___false''"
  have "before_uuu k1 = fst e" "before_uuu k2 = fst e"
    using before_uuu_append [OF assms, of "''true''"] before_uuu_append [OF assms, of "''false''"]
    by (simp_all add: k1_def k2_def)
  then show ?thesis unfolding scores_of_def k1_def [symmetric] k2_def [symmetric] has_score_def
    by auto
qed

lemma snd_scores_of: "snd ` set (scores_of e) = {x. has_score (snd e) x}"
  by (auto simp: scores_of_def has_score_def)

lemma snd_allScores: "snd ` set (allScores sr) = {x. \<exists>e\<in>set sr. has_score (snd e) x}"
proof -
  have "snd ` set (allScores sr) = (\<Union>e\<in>set sr. snd ` set (scores_of e))"
    by (simp add: allScores_def image_UN)
  then show ?thesis unfolding snd_scores_of by auto
qed

text \<open>
  C25 (winners). Within a configuration the winners are exactly the servers one of whose scores no
  score of the configuration exceeds, each listed once, when no name runs into the separator and no score is NaN.
\<close>

theorem winningServers_spec:
  assumes "\<forall>e\<in>set sr. splittable (fst e)" "\<forall>e\<in>set sr. \<not> has_score (snd e) NaN"
  shows "set (winningServers sr) = {s. \<exists>v x. (s, v) \<in> set sr \<and> has_score v x
       \<and> (\<forall>e\<in>set sr. \<forall>y. has_score (snd e) y \<longrightarrow> num_le y x)}
     \<and> distinct (winningServers sr)"
proof -
  let ?xs = "map snd (allScores sr)"
  have xs: "set ?xs = {x. \<exists>e\<in>set sr. has_score (snd e) x}" using snd_allScores [of sr] by simp
  then have nan: "NaN \<notin> set ?xs" using assms(2) by auto
  note best = eq_math_max_iff [OF nan]
  have "t \<in> set (winningServers sr) \<longleftrightarrow>
      (\<exists>e\<in>set sr. \<exists>x. num_eq x (math_max ?xs) \<and> (\<exists>k. (k, x) \<in> set (scores_of e) \<and> before_uuu k = t))" for t
    by (auto simp: winningServers_def Let_def allScores_def image_iff)
  then have "t \<in> set (winningServers sr) \<longleftrightarrow>
      (\<exists>e\<in>set sr. \<exists>x. num_eq x (math_max ?xs) \<and> has_score (snd e) x \<and> t = fst e)" for t
    using assms(1) mem_scores_of by (simp cong: bex_cong)
  then have "t \<in> set (winningServers sr) \<longleftrightarrow> (\<exists>v x. (t, v) \<in> set sr \<and> has_score v x \<and> num_eq x (math_max ?xs))" for t
    by (auto simp: Bex_def split_paired_Ex)
  moreover have "num_eq x (math_max ?xs) \<longleftrightarrow> (\<forall>e\<in>set sr. \<forall>y. has_score (snd e) y \<longrightarrow> num_le y x)"
    if "(t, v) \<in> set sr" "has_score v x" for t v x
    using best [of x] bexI [of "\<lambda>e. has_score (snd e) x" "(t, v)" "set sr"] that unfolding xs by auto
  ultimately have "t \<in> set (winningServers sr) \<longleftrightarrow> (\<exists>v x. (t, v) \<in> set sr \<and> has_score v x
      \<and> (\<forall>e\<in>set sr. \<forall>y. has_score (snd e) y \<longrightarrow> num_le y x))" for t
    by blast
  moreover have "distinct (winningServers sr)" by (simp add: winningServers_def Let_def)
  ultimately show ?thesis by blast
qed

definition sample_variants :: "variants jsobj" where
  "sample_variants = [(''itsi'', \<lparr>v_true = [Val (Fin 500)], v_false = []\<rparr>), (''puma'', \<lparr>v_true = [], v_false = [Val (Fin 300)]\<rparr>)]"

lemma mean_single: "is_double q \<Longrightarrow> mean [Val (Fin q)] = Fin q"
  by (simp add: mean_def num_sum_def is_double_def)

lemma sample_variants_score:
  "has_score \<lparr>v_true = [Val (Fin 500)], v_false = []\<rparr> x \<longleftrightarrow> x = Fin 500"
  "has_score \<lparr>v_true = [], v_false = [Val (Fin 300)]\<rparr> x \<longleftrightarrow> x = Fin 300"
  by (simp_all add: has_score_def mean_single)

theorem winningServers_spec_witness: "set (winningServers sample_variants) = {''itsi''}"
proof -
  have "\<forall>e\<in>set sample_variants. splittable (fst e)" by (simp add: sample_variants_def)
  moreover have "\<forall>e\<in>set sample_variants. \<not> has_score (snd e) NaN"
    by (simp add: sample_variants_def sample_variants_score)
  ultimately have "set (winningServers sample_variants) = {s. \<exists>v x. (s, v) \<in> set sample_variants \<and> has_score v x
      \<and> (\<forall>e\<in>set sample_variants. \<forall>y. has_score (snd e) y \<longrightarrow> num_le y x)}"
    using winningServers_spec by blast
  moreover have "(\<forall>e\<in>set sample_variants. \<forall>y. has_score (snd e) y \<longrightarrow> num_le y x) \<longleftrightarrow>
      num_le (Fin 500) x \<and> num_le (Fin 300) x" for x
    by (simp add: sample_variants_def sample_variants_score)
  moreover have "(\<exists>v x. (s, v) \<in> set sample_variants \<and> has_score v x \<and> P x) \<longleftrightarrow>
      s = ''itsi'' \<and> P (Fin 500) \<or> s = ''puma'' \<and> P (Fin 300)" for s P
    unfolding sample_variants_def by (simp add: ex_disj_distrib conj_disj_distribR sample_variants_score)
  ultimately show ?thesis by simp
qed

text \<open>
  A win credited to another server: a server whose name ends in an underscore loses that
  underscore where the score key is split: the win is counted for the shorter name.
\<close>

theorem winner_misattributed:
  assumes "splittable s" "v_true v \<noteq> []" "v_false v = []" "mean (v_true v) \<noteq> NaN"
  shows "winningServers [(s @ ''_'', v)] = [s]"
proof -
  have key: "before_uuu ((s @ ''_'') @ ''___true'') = s"
    using before_uuu_append [OF assms(1), of "''_true''"] by simp
  define k where "k = (s @ ''_'') @ ''___true''"
  have "allScores [(s @ ''_'', v)] = [(k, mean (v_true v))]"
    using assms(2,3) by (simp add: allScores_def scores_of_def obj_entries_def k_def)
  moreover have "math_max [mean (v_true v)] = mean (v_true v)"
    using assms(4) by (cases "mean (v_true v)") (simp_all add: math_max_def)
  ultimately show ?thesis using key assms(4) unfolding k_def [symmetric]
    by (simp add: winningServers_def Let_def num_eq_def)
qed

theorem winner_misattributed_witness:
  "winningServers [(''puma_'', \<lparr>v_true = [Val (Fin 500)], v_false = []\<rparr>)] = [''puma'']"
  using winner_misattributed [of "''puma''" "\<lparr>v_true = [Val (Fin 500)], v_false = []\<rparr>"] by (simp add: mean_single)

section \<open>Counting wins\<close>

text \<open>The configurations with a score, and how many of them a server wins.\<close>

definition contested :: "variants jsobj list \<Rightarrow> variants jsobj list" where
  "contested srs = filter (\<lambda>sr. allScores sr \<noteq> []) srs"

definition wins :: "variants jsobj list \<Rightarrow> string \<Rightarrow> nat" where
  "wins srs s = length (filter (\<lambda>sr. s \<in> set (winningServers sr)) (contested srs))"

definition all_winners :: "variants jsobj list \<Rightarrow> string list" where
  "all_winners srs = concat (map winningServers (contested srs))"

lemma foldl_count_wins: "foldl count_wins wc srs = foldl count_win wc (all_winners srs)"
  by (induction srs arbitrary: wc) (simp_all add: count_wins_def all_winners_def contested_def)

lemma distinct_winningServers [simp]: "distinct (winningServers sr)"
  by (simp add: winningServers_def Let_def)

lemma count_all_winners: "count_list (all_winners srs) s = wins srs s"
proof (induction srs)
  case (Cons sr srs)
  have "count_list (winningServers sr) s = (if s \<in> set (winningServers sr) then 1 else 0)"
    by (rule count_list_distinct) simp
  then show ?case using Cons by (simp add: all_winners_def wins_def contested_def count_list_append)
qed (simp add: all_winners_def wins_def contested_def)

text \<open>The table after counting a list of winners.\<close>

definition win_table :: "string list \<Rightarrow> jsnum jsobj \<Rightarrow> bool" where
  "win_table ws m \<longleftrightarrow> obj_wf m \<and> (\<forall>s\<in>fst ` set m. plain_key s)
     \<and> (\<forall>s. plain_key s \<longrightarrow> obj_get m s =
          (if s \<in> set ws then Own (num_of_int (int (count_list ws s))) else Absent))"

lemma count_win_table:
  assumes "win_table ws m" "plain_key w" "int (length ws) < 2 ^ 53"
  shows "win_table (ws @ [w]) (count_win m w)"
proof -
  have le: "count_list ws w \<le> length ws" by (rule count_le_length)
  have "fl (of_int (int (count_list ws w)) + 1) = num_of_int (int (count_list ws w) + 1)"
    using fl_int [of "int (count_list ws w) + 1"] le assms(3) by simp
  moreover have "w \<in> set ws \<Longrightarrow> 0 < count_list ws w" by (metis count_list_0_iff gr0I)
  ultimately have new: "count_win m w = obj_set m w (num_of_int (int (count_list (ws @ [w]) w)))"
    using assms(1,2) fl_int [of 1] count_list_0_iff [of ws w]
    by (auto simp: count_win_def win_table_def num_truthy_def count_list_append add.commute)
  show ?thesis unfolding new using assms(1,2)
    by (auto simp: win_table_def obj_get_set plain_key_not_proto count_list_append)
qed

lemma foldl_count_win:
  "\<forall>w\<in>set ws. plain_key w \<Longrightarrow> int (length ws) \<le> 2 ^ 53 \<Longrightarrow> win_table ws (foldl count_win [] ws)"
proof (induction ws rule: rev_induct)
  case Nil
  then show ?case by (simp add: win_table_def obj_get_Nil)
next
  case (snoc w ws)
  then show ?case using count_win_table [of ws "foldl count_win [] ws" w] by simp
qed

lemma rank_comparator:
  "js_comparator (\<lambda>a b :: string \<times> jsnum. num_after (snd b) (snd a)) (\<lambda>e. wf_num (snd e) \<and> snd e \<noteq> NaN)"
proof unfold_locales
  fix x y z :: "string \<times> jsnum"
  assume x: "wf_num (snd x) \<and> snd x \<noteq> NaN" and y: "wf_num (snd y) \<and> snd y \<noteq> NaN"
  then show "num_after (snd y) (snd x) \<Longrightarrow> \<not> num_after (snd x) (snd y)" using num_cmp.after_asym by blast
  assume "wf_num (snd z) \<and> snd z \<noteq> NaN" "\<not> num_after (snd y) (snd x)" "\<not> num_after (snd z) (snd y)"
  then show "\<not> num_after (snd z) (snd x)" using x y num_cmp.after_trans by blast
qed

lemma rank_wins_sorted:
  assumes "\<forall>e\<in>set m. wf_num (snd e) \<and> snd e \<noteq> NaN"
  shows "sorted_wrt (\<lambda>a b. num_le (snd b) (snd a)) (js_sort (\<lambda>a b. num_after (snd b) (snd a)) (obj_entries m))"
proof -
  have "\<forall>e\<in>set (obj_entries m). wf_num (snd e) \<and> snd e \<noteq> NaN" using assms by simp
  then have "sorted_wrt (\<lambda>a b. \<not> num_after (snd b) (snd a)) (js_sort (\<lambda>a b. num_after (snd b) (snd a)) (obj_entries m))"
    by (rule js_comparator.sort_sorted [OF rank_comparator])
  then show ?thesis
    by (rule sorted_wrt_mono_rel [rotated]) (use assms in \<open>auto simp: num_after_iff num_le_not_lt\<close>)
qed

text \<open>A ranking of the winners of a list, with the number of times each occurs.\<close>

definition ranks :: "string list \<Rightarrow> (string \<times> jsnum) list \<Rightarrow> bool" where
  "ranks ws r \<longleftrightarrow> length r \<le> 8 \<and> distinct (map fst r)
     \<and> sorted_wrt (\<lambda>a b. num_le (snd b) (snd a)) r
     \<and> (\<forall>e\<in>set r. fst e \<in> set ws \<and> snd e = num_of_int (int (count_list ws (fst e))))
     \<and> (\<forall>s\<in>set ws. s \<notin> fst ` set r \<longrightarrow>
          length r = 8 \<and> (\<forall>e\<in>set r. num_le (num_of_int (int (count_list ws s))) (snd e)))"

lemma win_table_entry:
  assumes "win_table ws m" "\<forall>w\<in>set ws. plain_key w"
  shows "(s, n) \<in> set m \<longleftrightarrow> s \<in> set ws \<and> n = num_of_int (int (count_list ws s))"
proof -
  have "(s, n) \<in> set m \<longleftrightarrow> plain_key s \<and> obj_get m s = Own n"
    using assms(1) obj_entries_get [of m s n] by (force simp: win_table_def)
  then show ?thesis using assms by (auto simp: win_table_def split: if_splits)
qed

lemma rank_wins_ranks:
  assumes "win_table ws m" "\<forall>w\<in>set ws. plain_key w" "int (length ws) \<le> 2 ^ 53"
  shows "ranks ws (rank_wins m)"
proof -
  define all where "all = js_sort (\<lambda>a b :: string \<times> jsnum. num_after (snd b) (snd a)) (obj_entries m)"
  have entry: "e \<in> set m \<longleftrightarrow> fst e \<in> set ws \<and> snd e = num_of_int (int (count_list ws (fst e)))" for e
    using win_table_entry [OF assms(1,2), of "fst e" "snd e"] by simp
  have set_all: "set all = set m" by (simp add: all_def)
  have "int (count_list ws s) \<le> 2 ^ 53" for s using count_le_length [of ws s] assms(3) by linarith
  then have "is_double (of_int (int (count_list ws s)))" for s by (intro is_double_int) simp
  then have sorted: "sorted_wrt (\<lambda>a b. num_le (snd b) (snd a)) all"
    unfolding all_def by (intro rank_wins_sorted) (simp add: entry)
  have "distinct (map fst (obj_entries m))" using assms(1) distinct_obj_keys by (metis obj_keys_def win_table_def)
  then have dist: "distinct (map fst all)" unfolding all_def by (metis mset_eq_imp_distinct_iff mset_js_sort mset_map)
  have parts: "all = take 8 all @ drop 8 all" by simp
  have left: "length (take 8 all) = 8 \<and> (\<forall>e\<in>set (take 8 all). num_le (num_of_int (int (count_list ws s))) (snd e))"
    if s: "s \<in> set ws" "s \<notin> fst ` set (take 8 all)" for s
  proof -
    let ?e = "(s, num_of_int (int (count_list ws s)))"
    have "?e \<in> set all" using s(1) by (simp add: set_all entry)
    then have e: "?e \<in> set (drop 8 all)" using s(2) parts by (metis Un_iff fst_conv image_eqI set_append)
    then have "8 < length all" by (metis drop_all empty_iff empty_set not_le)
    moreover have "\<forall>a\<in>set (take 8 all). \<forall>b\<in>set (drop 8 all). num_le (snd b) (snd a)"
      using sorted parts by (metis sorted_wrt_append)
    ultimately show ?thesis using e by force
  qed
  have "rank_wins m = take 8 all" by (simp add: rank_wins_def all_def)
  moreover have "set (take 8 all) \<subseteq> set m" using set_take_subset [of 8 all] set_all by simp
  ultimately show ?thesis unfolding ranks_def
    using sorted_wrt_take [OF sorted] distinct_take [OF dist] entry left by (auto simp: take_map)
qed

text \<open>
  C24 (ranking). The ranking holds at most eight servers, each once, in descending order of wins;
  the number shown is the number of configurations of the group that the server won, and a server
  with wins is left out only when eight servers with at least as many are listed.
\<close>

theorem topPerformers_ranks:
  assumes "filtered = first # rest" "truthy_str (group first)"
    and "performanceMap (filter (\<lambda>i. cpu i = Val (f_cpu f) \<and> group i = group first) items) = Inr m"
    and "\<forall>s\<in>set (all_winners (obj_values m)). plain_key s" "int (length (all_winners (obj_values m))) \<le> 2 ^ 53"
  shows "\<exists>r. topPerformers items f filtered = Inr r \<and> length r \<le> 8 \<and> distinct (map fst r)
     \<and> sorted_wrt (\<lambda>a b. num_le (snd b) (snd a)) r
     \<and> (\<forall>e\<in>set r. 0 < wins (obj_values m) (fst e) \<and> snd e = num_of_int (int (wins (obj_values m) (fst e))))
     \<and> (\<forall>s. 0 < wins (obj_values m) s \<longrightarrow> s \<notin> fst ` set r \<longrightarrow>
          length r = 8 \<and> (\<forall>e\<in>set r. num_le (num_of_int (int (wins (obj_values m) s))) (snd e)))"
proof -
  let ?ws = "all_winners (obj_values m)"
  have "topPerformers items f filtered = Inr (rank_wins (foldl count_win [] ?ws))"
    using assms(1-3) by (simp add: topPerformers_def foldl_count_wins)
  moreover have "ranks ?ws (rank_wins (foldl count_win [] ?ws))"
    by (rule rank_wins_ranks [OF foldl_count_win]) (use assms(4,5) in auto)
  moreover have "s \<in> set ?ws \<longleftrightarrow> 0 < wins (obj_values m) s" for s
    by (metis count_all_winners count_list_0_iff neq0_conv)
  ultimately show ?thesis unfolding ranks_def count_all_winners by blast
qed

section \<open>Collecting the measurements\<close>

text \<open>A result that can be counted, and the reference: the rates of a server for each protocol.\<close>

definition measurable :: "tagged_result \<Rightarrow> bool" where
  "measurable i \<longleftrightarrow> plain_key (perf_key i) \<and> plain_key (str_key (server i))
     \<and> \<not> jopt_nullish (http2 i) \<and> \<not> jopt_nullish (results i)"

definition rate_of :: "tagged_result \<Rightarrow> jsnum jopt" where
  "rate_of i = (case results i of Val r \<Rightarrow> requestsPerSec r | _ \<Rightarrow> Undef)"

definition variants_of :: "tagged_result list \<Rightarrow> variants" where
  "variants_of xs = \<lparr>v_true = map rate_of (filter (\<lambda>i. http2 i = Val True) xs),
     v_false = map rate_of (filter (\<lambda>i. http2 i = Val False) xs)\<rparr>"

definition same_server :: "string \<Rightarrow> tagged_result list \<Rightarrow> tagged_result list" where
  "same_server s xs = filter (\<lambda>i. str_key (server i) = s) xs"

definition same_config :: "string \<Rightarrow> tagged_result list \<Rightarrow> tagged_result list" where
  "same_config k xs = filter (\<lambda>i. perf_key i = k) xs"

definition server_table :: "tagged_result list \<Rightarrow> variants jsobj \<Rightarrow> bool" where
  "server_table xs t \<longleftrightarrow> obj_wf t \<and> (\<forall>s. plain_key s \<longrightarrow>
     obj_get t s = (if same_server s xs = [] then Absent else Own (variants_of (same_server s xs))))"

definition perf_table :: "tagged_result list \<Rightarrow> variants jsobj jsobj \<Rightarrow> bool" where
  "perf_table xs m \<longleftrightarrow> obj_wf m \<and> (\<forall>k. plain_key k \<longrightarrow>
     (if same_config k xs = [] then obj_get m k = Absent
      else \<exists>t. obj_get m k = Own t \<and> server_table (same_config k xs) t))"

lemma push_variant_of:
  assumes "measurable i"
  shows "push_variant (variants_of xs) i = Inr (variants_of (xs @ [i]))"
proof -
  obtain b r where "http2 i = Val b" "results i = Val r"
    using assms by (cases "http2 i"; cases "results i") (auto simp: measurable_def)
  then show ?thesis by (simp add: push_variant_def variants_of_def rate_of_def)
qed

lemma variants_of_Nil: "variants_of [] = \<lparr>v_true = [], v_false = []\<rparr>"
  by (simp add: variants_of_def)

lemma server_table_add:
  assumes "server_table xs t" "measurable i"
  shows "server_table (xs @ [i]) (obj_set t (str_key (server i)) (variants_of (same_server (str_key (server i)) (xs @ [i]))))"
  using assms by (auto simp: server_table_def measurable_def obj_get_set plain_key_not_proto same_server_def)

lemma add_performance_table:
  assumes "perf_table xs m" "measurable i"
  shows "\<exists>m'. add_performance m i = Inr m' \<and> perf_table (xs @ [i]) m'"
proof -
  let ?k = "perf_key i" and ?s = "str_key (server i)"
  have plain: "plain_key ?k" "plain_key ?s" using assms(2) by (simp_all add: measurable_def)
  define t where "t = (case obj_get m ?k of Own t \<Rightarrow> t | _ \<Rightarrow> [])"
  have "obj_get m ?k \<noteq> Inherited \<and> server_table (same_config ?k xs) t"
  proof (cases "same_config ?k xs = []")
    case True
    then have "obj_get m ?k = Absent" using assms(1) plain(1) by (simp add: perf_table_def)
    then show ?thesis using True by (simp add: t_def server_table_def same_server_def obj_get_Nil)
  next
    case False
    then obtain t' where "obj_get m ?k = Own t'" "server_table (same_config ?k xs) t'"
      using assms(1) plain(1) unfolding perf_table_def by metis
    then show ?thesis by (simp add: t_def)
  qed
  then have slot: "obj_get m ?k \<noteq> Inherited" and t: "server_table (same_config ?k xs) t" by blast+
  have slot': "obj_get t ?s \<noteq> Inherited"
    and v: "(case obj_get t ?s of Own v \<Rightarrow> v | _ \<Rightarrow> \<lparr>v_true = [], v_false = []\<rparr>) = variants_of (same_server ?s (same_config ?k xs))"
    using t plain(2) by (auto simp: server_table_def variants_of_Nil split: if_splits)
  let ?t = "obj_set t ?s (variants_of (same_server ?s (same_config ?k xs) @ [i]))"
  have "add_performance m i = bindE (push_variant (case obj_get t ?s of Own v \<Rightarrow> v | _ \<Rightarrow> \<lparr>v_true = [], v_false = []\<rparr>) i)
      (\<lambda>v. Inr (obj_set m ?k (obj_set t ?s v)))"
    using slot slot' by (auto simp: add_performance_def Let_def t_def split: slot.splits)
  then have run: "add_performance m i = Inr (obj_set m ?k ?t)"
    unfolding v push_variant_of [OF assms(2)] by simp
  have "server_table (same_config ?k xs @ [i]) ?t"
    using server_table_add [OF t assms(2)] by (simp add: same_server_def)
  then have "perf_table (xs @ [i]) (obj_set m ?k ?t)"
    using assms(1) plain(1) by (auto simp: perf_table_def obj_get_set plain_key_not_proto same_config_def)
  then show ?thesis using run by blast
qed

lemma performanceMap_table:
  "\<forall>i\<in>set items. measurable i \<Longrightarrow> \<exists>m. performanceMap items = Inr m \<and> perf_table items m"
proof (induction items rule: rev_induct)
  case Nil
  then show ?case by (simp add: performanceMap_def perf_table_def same_config_def obj_get_Nil)
next
  case (snoc i items)
  then obtain m where m: "performanceMap items = Inr m" "perf_table items m" by auto
  obtain m' where "add_performance m i = Inr m'" "perf_table (items @ [i]) m'"
    using add_performance_table [OF m(2)] snoc.prems by auto
  then show ?case using m(1) by (simp add: performanceMap_def foldE_append)
qed

text \<open>
  C26 (measurements). Collecting the measurements of results that have a protocol and metrics never
  fails, and for each configuration and server gives the request rates of exactly the matching
  results, in order and separated by protocol.
\<close>

theorem performanceMap_spec:
  "\<forall>i\<in>set items. measurable i \<Longrightarrow> \<exists>m. performanceMap items = Inr m \<and> perf_table items m"
  by (rule performanceMap_table)

definition race_items :: "tagged_result list" where
  "race_items = [sample_item ''itsi'' ''hello'' 1 2 10 True 500, sample_item ''puma'' ''hello'' 1 2 10 False 300]"

lemma race_key: "\<forall>i\<in>set race_items. perf_key i = ''hello_1_2_10''"
proof -
  have "int_str 1 = ''1''" "int_str 2 = ''2''" "int_str 10 = ''10''" by code_simp+
  then have "num_to_string (Fin 1) = ''1''" "num_to_string (Fin 2) = ''2''" "num_to_string (Fin 10) = ''10''"
    using num_to_string_int [of 1] num_to_string_int [of 2] num_to_string_int [of 10] by simp_all
  then show ?thesis by (simp add: race_items_def perf_key_def sample_defs)
qed

lemma race_measurable: "\<forall>i\<in>set race_items. measurable i"
  using race_key by (simp add: race_items_def measurable_def sample_defs plain_key_def proto_names_def)

theorem performanceMap_spec_witness: "\<exists>m. performanceMap race_items = Inr m \<and> perf_table race_items m"
  by (rule performanceMap_spec [OF race_measurable])

lemma race_performance: "performanceMap race_items = Inr [(''hello_1_2_10'', sample_variants)]"
  using race_key
  by (simp add: race_items_def performanceMap_def add_performance_def push_variant_def obj_get_def obj_set_def
      proto_names_def sample_defs sample_variants_def)

lemma race_winners: "all_winners [sample_variants] = [''itsi'']"
proof -
  have "allScores sample_variants = [(''itsi___true'', Fin 500), (''puma___false'', Fin 300)]"
    by (simp add: allScores_def sample_variants_def scores_of_def obj_entries_def array_index_def is_digit_def mean_single)
  then show ?thesis
    by (simp add: all_winners_def contested_def winningServers_def math_max_def num_eq_def)
qed

theorem topPerformers_ranks_witness:
  "\<exists>r. topPerformers race_items (sample_filters\<lparr>f_cpu := ''M1''\<rparr>) race_items = Inr r
     \<and> (\<forall>e\<in>set r. snd e = num_of_int (int (wins [sample_variants] (fst e)))) \<and> (''itsi'' \<in> fst ` set r)"
proof -
  let ?f = "sample_filters\<lparr>f_cpu := ''M1''\<rparr>" and ?m = "[(''hello_1_2_10'', sample_variants)]"
  have race: "race_items = hd race_items # tl race_items" "truthy_str (group (hd race_items))"
    "filter (\<lambda>i. cpu i = Val (f_cpu ?f) \<and> group i = group (hd race_items)) race_items = race_items"
    by (simp_all add: race_items_def sample_defs)
  have vals: "obj_values ?m = [sample_variants]"
    by (simp add: obj_values_def obj_entries_def array_index_def is_digit_def)
  have perf: "performanceMap (filter (\<lambda>i. cpu i = Val (f_cpu ?f) \<and> group i = group (hd race_items)) race_items) = Inr ?m"
    unfolding race(3) by (rule race_performance)
  have ok: "\<forall>s\<in>set (all_winners (obj_values ?m)). plain_key s" "int (length (all_winners (obj_values ?m))) \<le> 2 ^ 53"
    unfolding vals race_winners by (simp_all add: plain_key_def proto_names_def)
  have won: "0 < wins [sample_variants] s \<longleftrightarrow> s = ''itsi''" for s
    using count_all_winners [of "[sample_variants]" s] by (auto simp: race_winners split: if_splits)
  obtain r where r: "topPerformers race_items ?f race_items = Inr r"
    "\<forall>e\<in>set r. 0 < wins [sample_variants] (fst e) \<and> snd e = num_of_int (int (wins [sample_variants] (fst e)))"
    "\<forall>s. 0 < wins [sample_variants] s \<longrightarrow> s \<notin> fst ` set r \<longrightarrow> length r = 8
       \<and> (\<forall>e\<in>set r. num_le (num_of_int (int (wins [sample_variants] s))) (snd e))"
    using topPerformers_ranks [OF race(1,2) perf ok] unfolding vals by (elim exE conjE)
  have "''itsi'' \<in> fst ` set r"
  proof (rule ccontr)
    assume no: "''itsi'' \<notin> fst ` set r"
    have "0 < wins [sample_variants] ''itsi''" unfolding won by simp
    then have "length r = 8" using r(3) no by simp
    then have "hd r \<in> set r" by (cases r) auto
    then have "0 < wins [sample_variants] (fst (hd r))" using r(2) by simp
    then have "fst (hd r) = ''itsi''" unfolding won .
    then show False using no \<open>hd r \<in> set r\<close> by (metis image_eqI)
  qed
  then show ?thesis using r(1,2) by (intro exI [of _ r]) simp
qed

end
