(* ===== verification/UI_Base.thy ===== *)
theory UI_Base
  imports JS_Object
begin

text \<open>
  React elements as data: an element has a type (a DOM tag or the name of a component), attributes
  and children. A component is a function from its props to such a tree, one level deep: the
  elements of other components are not expanded, as in the value a component returns.

  Handlers and data that are only passed on are the type parameters \<open>'h\<close> and \<open>'d\<close>. A child that is
  false, null or undefined renders nothing and is left out of the list of children. The
  class-name libraries (\<^verbatim>\<open>clsx\<close>, \<^verbatim>\<open>tailwind-merge\<close>, \<^verbatim>\<open>class-variance-authority\<close>) are not part of the
  repository: they are the fields of the record \<open>class_lib\<close>, an argument of the components.
\<close>

section \<open>Elements\<close>

datatype ('h, 'd) aval =
    VStr string
  | VNum jsnum
  | VBool bool
  | VUndef
  | VNull
  | VFunc
  | VRef
  | VHandler 'h
  | VData 'd
  | VObj "(string \<times> ('h, 'd) aval) list"
  | VNode "('h, 'd) vnode"
and ('h, 'd) vnode =
    Text string
  | Elem string "(string \<times> ('h, 'd) aval) list" "('h, 'd) vnode list"

type_synonym ('h, 'd) props = "(string \<times> ('h, 'd) aval) list"

text \<open>An attribute list as JSX evaluates it: from left to right, a later one replacing an earlier one.\<close>

definition spread :: "('h, 'd) props \<Rightarrow> ('h, 'd) props \<Rightarrow> ('h, 'd) props" where
  "spread base extra = foldl (\<lambda>m (k, v). upd k v m) base extra"

text \<open>Destructuring \<^verbatim>\<open>({ className, ...props })\<close>: a named property and the others.\<close>

definition attr :: "('h, 'd) props \<Rightarrow> string \<Rightarrow> ('h, 'd) aval" where
  "attr ps k = (case map_of ps k of Some v \<Rightarrow> v | None \<Rightarrow> VUndef)"

definition attr_or :: "('h, 'd) props \<Rightarrow> string \<Rightarrow> ('h, 'd) aval \<Rightarrow> ('h, 'd) aval" where
  "attr_or ps k d = (case attr ps k of VUndef \<Rightarrow> d | v \<Rightarrow> v)"

definition omit :: "string list \<Rightarrow> ('h, 'd) props \<Rightarrow> ('h, 'd) props" where
  "omit ks ps = filter (\<lambda>e. fst e \<notin> set ks) ps"

fun truthy_attr :: "('h, 'd) aval \<Rightarrow> bool" where
  "truthy_attr (VStr s) = (s \<noteq> [])"
| "truthy_attr (VNum x) = num_truthy x"
| "truthy_attr (VBool b) = b"
| "truthy_attr VUndef = False"
| "truthy_attr VNull = False"
| "truthy_attr _ = True"

text \<open>\<^verbatim>\<open>a && b\<close> and \<^verbatim>\<open>a || b\<close> as values, the entries of a spread object, and a value used as a child.\<close>

definition js_and :: "('h, 'd) aval \<Rightarrow> ('h, 'd) aval \<Rightarrow> ('h, 'd) aval" where
  "js_and a b = (if truthy_attr a then b else a)"

definition js_or :: "('h, 'd) aval \<Rightarrow> ('h, 'd) aval \<Rightarrow> ('h, 'd) aval" where
  "js_or a b = (if truthy_attr a then a else b)"

fun obj_of :: "('h, 'd) aval \<Rightarrow> ('h, 'd) props" where
  "obj_of (VObj ps) = ps"
| "obj_of _ = []"

fun node_of :: "('h, 'd) aval \<Rightarrow> ('h, 'd) vnode list" where
  "node_of (VStr s) = (if s = [] then [] else [Text s])"
| "node_of (VNum x) = [Text (num_to_string x)]"
| "node_of (VNode n) = [n]"
| "node_of _ = []"

text \<open>A value in a template literal.\<close>

fun text_of :: "('h, 'd) aval \<Rightarrow> string" where
  "text_of (VStr s) = s"
| "text_of (VNum x) = num_to_string x"
| "text_of (VBool b) = (if b then ''true'' else ''false'')"
| "text_of VUndef = ''undefined''"
| "text_of VNull = ''null''"
| "text_of _ = ''[object Object]''"

section \<open>Class names\<close>

record ('h, 'd) class_lib =
  lib_clsx :: "('h, 'd) aval list \<Rightarrow> string"
  lib_twMerge :: "string \<Rightarrow> string"
  lib_cva :: "string \<Rightarrow> (string \<times> (string \<times> string) list) list \<Rightarrow> (string \<times> string) list \<Rightarrow> ('h, 'd) props \<Rightarrow> string"

definition cn :: "('h, 'd) class_lib \<Rightarrow> ('h, 'd) aval list \<Rightarrow> string" where
  "cn L inputs = lib_twMerge L (lib_clsx L inputs)"

section \<open>Components\<close>

text \<open>
  A component is given its props and, apart, its children. The commonest shape of
  \<^verbatim>\<open>components/ui\<close> is
  \<^verbatim>\<open>({ className, ...props }, ref) => <Tag ref={ref} data-x="y" className={cn(base, className)} {...props} />\<close>.
\<close>

type_synonym ('h, 'd) component =
  "('h, 'd) class_lib \<Rightarrow> ('h, 'd) props \<Rightarrow> ('h, 'd) vnode list \<Rightarrow> ('h, 'd) vnode"

definition styled ::
  "('h, 'd) class_lib \<Rightarrow> string \<Rightarrow> ('h, 'd) props \<Rightarrow> string list \<Rightarrow> ('h, 'd) props \<Rightarrow> ('h, 'd) vnode list \<Rightarrow> ('h, 'd) vnode" where
  "styled L tag own bases ps kids =
     Elem tag
       (spread ((''ref'', VRef) # own @ [(''className'', VStr (cn L (map VStr bases @ [attr ps ''className''])))])
         (omit [''className''] ps))
       kids"

section \<open>What a component does with the props it is given\<close>

text \<open>
  \<open>elems\<close> lists an element and the elements inside it. \<open>receives\<close> holds of an element that has every
  attribute of \<open>ps\<close> that the component does not use itself (\<^verbatim>\<open>ref\<close> is not a prop). \<open>class_last\<close> holds of
  an element whose class name is merged with the caller's as the last one, so that it wins.
\<close>

fun elems :: "('h, 'd) vnode \<Rightarrow> ('h, 'd) vnode list" where
  "elems (Text s) = []"
| "elems (Elem tag as ks) = Elem tag as ks # concat (map elems ks)"

fun receives :: "('h, 'd) props \<Rightarrow> string list \<Rightarrow> ('h, 'd) vnode \<Rightarrow> bool" where
  "receives ps own (Elem tag as ks) =
     list_all (\<lambda>e. fst e \<in> set own \<or> fst e = ''ref'' \<or> map_of as (fst e) = Some (snd e)) ps"
| "receives ps own (Text s) = False"

fun class_last :: "('h, 'd) class_lib \<Rightarrow> ('h, 'd) props \<Rightarrow> ('h, 'd) vnode \<Rightarrow> bool" where
  "class_last L ps (Elem tag as ks) =
     (\<exists>cs. map_of as ''className'' = Some (VStr (cn L (cs @ [attr ps ''className'']))))"
| "class_last L ps (Text s) = False"

definition forwards :: "string list \<Rightarrow> ('h, 'd) component \<Rightarrow> bool" where
  "forwards own c \<longleftrightarrow>
     (\<forall>L ps kids. distinct (map fst ps) \<longrightarrow> list_ex (receives ps own) (elems (c L ps kids)))"

definition forwards_class :: "string list \<Rightarrow> ('h, 'd) component \<Rightarrow> bool" where
  "forwards_class own c \<longleftrightarrow>
     (\<forall>L ps kids. distinct (map fst ps) \<longrightarrow>
        list_ex (\<lambda>n. receives ps own n \<and> class_last L ps n) (elems (c L ps kids)))"

section \<open>Lemmas\<close>

lemma map_of_foldl_upd: "map_of (foldl (\<lambda>m (k, v). upd k v m) m kvs) k =
     (case map_of (rev kvs) k of Some v \<Rightarrow> Some v | None \<Rightarrow> map_of m k)"
proof (induction kvs rule: rev_induct)
  case (snoc kv kvs)
  then show ?case by (cases kv) auto
qed simp

lemma attr_simps [simp]:
  "attr [] k = VUndef" "attr ((k', v) # ps) k = (if k = k' then v else attr ps k)"
  by (simp_all add: attr_def)

lemma spread_Nil [simp]: "spread base [] = base"
  by (simp add: spread_def)

lemma omit_Nil [simp]: "omit ks [] = []"
  by (simp add: omit_def)

lemma attr_spread: "distinct (map fst extra) \<Longrightarrow>
     attr (spread base extra) k = (case map_of extra k of Some v \<Rightarrow> v | None \<Rightarrow> attr base k)"
  by (simp add: attr_def spread_def map_of_foldl_upd map_of_rev_distinct split: option.split)

lemma map_of_omit: "map_of (omit ks ps) k = (if k \<in> set ks then None else map_of ps k)"
  by (induction ps) (auto simp: omit_def)

lemma distinct_omit [simp]: "distinct (map fst ps) \<Longrightarrow> distinct (map fst (omit ks ps))"
  by (simp add: omit_def distinct_map_filter)

lemma map_of_spread: "distinct (map fst extra) \<Longrightarrow>
     map_of (spread base extra) k = (case map_of extra k of Some v \<Rightarrow> Some v | None \<Rightarrow> map_of base k)"
  by (simp add: spread_def map_of_foldl_upd map_of_rev_distinct)

lemma map_of_spread_ref [simp]: "map_of (spread base [(k', v)]) k = (if k = k' then Some v else map_of base k)"
  by (simp add: spread_def)

lemma receives_spread [simp]:
  "distinct (map fst ps) \<Longrightarrow> receives ps own (Elem tag (spread base (omit own ps)) ks)"
  by (auto simp: list_all_iff map_of_spread map_of_omit)

lemma receives_all [simp]: "distinct (map fst ps) \<Longrightarrow> receives ps [] (Elem tag (spread base ps) ks)"
  by (auto simp: list_all_iff map_of_spread)

lemma receives_spread_ref [simp]:
  "distinct (map fst ps) \<Longrightarrow> receives ps own (Elem tag (spread (spread base (omit own ps)) [(''ref'', r)]) ks)"
  by (auto simp: list_all_iff map_of_spread map_of_omit)

lemma class_last_spread [simp]:
  "distinct (map fst ps) \<Longrightarrow> ''className'' \<in> set own \<Longrightarrow>
   class_last L ps (Elem tag (spread base (omit own ps)) ks) \<longleftrightarrow> class_last L ps (Elem tag base ks)"
  by (simp add: map_of_spread map_of_omit)

lemma class_last_spread_ref [simp]:
  "class_last L ps (Elem tag (spread base [(''ref'', r)]) ks) \<longleftrightarrow> class_last L ps (Elem tag base ks)"
  by simp

lemma class_last_cn [simp]: "xs \<noteq> [] \<Longrightarrow> last xs = a \<Longrightarrow> \<exists>cs. cn L xs = cn L (cs @ [a])"
  by (rule exI [of _ "butlast xs"]) (metis append_butlast_last_id)

lemma receives_id [simp]: "distinct (map fst ps) \<Longrightarrow> receives ps [] (Elem tag ps ks)"
  by (auto simp: list_all_iff)

lemma class_last_Cons [simp]:
  "class_last L ps (Elem tag ((k, v) # as) ks) \<longleftrightarrow>
     (if k = ''className'' then \<exists>cs. v = VStr (cn L (cs @ [attr ps ''className'']))
      else class_last L ps (Elem tag as ks))"
  by auto

declare receives.simps [simp del] class_last.simps [simp del]

lemma styled_forwards [simp]:
  assumes "distinct (map fst ps)" "''className'' \<notin> fst ` set own"
  shows "receives ps [''className''] (styled L tag own bases ps kids)"
    and "class_last L ps (styled L tag own bases ps kids)"
    and "elems (styled L tag own bases ps kids) = styled L tag own bases ps kids # concat (map elems kids)"
proof -
  have "map_of own ''className'' = None" using assms(2) by (simp add: map_of_eq_None_iff)
  then show "class_last L ps (styled L tag own bases ps kids)"
    using assms(1) by (auto simp: styled_def map_of_spread map_of_omit map_add_def map_of_append class_last.simps)
qed (use assms(1) in \<open>simp_all add: styled_def\<close>)

lemma forwards_classD: "forwards_class own c \<Longrightarrow> forwards own c"
  by (fastforce simp: forwards_class_def forwards_def list_ex_iff)

end
