(* ===== verification/Dashboard_View.thy ===== *)
theory Dashboard_View
  imports Dashboard_State Dashboard_Summary UI_Base
begin

text \<open>
  What \<^verbatim>\<open>components/benchmark-dashboard.tsx\<close> renders: the controls, the summary, the chart with its bars and
  legend, the details of the hovered result and the top performers, as a tree of elements whose
  handlers are symbolic, with the event each handler raises. Rendering fails where the source calls
  a method on a missing value.

  Fragments are flattened into the children around them. \<open>platform\<close> is \<^verbatim>\<open>navigator.platform\<close>.
\<close>

section \<open>Handlers\<close>

datatype control = SCpu | STestCase | SThreads | SWorkers | SConcurrency | SHttp2 | SXAxis | SMetric

datatype view_handler =
    OnValue control
  | OnLegend string
  | OnBarOver string
  | OnZeroBarOver string
  | OnBarLeave

text \<open>The handlers \<^verbatim>\<open>onValueChange\<close> of the seven selects and of the tabs.\<close>

fun value_event :: "control \<Rightarrow> string \<Rightarrow> event" where
  "value_event SCpu v = FilterChange (UCpu v)"
| "value_event STestCase v = FilterChange (UTestCase v)"
| "value_event SThreads v = FilterChange (UThreads (js_parseInt v))"
| "value_event SWorkers v = FilterChange (UWorkers (js_parseInt v))"
| "value_event SConcurrency v = FilterChange (UConcurrency (js_parseInt v))"
| "value_event SHttp2 v = FilterChange (UHttp2 (if v = ''all'' then All else Http2 (v = ''true'')))"
| "value_event SXAxis v = FilterChange (UXAxis v)"
| "value_event SMetric v = FilterChange (UMetric v)"

text \<open>The mouse handlers of a bar, given the chart point under the pointer.\<close>

definition bar_over :: "string \<Rightarrow> point \<Rightarrow> event" where
  "bar_over dataKey payload = ChartHover (Val [(dataKey, payload)])"

definition zero_bar_over :: "string \<Rightarrow> point \<Rightarrow> event option" where
  "zero_bar_over dataKey payload =
     (case obj_get payload dataKey of
        Own (PNum (Val x)) \<Rightarrow> if num_eq x (Fin 0) then Some (bar_over dataKey payload) else None
      | _ \<Rightarrow> None)"

type_synonym view = "(view_handler, point list) vnode"
type_synonym view_props = "(view_handler, point list) props"

section \<open>Building blocks\<close>

definition cls :: "string \<Rightarrow> view_props" where
  "cls s = [(''className'', VStr s)]"

definition words :: "string \<Rightarrow> view list" where
  "words s = node_of (VStr s)"

fun words_opt :: "string jopt \<Rightarrow> view list" where
  "words_opt (Val s) = words s"
| "words_opt _ = []"

text \<open>A colour looked up by name; a name every object inherits gives a function.\<close>

fun slot_val :: "string slot \<Rightarrow> (view_handler, point list) aval" where
  "slot_val (Own c) = VStr c"
| "slot_val Inherited = VFunc"
| "slot_val Absent = VUndef"

definition select_item :: "string \<Rightarrow> view list \<Rightarrow> view" where
  "select_item v kids = Elem ''SelectItem'' [(''value'', VStr v), (''className'', VStr ''text-xs'')] kids"

definition keyed_item :: "string \<Rightarrow> string \<Rightarrow> view list \<Rightarrow> view" where
  "keyed_item c v kids = Elem ''SelectItem'' [(''key'', VStr v), (''value'', VStr v), (''className'', VStr c)] kids"

text \<open>A labelled select; \<open>extra\<close> is \<^verbatim>\<open>disabled\<close> where the control has it.\<close>

definition filter_select ::
  "string \<Rightarrow> string \<Rightarrow> string \<Rightarrow> control \<Rightarrow> view_props \<Rightarrow> string \<Rightarrow> view list \<Rightarrow> view" where
  "filter_select label i v c extra placeholder items =
     Elem ''div'' (cls ''space-y-1'')
       [Elem ''Label'' [(''htmlFor'', VStr i), (''className'', VStr ''text-xs'')] [Text label],
        Elem ''Select'' ([(''value'', VStr v), (''onValueChange'', VHandler (OnValue c))] @ extra)
          [Elem ''SelectTrigger'' [(''id'', VStr i), (''className'', VStr ''h-7 text-xs'')]
             [Elem ''SelectValue'' [(''placeholder'', VStr placeholder)] []],
           Elem ''SelectContent'' [] items]]"

section \<open>Filters\<close>

definition cpu_select :: "filter_options \<Rightarrow> filter_state \<Rightarrow> view" where
  "cpu_select o' f =
     filter_select ''CPU'' ''cpu-filter'' (f_cpu f) SCpu [] ''Select CPU''
       (map (\<lambda>c. keyed_item ''text-xs'' c (words c)) (fo_cpus o'))"

definition test_group :: "string list jsobj \<Rightarrow> string \<Rightarrow> view result" where
  "test_group groupedTests g =
     (case obj_get groupedTests g of
        Own ts \<Rightarrow> Inr (Elem ''SelectGroup'' [(''key'', VStr g)]
          (Elem ''SelectLabel'' (cls ''text-xs font-medium text-muted-foreground pl-2'') (words g) #
           map (\<lambda>t. keyed_item ''text-xs pl-6'' t (words t)) ts))
      | _ \<Rightarrow> Inl TypeError)"

definition test_case_select :: "string list jsobj \<times> string list \<Rightarrow> filter_state \<Rightarrow> view result" where
  "test_case_select grouped f =
     bindE (mapE (test_group (fst grouped)) (snd grouped)) (\<lambda>groups.
       Inr (filter_select ''Test Case'' ''test-case-filter'' (f_testCase f) STestCase [] ''Select test'' groups))"

text \<open>The three numeric selects: disabled while their dimension is on the x-axis, with a fallback item.\<close>

definition num_items :: "jsnum list \<Rightarrow> string \<Rightarrow> view list" where
  "num_items xs fallback =
     (if xs \<noteq> [] then map (\<lambda>x. keyed_item ''text-xs'' (num_to_string x) (words (num_to_string x))) xs
      else [select_item fallback [Text fallback]])"

definition num_select ::
  "string \<Rightarrow> string \<Rightarrow> string \<Rightarrow> jsnum jopt \<Rightarrow> control \<Rightarrow> string \<Rightarrow> filter_state \<Rightarrow> jsnum list \<Rightarrow> string \<Rightarrow> view result" where
  "num_select label i axis v c placeholder f xs fallback =
     bindE (num_toString v) (\<lambda>s.
       Inr (filter_select label i s c [(''disabled'', VBool (f_xAxis f = axis))]
         (if f_xAxis f = axis then ''On X-Axis'' else placeholder) (num_items xs fallback)))"

definition threads_select :: "filter_options \<Rightarrow> filter_state \<Rightarrow> view result" where
  "threads_select o' f =
     num_select ''Threads'' ''threads-filter'' ''threads'' (f_threads f) SThreads ''Select threads'' f (fo_threads o') ''1''"

definition workers_select :: "filter_options \<Rightarrow> filter_state \<Rightarrow> view result" where
  "workers_select o' f =
     num_select ''Workers'' ''workers-filter'' ''workers'' (f_workers f) SWorkers ''Select workers'' f (fo_workers o') ''1''"

definition concurrency_select :: "filter_options \<Rightarrow> filter_state \<Rightarrow> view result" where
  "concurrency_select o' f =
     num_select ''Concurrency'' ''concurrency-filter'' ''concurrency'' (f_concurrency f) SConcurrency
       ''Select concurrency'' f (fo_concurrencyLevels o') ''10''"

definition http2_select :: "filter_options \<Rightarrow> filter_state \<Rightarrow> view" where
  "http2_select o' f =
     filter_select ''Protocol'' ''http2-filter'' (http2_toString (f_http2 f)) SHttp2 [] ''Select protocol''
       (select_item ''all'' [Text ''All''] #
        map (\<lambda>h. keyed_item ''text-xs'' (http2_toString h) [Text (if h = Http2 False then ''HTTP/1.1'' else ''HTTP/2'')])
          (filter (\<lambda>h. h \<noteq> All) (fo_http2Options o')))"

definition x_axis_select :: "filter_state \<Rightarrow> view" where
  "x_axis_select f =
     filter_select ''X-Axis'' ''x-axis-select'' (f_xAxis f) SXAxis [] ''X-Axis''
       [select_item ''concurrency'' [Text ''Concurrency''],
        select_item ''threads'' [Text ''Threads''],
        select_item ''workers'' [Text ''Workers'']]"

definition metric_tab :: "string \<Rightarrow> string \<Rightarrow> view" where
  "metric_tab v label =
     Elem ''TabsTrigger'' [(''value'', VStr v), (''className'', VStr ''text-xs px-2 py-0 h-4 flex-1'')] [Text label]"

fun icon_name :: "icon \<Rightarrow> string" where
  "icon_name TrendingUp = ''TrendingUp''"
| "icon_name TrendingDown = ''TrendingDown''"

definition metric_tabs :: "filter_state \<Rightarrow> view" where
  "metric_tabs f =
     Elem ''div'' (cls ''space-y-1'')
       [Elem ''Label'' [(''htmlFor'', VStr ''metric-select''), (''className'', VStr ''text-xs'')] [Text ''Metric''],
        Elem ''Tabs''
          [(''value'', VStr (f_metric f)), (''onValueChange'', VHandler (OnValue SMetric)), (''className'', VStr ''w-full'')]
          [Elem ''TabsList'' (cls ''h-6 w-full'')
             [metric_tab ''rps'' ''RPS'', metric_tab ''p95_latency'' ''P95'', metric_tab ''errorRate'' ''Errors'']],
        Elem ''div'' (cls ''flex items-center justify-center text-xs text-muted-foreground'')
          [Elem (icon_name (mi_icon (metricInfo (f_metric f)))) (cls ''h-3 w-3 mr-1'') [],
           Elem ''span'' [] [Text (mi_isBetter (metricInfo (f_metric f))), Text '' is better'']]]"

definition summary_row :: "string \<Rightarrow> view list \<Rightarrow> view" where
  "summary_row label kids =
     Elem ''div'' (cls ''flex justify-between'')
       [Elem ''span'' (cls ''text-muted-foreground'') [Text label], Elem ''span'' (cls ''font-medium'') kids]"

definition summary_view :: "(jsnum \<Rightarrow> string) \<Rightarrow> summary option \<Rightarrow> view list" where
  "summary_view formatter stats =
     (case stats of None \<Rightarrow> []
      | Some s \<Rightarrow>
          [Elem ''div'' (cls ''pt-1 space-y-1 text-xs'')
             [summary_row ''Results:'' (words (int_str (int (s_count s)))),
              summary_row ''Min:'' (words (formatter (s_min s))),
              summary_row ''Max:'' (words (formatter (s_max s))),
              summary_row ''Avg:'' (words (formatter (s_avg s)))]])"

definition filters_column ::
  "filter_options \<Rightarrow> string list jsobj \<times> string list \<Rightarrow> filter_state \<Rightarrow> summary option \<Rightarrow> view result" where
  "filters_column o' grouped f stats =
     bindE (test_case_select grouped f) (\<lambda>tests.
     bindE (threads_select o' f) (\<lambda>ths.
     bindE (workers_select o' f) (\<lambda>wks.
     bindE (concurrency_select o' f) (\<lambda>con.
       Inr (Elem ''div'' (cls ''md:col-span-3'')
         [Elem ''Card'' (cls ''shadow-sm h-full'')
            [Elem ''CardHeader'' (cls ''py-2 px-3'') [Elem ''CardTitle'' (cls ''text-sm'') [Text ''Filters'']],
             Elem ''CardContent'' (cls ''p-2'')
               [Elem ''div'' (cls ''space-y-2'')
                  ([cpu_select o' f, tests,
                    Elem ''div'' (cls ''grid grid-cols-2 gap-2'') [ths, wks],
                    Elem ''div'' (cls ''grid grid-cols-2 gap-2'') [con, http2_select o' f],
                    x_axis_select f, metric_tabs f] @
                   summary_view (mi_formatter (metricInfo (f_metric f))) stats)]]])))))"

section \<open>Chart\<close>

text \<open>\<^verbatim>\<open>s.charAt(0).toUpperCase() + s.slice(1)\<close> for the ASCII names of the axes.\<close>

definition upper_char :: "char \<Rightarrow> char" where
  "upper_char c = (if CHR ''a'' \<le> c \<and> c \<le> CHR ''z'' then char_of (of_char c - (32 :: nat)) else c)"

definition capitalize :: "string \<Rightarrow> string" where
  "capitalize s = (case s of [] \<Rightarrow> [] | c # cs \<Rightarrow> upper_char c # cs)"

definition chart_title :: "filter_state \<Rightarrow> view" where
  "chart_title f =
     Elem ''CardHeader'' (cls ''pb-0 pt-2 px-3'')
       [Elem ''CardTitle'' (cls ''text-base'')
          (words (mi_label (metricInfo (f_metric f))) @ [Text '': ''] @ words (f_cpu f) @ [Text '' - ''] @ words (f_testCase f) @
           [Elem ''span'' (cls ''text-xs font-normal ml-2 text-muted-foreground'')
              ((if f_xAxis f \<noteq> ''threads'' then [Text (''Threads: '' @ num_key (f_threads f) @ '', '')] else []) @
               (if f_xAxis f \<noteq> ''workers'' then [Text (''Workers: '' @ num_key (f_workers f) @ '', '')] else []) @
               (if f_xAxis f \<noteq> ''concurrency'' then [Text (''Concurrency: '' @ num_key (f_concurrency f) @ '', '')] else []) @
               [Text ''Protocol: '', Text (getProtocolDisplay (f_http2 f))])])]"

definition x_axis_view :: "filter_state \<Rightarrow> view" where
  "x_axis_view f =
     Elem ''XAxis''
       [(''dataKey'', VStr (f_xAxis f)),
        (''label'', VObj [(''value'', VStr (capitalize (f_xAxis f))), (''position'', VStr ''insideBottom''),
          (''offset'', VNum (Fin (- 5)))])] []"

definition y_axis_view :: "filter_state \<Rightarrow> view" where
  "y_axis_view f =
     Elem ''YAxis''
       [(''label'', VObj [(''value'', VStr (mi_label (metricInfo (f_metric f)))), (''angle'', VNum (Fin (- 90))),
          (''position'', VStr ''insideLeft''), (''offset'', VNum (Fin (- 15))),
          (''style'', VObj [(''textAnchor'', VStr ''middle'')])]),
        (''tickFormatter'', VFunc)] []"

definition bar_view :: "string jsobj \<Rightarrow> string option \<Rightarrow> nat \<times> string \<Rightarrow> view" where
  "bar_view colors activeKey = (\<lambda>(index, dataKey).
     Elem ''Bar''
       [(''key'', VStr dataKey), (''dataKey'', VStr dataKey), (''name'', VStr dataKey),
        (''fill'', slot_val (bar_fill colors dataKey index)),
        (''opacity'', VNum (if activeKey = Some dataKey then Fin 1 else fl (8 / 10))),
        (''stackId'', VNum (num_of_int (int index))),
        (''isAnimationActive'', VBool True),
        (''onMouseOver'', VHandler (OnBarOver dataKey)),
        (''onMouseLeave'', VHandler OnBarLeave)] [])"

definition hover_bar_view :: "nat \<times> string \<Rightarrow> view" where
  "hover_bar_view = (\<lambda>(index, dataKey).
     Elem ''Bar''
       [(''key'', VStr (dataKey @ ''_hover'')), (''dataKey'', VStr dataKey), (''name'', VStr (dataKey @ ''_hover'')),
        (''fill'', VStr ''transparent''), (''stroke'', VStr ''transparent''),
        (''strokeWidth'', VNum (Fin 0)), (''minPointSize'', VNum (Fin 20)),
        (''stackId'', VStr (''hover_'' @ int_str (int index))),
        (''isAnimationActive'', VBool True),
        (''onMouseOver'', VHandler (OnZeroBarOver dataKey)),
        (''onMouseLeave'', VHandler OnBarLeave)] [])"

definition has_substring :: "string \<Rightarrow> string \<Rightarrow> bool" where
  "has_substring p s = list_ex (\<lambda>i. take (length p) (drop i s) = p) [0..<Suc (length s)]"

definition legend_view :: "string \<Rightarrow> string jsobj \<Rightarrow> bool jsobj \<Rightarrow> string \<Rightarrow> view" where
  "legend_view platform colors visible srv =
     Elem ''div''
       [(''key'', VStr srv),
        (''className'', VStr (''flex items-center gap-1 px-2 py-0.5 rounded cursor-pointer transition-opacity '' @
           (if truthy_slot (obj_get visible srv) then ''opacity-100'' else ''opacity-40''))),
        (''onClick'', VHandler (OnLegend srv)),
        (''title'', VStr (''Click to toggle, '' @ (if has_substring ''Mac'' platform then ''Cmd'' else ''Ctrl'') @
           ''+click to show only this server''))]
       [Elem ''div'' [(''className'', VStr ''w-2 h-2 rounded-sm''),
          (''style'', VObj [(''backgroundColor'', slot_val (obj_get colors srv))])] [],
        Elem ''span'' (cls ''text-xs'') (words (replace_uu srv))]"

definition chart_view ::
  "string \<Rightarrow> filter_options \<Rightarrow> filter_state \<Rightarrow> bool jsobj \<Rightarrow> string option \<Rightarrow> string jsobj \<Rightarrow> point list \<Rightarrow> string list \<Rightarrow> view" where
  "chart_view platform o' f visible activeKey colors points dataKeys =
     Elem ''CardContent'' (cls ''p-2'')
       (if points = []
        then [Elem ''div'' (cls ''flex h-64 items-center justify-center'')
                [Elem ''p'' (cls ''text-gray-500'') [Text ''No data available for the selected filters'']]]
        else
          [Elem ''div'' (cls ''h-[280px]'')
             [Elem ''ResponsiveContainer'' [(''width'', VStr ''100%''), (''height'', VStr ''100%'')]
                [Elem ''BarChart''
                   [(''data'', VData points),
                    (''margin'', VObj [(''top'', VNum (Fin 10)), (''right'', VNum (Fin 30)), (''left'', VNum (Fin 30)),
                      (''bottom'', VNum (Fin 20))]),
                    (''barCategoryGap'', VNum (Fin 0)), (''barGap'', VNum (Fin 0))]
                   ([Elem ''CartesianGrid'' [(''strokeDasharray'', VStr ''3 3''), (''opacity'', VNum (fl (7 / 10)))] [],
                     x_axis_view f, y_axis_view f] @
                    map (bar_view colors activeKey) (enumerate 0 dataKeys) @
                    map hover_bar_view (enumerate 0 dataKeys))]],
           Elem ''div'' (cls ''flex flex-wrap gap-3 justify-center mt-1'')
             (map (legend_view platform colors visible) (fo_servers o'))])"

section \<open>Details of the hovered result\<close>

definition detail_row :: "string \<Rightarrow> string \<Rightarrow> view list \<Rightarrow> view" where
  "detail_row label c kids =
     Elem ''div'' (cls ''flex justify-between'')
       [Elem ''span'' (cls ''text-muted-foreground'') [Text label], Elem ''span'' (cls c) kids]"

text \<open>\<^verbatim>\<open>x != null ? `${x.toFixed(2)} ms` : "N/A"\<close>\<close>

fun latency_text :: "jsnum jopt \<Rightarrow> string" where
  "latency_text (Val x) = to_fixed x 2 @ '' ms''"
| "latency_text _ = ''N/A''"

definition error_row :: "string \<times> jsnum \<Rightarrow> view" where
  "error_row = (\<lambda>(errorType, count).
     Elem ''div'' [(''key'', VStr errorType), (''className'', VStr ''flex items-center justify-between text-xs'')]
       [Elem ''span'' [] (words errorType),
        Elem ''Badge'' [(''variant'', VStr ''destructive''), (''className'', VStr ''text-xs py-0'')]
          (words (num_to_string count))])"

definition error_view :: "jsnum jsobj jopt \<Rightarrow> view" where
  "error_view distribution =
     (let entries = (case distribution of Val d \<Rightarrow> obj_entries d | _ \<Rightarrow> [])
      in if entries \<noteq> []
         then Elem ''div'' []
                [Elem ''div'' (cls ''text-xs font-medium mb-1'') [Text ''Error Distribution:''],
                 Elem ''div'' (cls ''space-y-1'') (map error_row entries)]
         else Elem ''p'' (cls ''text-xs text-muted-foreground'') [Text ''No errors reported''])"

definition metrics_view :: "metrics \<Rightarrow> view list result" where
  "metrics_view r =
     (case requestsPerSec r of
        Val rps \<Rightarrow> Inr
          [Elem ''div'' (cls ''grid grid-cols-2 md:grid-cols-2 gap-x-2 gap-y-1 text-xs'')
             [detail_row ''RPS:'' ''font-medium'' (words (to_fixed rps 2)),
              detail_row ''Success Rate:''
                (''font-medium '' @ (if num_lt (to_num (successRate r)) (Fin 1) then ''text-red-600'' else []))
                (words (to_fixed (num_mul (to_num (successRate r)) (Fin 100)) 2) @ [Text ''%'']),
              Elem ''br'' [] []],
           Elem ''div'' (cls ''grid grid-cols-2 md:grid-cols-2 gap-x-2 gap-y-1 text-xs'')
             [detail_row ''P95 Latency:'' ''font-medium'' (words (latency_text (p95_latency r))),
              detail_row ''Avg Latency:'' ''font-medium'' (words (latency_text (average r)))],
           error_view (errorDistribution r)]
      | _ \<Rightarrow> Inl TypeError)"

definition badge :: "view list \<Rightarrow> view" where
  "badge kids = Elem ''Badge'' [(''variant'', VStr ''outline'')] kids"

definition item_details :: "filter_state \<Rightarrow> string jsobj \<Rightarrow> tagged_result \<Rightarrow> view result" where
  "item_details f colors item =
     bindE (formatServerName (server item)) (\<lambda>name.
     bindE (case results item of Val r \<Rightarrow> metrics_view r | _ \<Rightarrow> Inl TypeError) (\<lambda>ms.
       Inr (Elem ''div'' (cls ''space-y-2'')
         ([Elem ''div'' (cls ''flex flex-wrap items-center gap-2'')
             [Elem ''Badge'' [(''variant'', VStr ''outline''), (''className'', VStr ''flex items-center'')]
                (Elem ''div'' [(''className'', VStr ''w-2 h-2 mr-1 rounded-full''),
                   (''style'', VObj [(''backgroundColor'', slot_val (obj_get colors (str_key (server item))))])] [] #
                 words name),
              badge (words_opt (test_case item)),
              badge (words (f_xAxis f) @ [Text '':'', Text '' ''] @ words (item_text item (f_xAxis f))),
              badge [Text (if http2 item = Val True then ''HTTP/2'' else ''HTTP/1.1'')]]] @
          (if truthy_str (version item)
           then [Elem ''div'' (cls ''flex items-center text-xs text-muted-foreground'')
                   [Elem ''TagIcon'' (cls ''h-3 w-3 mr-1'') [],
                    Elem ''span'' (cls ''font-medium overflow-hidden text-ellipsis'') (words_opt (version item))]]
           else []) @
          ms))))"

text \<open>A hovered value that is not a result has no server, whose name cannot be formatted.\<close>

definition hover_body :: "filter_state \<Rightarrow> string jsobj \<Rightarrow> point_val option \<Rightarrow> view result" where
  "hover_body f colors hovered =
     (case hovered of
        None \<Rightarrow> Inr (Elem ''p'' (cls ''text-xs text-muted-foreground'') [Text ''Hover over a data point to see benchmark details''])
      | Some (PItem item) \<Rightarrow> item_details f colors item
      | Some _ \<Rightarrow> Inl TypeError)"

definition hover_card :: "filter_state \<Rightarrow> string jsobj \<Rightarrow> point_val option \<Rightarrow> bool \<Rightarrow> view result" where
  "hover_card f colors hovered ranked =
     bindE (hover_body f colors hovered) (\<lambda>body.
       Inr (Elem ''div'' (cls (if ranked then ''lg:col-span-7'' else ''lg:col-span-12''))
         [Elem ''Card'' (cls ''shadow-sm h-full'')
            [Elem ''CardHeader'' (cls ''py-1 px-3'')
               [Elem ''CardTitle'' (cls ''text-sm flex items-center'')
                  (Text (if hovered \<noteq> None then ''Benchmark Details'' else ''Hover Details'') #
                   (if hovered = None
                    then [Elem ''span'' (cls ''ml-2 text-xs font-normal text-muted-foreground flex items-center'')
                            [Elem ''InfoIcon'' (cls ''h-3 w-3 mr-1'') [], Text ''Hover over chart bars to see details'']]
                    else []))],
             Elem ''CardContent'' (cls ''p-2'') [body]]]))"

section \<open>Top performers\<close>

definition performer_view :: "string jsobj \<Rightarrow> string \<times> jsnum \<Rightarrow> view" where
  "performer_view colors = (\<lambda>(srv, count).
     Elem ''div'' [(''key'', VStr srv), (''className'', VStr ''flex items-center justify-between text-xs'')]
       [Elem ''div'' (cls ''flex items-center gap-1'')
          [Elem ''div'' [(''className'', VStr ''w-2 h-2 rounded-full''),
             (''style'', VObj [(''backgroundColor'', slot_val (obj_get colors srv))])] [],
           Elem ''span'' (cls ''truncate'') (words (replace_uu srv))],
        Elem ''span'' (cls ''text-muted-foreground ml-1'') (words (num_to_string count))])"

text \<open>The note contains a typographic apostrophe, in UTF-8.\<close>

definition rack_note :: string where
  "rack_note = ''Note: Some servers (e.g. Unicorn, Agoo) don'' @ [CHR 0xE2, CHR 0x80, CHR 0x99] @
     ''t participate in multi-threaded test cases so will appear less frequently in these results.''"

definition performers_card :: "string jsobj \<Rightarrow> tagged_result list \<Rightarrow> (string \<times> jsnum) list \<Rightarrow> view list result" where
  "performers_card colors filtered ranking =
     (if ranking = [] then Inr []
      else case filtered of
        [] \<Rightarrow> Inl TypeError
      | first # _ \<Rightarrow> Inr
          [Elem ''div'' (cls ''lg:col-span-5'')
             [Elem ''Card'' (cls ''shadow-sm h-full'')
                [Elem ''CardHeader'' (cls ''py-1 px-3'')
                   [Elem ''CardTitle'' (cls ''text-sm flex items-center'')
                      ([Text ''Top Performers'', Text '' ''] @
                       (if truthy_str (group first)
                        then [Elem ''span'' (cls ''ml-1 text-xs text-muted-foreground'')
                                ([Text ''(''] @ words_opt (group first) @ [Text '')''])]
                        else []))],
                 Elem ''CardContent'' (cls ''p-2'')
                   ([Elem ''div'' (cls ''grid grid-cols-2 gap-x-3 gap-y-1'') (map (performer_view colors) ranking)] @
                    (if group first = Val ''rack''
                     then [Elem ''p'' (cls ''text-[10px] text-muted-foreground mt-2 px-1 leading-snug'') [Text rack_note]]
                     else []))]]])"

section \<open>The page\<close>

definition empty_view :: view where
  "empty_view = Elem ''div'' (cls ''flex h-64 items-center justify-center'')
     [Elem ''p'' (cls ''text-gray-500'') [Text ''No benchmark data available'']]"

text \<open>
  The values the hooks compute before the first return statement, then the tree. \<open>data_given\<close> is
  false for data that is missing, not an array or empty.
\<close>

definition render ::
  "(string \<Rightarrow> string \<Rightarrow> int) \<Rightarrow> string \<Rightarrow> bool \<Rightarrow> filter_options \<Rightarrow> tagged_result list \<Rightarrow> dash \<Rightarrow> view result" where
  "render localeCompare platform data_given opts items s =
     (let f = d_filters s; visible = d_visible s;
          o' = options_for opts items f;
          filtered = filteredData items f;
          colors = serverColors (fo_servers opts)
      in bindE (groupedTestCases localeCompare items (f_cpu f)) (\<lambda>grouped.
         bindE (chartData localeCompare items f visible) (\<lambda>points.
         bindE (summaryStats filtered (f_metric f)) (\<lambda>stats.
         bindE (topPerformers items f filtered) (\<lambda>ranking.
           if \<not> data_given then Inr empty_view
           else
             bindE (filters_column o' grouped f stats) (\<lambda>left.
             bindE (hover_card f colors (d_hovered s) (ranking \<noteq> [])) (\<lambda>hover.
             bindE (performers_card colors filtered ranking) (\<lambda>performers.
               Inr (Elem ''div'' (cls ''grid grid-cols-1 gap-2'')
                 [Elem ''div'' (cls ''grid grid-cols-1 md:grid-cols-12 gap-2'')
                    [left,
                     Elem ''div'' (cls ''md:col-span-9'')
                       [Elem ''div'' (cls ''space-y-2'')
                          [Elem ''Card'' (cls ''shadow'')
                             [chart_title f,
                              chart_view platform o' f visible (d_activeKey s) colors points
                                (visibleDataKeys (fo_servers o') f visible filtered)],
                           Elem ''div'' (cls ''grid grid-cols-1 lg:grid-cols-12 gap-2'') (hover # performers)]]]])))))))))"

end
