(* ===== verification/Dashboard_Controls.thy ===== *)
theory Dashboard_Controls
  imports Dashboard_View
begin

text \<open>
  The controls of the rendered dashboard and the state machine behind it: which events the controls
  can raise, and that they are exactly the choices whose effect \<open>Dashboard_State\<close> describes.
\<close>

section \<open>The choices in a tree\<close>

text \<open>
  A control is an element with a value handler; its choices are the values of the items and tabs
  inside it.
\<close>

fun own_value :: "view \<Rightarrow> string list" where
  "own_value (Elem t as ks) =
     (if t = ''SelectItem'' \<or> t = ''TabsTrigger''
      then case attr as ''value'' of VStr v \<Rightarrow> [v] | _ \<Rightarrow> [] else [])"
| "own_value (Text s) = []"

definition values_in :: "view list \<Rightarrow> string list" where
  "values_in ks = concat (map own_value (concat (map elems ks)))"

fun own_choices :: "view \<Rightarrow> (control \<times> string) list" where
  "own_choices (Elem t as ks) =
     (case attr as ''onValueChange'' of VHandler (OnValue c) \<Rightarrow> map (Pair c) (values_in ks) | _ \<Rightarrow> [])"
| "own_choices (Text s) = []"

definition choices :: "view \<Rightarrow> (control \<times> string) list" where
  "choices n = concat (map own_choices (elems n))"

definition choices_in :: "view list \<Rightarrow> (control \<times> string) list" where
  "choices_in ns = concat (map choices ns)"

lemma concat_map_Nil [simp]: "concat (map (\<lambda>x. []) xs) = []"
  by (induction xs) simp_all

lemma choices_Elem [simp]: "choices (Elem t as ks) = own_choices (Elem t as ks) @ choices_in ks"
  by (simp add: choices_def choices_in_def map_concat comp_def del: own_choices.simps) (induction ks; simp add: choices_def)

lemma choices_Text [simp]: "choices (Text s) = []"
  by (simp add: choices_def)

lemma choices_in_simps [simp]:
  "choices_in [] = []" "choices_in (n # ns) = choices n @ choices_in ns" "choices_in (ns @ ms) = choices_in ns @ choices_in ms"
  "choices_in (map f xs) = concat (map (\<lambda>x. choices (f x)) xs)"
  by (simp_all add: choices_in_def comp_def)

lemma values_in_simps [simp]:
  "values_in [] = []" "values_in (Text s # ns) = values_in ns"
  "values_in (Elem t as ks # ns) = own_value (Elem t as ks) @ values_in ks @ values_in ns"
  "values_in (ns @ ms) = values_in ns @ values_in ms"
  "values_in (map f xs) = concat (map (\<lambda>x. values_in [f x]) xs)"
  by (simp_all add: values_in_def comp_def map_concat del: own_value.simps) (induction xs; simp)

lemma words_choices [simp]: "choices_in (words s) = []" "values_in (words s) = []"
  by (simp_all add: words_def)

lemma words_opt_choices [simp]: "choices_in (words_opt v) = []"
  by (cases v) simp_all

section \<open>The choices of each part\<close>

lemma item_simps [simp]:
  "choices (keyed_item c v (words w)) = []" "values_in [keyed_item c v (words w)] = [v]"
  "choices (keyed_item c v [Text w]) = []" "values_in [keyed_item c v [Text w]] = [v]"
  "choices (select_item v [Text w]) = []" "values_in (select_item v [Text w] # ns) = v # values_in ns"
  by (simp_all add: keyed_item_def select_item_def)

lemma filter_select_choices:
  "choices_in items = [] \<Longrightarrow> choices (filter_select label i v c extra placeholder items) = map (Pair c) (values_in items)"
  by (simp add: filter_select_def cls_def)

lemma cpu_select_choices: "choices (cpu_select o' f) = map (Pair SCpu) (fo_cpus o')"
  by (simp add: cpu_select_def filter_select_choices)

lemma http2_select_choices:
  "choices (http2_select o' f) =
     map (Pair SHttp2) (''all'' # map http2_toString (filter (\<lambda>h. h \<noteq> All) (fo_http2Options o')))"
  by (simp add: http2_select_def filter_select_choices)

lemma x_axis_select_choices: "choices (x_axis_select f) = map (Pair SXAxis) [''concurrency'', ''threads'', ''workers'']"
  by (simp add: x_axis_select_def filter_select_choices)

lemma num_select_choices:
  assumes "num_select label i axis v c placeholder f xs fallback = Inr n"
  shows "choices n = map (Pair c) (if xs = [] then [fallback] else map num_to_string xs)"
  using assms by (auto simp: num_select_def bindE_eq_Inr num_items_def filter_select_choices)

lemma metric_tabs_choices: "choices (metric_tabs f) = map (Pair SMetric) [''rps'', ''p95_latency'', ''errorRate'']"
  by (simp add: metric_tabs_def metric_tab_def cls_def)

lemma summary_view_choices [simp]: "choices_in (summary_view fmt stats) = []"
  by (simp add: summary_view_def summary_row_def cls_def split: option.split)

lemma legend_choices [simp]: "choices (legend_view platform colors visible srv) = []"
  by (simp add: legend_view_def cls_def)

lemma bar_choices [simp]: "choices (bar_view colors k e) = []" "choices (hover_bar_view e) = []"
  by (simp_all add: bar_view_def hover_bar_view_def split: prod.split)

lemma chart_choices [simp]:
  "choices (chart_title f) = []" "choices (chart_view platform o' f visible k colors points keys) = []"
  by (simp_all add: chart_title_def chart_view_def x_axis_view_def y_axis_view_def cls_def)

lemma error_view_choices [simp]: "choices (error_view d) = []"
  by (simp add: error_view_def error_row_def cls_def Let_def split_beta)

lemma metrics_view_choices: "metrics_view r = Inr ns \<Longrightarrow> choices_in ns = []"
  by (auto simp: metrics_view_def detail_row_def cls_def split: jopt.splits)

lemma item_details_choices: "item_details f colors item = Inr n \<Longrightarrow> choices n = []"
  by (auto simp: item_details_def badge_def cls_def bindE_eq_Inr metrics_view_choices split: jopt.splits)

lemma hover_body_choices: "hover_body f colors h = Inr n \<Longrightarrow> choices n = []"
  by (auto simp: hover_body_def cls_def item_details_choices split: option.splits point_val.splits)

lemma hover_card_choices: "hover_card f colors h b = Inr n \<Longrightarrow> choices n = []"
  by (auto simp: hover_card_def cls_def bindE_eq_Inr hover_body_choices)

lemma performers_card_choices: "performers_card colors filtered ranking = Inr ns \<Longrightarrow> choices_in ns = []"
  by (auto simp: performers_card_def performer_view_def cls_def split_beta split: if_splits list.splits)

lemma test_group_choices:
  assumes "test_group groups g = Inr n"
  shows "choices n = []" "\<exists>ts. obj_get groups g = Own ts \<and> values_in [n] = ts"
  using assms by (auto simp: test_group_def cls_def split: slot.splits)

lemma test_groups_values:
  "mapE (test_group groups) order = Inr ns \<Longrightarrow> choices_in ns = [] \<and>
     set (values_in ns) = {t. \<exists>g\<in>set order. \<exists>ts. obj_get groups g = Own ts \<and> t \<in> set ts}"
proof (induction order arbitrary: ns)
  case (Cons g order)
  then obtain n ms where n: "test_group groups g = Inr n" and ms: "mapE (test_group groups) order = Inr ms" and ns: "ns = n # ms"
    by (auto simp: bindE_eq_Inr)
  have "values_in ns = values_in [n] @ values_in ms" using ns by (simp add: values_in_def)
  then show ?case using test_group_choices [OF n] Cons.IH [OF ms] ns by auto
qed simp

section \<open>The choices of the page\<close>

text \<open>The values of a numeric control: its options, or the fallback when there is none.\<close>

definition num_choices :: "string \<Rightarrow> jsnum list \<Rightarrow> string list" where
  "num_choices fallback xs = (if xs = [] then [fallback] else map num_to_string xs)"

definition page_choices :: "filter_options \<Rightarrow> string set \<Rightarrow> (control \<times> string) set" where
  "page_choices o' tests =
     Pair SCpu ` set (fo_cpus o') \<union> Pair STestCase ` tests \<union>
     Pair SThreads ` set (num_choices ''1'' (fo_threads o')) \<union>
     Pair SWorkers ` set (num_choices ''1'' (fo_workers o')) \<union>
     Pair SConcurrency ` set (num_choices ''10'' (fo_concurrencyLevels o')) \<union>
     Pair SHttp2 ` insert ''all'' (http2_toString ` (set (fo_http2Options o') - {All})) \<union>
     Pair SXAxis ` {''concurrency'', ''threads'', ''workers''} \<union>
     Pair SMetric ` {''rps'', ''p95_latency'', ''errorRate''}"

lemma filters_column_choices:
  assumes "filters_column o' (groups, order) f stats = Inr n"
  shows "set (choices n) = page_choices o' {t. \<exists>g\<in>set order. \<exists>ts. obj_get groups g = Own ts \<and> t \<in> set ts}"
proof -
  obtain tests ths wks con where parts: "test_case_select (groups, order) f = Inr tests"
    "threads_select o' f = Inr ths" "workers_select o' f = Inr wks" "concurrency_select o' f = Inr con"
    and n: "choices n = choices (cpu_select o' f) @ choices tests @ choices ths @ choices wks @ choices con
      @ choices (http2_select o' f) @ choices (x_axis_select f) @ choices (metric_tabs f)"
    using assms by (auto simp: filters_column_def bindE_eq_Inr cls_def)
  obtain ns where ns: "mapE (test_group groups) order = Inr ns"
    "tests = filter_select ''Test Case'' ''test-case-filter'' (f_testCase f) STestCase [] ''Select test'' ns"
    using parts(1) by (auto simp: test_case_select_def bindE_eq_Inr)
  have nums: "set (choices ths) = Pair SThreads ` set (num_choices ''1'' (fo_threads o'))"
    "set (choices wks) = Pair SWorkers ` set (num_choices ''1'' (fo_workers o'))"
    "set (choices con) = Pair SConcurrency ` set (num_choices ''10'' (fo_concurrencyLevels o'))"
    using parts(2-4) unfolding threads_select_def workers_select_def concurrency_select_def
    by (auto dest!: num_select_choices simp: num_choices_def)
  have tests: "set (choices tests) = Pair STestCase ` {t. \<exists>g\<in>set order. \<exists>ts. obj_get groups g = Own ts \<and> t \<in> set ts}"
    using test_groups_values [OF ns(1)] ns(2) by (simp add: filter_select_choices)
  show ?thesis
    unfolding n set_append nums tests cpu_select_choices http2_select_choices x_axis_select_choices metric_tabs_choices
    by (auto simp: page_choices_def)
qed

lemma render_choices:
  assumes "render lc platform True opts items s = Inr n"
  shows "\<exists>groups order. groupedTestCases lc items (f_cpu (d_filters s)) = Inr (groups, order) \<and>
     set (choices n) = page_choices (options_for opts items (d_filters s))
       {t. \<exists>g\<in>set order. \<exists>ts. obj_get groups g = Own ts \<and> t \<in> set ts}"
proof -
  obtain groups order stats left where g: "groupedTestCases lc items (f_cpu (d_filters s)) = Inr (groups, order)"
    and left: "filters_column (options_for opts items (d_filters s)) (groups, order) (d_filters s) stats = Inr left"
    and n: "choices n = choices left"
    using assms
    by (auto simp: render_def Let_def bindE_eq_Inr cls_def hover_card_choices performers_card_choices)
  show ?thesis using g filters_column_choices [OF left] unfolding n by blast
qed

section \<open>Controls and events\<close>

lemma parse_whole: "whole_num (Val x) \<Longrightarrow> js_parseInt (num_to_string x) = x"
  using whole_num_toString [of "Val x"] by (simp del: num_to_string.simps)

lemma offered_updates:
  "{u. offered o' (FilterChange u)} =
     UCpu ` set (fo_cpus o') \<union> UTestCase ` set (fo_testCases o') \<union> UThreads ` set (fo_threads o') \<union>
     UWorkers ` set (fo_workers o') \<union> UConcurrency ` set (fo_concurrencyLevels o') \<union>
     UHttp2 ` set (fo_http2Options o') \<union> UXAxis ` set x_axes \<union> UMetric ` set metric_names"
proof -
  have "offered o' (FilterChange u) \<longleftrightarrow>
     u \<in> UCpu ` set (fo_cpus o') \<or> u \<in> UTestCase ` set (fo_testCases o') \<or> u \<in> UThreads ` set (fo_threads o') \<or>
     u \<in> UWorkers ` set (fo_workers o') \<or> u \<in> UConcurrency ` set (fo_concurrencyLevels o') \<or>
     u \<in> UHttp2 ` set (fo_http2Options o') \<or> u \<in> UXAxis ` set x_axes \<or> u \<in> UMetric ` set metric_names" for u
    by (cases u) (auto simp: image_iff)
  then show ?thesis by blast
qed

lemma num_events:
  assumes "\<forall>x\<in>set xs. whole_num (Val x)" "xs \<noteq> []"
  shows "js_parseInt ` set (num_choices fallback xs) = set xs"
  using assms by (auto simp: num_choices_def parse_whole image_iff)

lemma http2_events:
  assumes "All \<in> H"
  shows "parse_http2 ` insert ''all'' (http2_toString ` (H - {All})) = H"
proof -
  have "parse_http2 ''all'' = All" using parse_http2_toString [of All] by simp
  then show ?thesis using assms by (simp add: image_image insert_absorb)
qed

lemma http2_event: "value_event SHttp2 v = FilterChange (UHttp2 (parse_http2 v))"
  by (simp add: parse_http2_def)

lemma image_through: "g ` A = B \<Longrightarrow> (\<lambda>v. k (g v)) ` A = k ` B"
  by auto

text \<open>The event of every choice, control by control.\<close>

lemma page_events:
  assumes "\<forall>x\<in>set (fo_threads o') \<union> set (fo_workers o') \<union> set (fo_concurrencyLevels o'). whole_num (Val x)"
    "fo_threads o' \<noteq> []" "fo_workers o' \<noteq> []" "fo_concurrencyLevels o' \<noteq> []" "All \<in> set (fo_http2Options o')"
    "tests = set (fo_testCases o')"
  shows "(\<lambda>(c, v). value_event c v) ` page_choices o' tests = FilterChange ` {u. offered o' (FilterChange u)}"
proof -
  have n: "(\<lambda>v. FilterChange (k (js_parseInt v))) ` set (num_choices fb xs) = (\<lambda>x. FilterChange (k x)) ` set xs"
    if "\<forall>x\<in>set xs. whole_num (Val x)" "xs \<noteq> []" for k :: "jsnum \<Rightarrow> filter_update" and fb xs
    by (rule image_through [OF num_events [OF that]])
  have h: "(\<lambda>v. FilterChange (UHttp2 (parse_http2 v))) `
       insert ''all'' (http2_toString ` (set (fo_http2Options o') - {All})) = (\<lambda>x. FilterChange (UHttp2 x)) ` set (fo_http2Options o')"
    by (rule image_through [OF http2_events [OF assms(5)]])
  have sets: "set x_axes = {''concurrency'', ''threads'', ''workers''}" "set metric_names = {''rps'', ''p95_latency'', ''errorRate''}"
    by (auto simp: x_axes_def metric_names_def)
  show ?thesis
    using n [of "fo_threads o'"] n [of "fo_workers o'"] n [of "fo_concurrencyLevels o'"] h assms
    unfolding page_choices_def offered_updates image_Un image_image prod.case http2_event value_event.simps sets
    by simp
qed

lemma grouped_tests:
  assumes "list_all (\<lambda>i. truthy_str (test_case i) \<longrightarrow> truthy_str (group i)) items"
  shows "(\<Union>g\<in>{g. tests_of g items \<noteq> []}. set (tests_of g items)) = set (str_options test_case items)"
proof -
  have "t \<in> set (tests_of g items) \<longleftrightarrow> t \<noteq> [] \<and> g \<noteq> [] \<and> (\<exists>i\<in>set items. test_case i = Val t \<and> group i = Val g)" for t g
    by (auto simp: tests_of_def counts_for_def image_iff elim!: truthy_str.elims)
  moreover have "\<exists>g. g \<noteq> [] \<and> group i = Val g" if "i \<in> set items" "test_case i = Val t" "t \<noteq> []" for i t
    using assms that by (cases "group i") (auto simp: list_all_iff)
  ultimately show ?thesis by (auto simp: set_str_options) (metis empty_iff list.set(1))
qed

section \<open>Rendering succeeds\<close>

text \<open>A result whose details can be shown: it has a server and a request rate.\<close>

definition shows_details :: "tagged_result \<Rightarrow> bool" where
  "shows_details i \<longleftrightarrow> \<not> jopt_nullish (server i) \<and>
     (case results i of Val r \<Rightarrow> \<not> jopt_nullish (requestsPerSec r) | _ \<Rightarrow> False)"

definition renderable :: "tagged_result list \<Rightarrow> dash \<Rightarrow> bool" where
  "renderable items s \<longleftrightarrow>
     (let f = d_filters s in
      f_xAxis f \<in> set x_axes \<and> \<not> jopt_nullish (f_threads f) \<and> \<not> jopt_nullish (f_workers f) \<and> \<not> jopt_nullish (f_concurrency f) \<and>
      list_all (chartable f) (filteredData items f) \<and> list_all measurable items \<and> plain_groups (cpuFilteredData items (f_cpu f)) \<and>
      (case d_hovered s of None \<Rightarrow> True | Some (PItem i) \<Rightarrow> shows_details i | Some _ \<Rightarrow> False))"

lemma num_select_total: "\<not> jopt_nullish v \<Longrightarrow> \<exists>n. num_select label i axis v c placeholder f xs fallback = Inr n"
  by (cases v) (simp_all add: num_select_def num_toString_def)

lemma test_groups_total:
  assumes "\<forall>g\<in>set order. \<exists>ts. obj_get groups g = Own ts"
  shows "\<exists>ns. mapE (test_group groups) order = Inr ns"
  using assms by (induction order) (auto simp: test_group_def)

lemma filters_column_total:
  assumes "groupedTestCases lc items c = Inr grouped"
    "\<not> jopt_nullish (f_threads f)" "\<not> jopt_nullish (f_workers f)" "\<not> jopt_nullish (f_concurrency f)"
  shows "\<exists>n. filters_column o' grouped f stats = Inr n"
proof -
  obtain groups order where g: "grouped = (groups, order)" by fastforce
  then have "\<forall>g\<in>set order. \<exists>ts. obj_get groups g = Own ts"
    using groupedTestCases_content(2) [of lc items c groups order] assms(1) by blast
  then obtain ns where "mapE (test_group groups) order = Inr ns" using test_groups_total by blast
  then have "test_case_select grouped f = Inr (filter_select ''Test Case'' ''test-case-filter'' (f_testCase f) STestCase [] ''Select test'' ns)"
    by (simp add: g test_case_select_def)
  moreover obtain n1 where "threads_select o' f = Inr n1" unfolding threads_select_def using num_select_total [OF assms(2)] by blast
  moreover obtain n2 where "workers_select o' f = Inr n2" unfolding workers_select_def using num_select_total [OF assms(3)] by blast
  moreover obtain n3 where "concurrency_select o' f = Inr n3" unfolding concurrency_select_def using num_select_total [OF assms(4)] by blast
  ultimately show ?thesis by (simp add: filters_column_def)
qed

lemma hover_card_total:
  assumes "case h of None \<Rightarrow> True | Some (PItem i) \<Rightarrow> shows_details i | Some _ \<Rightarrow> False"
  shows "\<exists>n. hover_card f colors h b = Inr n"
proof -
  have "\<exists>n. item_details f colors i = Inr n" if "shows_details i" for i
    using that
    by (cases "server i"; cases "results i")
      (auto simp: shows_details_def item_details_def formatServerName_def metrics_view_def split: jopt.splits)
  then have "\<exists>n. hover_body f colors h = Inr n"
    using assms by (auto simp: hover_body_def split: option.splits point_val.splits)
  then show ?thesis by (auto simp: hover_card_def)
qed

lemma summaryStats_total: "\<forall>i\<in>set filtered. \<not> jopt_nullish (results i) \<Longrightarrow> \<exists>st. summaryStats filtered metric = Inr st"
  using summaryStats_values by (cases "filtered = []") (auto simp: summaryStats_def [of "[]"])

lemma topPerformers_total:
  assumes "list_all measurable items"
  shows "\<exists>r. topPerformers items f filtered = Inr r \<and> (r \<noteq> [] \<longrightarrow> filtered \<noteq> [])"
proof (cases filtered)
  case (Cons i rest)
  have "\<forall>j\<in>set (filter (\<lambda>j. cpu j = Val (f_cpu f) \<and> group j = group i) items). measurable j"
    using assms by (simp add: list_all_iff)
  then obtain m where "performanceMap (filter (\<lambda>j. cpu j = Val (f_cpu f) \<and> group j = group i) items) = Inr m"
    using performanceMap_table by blast
  then show ?thesis using Cons by (simp add: topPerformers_def)
qed (simp add: topPerformers_def)

lemma performers_card_total:
  "(ranking \<noteq> [] \<longrightarrow> filtered \<noteq> []) \<Longrightarrow> \<exists>ns. performers_card colors filtered ranking = Inr ns"
  by (cases "ranking = []"; cases filtered) (simp_all add: performers_card_def)

lemma render_total:
  assumes "renderable items s"
  shows "\<exists>n. render lc platform given opts items s = Inr n"
proof -
  let ?f = "d_filters s"
  have r: "f_xAxis ?f \<in> set x_axes" "\<forall>i\<in>set (filteredData items ?f). chartable ?f i" "list_all measurable items"
    "plain_groups (cpuFilteredData items (f_cpu ?f))" "\<not> jopt_nullish (f_threads ?f)" "\<not> jopt_nullish (f_workers ?f)"
    "\<not> jopt_nullish (f_concurrency ?f)" "case d_hovered s of None \<Rightarrow> True | Some (PItem i) \<Rightarrow> shows_details i | Some _ \<Rightarrow> False"
    using assms by (simp_all add: renderable_def Let_def list_all_iff)
  obtain m where "foldE add_test [] (cpuFilteredData items (f_cpu ?f)) = Inr m" using foldE_add_test [OF r(4)] by blast
  then obtain grouped where g: "groupedTestCases lc items (f_cpu ?f) = Inr grouped" by (simp add: groupedTestCases_def Let_def)
  obtain points where p: "chartData lc items ?f (d_visible s) = Inr points" using chartData_points [OF r(1,2)] by blast
  obtain st where st: "summaryStats (filteredData items ?f) (f_metric ?f) = Inr st"
    using summaryStats_total [of "filteredData items ?f"] r(2) by (auto simp: chartable_def)
  obtain rk where rk: "topPerformers items ?f (filteredData items ?f) = Inr rk" "rk \<noteq> [] \<longrightarrow> filteredData items ?f \<noteq> []"
    using topPerformers_total [OF r(3)] by blast
  obtain left where "filters_column (options_for opts items ?f) grouped ?f st = Inr left"
    using filters_column_total [OF g r(5,6,7)] by blast
  moreover obtain h where "hover_card ?f (serverColors (fo_servers opts)) (d_hovered s) (rk \<noteq> []) = Inr h"
    using hover_card_total [OF r(8)] by blast
  moreover obtain pf where "performers_card (serverColors (fo_servers opts)) (filteredData items ?f) rk = Inr pf"
    using performers_card_total [OF rk(2)] by blast
  ultimately show ?thesis using g p st rk(1) by (simp add: render_def Let_def)
qed

section \<open>Properties\<close>


lemma sample_renderable: "renderable sample_items sample_dash"
proof -
  have f: "filteredData sample_items (d_filters sample_dash) = [sample_item ''itsi'' ''chunked'' 4 2 10 True 300]"
    by (simp add: filteredData_def keep_item_def sample_items_def sample_dash_def sample_defs num_eq_def)
  have "list_all (chartable (d_filters sample_dash)) (filteredData sample_items (d_filters sample_dash))"
    unfolding f
    by (simp add: chartable_def axis_value_def sample_dash_def sample_defs whole_num_def data_key_def formatServerName_def)
  moreover have "list_all measurable sample_items"
    by (simp add: sample_items_def measurable_def sample_defs plain_key_def proto_names_def perf_key_def)
  ultimately show ?thesis
    by (simp add: renderable_def sample_dash_def x_axes_def plain_groups_def plain_group_def cpuFilteredData_def
        sample_items_def sample_defs plain_key_def proto_names_def)
qed


end
