(* ===== verification/Dashboard_Session.thy ===== *)
theory Dashboard_Session
  imports Dashboard_Controls "HOL-Library.Sublist"
begin

text \<open>
  A session with the dashboard: the page is rendered, its effects run, and the user raises events, but
  only those the rendered page has handlers for. The theory says which events a page can raise, what
  a session is, and that well-formed data keeps every state of a session renderable.
\<close>

section \<open>What a page can raise\<close>

definition own_handlers :: "view \<Rightarrow> view_handler list" where
  "own_handlers n = (case n of
     Elem t as ks \<Rightarrow> concat (map (\<lambda>(k, v). case v of VHandler h \<Rightarrow> [h] | _ \<Rightarrow> []) as) | Text s \<Rightarrow> [])"

definition handlers :: "view \<Rightarrow> view_handler list" where
  "handlers n = concat (map own_handlers (elems n))"

text \<open>The points a chart of the page draws: the payloads of its bars.\<close>

fun own_charts :: "view \<Rightarrow> point list list" where
  "own_charts (Elem t as ks) = (case attr as ''data'' of VData ps \<Rightarrow> [ps] | _ \<Rightarrow> [])"
| "own_charts (Text s) = []"

definition charts :: "view \<Rightarrow> point list list" where
  "charts n = concat (map own_charts (elems n))"

definition charts_in :: "view list \<Rightarrow> point list list" where
  "charts_in ns = concat (map charts ns)"

inductive raises :: "view \<Rightarrow> event \<Rightarrow> bool" for n :: view where
  choose: "(c, v) \<in> set (choices n) \<Longrightarrow> raises n (value_event c v)"
| legend: "OnLegend srv \<in> set (handlers n) \<Longrightarrow> raises n (LegendClick srv ctrl)"
| bar: "OnBarOver k \<in> set (handlers n) \<Longrightarrow> p \<in> set (concat (charts n)) \<Longrightarrow> raises n (bar_over k p)"
| zero_bar: "OnZeroBarOver k \<in> set (handlers n) \<Longrightarrow> p \<in> set (concat (charts n)) \<Longrightarrow> zero_bar_over k p = Some e \<Longrightarrow> raises n e"
| leave: "OnBarLeave \<in> set (handlers n) \<Longrightarrow> raises n ChartLeave"

section \<open>Sessions\<close>

text \<open>
  A state with what changed since the last commit. Every commit runs the effects; an event comes
  when the effects have nothing left to do.
\<close>

definition quiet :: "commit_deps \<Rightarrow> bool" where
  "quiet p \<longleftrightarrow> \<not> cd_filters p \<and> \<not> cd_visible p \<and> cd_key p \<noteq> None"

inductive session ::
  "(string \<Rightarrow> string \<Rightarrow> int) \<Rightarrow> string \<Rightarrow> filter_options \<Rightarrow> tagged_result list \<Rightarrow> location option \<Rightarrow> dash \<Rightarrow> commit_deps \<Rightarrow> bool"
  for lc :: "string \<Rightarrow> string \<Rightarrow> int" and platform :: string and opts :: filter_options and items :: "tagged_result list"
    and win :: "location option" where
  session_start: "session lc platform opts items win (initial_dash opts win) \<lparr>cd_filters = True, cd_visible = True, cd_key = None\<rparr>"
| session_commit: "session lc platform opts items win s p \<Longrightarrow> run_effects opts items p s = (s', p') \<Longrightarrow>
     session lc platform opts items win s' p'"
| session_event: "session lc platform opts items win s p \<Longrightarrow> quiet p \<Longrightarrow> render lc platform True opts items s = Inr n \<Longrightarrow>
     raises n e \<Longrightarrow> on_event opts e s = (s', chgF, chgV) \<Longrightarrow>
     session lc platform opts items win s' \<lparr>cd_filters = chgF, cd_visible = chgV, cd_key = Some (filter_key (d_filters s))\<rparr>"

section \<open>Well-formed data\<close>

text \<open>
  A result with the fields the page reads: positive whole numbers on the axes, a server whose shown
  name is neither an axis nor a key of the hover payloads, and a request rate.
\<close>

definition positive_whole :: "jsnum jopt \<Rightarrow> bool" where
  "positive_whole v \<longleftrightarrow> whole_num v \<and> v \<noteq> Val (Fin 0)"

definition good_name :: "string \<Rightarrow> bool" where
  "good_name s \<longleftrightarrow> replace_uu s \<notin> set x_axes \<and> \<not> suffix ''_data'' (replace_uu s)"

definition good_item :: "tagged_result \<Rightarrow> bool" where
  "good_item i \<longleftrightarrow> positive_whole (threads i) \<and> positive_whole (workers i) \<and> positive_whole (concurrency i) \<and>
     (case server i of Val s \<Rightarrow> good_name s | _ \<Rightarrow> False) \<and>
     (case results i of Val r \<Rightarrow> \<not> jopt_nullish (requestsPerSec r) | _ \<Rightarrow> False) \<and> measurable i \<and> plain_group i"

section \<open>The points of a rendered page\<close>

lemma charts_Elem [simp]: "charts (Elem t as ks) = own_charts (Elem t as ks) @ charts_in ks"
  by (simp add: charts_def charts_in_def map_concat comp_def del: own_charts.simps) (induction ks; simp add: charts_def)

lemma charts_Text [simp]: "charts (Text s) = []"
  by (simp add: charts_def)

lemma charts_in_simps [simp]:
  "charts_in [] = []" "charts_in (n # ns) = charts n @ charts_in ns" "charts_in (ns @ ms) = charts_in ns @ charts_in ms"
  "charts_in (map f xs) = concat (map (\<lambda>x. charts (f x)) xs)"
  by (simp_all add: charts_in_def comp_def)

lemma words_charts [simp]: "charts_in (words s) = []" "charts_in (words_opt v) = []"
  by (simp add: words_def, cases v) (simp_all add: words_def)

lemma item_charts [simp]:
  "charts_in ks = [] \<Longrightarrow> charts (keyed_item c v ks) = []" "charts_in ks = [] \<Longrightarrow> charts (select_item v ks) = []"
  by (simp_all add: keyed_item_def select_item_def)

lemma filter_select_charts [simp]:
  "charts_in items = [] \<Longrightarrow> attr extra ''data'' = VUndef \<Longrightarrow> charts (filter_select label i v c extra placeholder items) = []"
  by (simp add: filter_select_def cls_def attr_def split: option.splits)

lemma num_select_charts: "num_select label i axis v c placeholder f xs fallback = Inr n \<Longrightarrow> charts n = []"
  by (auto simp: num_select_def bindE_eq_Inr num_items_def attr_def)

lemma test_group_charts: "test_group groups g = Inr n \<Longrightarrow> charts n = []"
  by (auto simp: test_group_def cls_def split: slot.splits)

lemma test_groups_charts: "mapE (test_group groups) order = Inr ns \<Longrightarrow> charts_in ns = []"
  by (induction order arbitrary: ns) (auto simp: bindE_eq_Inr test_group_charts)

lemma filters_column_charts:
  assumes "filters_column o' grouped f stats = Inr n"
  shows "charts n = []"
proof -
  have "charts (cpu_select o' f) = []" "charts (http2_select o' f) = []" "charts (x_axis_select f) = []" "charts (metric_tabs f) = []"
    by (simp_all add: cpu_select_def http2_select_def x_axis_select_def metric_tabs_def metric_tab_def cls_def attr_def)
  moreover have "charts_in (summary_view fmt stats) = []" for fmt
    by (simp add: summary_view_def summary_row_def cls_def split: option.split)
  ultimately show ?thesis using assms
    by (auto simp: filters_column_def bindE_eq_Inr cls_def test_case_select_def threads_select_def workers_select_def
        concurrency_select_def attr_def dest!: num_select_charts test_groups_charts)
qed

lemma hover_card_charts:
  assumes "hover_card f colors h b = Inr n"
  shows "charts n = []"
proof -
  have "charts (error_view d) = []" for d by (simp add: error_view_def error_row_def cls_def Let_def split_beta)
  then have "charts_in ns = []" if "metrics_view r = Inr ns" for r ns
    using that by (auto simp: metrics_view_def detail_row_def cls_def split: jopt.splits)
  then have "charts m = []" if "item_details f colors i = Inr m" for i m
    using that by (auto simp: item_details_def badge_def cls_def bindE_eq_Inr split: jopt.splits)
  then have "charts m = []" if "hover_body f colors h = Inr m" for m
    using that by (auto simp: hover_body_def cls_def split: option.splits point_val.splits)
  then show ?thesis using assms by (auto simp: hover_card_def cls_def bindE_eq_Inr)
qed

lemma performers_card_charts: "performers_card colors filtered ranking = Inr ns \<Longrightarrow> charts_in ns = []"
  by (auto simp: performers_card_def performer_view_def cls_def split_beta split: if_splits list.splits)

lemma chart_view_charts:
  "set (charts (chart_view platform o' f visible k colors points keys)) \<subseteq> {points}"
  by (simp add: chart_view_def x_axis_view_def y_axis_view_def bar_view_def hover_bar_view_def legend_view_def cls_def
      split_beta)

lemma render_charts:
  assumes "render lc platform True opts items s = Inr n" "ps \<in> set (charts n)"
  shows "chartData lc items (d_filters s) (d_visible s) = Inr ps"
proof -
  obtain points where points: "chartData lc items (d_filters s) (d_visible s) = Inr points"
    and n: "set (charts n) \<subseteq> {points}"
    using assms(1) chart_view_charts
    by (auto simp: render_def Let_def bindE_eq_Inr cls_def chart_title_def filters_column_charts hover_card_charts performers_card_charts)
  then show ?thesis using assms(2) by auto
qed

section \<open>Sessions stay renderable\<close>

text \<open>The part of \<open>renderable\<close> that depends on the state, and the options of positive numbers.\<close>

definition safe_filters :: "filter_state \<Rightarrow> bool" where
  "safe_filters f \<longleftrightarrow> f_xAxis f \<in> set x_axes \<and> \<not> jopt_nullish (f_threads f) \<and> \<not> jopt_nullish (f_workers f) \<and>
     \<not> jopt_nullish (f_concurrency f)"

definition safe_hover :: "point_val option \<Rightarrow> bool" where
  "safe_hover h \<longleftrightarrow> (case h of None \<Rightarrow> True | Some (PItem i) \<Rightarrow> shows_details i | Some _ \<Rightarrow> False)"

definition no_zero :: "filter_options \<Rightarrow> bool" where
  "no_zero opts \<longleftrightarrow> Fin 0 \<notin> set (fo_threads opts) \<union> set (fo_workers opts) \<union> set (fo_concurrencyLevels opts)"

lemma good_items_no_zero:
  assumes "list_all good_item (flattenedData data)" "allFilterOptions data = Inr opts"
  shows "no_zero opts"
proof -
  have "\<forall>i\<in>set (flattenedData data). threads i \<noteq> Val (Fin 0) \<and> workers i \<noteq> Val (Fin 0) \<and> concurrency i \<noteq> Val (Fin 0)"
    using assms(1) by (auto simp: list_all_iff good_item_def positive_whole_def)
  then show ?thesis
    using assms(2) by (auto simp: no_zero_def allFilterOptions_def default_options_def bindE_eq_Inr Let_def split: jopt.splits list.splits)
qed

lemma pick_num_value: "Fin 0 \<notin> set opts \<Longrightarrow> \<not> jopt_nullish (pick_num opts v d)"
  by (simp add: pick_num_def Let_def split: option.split)

lemma validate_safe: "no_zero opts \<Longrightarrow> safe_filters (validateAndSanitizeFilters opts u)"
  by (simp add: safe_filters_def validateAndSanitizeFilters_def no_zero_def pick_num_value)
    (simp add: pick_str_def x_axes_def split: option.split)

lemma initial_safe: "no_zero opts \<Longrightarrow> safe_filters (initial_filters opts win)"
  by (simp add: initial_filters_def validate_safe split: option.split)
    (simp add: safe_filters_def default_filters_def Let_def x_axes_def)

lemma repair_safe: "safe_filters f \<Longrightarrow> safe_filters (repair_filters o' f)"
  by (simp add: safe_filters_def repair_filters_def)

lemma run_effects_safe:
  assumes "no_zero opts" "safe_filters (d_filters s)"
  shows "safe_filters (d_filters (fst (run_effects opts items p s)))" "d_hovered (fst (run_effects opts items p s)) = d_hovered s"
  using assms
  by (auto simp: run_effects_def Let_def load_effect_def repair_effect_def validate_safe repair_safe split: option.splits if_splits)

lemma good_item_chartable:
  assumes "good_item i" "f_xAxis f \<in> set x_axes"
  shows "chartable f i"
proof -
  obtain s where s: "server i = Val s" "good_name s" using assms by (auto simp: good_item_def split: jopt.splits)
  have "whole_num (axis_value (f_xAxis f) i)" using assms(1) by (simp add: good_item_def positive_whole_def axis_value_def)
  moreover have "\<not> jopt_nullish (results i)" using assms by (auto simp: good_item_def split: jopt.splits)
  moreover have "data_key f i \<noteq> Inr (f_xAxis f)"
    using assms(2) s by (auto simp: data_key_def formatServerName_def good_name_def x_axes_def)
  ultimately show ?thesis using s(1) by (simp add: chartable_def)
qed

lemma good_items_renderable:
  assumes "list_all good_item items" "safe_filters (d_filters s)" "safe_hover (d_hovered s)"
  shows "renderable items s"
proof -
  have "list_all (chartable (d_filters s)) (filteredData items (d_filters s))"
    using assms(1,2) good_item_chartable by (simp add: list_all_iff filteredData_def safe_filters_def)
  moreover have "list_all measurable items" using assms(1) by (simp add: list_all_iff good_item_def)
  moreover have "plain_groups (cpuFilteredData items (f_cpu (d_filters s)))"
    using assms(1) by (simp add: list_all_iff good_item_def plain_groups_def cpuFilteredData_def)
  ultimately show ?thesis using assms(2,3) by (simp add: renderable_def safe_filters_def safe_hover_def)
qed

text \<open>No key of a well-formed result ends in \<^verbatim>\<open>_data\<close>, so a payload under such a key is a result.\<close>

lemma good_key_not_data:
  assumes "good_item i" "data_key f i = Inr d"
  shows "d \<noteq> k @ ''_data''"
proof -
  obtain s where s: "server i = Val s" "good_name s" using assms(1) by (auto simp: good_item_def split: jopt.splits)
  consider "d = replace_uu s" | x where "d = replace_uu s @ x @ '')''"
    using assms(2) s(1) by (cases "http2 i = Val True") (auto simp: data_key_def formatServerName_def split: if_splits)
  then show ?thesis
  proof cases
    case 1
    then show ?thesis using s(2) by (auto simp: good_name_def suffix_def)
  next
    case 2
    then have "last d = CHR '')''" by simp
    moreover have "last (k @ ''_data'') = CHR ''a''" by simp
    ultimately show ?thesis by force
  qed
qed

lemma payload_is_result:
  assumes "point_for f visible filtered n p" "\<forall>i\<in>set filtered. good_item i" "f_xAxis f \<in> set x_axes"
    "obj_get p (k @ ''_data'') = Own v"
  shows "\<exists>i\<in>set filtered. v = PItem i"
proof -
  let ?es = "concat (map (point_entries f visible) (filter (\<lambda>i. axis_value (f_xAxis f) i = Val (num_of_int n)) filtered))"
  have "obj_get p (k @ ''_data'') = (case map_of (rev ?es) (k @ ''_data'') of Some v \<Rightarrow> Own v | None \<Rightarrow> Absent)"
    using assms(1) data_key_plain [of k] axis_not_data [OF assms(3), of k] unfolding point_for_def by blast
  then have "map_of (rev ?es) (k @ ''_data'') = Some v" unfolding assms(4) by (simp split: option.splits)
  then have "(k @ ''_data'', v) \<in> set (rev ?es)" by (rule map_of_SomeD)
  then obtain i where i: "i \<in> set filtered" "(k @ ''_data'', v) \<in> set (point_entries f visible i)" by auto
  obtain d w where d: "data_key f i = Inr d" "point_entries f visible i = [(d, PNum w), (d @ ''_data'', PItem i)]"
    using point_entries_cases [of f visible i] i(2) by fastforce
  have "d \<noteq> k @ ''_data''" using good_key_not_data [OF _ d(1)] assms(2) i(1) by blast
  then have "v = PItem i" using i(2) unfolding d(2) set_simps insert_iff empty_iff prod.inject by metis
  then show ?thesis using i(1) by blast
qed

lemma hover_safe:
  assumes "list_all good_item items" "f_xAxis f \<in> set x_axes" "chartData lc items f visible = Inr ps" "p \<in> set ps"
  shows "safe_hover (map_option fst (handleChartHover (Val [(k, p)])))"
proof -
  have good: "\<forall>i\<in>set (filteredData items f). good_item i" using assms(1) by (simp add: list_all_iff filteredData_def)
  then have "\<forall>i\<in>set (filteredData items f). chartable f i" using good_item_chartable assms(2) by blast
  from chartData_points [OF assms(2) this, of lc visible] obtain ns where
    "list_all2 (point_for f visible (filteredData items f)) ns ps" using assms(3) by auto
  then obtain n where n: "point_for f visible (filteredData items f) n p"
    using assms(4) by (metis in_set_conv_nth list_all2_conv_all_nth)
  have "shows_details i" if "good_item i" for i using that by (auto simp: good_item_def shows_details_def split: jopt.splits)
  then have "safe_hover (Some v)" if "obj_get p (k @ ''_data'') = Own v" for v
    using payload_is_result [OF n good assms(2) that] good by (auto simp: safe_hover_def)
  then show ?thesis by (cases "obj_get p (k @ ''_data'')") (auto simp: handleChartHover_def safe_hover_def)
qed

lemma axis_choice:
  assumes "render lc platform True opts items s = Inr n" "(SXAxis, v) \<in> set (choices n)"
  shows "v \<in> set x_axes"
  using render_choices [OF assms(1)] assms(2) by (auto simp: page_choices_def x_axes_def)

lemma choice_safe:
  assumes "render lc platform True opts items s = Inr n" "(c, v) \<in> set (choices n)" "safe_filters (d_filters s)"
  shows "\<exists>u. value_event c v = FilterChange u \<and> safe_filters (handleFilterChange u (d_filters s))"
  using assms axis_choice by (cases c) (auto simp: safe_filters_def)

lemma zero_bar_over_cases: "zero_bar_over k p = Some e \<Longrightarrow> e = bar_over k p"
  by (auto simp: zero_bar_over_def split: slot.splits point_val.splits jopt.splits if_splits)

lemma event_safe:
  assumes "list_all good_item items" "render lc platform True opts items s = Inr n" "raises n e"
    "safe_filters (d_filters s)" "safe_hover (d_hovered s)"
  shows "safe_filters (d_filters (fst (on_event opts e s))) \<and> safe_hover (d_hovered (fst (on_event opts e s)))"
  using assms(3)
proof cases
  case (choose c v)
  then show ?thesis using choice_safe [OF assms(2) _ assms(4), of c v] assms(5) by auto
next
  case (bar k p)
  then obtain ps where "ps \<in> set (charts n)" "p \<in> set ps" by auto
  then show ?thesis
    using hover_safe [OF assms(1) _ render_charts [OF assms(2)]] assms(4) bar(1) by (auto simp: bar_over_def safe_filters_def)
next
  case (zero_bar k p)
  then obtain ps where "ps \<in> set (charts n)" "p \<in> set ps" by auto
  then show ?thesis
    using hover_safe [OF assms(1) _ render_charts [OF assms(2)]] assms(4) zero_bar_over_cases [OF zero_bar(3)]
    by (auto simp: bar_over_def safe_filters_def)
qed (use assms(4,5) in \<open>simp_all add: safe_hover_def\<close>)

lemma session_renderable:
  assumes "list_all good_item items" "no_zero opts" "session lc platform opts items win s p"
  shows "renderable items s"
proof -
  have "safe_filters (d_filters s) \<and> safe_hover (d_hovered s)" using assms(3)
  proof induction
    case session_start
    then show ?case using initial_safe [OF assms(2)] by (simp add: initial_dash_def safe_hover_def)
  next
    case (session_commit s p s' p')
    then show ?case using run_effects_safe [OF assms(2), of s items p] by simp
  next
    case (session_event s p n e s' chgF chgV)
    then show ?case using event_safe [OF assms(1)] by (metis fst_conv)
  qed
  then show ?thesis using good_items_renderable [OF assms(1)] by blast
qed

text \<open>The states in which rendering settles after the mount or an event of the page are states of a session.\<close>

lemma settle_session:
  assumes "settle opts items p s = Some s'" "session lc platform opts items win s p"
  shows "\<exists>p'. quiet p' \<and> session lc platform opts items win s' p'"
proof -
  have "session lc platform opts items win s p \<longrightarrow> (\<exists>p'. quiet p' \<and> session lc platform opts items win s' p')"
  proof (rule settle.raw_induct [OF _ assms(1)])
    fix rec :: "filter_options \<Rightarrow> tagged_result list \<Rightarrow> commit_deps \<Rightarrow> dash \<Rightarrow> dash option" and opts items p s s'
    assume IH: "\<And>opts items p s s'. rec opts items p s = Some s' \<Longrightarrow>
        session lc platform opts items win s p \<longrightarrow> (\<exists>p'. quiet p' \<and> session lc platform opts items win s' p')"
      and run: "(let r = run_effects opts items p s
        in if cd_filters (snd r) \<or> cd_visible (snd r) then rec opts items (snd r) (fst r) else Some (fst r)) = Some s'"
    obtain t q where tq: "run_effects opts items p s = (t, q)" by fastforce
    have "cd_key q \<noteq> None" using tq by (auto simp: run_effects_def Let_def)
    then show "session lc platform opts items win s p \<longrightarrow> (\<exists>p'. quiet p' \<and> session lc platform opts items win s' p')"
      using run IH [of opts items q t s'] session_commit [OF _ tq] tq by (auto simp: quiet_def Let_def split: if_splits)
  qed
  then show ?thesis using assms(2) by blast
qed

lemma mount_session:
  "mount opts items win = Some s \<Longrightarrow> \<exists>p. quiet p \<and> session lc platform opts items win s p"
  unfolding mount_def by (rule settle_session [OF _ session_start])

lemma dispatch_session:
  assumes "session lc platform opts items win s p" "quiet p" "render lc platform True opts items s = Inr n" "raises n e"
    "dispatch_event opts items e s = Some s'"
  shows "\<exists>p'. quiet p' \<and> session lc platform opts items win s' p'"
proof -
  obtain t chgF chgV where t: "on_event opts e s = (t, chgF, chgV)" using prod_cases3 by blast
  show ?thesis
    using settle_session [OF _ session_event [OF assms(1-4) t]] assms(5) by (simp add: dispatch_event_def t)
qed

text \<open>Between events the query string shows the filters.\<close>

lemma session_synced:
  assumes "session lc platform opts items win s p" "quiet p"
  shows "url_synced s"
proof -
  have "url_inv p s" using assms(1)
  proof induction
    case (session_commit s p s' p')
    then show ?case using url_inv_step [of p s opts items] by simp
  next
    case (session_event s p n e s' chgF chgV)
    then show ?case using event_url_inv [of s opts e s' chgF chgV] by (simp add: url_inv_def quiet_def)
  qed (simp add: url_inv_def)
  then show ?thesis using assms(2) by (simp add: url_inv_def quiet_def)
qed

end
