(* ===== verification/UI_Controls.thy ===== *)
theory UI_Controls
  imports UI_Base
begin

text \<open>
  Buttons and form controls: \<^verbatim>\<open>button.tsx\<close>, \<^verbatim>\<open>input.tsx\<close>, \<^verbatim>\<open>textarea.tsx\<close>, \<^verbatim>\<open>label.tsx\<close>,
  \<^verbatim>\<open>checkbox.tsx\<close>, \<^verbatim>\<open>switch.tsx\<close>, \<^verbatim>\<open>radio-group.tsx\<close>, \<^verbatim>\<open>slider.tsx\<close>, \<^verbatim>\<open>toggle.tsx\<close>,
  \<^verbatim>\<open>toggle-group.tsx\<close>, \<^verbatim>\<open>select.tsx\<close>, \<^verbatim>\<open>input-otp.tsx\<close>, \<^verbatim>\<open>calendar.tsx\<close> of \<^verbatim>\<open>components/ui\<close>.
\<close>

section \<open>Components\<close>

subsection \<open>Button\<close>

definition buttonVariants :: "('h, 'd) class_lib \<Rightarrow> ('h, 'd) props \<Rightarrow> string" where
  "buttonVariants L ps =
     lib_cva L
       ''inline-flex items-center justify-center gap-2 whitespace-nowrap rounded-md text-sm font-medium ring-offset-background transition-colors focus-visible:outline-none focus-visible:ring-2 focus-visible:ring-ring focus-visible:ring-offset-2 disabled:pointer-events-none disabled:opacity-50 [&_svg]:pointer-events-none [&_svg]:size-4 [&_svg]:shrink-0''
       [(''variant'',
         [(''default'', ''bg-primary text-primary-foreground hover:bg-primary/90''),
          (''destructive'', ''bg-destructive text-destructive-foreground hover:bg-destructive/90''),
          (''outline'',
           ''border border-input bg-background hover:bg-accent hover:text-accent-foreground''),
          (''secondary'', ''bg-secondary text-secondary-foreground hover:bg-secondary/80''),
          (''ghost'', ''hover:bg-accent hover:text-accent-foreground''),
          (''link'', ''text-primary underline-offset-4 hover:underline'')]),
        (''size'',
         [(''default'', ''h-10 px-4 py-2''),
          (''sm'', ''h-9 rounded-md px-3''),
          (''lg'', ''h-11 rounded-md px-8''),
          (''icon'', ''h-10 w-10'')])]
       [(''variant'', ''default''), (''size'', ''default'')]
       ps"

definition Button :: "('h, 'd) component" where
  "Button L ps children =
     (let className = attr ps ''className'';
          variant = attr ps ''variant'';
          size = attr ps ''size'';
          asChild = attr_or ps ''asChild'' (VBool False);
          props = omit [''className'', ''variant'', ''size'', ''asChild''] ps;
          Comp = (if truthy_attr asChild then ''Slot'' else ''button'')
      in Elem Comp
           (spread
             [(''className'',
               VStr
                 (cn L
                   [VStr
                      (buttonVariants L
                        [(''variant'', variant), (''size'', size), (''className'', className)])])),
              (''ref'', VRef)]
             props)
           children)"

subsection \<open>Input\<close>

definition Input :: "('h, 'd) component" where
  "Input L ps children =
     (let className = attr ps ''className'';
          type = attr ps ''type'';
          props = omit [''className'', ''type''] ps
      in Elem ''input''
           (spread
             [(''type'', type),
              (''className'',
               VStr
                 (cn L
                   [VStr
                      ''flex h-10 w-full rounded-md border border-input bg-background px-3 py-2 text-base ring-offset-background file:border-0 file:bg-transparent file:text-sm file:font-medium file:text-foreground placeholder:text-muted-foreground focus-visible:outline-none focus-visible:ring-2 focus-visible:ring-ring focus-visible:ring-offset-2 disabled:cursor-not-allowed disabled:opacity-50 md:text-sm'',
                    className])),
              (''ref'', VRef)]
             props)
           children)"

subsection \<open>Textarea\<close>

definition Textarea :: "('h, 'd) component" where
  "Textarea L ps children =
     (let className = attr ps ''className'';
          props = omit [''className''] ps
      in Elem ''textarea''
           (spread
             [(''className'',
               VStr
                 (cn L
                   [VStr
                      ''flex min-h-[80px] w-full rounded-md border border-input bg-background px-3 py-2 text-base ring-offset-background placeholder:text-muted-foreground focus-visible:outline-none focus-visible:ring-2 focus-visible:ring-ring focus-visible:ring-offset-2 disabled:cursor-not-allowed disabled:opacity-50 md:text-sm'',
                    className])),
              (''ref'', VRef)]
             props)
           children)"

subsection \<open>Label\<close>

definition labelVariants :: "('h, 'd) class_lib \<Rightarrow> ('h, 'd) props \<Rightarrow> string" where
  "labelVariants L ps =
     lib_cva L
       ''text-sm font-medium leading-none peer-disabled:cursor-not-allowed peer-disabled:opacity-70''
       []
       []
       ps"

definition Label :: "('h, 'd) component" where
  "Label L ps children =
     (let className = attr ps ''className'';
          props = omit [''className''] ps
      in Elem ''LabelPrimitive.Root''
           (spread
             [(''ref'', VRef), (''className'', VStr (cn L [VStr (labelVariants L []), className]))]
             props)
           children)"

subsection \<open>Checkbox\<close>

definition Checkbox :: "('h, 'd) component" where
  "Checkbox L ps children =
     (let className = attr ps ''className'';
          props = omit [''className''] ps
      in Elem ''CheckboxPrimitive.Root''
           (spread
             [(''ref'', VRef),
              (''className'',
               VStr
                 (cn L
                   [VStr
                      ''peer h-4 w-4 shrink-0 rounded-sm border border-primary ring-offset-background focus-visible:outline-none focus-visible:ring-2 focus-visible:ring-ring focus-visible:ring-offset-2 disabled:cursor-not-allowed disabled:opacity-50 data-[state=checked]:bg-primary data-[state=checked]:text-primary-foreground'',
                    className]))]
             props)
           [Elem ''CheckboxPrimitive.Indicator''
              [(''className'', VStr (cn L [VStr ''flex items-center justify-center text-current'']))]
              [Elem ''Check'' [(''className'', VStr ''h-4 w-4'')] []]])"

subsection \<open>Switch\<close>

definition Switch :: "('h, 'd) component" where
  "Switch L ps children =
     (let className = attr ps ''className'';
          props = omit [''className''] ps
      in Elem ''SwitchPrimitives.Root''
           (spread
             (spread
               [(''className'',
                 VStr
                   (cn L
                     [VStr
                        ''peer inline-flex h-6 w-11 shrink-0 cursor-pointer items-center rounded-full border-2 border-transparent transition-colors focus-visible:outline-none focus-visible:ring-2 focus-visible:ring-ring focus-visible:ring-offset-2 focus-visible:ring-offset-background disabled:cursor-not-allowed disabled:opacity-50 data-[state=checked]:bg-primary data-[state=unchecked]:bg-input'',
                      className]))]
               props)
             [(''ref'', VRef)])
           [Elem ''SwitchPrimitives.Thumb''
              [(''className'',
                VStr
                  (cn L
                    [VStr
                       ''pointer-events-none block h-5 w-5 rounded-full bg-background shadow-lg ring-0 transition-transform data-[state=checked]:translate-x-5 data-[state=unchecked]:translate-x-0'']))]
              []])"

subsection \<open>Radio group\<close>

definition RadioGroup :: "('h, 'd) component" where
  "RadioGroup L ps children =
     (let className = attr ps ''className'';
          props = omit [''className''] ps
      in Elem ''RadioGroupPrimitive.Root''
           (spread
             (spread [(''className'', VStr (cn L [VStr ''grid gap-2'', className]))] props)
             [(''ref'', VRef)])
           children)"

definition RadioGroupItem :: "('h, 'd) component" where
  "RadioGroupItem L ps children =
     (let className = attr ps ''className'';
          props = omit [''className''] ps
      in Elem ''RadioGroupPrimitive.Item''
           (spread
             [(''ref'', VRef),
              (''className'',
               VStr
                 (cn L
                   [VStr
                      ''aspect-square h-4 w-4 rounded-full border border-primary text-primary ring-offset-background focus:outline-none focus-visible:ring-2 focus-visible:ring-ring focus-visible:ring-offset-2 disabled:cursor-not-allowed disabled:opacity-50'',
                    className]))]
             props)
           [Elem ''RadioGroupPrimitive.Indicator''
              [(''className'', VStr ''flex items-center justify-center'')]
              [Elem ''Circle'' [(''className'', VStr ''h-2.5 w-2.5 fill-current text-current'')] []]])"

subsection \<open>Slider\<close>

definition Slider :: "('h, 'd) component" where
  "Slider L ps children =
     (let className = attr ps ''className'';
          props = omit [''className''] ps
      in Elem ''SliderPrimitive.Root''
           (spread
             [(''ref'', VRef),
              (''className'',
               VStr
                 (cn L [VStr ''relative flex w-full touch-none select-none items-center'', className]))]
             props)
           [Elem ''SliderPrimitive.Track''
              [(''className'',
                VStr ''relative h-2 w-full grow overflow-hidden rounded-full bg-secondary'')]
              [Elem ''SliderPrimitive.Range'' [(''className'', VStr ''absolute h-full bg-primary'')] []],
            Elem ''SliderPrimitive.Thumb''
              [(''className'',
                VStr
                  ''block h-5 w-5 rounded-full border-2 border-primary bg-background ring-offset-background transition-colors focus-visible:outline-none focus-visible:ring-2 focus-visible:ring-ring focus-visible:ring-offset-2 disabled:pointer-events-none disabled:opacity-50'')]
              []])"

subsection \<open>Toggle\<close>

definition toggleVariants :: "('h, 'd) class_lib \<Rightarrow> ('h, 'd) props \<Rightarrow> string" where
  "toggleVariants L ps =
     lib_cva L
       ''inline-flex items-center justify-center rounded-md text-sm font-medium ring-offset-background transition-colors hover:bg-muted hover:text-muted-foreground focus-visible:outline-none focus-visible:ring-2 focus-visible:ring-ring focus-visible:ring-offset-2 disabled:pointer-events-none disabled:opacity-50 data-[state=on]:bg-accent data-[state=on]:text-accent-foreground [&_svg]:pointer-events-none [&_svg]:size-4 [&_svg]:shrink-0 gap-2''
       [(''variant'',
         [(''default'', ''bg-transparent''),
          (''outline'',
           ''border border-input bg-transparent hover:bg-accent hover:text-accent-foreground'')]),
        (''size'',
         [(''default'', ''h-10 px-3 min-w-10''),
          (''sm'', ''h-9 px-2.5 min-w-9''),
          (''lg'', ''h-11 px-5 min-w-11'')])]
       [(''variant'', ''default''), (''size'', ''default'')]
       ps"

definition Toggle :: "('h, 'd) component" where
  "Toggle L ps children =
     (let className = attr ps ''className'';
          variant = attr ps ''variant'';
          size = attr ps ''size'';
          props = omit [''className'', ''variant'', ''size''] ps
      in Elem ''TogglePrimitive.Root''
           (spread
             [(''ref'', VRef),
              (''className'',
               VStr
                 (cn L
                   [VStr
                      (toggleVariants L
                        [(''variant'', variant), (''size'', size), (''className'', className)])]))]
             props)
           children)"

subsection \<open>Toggle group\<close>

definition ToggleGroup :: "('h, 'd) component" where
  "ToggleGroup L ps children =
     (let className = attr ps ''className'';
          variant = attr ps ''variant'';
          size = attr ps ''size'';
          props = omit [''className'', ''variant'', ''size''] ps
      in Elem ''ToggleGroupPrimitive.Root''
           (spread
             [(''ref'', VRef),
              (''className'', VStr (cn L [VStr ''flex items-center justify-center gap-1'', className]))]
             props)
           [Elem ''ToggleGroupContext.Provider''
              [(''value'', VObj [(''variant'', variant), (''size'', size)])]
              children])"

text \<open>The default of \<^verbatim>\<open>ToggleGroupContext\<close>; an item is given the context of its group.\<close>

definition ToggleGroupContext :: "('h, 'd) props" where
  "ToggleGroupContext = [(''size'', VStr ''default''), (''variant'', VStr ''default'')]"

definition ToggleGroupItem :: "('h, 'd) props \<Rightarrow> ('h, 'd) component" where
  "ToggleGroupItem context L ps children =
     (let className = attr ps ''className'';
          variant = attr ps ''variant'';
          size = attr ps ''size'';
          props = omit [''className'', ''variant'', ''size''] ps
      in Elem ''ToggleGroupPrimitive.Item''
           (spread
             [(''ref'', VRef),
              (''className'',
               VStr
                 (cn L
                   [VStr
                      (toggleVariants L
                        [(''variant'', js_or (attr context ''variant'') variant),
                         (''size'', js_or (attr context ''size'') size)]),
                    className]))]
             props)
           children)"

subsection \<open>Select\<close>

definition SelectTrigger :: "('h, 'd) component" where
  "SelectTrigger L ps children =
     (let className = attr ps ''className'';
          props = omit [''className''] ps
      in Elem ''SelectPrimitive.Trigger''
           (spread
             [(''ref'', VRef),
              (''className'',
               VStr
                 (cn L
                   [VStr
                      ''flex h-10 w-full items-center justify-between rounded-md border border-input bg-background px-3 py-2 text-sm ring-offset-background placeholder:text-muted-foreground focus:outline-none focus:ring-2 focus:ring-ring focus:ring-offset-2 disabled:cursor-not-allowed disabled:opacity-50 [&>span]:line-clamp-1'',
                    className]))]
             props)
           (children @
            [Elem ''SelectPrimitive.Icon''
               [(''asChild'', VBool True)]
               [Elem ''ChevronDown'' [(''className'', VStr ''h-4 w-4 opacity-50'')] []]]))"

definition SelectScrollUpButton :: "('h, 'd) component" where
  "SelectScrollUpButton L ps children =
     (let className = attr ps ''className'';
          props = omit [''className''] ps
      in Elem ''SelectPrimitive.ScrollUpButton''
           (spread
             [(''ref'', VRef),
              (''className'',
               VStr (cn L [VStr ''flex cursor-default items-center justify-center py-1'', className]))]
             props)
           [Elem ''ChevronUp'' [(''className'', VStr ''h-4 w-4'')] []])"

definition SelectScrollDownButton :: "('h, 'd) component" where
  "SelectScrollDownButton L ps children =
     (let className = attr ps ''className'';
          props = omit [''className''] ps
      in Elem ''SelectPrimitive.ScrollDownButton''
           (spread
             [(''ref'', VRef),
              (''className'',
               VStr (cn L [VStr ''flex cursor-default items-center justify-center py-1'', className]))]
             props)
           [Elem ''ChevronDown'' [(''className'', VStr ''h-4 w-4'')] []])"

definition SelectContent :: "('h, 'd) component" where
  "SelectContent L ps children =
     (let className = attr ps ''className'';
          position = attr_or ps ''position'' (VStr ''popper'');
          props = omit [''className'', ''position''] ps
      in Elem ''SelectPrimitive.Portal''
           []
           [Elem ''SelectPrimitive.Content''
              (spread
                [(''ref'', VRef),
                 (''className'',
                  VStr
                    (cn L
                      [VStr
                         ''relative z-50 max-h-96 min-w-[8rem] overflow-hidden rounded-md border bg-popover text-popover-foreground shadow-md data-[state=open]:animate-in data-[state=closed]:animate-out data-[state=closed]:fade-out-0 data-[state=open]:fade-in-0 data-[state=closed]:zoom-out-95 data-[state=open]:zoom-in-95 data-[side=bottom]:slide-in-from-top-2 data-[side=left]:slide-in-from-right-2 data-[side=right]:slide-in-from-left-2 data-[side=top]:slide-in-from-bottom-2'',
                       js_and
                         (VBool (position = (VStr ''popper'')))
                         (VStr
                           ''data-[side=bottom]:translate-y-1 data-[side=left]:-translate-x-1 data-[side=right]:translate-x-1 data-[side=top]:-translate-y-1''),
                       className])),
                 (''position'', position)]
                props)
              [Elem ''SelectScrollUpButton'' [] [],
               Elem ''SelectPrimitive.Viewport''
                 [(''className'',
                   VStr
                     (cn L
                       [VStr ''p-1'',
                        js_and
                          (VBool (position = (VStr ''popper'')))
                          (VStr
                            ''h-[var(--radix-select-trigger-height)] w-full min-w-[var(--radix-select-trigger-width)]'')]))]
                 children,
               Elem ''SelectScrollDownButton'' [] []]])"

definition SelectLabel :: "('h, 'd) component" where
  "SelectLabel L ps children =
     styled L ''SelectPrimitive.Label'' [] [''py-1.5 pl-8 pr-2 text-sm font-semibold''] ps children"

definition SelectItem :: "('h, 'd) component" where
  "SelectItem L ps children =
     (let className = attr ps ''className'';
          props = omit [''className''] ps
      in Elem ''SelectPrimitive.Item''
           (spread
             [(''ref'', VRef),
              (''className'',
               VStr
                 (cn L
                   [VStr
                      ''relative flex w-full cursor-default select-none items-center rounded-sm py-1.5 pl-8 pr-2 text-sm outline-none focus:bg-accent focus:text-accent-foreground data-[disabled]:pointer-events-none data-[disabled]:opacity-50'',
                    className]))]
             props)
           [Elem ''span''
              [(''className'', VStr ''absolute left-2 flex h-3.5 w-3.5 items-center justify-center'')]
              [Elem ''SelectPrimitive.ItemIndicator''
                 []
                 [Elem ''Check'' [(''className'', VStr ''h-4 w-4'')] []]],
            Elem ''SelectPrimitive.ItemText'' [] children])"

definition SelectSeparator :: "('h, 'd) component" where
  "SelectSeparator L ps children =
     styled L ''SelectPrimitive.Separator'' [] [''-mx-1 my-1 h-px bg-muted''] ps children"

subsection \<open>Input otp\<close>

definition InputOTP :: "('h, 'd) component" where
  "InputOTP L ps children =
     (let className = attr ps ''className'';
          containerClassName = attr ps ''containerClassName'';
          props = omit [''className'', ''containerClassName''] ps
      in Elem ''OTPInput''
           (spread
             [(''ref'', VRef),
              (''containerClassName'',
               VStr
                 (cn L
                   [VStr ''flex items-center gap-2 has-[:disabled]:opacity-50'', containerClassName])),
              (''className'', VStr (cn L [VStr ''disabled:cursor-not-allowed'', className]))]
             props)
           children)"

definition InputOTPGroup :: "('h, 'd) component" where
  "InputOTPGroup L ps children =
     styled L ''div'' [] [''flex items-center''] ps children"

text \<open>
  A slot of the context of the \<^verbatim>\<open>input-otp\<close> package. An index with no slot makes the destructuring
  throw.
\<close>

record otp_slot =
  slot_char :: "string jopt"
  hasFakeCaret :: bool
  isActive :: bool

fun slot_at :: "otp_slot list \<Rightarrow> ('h, 'd) aval \<Rightarrow> otp_slot result" where
  "slot_at slots (VNum (Fin x)) =
     (if x = of_int \<lfloor>x\<rfloor> \<and> 0 \<le> x \<and> nat \<lfloor>x\<rfloor> < length slots then Inr (slots ! nat \<lfloor>x\<rfloor>) else Inl TypeError)"
| "slot_at slots _ = Inl TypeError"

definition InputOTPSlot ::
  "otp_slot list \<Rightarrow> ('h, 'd) class_lib \<Rightarrow> ('h, 'd) props \<Rightarrow> ('h, 'd) vnode list \<Rightarrow> ('h, 'd) vnode result" where
  "InputOTPSlot slots L ps children =
     bindE (slot_at slots (attr ps ''index'')) (\<lambda>slot.
       let className = attr ps ''className'';
           props = omit [''index'', ''className''] ps
       in Inr (Elem ''div''
            (spread
              [(''ref'', VRef),
               (''className'',
                VStr
                  (cn L
                    [VStr
                       ''relative flex h-10 w-10 items-center justify-center border-y border-r border-input text-sm transition-all first:rounded-l-md first:border-l last:rounded-r-md'',
                     js_and (VBool (isActive slot)) (VStr ''z-10 ring-2 ring-ring ring-offset-background''),
                     className]))]
              props)
            ((case slot_char slot of Val c \<Rightarrow> [Text c] | _ \<Rightarrow> []) @
             (if hasFakeCaret slot
              then [Elem ''div''
                      [(''className'',
                        VStr ''pointer-events-none absolute inset-0 flex items-center justify-center'')]
                      [Elem ''div''
                         [(''className'', VStr ''h-4 w-px animate-caret-blink bg-foreground duration-1000'')]
                         []]]
              else []))))"

definition InputOTPSeparator :: "('h, 'd) component" where
  "InputOTPSeparator L ps children =
     Elem ''div'' (spread [(''ref'', VRef), (''role'', VStr ''separator'')] ps) [Elem ''Dot'' [] []]"

subsection \<open>Calendar\<close>

text \<open>
  The two icon components ignore their props: each stands for the element it always returns.
\<close>

definition Calendar :: "('h, 'd) component" where
  "Calendar L ps children =
     (let className = attr ps ''className'';
          classNames = attr ps ''classNames'';
          showOutsideDays = attr_or ps ''showOutsideDays'' (VBool True);
          props = omit [''className'', ''classNames'', ''showOutsideDays''] ps
      in Elem ''DayPicker''
           (spread
             [(''showOutsideDays'', showOutsideDays),
              (''className'', VStr (cn L [VStr ''p-3'', className])),
              (''classNames'',
               VObj
                 (spread
                   [(''months'', VStr ''flex flex-col sm:flex-row space-y-4 sm:space-x-4 sm:space-y-0''),
                    (''month'', VStr ''space-y-4''),
                    (''caption'', VStr ''flex justify-center pt-1 relative items-center''),
                    (''caption_label'', VStr ''text-sm font-medium''),
                    (''nav'', VStr ''space-x-1 flex items-center''),
                    (''nav_button'',
                     VStr
                       (cn L
                         [VStr (buttonVariants L [(''variant'', VStr ''outline'')]),
                          VStr ''h-7 w-7 bg-transparent p-0 opacity-50 hover:opacity-100''])),
                    (''nav_button_previous'', VStr ''absolute left-1''),
                    (''nav_button_next'', VStr ''absolute right-1''),
                    (''table'', VStr ''w-full border-collapse space-y-1''),
                    (''head_row'', VStr ''flex''),
                    (''head_cell'',
                     VStr ''text-muted-foreground rounded-md w-9 font-normal text-[0.8rem]''),
                    (''row'', VStr ''flex w-full mt-2''),
                    (''cell'',
                     VStr
                       ''h-9 w-9 text-center text-sm p-0 relative [&:has([aria-selected].day-range-end)]:rounded-r-md [&:has([aria-selected].day-outside)]:bg-accent/50 [&:has([aria-selected])]:bg-accent first:[&:has([aria-selected])]:rounded-l-md last:[&:has([aria-selected])]:rounded-r-md focus-within:relative focus-within:z-20''),
                    (''day'',
                     VStr
                       (cn L
                         [VStr (buttonVariants L [(''variant'', VStr ''ghost'')]),
                          VStr ''h-9 w-9 p-0 font-normal aria-selected:opacity-100''])),
                    (''day_range_end'', VStr ''day-range-end''),
                    (''day_selected'',
                     VStr
                       ''bg-primary text-primary-foreground hover:bg-primary hover:text-primary-foreground focus:bg-primary focus:text-primary-foreground''),
                    (''day_today'', VStr ''bg-accent text-accent-foreground''),
                    (''day_outside'',
                     VStr
                       ''day-outside text-muted-foreground aria-selected:bg-accent/50 aria-selected:text-muted-foreground''),
                    (''day_disabled'', VStr ''text-muted-foreground opacity-50''),
                    (''day_range_middle'',
                     VStr ''aria-selected:bg-accent aria-selected:text-accent-foreground''),
                    (''day_hidden'', VStr ''invisible'')]
                   (obj_of classNames))),
              (''components'',
               VObj
                 [(''IconLeft'', VNode (Elem ''ChevronLeft'' [(''className'', VStr ''h-4 w-4'')] [])),
                  (''IconRight'', VNode (Elem ''ChevronRight'' [(''className'', VStr ''h-4 w-4'')] []))])]
             props)
           children)"

section \<open>Props are passed on\<close>

text \<open>
  The control components with the props each uses itself: those that merge the caller's class name
  last, and the others.
\<close>

definition control_components :: "(string list \<times> ('h, 'd) component) list" where
  "control_components =
     [([''className'', ''type''], Input),
      ([''className''], Textarea),
      ([''className''], Label),
      ([''className''], Checkbox),
      ([''className''], Switch),
      ([''className''], RadioGroup),
      ([''className''], RadioGroupItem),
      ([''className''], Slider),
      ([''className''], SelectTrigger),
      ([''className''], SelectScrollUpButton),
      ([''className''], SelectScrollDownButton),
      ([''className''], SelectLabel),
      ([''className''], SelectItem),
      ([''className''], SelectSeparator),
      ([''className''], InputOTPGroup),
      ([''className'', ''variant'', ''size''], ToggleGroup),
      ([''className'', ''position''], SelectContent),
      ([''className'', ''containerClassName''], InputOTP),
      ([''className'', ''classNames'', ''showOutsideDays''], Calendar)]"

definition plain_control_components :: "(string list \<times> ('h, 'd) component) list" where
  "plain_control_components =
     [([''className'', ''variant'', ''size'', ''asChild''], Button),
      ([''className'', ''variant'', ''size''], Toggle),
      ([], InputOTPSeparator)]"

lemmas control_defs =
  Input_def Textarea_def Label_def Checkbox_def Switch_def RadioGroup_def RadioGroupItem_def
  Slider_def ToggleGroup_def SelectTrigger_def SelectScrollUpButton_def
  SelectScrollDownButton_def SelectContent_def SelectLabel_def SelectItem_def SelectSeparator_def
  InputOTP_def InputOTPGroup_def Calendar_def

lemma control_forward: "list_all (\<lambda>(own, c). forwards_class own c) control_components"
  by (simp add: control_components_def forwards_class_def control_defs Let_def)

lemmas plain_control_defs =
  Button_def Toggle_def InputOTPSeparator_def

lemma plain_control_forward: "list_all (\<lambda>(own, c). forwards own c) plain_control_components"
  by (simp add: plain_control_components_def forwards_def plain_control_defs Let_def)

end
