(* ===== verification/UI_Surfaces.thy ===== *)
theory UI_Surfaces
  imports UI_Controls
begin

text \<open>
  Static surfaces and navigation: cards, tables, alerts, badges, avatars, separators, skeletons,
  the spinner, progress, scroll areas, resizable panels, accordions, tabs, breadcrumbs and
  pagination of \<^verbatim>\<open>components/ui\<close>.
\<close>

section \<open>Components\<close>

subsection \<open>Card\<close>

definition Card :: "('h, 'd) component" where
  "Card L ps children =
     styled L ''div'' [] [''rounded-lg border bg-card text-card-foreground shadow-sm''] ps children"

definition CardHeader :: "('h, 'd) component" where
  "CardHeader L ps children =
     styled L ''div'' [] [''flex flex-col space-y-1.5 p-6''] ps children"

definition CardTitle :: "('h, 'd) component" where
  "CardTitle L ps children =
     styled L ''div'' [] [''text-2xl font-semibold leading-none tracking-tight''] ps children"

definition CardDescription :: "('h, 'd) component" where
  "CardDescription L ps children =
     styled L ''div'' [] [''text-sm text-muted-foreground''] ps children"

definition CardContent :: "('h, 'd) component" where
  "CardContent L ps children =
     styled L ''div'' [] [''p-6 pt-0''] ps children"

definition CardFooter :: "('h, 'd) component" where
  "CardFooter L ps children =
     styled L ''div'' [] [''flex items-center p-6 pt-0''] ps children"

subsection \<open>Table\<close>

definition Table :: "('h, 'd) component" where
  "Table L ps children =
     (let className = attr ps ''className'';
          props = omit [''className''] ps
      in Elem ''div''
           [(''className'', VStr ''relative w-full overflow-auto'')]
           [Elem ''table''
              (spread
                [(''ref'', VRef),
                 (''className'', VStr (cn L [VStr ''w-full caption-bottom text-sm'', className]))]
                props)
              children])"

definition TableHeader :: "('h, 'd) component" where
  "TableHeader L ps children =
     styled L ''thead'' [] [''[&_tr]:border-b''] ps children"

definition TableBody :: "('h, 'd) component" where
  "TableBody L ps children =
     styled L ''tbody'' [] [''[&_tr:last-child]:border-0''] ps children"

definition TableFooter :: "('h, 'd) component" where
  "TableFooter L ps children =
     styled L ''tfoot'' [] [''border-t bg-muted/50 font-medium [&>tr]:last:border-b-0''] ps children"

definition TableRow :: "('h, 'd) component" where
  "TableRow L ps children =
     styled L ''tr''
       []
       [''border-b transition-colors hover:bg-muted/50 data-[state=selected]:bg-muted'']
       ps children"

definition TableHead :: "('h, 'd) component" where
  "TableHead L ps children =
     styled L ''th''
       []
       [''h-12 px-4 text-left align-middle font-medium text-muted-foreground [&:has([role=checkbox])]:pr-0'']
       ps children"

definition TableCell :: "('h, 'd) component" where
  "TableCell L ps children =
     styled L ''td'' [] [''p-4 align-middle [&:has([role=checkbox])]:pr-0''] ps children"

definition TableCaption :: "('h, 'd) component" where
  "TableCaption L ps children =
     styled L ''caption'' [] [''mt-4 text-sm text-muted-foreground''] ps children"

subsection \<open>Alert\<close>

definition alertVariants :: "('h, 'd) class_lib \<Rightarrow> ('h, 'd) props \<Rightarrow> string" where
  "alertVariants L ps =
     lib_cva L
       ''relative w-full rounded-lg border p-4 [&>svg~*]:pl-7 [&>svg+div]:translate-y-[-3px] [&>svg]:absolute [&>svg]:left-4 [&>svg]:top-4 [&>svg]:text-foreground''
       [(''variant'',
         [(''default'', ''bg-background text-foreground''),
          (''destructive'',
           ''border-destructive/50 text-destructive dark:border-destructive [&>svg]:text-destructive'')])]
       [(''variant'', ''default'')]
       ps"

definition Alert :: "('h, 'd) component" where
  "Alert L ps children =
     (let className = attr ps ''className'';
          variant = attr ps ''variant'';
          props = omit [''className'', ''variant''] ps
      in Elem ''div''
           (spread
             [(''ref'', VRef),
              (''role'', VStr ''alert''),
              (''className'', VStr (cn L [VStr (alertVariants L [(''variant'', variant)]), className]))]
             props)
           children)"

definition AlertTitle :: "('h, 'd) component" where
  "AlertTitle L ps children =
     styled L ''h5'' [] [''mb-1 font-medium leading-none tracking-tight''] ps children"

definition AlertDescription :: "('h, 'd) component" where
  "AlertDescription L ps children =
     styled L ''div'' [] [''text-sm [&_p]:leading-relaxed''] ps children"

subsection \<open>Badge\<close>

definition badgeVariants :: "('h, 'd) class_lib \<Rightarrow> ('h, 'd) props \<Rightarrow> string" where
  "badgeVariants L ps =
     lib_cva L
       ''inline-flex items-center rounded-full border px-2.5 py-0.5 text-xs font-semibold transition-colors focus:outline-none focus:ring-2 focus:ring-ring focus:ring-offset-2''
       [(''variant'',
         [(''default'', ''border-transparent bg-primary text-primary-foreground hover:bg-primary/80''),
          (''secondary'',
           ''border-transparent bg-secondary text-secondary-foreground hover:bg-secondary/80''),
          (''destructive'',
           ''border-transparent bg-destructive text-destructive-foreground hover:bg-destructive/80''),
          (''outline'', ''text-foreground'')])]
       [(''variant'', ''default'')]
       ps"

definition Badge :: "('h, 'd) component" where
  "Badge L ps children =
     (let className = attr ps ''className'';
          variant = attr ps ''variant'';
          props = omit [''className'', ''variant''] ps
      in Elem ''div''
           (spread
             [(''className'', VStr (cn L [VStr (badgeVariants L [(''variant'', variant)]), className]))]
             props)
           children)"

subsection \<open>Avatar\<close>

definition Avatar :: "('h, 'd) component" where
  "Avatar L ps children =
     styled L ''AvatarPrimitive.Root''
       []
       [''relative flex h-10 w-10 shrink-0 overflow-hidden rounded-full'']
       ps children"

definition AvatarImage :: "('h, 'd) component" where
  "AvatarImage L ps children =
     styled L ''AvatarPrimitive.Image'' [] [''aspect-square h-full w-full''] ps children"

definition AvatarFallback :: "('h, 'd) component" where
  "AvatarFallback L ps children =
     styled L ''AvatarPrimitive.Fallback''
       []
       [''flex h-full w-full items-center justify-center rounded-full bg-muted'']
       ps children"

subsection \<open>Separator\<close>

definition Separator :: "('h, 'd) component" where
  "Separator L ps children =
     (let className = attr ps ''className'';
          orientation = attr_or ps ''orientation'' (VStr ''horizontal'');
          decorative = attr_or ps ''decorative'' (VBool True);
          props = omit [''className'', ''orientation'', ''decorative''] ps
      in Elem ''SeparatorPrimitive.Root''
           (spread
             [(''ref'', VRef),
              (''decorative'', decorative),
              (''orientation'', orientation),
              (''className'',
               VStr
                 (cn L
                   [VStr ''shrink-0 bg-border'',
                    (if orientation = (VStr ''horizontal'')
                     then VStr ''h-[1px] w-full''
                     else VStr ''h-full w-[1px]''),
                    className]))]
             props)
           children)"

subsection \<open>Skeleton\<close>

definition Skeleton :: "('h, 'd) component" where
  "Skeleton L ps children =
     (let className = attr ps ''className'';
          props = omit [''className''] ps
      in Elem ''div''
           (spread
             [(''className'', VStr (cn L [VStr ''animate-pulse rounded-md bg-muted'', className]))]
             props)
           children)"

subsection \<open>Loading spinner\<close>

definition LoadingSpinner :: "('h, 'd) component" where
  "LoadingSpinner L ps children =
     Elem ''div''
       [(''className'',
         VStr
           ''inline-block h-6 w-6 animate-spin rounded-full border-4 border-solid border-current border-r-transparent align-[-0.125em] motion-reduce:animate-[spin_1.5s_linear_infinite]''),
        (''role'', VStr ''status'')]
       [Elem ''span''
          [(''className'',
            VStr
              ''!absolute !-m-px !h-px !w-px !overflow-hidden !whitespace-nowrap !border-0 !p-0 ![clip:rect(0,0,0,0)]'')]
          [Text ''Loading...'']]"

subsection \<open>Progress\<close>

text \<open>\<^verbatim>\<open>value\<close> as a number: it is a number, null or missing.\<close>

fun num_of_attr :: "('h, 'd) aval \<Rightarrow> jsnum" where
  "num_of_attr (VNum x) = x"
| "num_of_attr (VStr s) = string_to_num s"
| "num_of_attr (VBool b) = Fin (if b then 1 else 0)"
| "num_of_attr VNull = Fin 0"
| "num_of_attr _ = NaN"

definition Progress :: "('h, 'd) component" where
  "Progress L ps children =
     (let className = attr ps ''className'';
          val = attr ps ''value'';
          props = omit [''className'', ''value''] ps
      in Elem ''ProgressPrimitive.Root''
           (spread
             [(''ref'', VRef),
              (''className'',
               VStr (cn L [VStr ''relative h-4 w-full overflow-hidden rounded-full bg-secondary'', className]))]
             props)
           [Elem ''ProgressPrimitive.Indicator''
              [(''className'', VStr ''h-full w-full flex-1 bg-primary transition-all''),
               (''style'',
                VObj [(''transform'',
                       VStr (''translateX(-'' @
                         num_to_string (num_sub (Fin 100) (num_of_attr (js_or val (VNum (Fin 0))))) @ ''%)''))])]
              []])"

subsection \<open>Scroll area\<close>

definition ScrollArea :: "('h, 'd) component" where
  "ScrollArea L ps children =
     (let className = attr ps ''className'';
          props = omit [''className''] ps
      in Elem ''ScrollAreaPrimitive.Root''
           (spread
             [(''ref'', VRef),
              (''className'', VStr (cn L [VStr ''relative overflow-hidden'', className]))]
             props)
           [Elem ''ScrollAreaPrimitive.Viewport''
              [(''className'', VStr ''h-full w-full rounded-[inherit]'')]
              children,
            Elem ''ScrollBar'' [] [],
            Elem ''ScrollAreaPrimitive.Corner'' [] []])"

definition ScrollBar :: "('h, 'd) component" where
  "ScrollBar L ps children =
     (let className = attr ps ''className'';
          orientation = attr_or ps ''orientation'' (VStr ''vertical'');
          props = omit [''className'', ''orientation''] ps
      in Elem ''ScrollAreaPrimitive.ScrollAreaScrollbar''
           (spread
             [(''ref'', VRef),
              (''orientation'', orientation),
              (''className'',
               VStr
                 (cn L
                   [VStr ''flex touch-none select-none transition-colors'',
                    js_and
                      (VBool (orientation = (VStr ''vertical'')))
                      (VStr ''h-full w-2.5 border-l border-l-transparent p-[1px]''),
                    js_and
                      (VBool (orientation = (VStr ''horizontal'')))
                      (VStr ''h-2.5 flex-col border-t border-t-transparent p-[1px]''),
                    className]))]
             props)
           [Elem ''ScrollAreaPrimitive.ScrollAreaThumb''
              [(''className'', VStr ''relative flex-1 rounded-full bg-border'')]
              []])"

subsection \<open>Resizable\<close>

definition ResizablePanelGroup :: "('h, 'd) component" where
  "ResizablePanelGroup L ps children =
     (let className = attr ps ''className'';
          props = omit [''className''] ps
      in Elem ''ResizablePrimitive.PanelGroup''
           (spread
             [(''className'',
               VStr
                 (cn L
                   [VStr ''flex h-full w-full data-[panel-group-direction=vertical]:flex-col'',
                    className]))]
             props)
           children)"

definition ResizableHandle :: "('h, 'd) component" where
  "ResizableHandle L ps children =
     (let withHandle = attr ps ''withHandle'';
          className = attr ps ''className'';
          props = omit [''withHandle'', ''className''] ps
      in Elem ''ResizablePrimitive.PanelResizeHandle''
           (spread
             [(''className'',
               VStr
                 (cn L
                   [VStr
                      ''relative flex w-px items-center justify-center bg-border after:absolute after:inset-y-0 after:left-1/2 after:w-1 after:-translate-x-1/2 focus-visible:outline-none focus-visible:ring-1 focus-visible:ring-ring focus-visible:ring-offset-1 data-[panel-group-direction=vertical]:h-px data-[panel-group-direction=vertical]:w-full data-[panel-group-direction=vertical]:after:left-0 data-[panel-group-direction=vertical]:after:h-1 data-[panel-group-direction=vertical]:after:w-full data-[panel-group-direction=vertical]:after:-translate-y-1/2 data-[panel-group-direction=vertical]:after:translate-x-0 [&[data-panel-group-direction=vertical]>div]:rotate-90'',
                    className]))]
             props)
           (if truthy_attr withHandle
            then [Elem ''div''
                    [(''className'',
                      VStr ''z-10 flex h-4 w-3 items-center justify-center rounded-sm border bg-border'')]
                    [Elem ''GripVertical'' [(''className'', VStr ''h-2.5 w-2.5'')] []]]
            else []))"

subsection \<open>Accordion\<close>

definition AccordionItem :: "('h, 'd) component" where
  "AccordionItem L ps children =
     styled L ''AccordionPrimitive.Item'' [] [''border-b''] ps children"

definition AccordionTrigger :: "('h, 'd) component" where
  "AccordionTrigger L ps children =
     (let className = attr ps ''className'';
          props = omit [''className''] ps
      in Elem ''AccordionPrimitive.Header''
           [(''className'', VStr ''flex'')]
           [Elem ''AccordionPrimitive.Trigger''
              (spread
                [(''ref'', VRef),
                 (''className'',
                  VStr
                    (cn L
                      [VStr
                         ''flex flex-1 items-center justify-between py-4 font-medium transition-all hover:underline [&[data-state=open]>svg]:rotate-180'',
                       className]))]
                props)
              (children @
               [Elem ''ChevronDown''
                  [(''className'', VStr ''h-4 w-4 shrink-0 transition-transform duration-200'')]
                  []])])"

definition AccordionContent :: "('h, 'd) component" where
  "AccordionContent L ps children =
     (let className = attr ps ''className'';
          props = omit [''className''] ps
      in Elem ''AccordionPrimitive.Content''
           (spread
             [(''ref'', VRef),
              (''className'',
               VStr
                 ''overflow-hidden text-sm transition-all data-[state=closed]:animate-accordion-up data-[state=open]:animate-accordion-down'')]
             props)
           [Elem ''div'' [(''className'', VStr (cn L [VStr ''pb-4 pt-0'', className]))] children])"

subsection \<open>Tabs\<close>

definition TabsList :: "('h, 'd) component" where
  "TabsList L ps children =
     styled L ''TabsPrimitive.List''
       []
       [''inline-flex h-10 items-center justify-center rounded-md bg-muted p-1 text-muted-foreground'']
       ps children"

definition TabsTrigger :: "('h, 'd) component" where
  "TabsTrigger L ps children =
     styled L ''TabsPrimitive.Trigger''
       []
       [''inline-flex items-center justify-center whitespace-nowrap rounded-sm px-3 py-1.5 text-sm font-medium ring-offset-background transition-all focus-visible:outline-none focus-visible:ring-2 focus-visible:ring-ring focus-visible:ring-offset-2 disabled:pointer-events-none disabled:opacity-50 data-[state=active]:bg-background data-[state=active]:text-foreground data-[state=active]:shadow-sm'']
       ps children"

definition TabsContent :: "('h, 'd) component" where
  "TabsContent L ps children =
     styled L ''TabsPrimitive.Content''
       []
       [''mt-2 ring-offset-background focus-visible:outline-none focus-visible:ring-2 focus-visible:ring-ring focus-visible:ring-offset-2'']
       ps children"

subsection \<open>Breadcrumb\<close>

definition Breadcrumb :: "('h, 'd) component" where
  "Breadcrumb L ps children =
     Elem ''nav'' (spread [(''ref'', VRef), (''aria-label'', VStr ''breadcrumb'')] ps) children"

definition BreadcrumbList :: "('h, 'd) component" where
  "BreadcrumbList L ps children =
     styled L ''ol''
       []
       [''flex flex-wrap items-center gap-1.5 break-words text-sm text-muted-foreground sm:gap-2.5'']
       ps children"

definition BreadcrumbItem :: "('h, 'd) component" where
  "BreadcrumbItem L ps children =
     styled L ''li'' [] [''inline-flex items-center gap-1.5''] ps children"

definition BreadcrumbLink :: "('h, 'd) component" where
  "BreadcrumbLink L ps children =
     (let asChild = attr ps ''asChild'';
          className = attr ps ''className'';
          props = omit [''asChild'', ''className''] ps;
          Comp = (if truthy_attr asChild then ''Slot'' else ''a'')
      in Elem Comp
           (spread
             [(''ref'', VRef),
              (''className'', VStr (cn L [VStr ''transition-colors hover:text-foreground'', className]))]
             props)
           children)"

definition BreadcrumbPage :: "('h, 'd) component" where
  "BreadcrumbPage L ps children =
     styled L ''span''
       [(''role'', VStr ''link''),
        (''aria-disabled'', VStr ''true''),
        (''aria-current'', VStr ''page'')]
       [''font-normal text-foreground'']
       ps children"

definition BreadcrumbSeparator :: "('h, 'd) component" where
  "BreadcrumbSeparator L ps children =
     (let className = attr ps ''className'';
          props = omit [''className''] ps
      in Elem ''li''
           (spread
             [(''role'', VStr ''presentation''),
              (''aria-hidden'', VStr ''true''),
              (''className'', VStr (cn L [VStr ''[&>svg]:w-3.5 [&>svg]:h-3.5'', className]))]
             props)
           (if children = [] then [Elem ''ChevronRight'' [] []] else children))"

definition BreadcrumbEllipsis :: "('h, 'd) component" where
  "BreadcrumbEllipsis L ps children =
     (let className = attr ps ''className'';
          props = omit [''className''] ps
      in Elem ''span''
           (spread
             [(''role'', VStr ''presentation''),
              (''aria-hidden'', VStr ''true''),
              (''className'',
               VStr (cn L [VStr ''flex h-9 w-9 items-center justify-center'', className]))]
             props)
           [Elem ''MoreHorizontal'' [(''className'', VStr ''h-4 w-4'')] [],
            Elem ''span'' [(''className'', VStr ''sr-only'')] [Text ''More'']])"

subsection \<open>Pagination\<close>

definition Pagination :: "('h, 'd) component" where
  "Pagination L ps children =
     (let className = attr ps ''className'';
          props = omit [''className''] ps
      in Elem ''nav''
           (spread
             [(''role'', VStr ''navigation''),
              (''aria-label'', VStr ''pagination''),
              (''className'', VStr (cn L [VStr ''mx-auto flex w-full justify-center'', className]))]
             props)
           children)"

definition PaginationContent :: "('h, 'd) component" where
  "PaginationContent L ps children =
     styled L ''ul'' [] [''flex flex-row items-center gap-1''] ps children"

definition PaginationItem :: "('h, 'd) component" where
  "PaginationItem L ps children =
     styled L ''li'' [] [''''] ps children"

definition PaginationLink :: "('h, 'd) component" where
  "PaginationLink L ps children =
     (let className = attr ps ''className'';
          isActive = attr ps ''isActive'';
          size = attr_or ps ''size'' (VStr ''icon'');
          props = omit [''className'', ''isActive'', ''size''] ps
      in Elem ''a''
           (spread
             [(''aria-current'', (if truthy_attr isActive then VStr ''page'' else VUndef)),
              (''className'',
               VStr
                 (cn L
                   [VStr
                      (buttonVariants L
                        [(''variant'',
                          (if truthy_attr isActive then VStr ''outline'' else VStr ''ghost'')),
                         (''size'', size)]),
                    className]))]
             props)
           children)"

definition PaginationPrevious :: "('h, 'd) component" where
  "PaginationPrevious L ps children =
     (let className = attr ps ''className'';
          props = omit [''className''] ps
      in Elem ''PaginationLink''
           (spread
             [(''aria-label'', VStr ''Go to previous page''),
              (''size'', VStr ''default''),
              (''className'', VStr (cn L [VStr ''gap-1 pl-2.5'', className]))]
             props)
           [Elem ''ChevronLeft'' [(''className'', VStr ''h-4 w-4'')] [],
            Elem ''span'' [] [Text ''Previous'']])"

definition PaginationNext :: "('h, 'd) component" where
  "PaginationNext L ps children =
     (let className = attr ps ''className'';
          props = omit [''className''] ps
      in Elem ''PaginationLink''
           (spread
             [(''aria-label'', VStr ''Go to next page''),
              (''size'', VStr ''default''),
              (''className'', VStr (cn L [VStr ''gap-1 pr-2.5'', className]))]
             props)
           [Elem ''span'' [] [Text ''Next''],
            Elem ''ChevronRight'' [(''className'', VStr ''h-4 w-4'')] []])"

definition PaginationEllipsis :: "('h, 'd) component" where
  "PaginationEllipsis L ps children =
     (let className = attr ps ''className'';
          props = omit [''className''] ps
      in Elem ''span''
           (spread
             [(''aria-hidden'', VBool True),
              (''className'',
               VStr (cn L [VStr ''flex h-9 w-9 items-center justify-center'', className]))]
             props)
           [Elem ''MoreHorizontal'' [(''className'', VStr ''h-4 w-4'')] [],
            Elem ''span'' [(''className'', VStr ''sr-only'')] [Text ''More pages'']])"

section \<open>Props are passed on\<close>

text \<open>
  The surface components with the props each uses itself: those that merge the caller's class name
  last, and the others.
\<close>

definition surface_components :: "(string list \<times> ('h, 'd) component) list" where
  "surface_components =
     [([''className''], Card),
      ([''className''], CardHeader),
      ([''className''], CardTitle),
      ([''className''], CardDescription),
      ([''className''], CardContent),
      ([''className''], CardFooter),
      ([''className''], Table),
      ([''className''], TableHeader),
      ([''className''], TableBody),
      ([''className''], TableFooter),
      ([''className''], TableRow),
      ([''className''], TableHead),
      ([''className''], TableCell),
      ([''className''], TableCaption),
      ([''className''], AlertTitle),
      ([''className''], AlertDescription),
      ([''className''], Avatar),
      ([''className''], AvatarImage),
      ([''className''], AvatarFallback),
      ([''className''], Skeleton),
      ([''className''], ScrollArea),
      ([''className''], ResizablePanelGroup),
      ([''className''], AccordionItem),
      ([''className''], AccordionTrigger),
      ([''className''], TabsList),
      ([''className''], TabsTrigger),
      ([''className''], TabsContent),
      ([''className''], BreadcrumbList),
      ([''className''], BreadcrumbItem),
      ([''className''], BreadcrumbPage),
      ([''className''], BreadcrumbSeparator),
      ([''className''], BreadcrumbEllipsis),
      ([''className''], Pagination),
      ([''className''], PaginationContent),
      ([''className''], PaginationItem),
      ([''className''], PaginationPrevious),
      ([''className''], PaginationNext),
      ([''className''], PaginationEllipsis),
      ([''className'', ''variant''], Alert),
      ([''className'', ''variant''], Badge),
      ([''className'', ''orientation'', ''decorative''], Separator),
      ([''className'', ''value''], Progress),
      ([''className'', ''orientation''], ScrollBar),
      ([''withHandle'', ''className''], ResizableHandle),
      ([''asChild'', ''className''], BreadcrumbLink),
      ([''className'', ''isActive'', ''size''], PaginationLink)]"

definition plain_surface_components :: "(string list \<times> ('h, 'd) component) list" where
  "plain_surface_components =
     [([''className''], AccordionContent),
      ([], Breadcrumb)]"

lemmas surface_defs =
  Card_def CardHeader_def CardTitle_def CardDescription_def CardContent_def CardFooter_def
  Table_def TableHeader_def TableBody_def TableFooter_def TableRow_def TableHead_def
  TableCell_def TableCaption_def Alert_def AlertTitle_def AlertDescription_def Badge_def
  Avatar_def AvatarImage_def AvatarFallback_def Separator_def Skeleton_def Progress_def
  ScrollArea_def ScrollBar_def ResizablePanelGroup_def ResizableHandle_def AccordionItem_def
  AccordionTrigger_def TabsList_def TabsTrigger_def TabsContent_def BreadcrumbList_def
  BreadcrumbItem_def BreadcrumbLink_def BreadcrumbPage_def BreadcrumbSeparator_def
  BreadcrumbEllipsis_def Pagination_def PaginationContent_def PaginationItem_def
  PaginationLink_def PaginationPrevious_def PaginationNext_def PaginationEllipsis_def

lemma surface_forward: "list_all (\<lambda>(own, c). forwards_class own c) surface_components"
  by (simp add: surface_components_def forwards_class_def surface_defs Let_def)

lemmas plain_surface_defs =
  AccordionContent_def Breadcrumb_def

lemma plain_surface_forward: "list_all (\<lambda>(own, c). forwards own c) plain_surface_components"
  by (simp add: plain_surface_components_def forwards_def plain_surface_defs Let_def)

end
