(* ===== verification/Home_Page.thy ===== *)
theory Home_Page
  imports Dashboard_Session UI_Surfaces
begin

text \<open>
  The pages around the dashboard: the demonstration page of \<^verbatim>\<open>app/page.tsx\<close> with its sample data, the
  root layout, the theme provider, and the entry point \<^verbatim>\<open>embed.tsx\<close> of the documentation site. A decimal
  literal is the double nearest to it.
\<close>

section \<open>Sample data\<close>

definition home_result1 :: benchmark_result where
  "home_result1 =
     \<lparr>server = Val ''agoo'',
      version = Val ''Agoo v1.2.3 (Ruby 3.2.0) with experimental HTTP/2 support'',
      test_case = Val ''chunked'', threads = Val (Fin 1), workers = Val (Fin 1), http2 = Val False,
      concurrency = Val (Fin 10), rss_mb = Val (fl (177 / 100)),
      results = Val
        \<lparr>successRate = Val (Fin 1), total = Val (Fin 20000), slowest = Val (Fin 5000000), fastest = Val (Fin 200000),
         average = Val (Fin 2500000), requestsPerSec = Val (Fin 6500), totalData = Val (Fin 0),
         sizePerRequest = Val (Fin 0), sizePerSec = Val (Fin 0), errorDistribution = Val [],
         p95_latency = Val (fl (48 / 10))\<rparr>,
      timestamp = Val ''2025-05-24T10:41:17Z''\<rparr>"

definition home_result2 :: benchmark_result where
  "home_result2 =
     \<lparr>server = Val ''agoo'',
      version = Val ''Agoo v1.2.3 (Ruby 3.2.0) with experimental HTTP/2 support'',
      test_case = Val ''chunked'', threads = Val (Fin 1), workers = Val (Fin 1), http2 = Val False,
      concurrency = Val (Fin 50), rss_mb = Val (fl (177 / 100)),
      results = Val
        \<lparr>successRate = Val (fl (95 / 100)), total = Val (Fin 28000), slowest = Val (Fin 12000000), fastest = Val (Fin 400000),
         average = Val (Fin 6000000), requestsPerSec = Val (Fin 9500), totalData = Val (Fin 0),
         sizePerRequest = Val (Fin 0), sizePerSec = Val (Fin 0), errorDistribution = Val [(''timeout'', Fin 50)],
         p95_latency = Val (fl (102 / 10))\<rparr>,
      timestamp = Val ''2025-05-24T10:41:17Z''\<rparr>"

definition home_result3 :: benchmark_result where
  "home_result3 =
     \<lparr>server = Val ''puma'',
      version = Val ''Puma version 6.6.0+h2o version 2.3.0-DEV@87e2aa634 (Ruby 3.2.2) with HTTP/2 support enabled'',
      test_case = Val ''chunked'', threads = Val (Fin 1), workers = Val (Fin 1), http2 = Val True,
      concurrency = Val (Fin 10), rss_mb = Undef,
      results = Val
        \<lparr>successRate = Val (Fin 1), total = Val (Fin 15000), slowest = Val (Fin 4000000), fastest = Val (Fin 200000),
         average = Val (Fin 2000000), requestsPerSec = Val (Fin 5000), totalData = Val (Fin 150000000),
         sizePerRequest = Val (Fin 10000), sizePerSec = Val (Fin 50000000), errorDistribution = Val [],
         p95_latency = Val (fl (38 / 10))\<rparr>,
      timestamp = Undef\<rparr>"

definition home_result4 :: benchmark_result where
  "home_result4 =
     \<lparr>server = Val ''puma'',
      version = Val ''Puma version 6.6.0+h2o version 2.3.0-DEV@87e2aa634 (Ruby 3.2.2) with HTTP/2 support enabled'',
      test_case = Val ''chunked'', threads = Val (Fin 1), workers = Val (Fin 1), http2 = Val True,
      concurrency = Val (Fin 50), rss_mb = Undef,
      results = Val
        \<lparr>successRate = Val (Fin 1), total = Val (Fin 22000), slowest = Val (Fin 12000000), fastest = Val (Fin 400000),
         average = Val (Fin 6000000), requestsPerSec = Val (Fin 7500), totalData = Val (Fin 220000000),
         sizePerRequest = Val (Fin 10000), sizePerSec = Val (Fin 75000000), errorDistribution = Val [],
         p95_latency = Val (fl (112 / 10))\<rparr>,
      timestamp = Undef\<rparr>"

definition home_result5 :: benchmark_result where
  "home_result5 =
     \<lparr>server = Val ''itsi'',
      version = Val ''ITSI v0.9.1-beta.3 (Experimental) with advanced IO processing and HTTP/2 multiplexing support'',
      test_case = Val ''io_party'', threads = Val (Fin 1), workers = Val (Fin 1), http2 = Val True,
      concurrency = Val (Fin 10), rss_mb = Val (fl (6411 / 100)),
      results = Val
        \<lparr>successRate = Val (Fin 1), total = Val (Fin 48591), slowest = Val (Fin 2850375), fastest = Val (Fin 116292),
         average = Val (Fin 486975), requestsPerSec = Val (fl (1619649 / 100)), totalData = Val (Fin 0),
         sizePerRequest = Val (Fin 0), sizePerSec = Val (Fin 0), errorDistribution = Val [],
         p95_latency = Val (fl (977999 / 1000000))\<rparr>,
      timestamp = Val ''2025-05-15T03:43:50Z''\<rparr>"

definition home_result6 :: benchmark_result where
  "home_result6 =
     \<lparr>server = Val ''falcon'',
      version = Val ''Falcon v0.51.1 (Ruby 3.3.0-preview1) with HTTP/2 and WebSocket support, running on Async::HTTP::Protocol::HTTP2 implementation'',
      test_case = Val ''hello_world'', threads = Val (Fin 2), workers = Val (Fin 2), http2 = Val True,
      concurrency = Val (Fin 10), rss_mb = Undef,
      results = Val
        \<lparr>successRate = Val (Fin 1), total = Val (Fin 30000), slowest = Val (Fin 10000000), fastest = Val (Fin 400000),
         average = Val (Fin 5000000), requestsPerSec = Val (Fin 10000), totalData = Val (Fin 0),
         sizePerRequest = Val (Fin 0), sizePerSec = Val (Fin 0), errorDistribution = Val [],
         p95_latency = Val (fl (85 / 10))\<rparr>,
      timestamp = Undef\<rparr>"

definition sampleHierarchicalData :: hierarchical_data where
  "sampleHierarchicalData = Val
     [Val \<lparr>cd_cpu = Val ''apple_m1_pro'', cd_groups = Val
        [Val \<lparr>gd_group = Val ''rack'', gd_tests = Val
           [Val \<lparr>td_test = Val ''chunked'', td_servers = Val
              [Val \<lparr>sd_server = Val ''agoo'', sd_results = Val [Val home_result1, Val home_result2]\<rparr>,
               Val \<lparr>sd_server = Val ''puma'', sd_results = Val [Val home_result3, Val home_result4]\<rparr>]\<rparr>,
            Val \<lparr>td_test = Val ''io_party'', td_servers = Val
              [Val \<lparr>sd_server = Val ''itsi'', sd_results = Val [Val home_result5]\<rparr>]\<rparr>]\<rparr>,
         Val \<lparr>gd_group = Val ''sinatra'', gd_tests = Val
           [Val \<lparr>td_test = Val ''hello_world'', td_servers = Val
              [Val \<lparr>sd_server = Val ''falcon'', sd_results = Val [Val home_result6]\<rparr>]\<rparr>]\<rparr>]\<rparr>]"


section \<open>The page\<close>

record home_state =
  isLoading :: bool
  benchmarkData :: hierarchical_data
  home_error :: "string option"

definition initial_home :: home_state where
  "initial_home = \<lparr>isLoading = True, benchmarkData = Val [], home_error = None\<rparr>"

text \<open>The effect of the mount; nothing in its \<^verbatim>\<open>try\<close> block throws.\<close>

definition home_effect :: "home_state \<Rightarrow> home_state" where
  "home_effect s = s\<lparr>benchmarkData := sampleHierarchicalData, isLoading := False\<rparr>"

definition Home :: "home_state \<Rightarrow> ('h, hierarchical_data) vnode" where
  "Home s =
     (if isLoading s
      then Elem ''div'' [(''className'', VStr ''flex h-screen items-center justify-center'')]
             [Elem ''LoadingSpinner'' [] [],
              Elem ''span'' [(''className'', VStr ''ml-2'')] [Text ''Loading benchmark data...'']]
      else if home_error s \<noteq> None \<and> home_error s \<noteq> Some []
      then Elem ''div'' [(''className'', VStr ''flex h-screen items-center justify-center'')]
             [Elem ''div'' [(''className'', VStr ''text-center'')]
                [Elem ''h2'' [(''className'', VStr ''text-2xl font-bold text-red-600'')] [Text ''Error''],
                 Elem ''p'' [(''className'', VStr ''mt-2'')] [Text (the (home_error s))]]]
      else Elem ''main'' [(''className'', VStr ''container mx-auto p-2'')]
             [Elem ''BenchmarkDashboard'' [(''data'', VData (benchmarkData s))] []])"

definition RootLayout :: "('h, 'd) vnode list \<Rightarrow> ('h, 'd) vnode" where
  "RootLayout children = Elem ''html'' [(''lang'', VStr ''en'')] [Elem ''body'' [] children]"

definition ThemeProvider :: "('h, 'd) component" where
  "ThemeProvider L ps children = Elem ''NextThemesProvider'' ps children"

text \<open>
  The embedding script: with a root element, the dashboard is rendered with the fetched data; \<open>None\<close>
  where nothing is rendered, because there is no root or the request or its parsing failed.
\<close>

definition embed :: "bool \<Rightarrow> hierarchical_data option \<Rightarrow> ('h, hierarchical_data) vnode option" where
  "embed has_root response =
     (if has_root then map_option (\<lambda>data. Elem ''BenchmarkDashboard'' [(''data'', VData data)] []) response else None)"

section \<open>Lemmas\<close>

text \<open>The page shows the spinner first and the dashboard with the sample data after its effect.\<close>

lemma home_shows_dashboard:
  "\<exists>as ks. Home (home_effect initial_home) = Elem ''main'' as [Elem ''BenchmarkDashboard'' [(''data'', VData sampleHierarchicalData)] ks]"
  "\<exists>as ks. Home initial_home = Elem ''div'' as (Elem ''LoadingSpinner'' [] [] # ks)"
  by (simp_all add: Home_def home_effect_def initial_home_def)

definition home_items :: "tagged_result list" where
  "home_items = flattenedData sampleHierarchicalData"

definition home_item1 :: tagged_result where
  "home_item1 = tag (Val ''apple_m1_pro'') (Val ''rack'') (Val home_result1)"

definition home_item2 :: tagged_result where
  "home_item2 = tag (Val ''apple_m1_pro'') (Val ''rack'') (Val home_result2)"

definition home_item3 :: tagged_result where
  "home_item3 = tag (Val ''apple_m1_pro'') (Val ''rack'') (Val home_result3)"

definition home_item4 :: tagged_result where
  "home_item4 = tag (Val ''apple_m1_pro'') (Val ''rack'') (Val home_result4)"

definition home_item5 :: tagged_result where
  "home_item5 = tag (Val ''apple_m1_pro'') (Val ''rack'') (Val home_result5)"

definition home_item6 :: tagged_result where
  "home_item6 = tag (Val ''apple_m1_pro'') (Val ''sinatra'') (Val home_result6)"

lemma home_fields [simp]:
  "server home_item1 = Val ''agoo''" "test_case home_item1 = Val ''chunked''" "threads home_item1 = Val (Fin 1)" "workers home_item1 = Val (Fin 1)"
  "concurrency home_item1 = Val (Fin 10)" "http2 home_item1 = Val False" "cpu home_item1 = Val ''apple_m1_pro''" "group home_item1 = Val ''rack''"
  "\<not> jopt_nullish (results home_item1)"
  "server home_item2 = Val ''agoo''" "test_case home_item2 = Val ''chunked''" "threads home_item2 = Val (Fin 1)" "workers home_item2 = Val (Fin 1)"
  "concurrency home_item2 = Val (Fin 50)" "http2 home_item2 = Val False" "cpu home_item2 = Val ''apple_m1_pro''" "group home_item2 = Val ''rack''"
  "\<not> jopt_nullish (results home_item2)"
  "server home_item3 = Val ''puma''" "test_case home_item3 = Val ''chunked''" "threads home_item3 = Val (Fin 1)" "workers home_item3 = Val (Fin 1)"
  "concurrency home_item3 = Val (Fin 10)" "http2 home_item3 = Val True" "cpu home_item3 = Val ''apple_m1_pro''" "group home_item3 = Val ''rack''"
  "\<not> jopt_nullish (results home_item3)"
  "server home_item4 = Val ''puma''" "test_case home_item4 = Val ''chunked''" "threads home_item4 = Val (Fin 1)" "workers home_item4 = Val (Fin 1)"
  "concurrency home_item4 = Val (Fin 50)" "http2 home_item4 = Val True" "cpu home_item4 = Val ''apple_m1_pro''" "group home_item4 = Val ''rack''"
  "\<not> jopt_nullish (results home_item4)"
  "server home_item5 = Val ''itsi''" "test_case home_item5 = Val ''io_party''" "threads home_item5 = Val (Fin 1)" "workers home_item5 = Val (Fin 1)"
  "concurrency home_item5 = Val (Fin 10)" "http2 home_item5 = Val True" "cpu home_item5 = Val ''apple_m1_pro''" "group home_item5 = Val ''rack''"
  "\<not> jopt_nullish (results home_item5)"
  "server home_item6 = Val ''falcon''" "test_case home_item6 = Val ''hello_world''" "threads home_item6 = Val (Fin 2)" "workers home_item6 = Val (Fin 2)"
  "concurrency home_item6 = Val (Fin 10)" "http2 home_item6 = Val True" "cpu home_item6 = Val ''apple_m1_pro''" "group home_item6 = Val ''sinatra''"
  "\<not> jopt_nullish (results home_item6)"
  by (simp_all add: home_item1_def home_result1_def home_item2_def home_result2_def home_item3_def home_result3_def home_item4_def home_result4_def home_item5_def home_result5_def home_item6_def home_result6_def tag_def)

lemma home_items_eq: "home_items = [home_item1, home_item2, home_item3, home_item4, home_item5, home_item6]"
  by (simp add: home_items_def sampleHierarchicalData_def flattenedData_def flat_cpu_def flat_group_def flat_test_def flat_server_def
      home_item1_def home_item2_def home_item3_def home_item4_def home_item5_def home_item6_def)

text \<open>The options of the sample data, and the state the dashboard starts in without a URL.\<close>

definition home_options :: filter_options where
  "home_options =
     \<lparr>fo_cpus = [''apple_m1_pro''], fo_testCases = [''chunked'', ''io_party'', ''hello_world''],
      fo_servers = [''agoo'', ''puma'', ''itsi'', ''falcon''], fo_threads = [Fin 1, Fin 2], fo_workers = [Fin 1, Fin 2],
      fo_concurrencyLevels = [Fin 10, Fin 50], fo_http2Options = [All, Http2 False, Http2 True]\<rparr>"

lemma home_sorts: "js_sort num_after [Fin 1, Fin 2] = [Fin 1, Fin 2]" "js_sort num_after [Fin 10, Fin 50] = [Fin 10, Fin 50]"
  by (simp_all add: num_after_iff)

lemma home_allFilterOptions: "allFilterOptions sampleHierarchicalData = Inr home_options"
proof -
  have "\<exists>c. sampleHierarchicalData = Val [Val c] \<and> cd_cpu c = Val ''apple_m1_pro''" by (simp add: sampleHierarchicalData_def)
  then obtain c where c: "sampleHierarchicalData = Val [Val c]" "cd_cpu c = Val ''apple_m1_pro''" by blast
  have "allFilterOptions sampleHierarchicalData = Inr \<lparr>fo_cpus = [''apple_m1_pro''],
      fo_testCases = str_options test_case home_items, fo_servers = str_options server home_items,
      fo_threads = num_options threads home_items, fo_workers = num_options workers home_items,
      fo_concurrencyLevels = num_options concurrency home_items, fo_http2Options = bool_options home_items\<rparr>"
    unfolding allFilterOptions_def home_items_def c(1) by (simp add: c(2) cpu_of_def truthy_strs_def Let_def)
  then show ?thesis
    by (simp add: home_items_eq home_options_def str_options_def num_options_def bool_options_def
        truthy_strs_def home_sorts del: js_sort_simps)
qed

text \<open>
  The default filters ask for one thread, which the default test case does not have; the repair
  effect then selects the numbers it has, and the chart shows its result.
\<close>

definition home_filters :: filter_state where
  "home_filters = d_filters (initial_dash home_options None)"

lemma home_filters_eq:
  "home_filters =
     \<lparr>f_cpu = ''apple_m1_pro'', f_testCase = ''hello_world'', f_threads = Val (Fin 1), f_workers = Val (Fin 1),
      f_concurrency = Val (Fin 10), f_http2 = All, f_xAxis = ''concurrency'', f_metric = ''rps'',
      f_visibleServers = [''agoo'', ''puma'', ''itsi'', ''falcon'']\<rparr>"
  by (simp add: home_filters_def initial_dash_def initial_filters_def parseUrlParams_def default_filters_def home_options_def
      first_or_def num_truthy_def)

lemma home_options_for:
  "options_for home_options home_items home_filters =
     \<lparr>fo_cpus = [''apple_m1_pro''], fo_testCases = [''chunked'', ''io_party'', ''hello_world''], fo_servers = [''falcon''],
      fo_threads = [Fin 2], fo_workers = [Fin 2], fo_concurrencyLevels = [Fin 10], fo_http2Options = [All, Http2 True]\<rparr>"
  by (simp add: options_for_def filterOptions_def cpuFilteredData_def home_options_def home_items_eq home_filters_eq
      str_options_def num_options_def bool_options_def truthy_strs_def Let_def)

lemma home_filtered:
  "filteredData home_items home_filters = []"
  "filteredData home_items (repair_filters (options_for home_options home_items home_filters) home_filters) = [home_item6]"
  unfolding home_options_for
  by (simp_all add: home_items_eq home_filters_eq filteredData_def keep_item_def num_eq_def repair_filters_def first_or_def
      num_truthy_def)

text \<open>The sample data is well formed, and the first commit repairs the selection.\<close>

lemma home_rates:
  "\<exists>r x. results home_item1 = Val r \<and> requestsPerSec r = Val x" "\<exists>r x. results home_item2 = Val r \<and> requestsPerSec r = Val x"
  "\<exists>r x. results home_item3 = Val r \<and> requestsPerSec r = Val x" "\<exists>r x. results home_item4 = Val r \<and> requestsPerSec r = Val x"
  "\<exists>r x. results home_item5 = Val r \<and> requestsPerSec r = Val x" "\<exists>r x. results home_item6 = Val r \<and> requestsPerSec r = Val x"
  by (simp_all add: home_item1_def home_result1_def home_item2_def home_result2_def home_item3_def home_result3_def
      home_item4_def home_result4_def home_item5_def home_result5_def home_item6_def home_result6_def tag_def)

lemma home_names: "plain_key s \<and> good_name s" if "s \<in> {''agoo'', ''puma'', ''itsi'', ''falcon''}"
  using that by (auto simp: plain_key_def proto_names_def good_name_def x_axes_def suffix_def)

lemma home_good: "list_all good_item home_items"
proof -
  have "plain_key (''chunked_'' @ x)" "plain_key (''io_party_'' @ x)" "plain_key (''hello_world_'' @ x)" for x
    by (simp_all add: plain_key_def proto_names_def)
  moreover have "plain_key ''rack''" "plain_key ''sinatra''" by (simp_all add: plain_key_def proto_names_def)
  moreover have "positive_whole (Val (Fin 1))" "positive_whole (Val (Fin 2))" "positive_whole (Val (Fin 10))" "positive_whole (Val (Fin 50))"
    by (simp_all add: positive_whole_def whole_num_def)
  ultimately show ?thesis
    using home_rates home_names [of "''agoo''"] home_names [of "''puma''"] home_names [of "''itsi''"] home_names [of "''falcon''"]
    by (auto simp: home_items_eq good_item_def measurable_def perf_key_def plain_group_def)
qed

lemma home_first_commit:
  "run_effects home_options home_items \<lparr>cd_filters = True, cd_visible = True, cd_key = None\<rparr> (initial_dash home_options None) =
     ((initial_dash home_options None)\<lparr>d_filters := repair_filters (options_for home_options home_items home_filters) home_filters\<rparr>,
      \<lparr>cd_filters = True, cd_visible = False, cd_key = Some (filter_key home_filters)\<rparr>)"
  by (simp add: run_effects_def write_effect_def write_visible_effect_def load_effect_def repair_effect_def updateUrlParams_def
      parseUrlParams_def home_filters_def initial_dash_def Let_def)

end
