(* ===== verification/Dashboard_Link.thy ===== *)
theory Dashboard_Link
  imports Dashboard_Session
begin

text \<open>
  Sharing the dashboard by its link, from end to end: the query string that a session leaves behind
  mounts a dashboard that renders the same page. The theory shows that a session over complete data
  only ever selects what the data offers, that the legend only names its servers, and that the page
  depends on the visibility table only through its servers.
\<close>

section \<open>The legend of a page\<close>

fun legend_of :: "(string \<times> (view_handler, point list) aval) \<Rightarrow> string list" where
  "legend_of (k, VHandler (OnLegend srv)) = [srv]"
| "legend_of _ = []"

fun own_legend :: "view \<Rightarrow> string list" where
  "own_legend (Elem t as ks) = concat (map legend_of as)"
| "own_legend (Text s) = []"

definition legends :: "view \<Rightarrow> string list" where
  "legends n = concat (map own_legend (elems n))"

definition legends_in :: "view list \<Rightarrow> string list" where
  "legends_in ns = concat (map legends ns)"

lemma handlers_legends: "OnLegend srv \<in> set (handlers n) \<Longrightarrow> srv \<in> set (legends n)"
proof -
  have "srv \<in> set (own_legend m)" if m: "OnLegend srv \<in> set (own_handlers m)" for m
  proof (cases m)
    case (Elem t as ks)
    then obtain k v where kv: "(k, v) \<in> set as" "OnLegend srv \<in> set (case v of VHandler h \<Rightarrow> [h] | _ \<Rightarrow> [])"
      using m by (auto simp: own_handlers_def)
    then have "v = VHandler (OnLegend srv)" by (cases v) auto
    then show ?thesis using Elem kv(1) by (force simp: image_iff)
  qed (use m in \<open>simp add: own_handlers_def\<close>)
  then show "OnLegend srv \<in> set (handlers n) \<Longrightarrow> srv \<in> set (legends n)"
    by (auto simp: handlers_def legends_def)
qed

lemma legends_Elem [simp]: "legends (Elem t as ks) = concat (map legend_of as) @ legends_in ks"
  by (simp add: legends_def legends_in_def map_concat comp_def) (induction ks; simp add: legends_def)

lemma legends_Text [simp]: "legends (Text s) = []"
  by (simp add: legends_def)

lemma legends_in_simps [simp]:
  "legends_in [] = []" "legends_in (n # ns) = legends n @ legends_in ns" "legends_in (ns @ ms) = legends_in ns @ legends_in ms"
  "legends_in (map f xs) = concat (map (\<lambda>x. legends (f x)) xs)"
  by (simp_all add: legends_in_def comp_def)

lemma words_legends [simp]: "legends_in (words s) = []" "legends_in (words_opt v) = []"
  by (simp add: words_def, cases v) (simp_all add: words_def)

lemma item_legends [simp]:
  "legends_in ks = [] \<Longrightarrow> legends (keyed_item c v ks) = []" "legends_in ks = [] \<Longrightarrow> legends (select_item v ks) = []"
  by (simp_all add: keyed_item_def select_item_def)

lemma filter_select_legends [simp]:
  "legends_in items = [] \<Longrightarrow> concat (map legend_of extra) = [] \<Longrightarrow> legends (filter_select label i v c extra placeholder items) = []"
  by (simp add: filter_select_def cls_def)

lemma slot_val_legend [simp]: "legend_of (k, slot_val c) = []"
  by (cases c) simp_all

lemma num_select_legends: "num_select label i axis v c placeholder f xs fallback = Inr n \<Longrightarrow> legends n = []"
  by (auto simp: num_select_def bindE_eq_Inr num_items_def)

lemma test_groups_legends: "mapE (test_group groups) order = Inr ns \<Longrightarrow> legends_in ns = []"
  by (induction order arbitrary: ns) (auto simp: bindE_eq_Inr test_group_def cls_def split: slot.splits)

lemma filters_column_legends:
  assumes "filters_column o' grouped f stats = Inr n"
  shows "legends n = []"
proof -
  have "legends (cpu_select o' f) = []" "legends (http2_select o' f) = []" "legends (x_axis_select f) = []" "legends (metric_tabs f) = []"
    by (simp_all add: cpu_select_def http2_select_def x_axis_select_def metric_tabs_def metric_tab_def cls_def)
  moreover have "legends_in (summary_view fmt stats) = []" for fmt
    by (simp add: summary_view_def summary_row_def cls_def split: option.split)
  ultimately show ?thesis using assms
    by (auto simp: filters_column_def bindE_eq_Inr cls_def test_case_select_def threads_select_def workers_select_def
        concurrency_select_def dest!: num_select_legends test_groups_legends)
qed

lemma hover_card_legends:
  assumes "hover_card f colors h b = Inr n"
  shows "legends n = []"
proof -
  have "legends (error_view d) = []" for d by (simp add: error_view_def error_row_def cls_def Let_def split_beta)
  then have "legends_in ns = []" if "metrics_view r = Inr ns" for r ns
    using that by (auto simp: metrics_view_def detail_row_def cls_def split: jopt.splits)
  then have "legends m = []" if "item_details f colors i = Inr m" for i m
    using that by (auto simp: item_details_def badge_def cls_def bindE_eq_Inr split: jopt.splits)
  then have "legends m = []" if "hover_body f colors h = Inr m" for m
    using that by (auto simp: hover_body_def cls_def split: option.splits point_val.splits)
  then show ?thesis using assms by (auto simp: hover_card_def cls_def bindE_eq_Inr)
qed

lemma performers_card_legends: "performers_card colors filtered ranking = Inr ns \<Longrightarrow> legends_in ns = []"
  by (auto simp: performers_card_def performer_view_def cls_def split_beta split: if_splits list.splits)

lemma chart_view_legends:
  "set (legends (chart_view platform o' f visible k colors points keys)) \<subseteq> set (fo_servers o')"
  by (auto simp: chart_view_def x_axis_view_def y_axis_view_def bar_view_def hover_bar_view_def legend_view_def cls_def split_beta)

lemma chart_title_legends: "legends (chart_title f) = []"
  by (simp add: chart_title_def cls_def)

lemma render_legends:
  assumes "render lc platform True opts items s = Inr n" "OnLegend srv \<in> set (handlers n)"
  shows "srv \<in> set (fo_servers (options_for opts items (d_filters s)))"
proof -
  obtain visible k colors points keys where
    "legends n = legends (chart_view platform (options_for opts items (d_filters s)) (d_filters s) visible k colors points keys)"
    using assms(1)
    by (auto simp: render_def Let_def bindE_eq_Inr cls_def chart_title_legends filters_column_legends hover_card_legends
        performers_card_legends)
  then show ?thesis using handlers_legends [OF assms(2)] chart_view_legends by (metis subsetD)
qed

section \<open>Complete data\<close>

text \<open>
  Data whose selections a link can carry: every result is well formed, has a test case and a server
  without a comma, and every CPU that is offered has a result.
\<close>

definition linkable_item :: "tagged_result \<Rightarrow> bool" where
  "linkable_item i \<longleftrightarrow> good_item i \<and> truthy_str (test_case i) \<and> truthy_str (server i) \<and> CHR '','' \<notin> set (str_key (server i))"

definition linkable_data :: "filter_options \<Rightarrow> tagged_result list \<Rightarrow> bool" where
  "linkable_data opts items \<longleftrightarrow> list_all linkable_item items \<and> fo_cpus opts \<noteq> [] \<and>
     list_all (\<lambda>c. list_ex (\<lambda>i. cpu i = Val c) items) (fo_cpus opts)"

definition options_of :: "filter_options \<Rightarrow> tagged_result list \<Rightarrow> bool" where
  "options_of opts items \<longleftrightarrow> list_all (\<lambda>s. s \<noteq> []) (fo_cpus opts) \<and> fo_testCases opts = str_options test_case items \<and>
     fo_servers opts = str_options server items \<and> fo_threads opts = num_options threads items \<and>
     fo_workers opts = num_options workers items \<and> fo_concurrencyLevels opts = num_options concurrency items \<and>
     fo_http2Options opts = bool_options items"

lemma allFilterOptions_of:
  "allFilterOptions data = Inr opts \<Longrightarrow> fo_cpus opts \<noteq> [] \<Longrightarrow> options_of opts (flattenedData data)"
  by (auto simp: allFilterOptions_def default_options_def bindE_eq_Inr Let_def options_of_def list_all_iff
      split: jopt.splits list.splits)

lemma positive_wholeE:
  assumes "positive_whole v"
  obtains x where "v = Val x" "num_truthy x" "whole_num (Val x)"
  using assms by (cases v) (auto simp: positive_whole_def whole_num_def num_truthy_def split: jsnum.splits)

lemma linkable_options:
  assumes "list_all linkable_item xs" "xs \<noteq> []"
  shows "str_options test_case xs \<noteq> []" "num_options threads xs \<noteq> []" "num_options workers xs \<noteq> []"
    "num_options concurrency xs \<noteq> []"
proof -
  obtain i where i: "i \<in> set xs" using assms(2) by (cases xs) auto
  then have good: "linkable_item i" using assms(1) by (simp add: list_all_iff)
  have nonempty: "num_options f xs \<noteq> []" if "positive_whole (f i)" for f
    using positive_wholeE [OF that] i set_num_options [of f xs] by (metis (mono_tags, lifting) empty_iff list.set(1) mem_Collect_eq)
  show "num_options threads xs \<noteq> []" "num_options workers xs \<noteq> []" "num_options concurrency xs \<noteq> []"
    using good by (simp_all add: nonempty linkable_item_def good_item_def)
  have "str_key (test_case i) \<in> set (str_options test_case xs)"
    using good i by (cases "test_case i") (auto simp: linkable_item_def)
  then show "str_options test_case xs \<noteq> []" by (metis empty_iff list.set(1))
qed

lemma linkable_truthy:
  assumes "list_all linkable_item xs"
  shows "list_all num_truthy (num_options threads xs)" "list_all num_truthy (num_options workers xs)"
    "list_all num_truthy (num_options concurrency xs)"
  using assms by (auto simp: list_all_iff linkable_item_def good_item_def elim!: positive_wholeE)

lemma linkable_options_ok:
  assumes "linkable_data opts items" "options_of opts items"
  shows "options_ok opts"
proof -
  have items: "list_all linkable_item items" "items \<noteq> []"
    using assms(1) by (auto simp: linkable_data_def list_all_iff list_ex_iff)
  then show ?thesis
    using assms(2) linkable_options [OF items] linkable_truthy [OF items(1)]
    by (auto simp: options_ok_def options_of_def list_all_iff)
qed

text \<open>The options for a test case that the CPU has.\<close>

lemma options_for_ok:
  assumes "linkable_data opts items" "f_testCase f \<in> set (fo_testCases (options_for opts items f))"
  shows "options_ok (options_for opts items f)"
proof -
  let ?cpu = "cpuFilteredData items (f_cpu f)"
  let ?xs = "filter (\<lambda>i. test_case i = Val (f_testCase f)) ?cpu"
  have l: "list_all linkable_item ?cpu" "list_all linkable_item ?xs"
    using assms(1) by (simp_all add: linkable_data_def list_all_iff cpuFilteredData_def)
  have "?xs \<noteq> []" using assms(2) by (auto simp: testCases_for filter_empty_conv)
  moreover from this have "?cpu \<noteq> []" by (metis filter.simps(1))
  ultimately show ?thesis
    using linkable_options [OF l(1)] linkable_options [OF l(2)] linkable_truthy [OF l(2)]
    by (simp add: options_ok_def options_for_def filterOptions_def Let_def list_all_iff)
qed

lemma options_for_subset:
  assumes "options_of opts items"
  shows "set (fo_testCases (options_for opts items f)) \<subseteq> set (fo_testCases opts)"
    "set (fo_threads (options_for opts items f)) \<subseteq> set (fo_threads opts)"
    "set (fo_workers (options_for opts items f)) \<subseteq> set (fo_workers opts)"
    "set (fo_concurrencyLevels (options_for opts items f)) \<subseteq> set (fo_concurrencyLevels opts)"
    "set (fo_servers (options_for opts items f)) \<subseteq> set (fo_servers opts)"
    "set (fo_http2Options (options_for opts items f)) \<subseteq> set (fo_http2Options opts)"
  using assms by (auto simp: options_of_def options_for_def filterOptions_def cpuFilteredData_def Let_def)

lemma cpu_has_tests:
  assumes "linkable_data opts items" "f_cpu f \<in> set (fo_cpus opts)"
  shows "fo_testCases (options_for opts items f) \<noteq> []"
proof -
  have "cpuFilteredData items (f_cpu f) \<noteq> []"
    using assms by (auto simp: linkable_data_def list_all_iff list_ex_iff cpuFilteredData_def filter_empty_conv)
  moreover have "list_all linkable_item (cpuFilteredData items (f_cpu f))"
    using assms(1) by (simp add: linkable_data_def list_all_iff cpuFilteredData_def)
  ultimately show ?thesis unfolding testCases_for by (rule linkable_options(1) [rotated])
qed

section \<open>Sessions select what the data offers\<close>

text \<open>
  The number on the axis is always an option; the others are once the effects have seen the
  selected CPU and test case. Between two repairs they may hold a fallback.
\<close>

definition nums_in :: "filter_options \<Rightarrow> filter_state \<Rightarrow> bool" where
  "nums_in opts f \<longleftrightarrow> includes_num (fo_threads opts) (f_threads f) \<and> includes_num (fo_workers opts) (f_workers f) \<and>
     includes_num (fo_concurrencyLevels opts) (f_concurrency f)"

definition axis_in :: "filter_options \<Rightarrow> filter_state \<Rightarrow> bool" where
  "axis_in opts f \<longleftrightarrow> (f_xAxis f = ''threads'' \<longrightarrow> includes_num (fo_threads opts) (f_threads f)) \<and>
     (f_xAxis f = ''workers'' \<longrightarrow> includes_num (fo_workers opts) (f_workers f)) \<and>
     (f_xAxis f = ''concurrency'' \<longrightarrow> includes_num (fo_concurrencyLevels opts) (f_concurrency f))"

definition names_in :: "filter_options \<Rightarrow> filter_state \<Rightarrow> bool" where
  "names_in opts f \<longleftrightarrow> f_cpu f \<in> set (fo_cpus opts) \<and> f_metric f \<in> set metric_names \<and> f_xAxis f \<in> set x_axes"

definition link_filters :: "filter_options \<Rightarrow> commit_deps \<Rightarrow> filter_state \<Rightarrow> bool" where
  "link_filters opts p f \<longleftrightarrow> names_in opts f \<and> axis_in opts f \<and> (cd_key p = Some (filter_key f) \<longrightarrow> nums_in opts f)"

definition visible_ok :: "filter_options \<Rightarrow> bool jsobj \<Rightarrow> bool" where
  "visible_ok opts visible \<longleftrightarrow> obj_wf visible \<and> fst ` set visible \<subseteq> set (fo_servers opts)"

lemma nums_axis_in: "nums_in opts f \<Longrightarrow> axis_in opts f"
  by (simp add: nums_in_def axis_in_def)

lemma available_in: "available opts f \<Longrightarrow> names_in opts f \<and> nums_in opts f"
  by (simp add: available_def names_in_def nums_in_def)

lemma includes_mono: "includes_num xs v \<Longrightarrow> set xs \<subseteq> set ys \<Longrightarrow> includes_num ys v"
  by (cases v) auto

lemma repair_axis_in: "axis_in opts f \<Longrightarrow> axis_in opts (repair_filters o' f)"
  by (simp add: axis_in_def repair_filters_def)

lemma repair_names_in: "names_in opts f \<Longrightarrow> names_in opts (repair_filters o' f)"
  by (simp add: names_in_def)

lemma repair_test_in:
  assumes "fo_testCases o' \<noteq> []" "list_all (\<lambda>s. s \<noteq> []) (fo_testCases o')"
  shows "f_testCase (repair_filters o' f) \<in> set (fo_testCases o')"
  using first_or_all [OF assms] by (simp add: repair_filters_def)

text \<open>Repairing for the CPU and test case that are then selected gives options of that test case.\<close>

lemma repair_nums_in:
  assumes "linkable_data opts items" "options_of opts items" "names_in opts g" "axis_in opts f"
    and key: "filter_key (repair_filters (options_for opts items g) f) = filter_key g"
  shows "nums_in opts (repair_filters (options_for opts items g) f)"
proof -
  let ?o = "options_for opts items g" and ?f = "repair_filters (options_for opts items g) f"
  have "fo_testCases ?o \<noteq> []" using cpu_has_tests [OF assms(1)] assms(3) by (simp add: names_in_def)
  moreover have "list_all (\<lambda>s. s \<noteq> []) (fo_testCases ?o)" by (simp add: testCases_for list_all_iff)
  ultimately have "f_testCase ?f \<in> set (fo_testCases ?o)" by (rule repair_test_in)
  moreover have "f_testCase ?f = f_testCase g" using key by (simp add: filter_key_def)
  ultimately have "selection_ok ?o ?f" using options_for_ok [OF assms(1), of g] repair_ok by metis
  moreover note repair_axis_in [OF assms(4), of ?o] options_for_subset(2-4) [OF assms(2), of g]
  ultimately show ?thesis
    unfolding selection_ok_def nums_in_def axis_in_def by (meson includes_mono)
qed

lemma run_effects_link:
  assumes data: "linkable_data opts items" "options_of opts items" and f: "link_filters opts p (d_filters s)"
  shows "link_filters opts (snd (run_effects opts items p s)) (d_filters (fst (run_effects opts items p s)))"
proof (cases "cd_key p = Some (filter_key (d_filters s))")
  case True
  then show ?thesis using f by (simp add: run_effects_quiet link_filters_def)
next
  case False
  have ok: "options_ok opts" "list_all (\<lambda>s. s \<noteq> []) (fo_cpus opts)" "fo_cpus opts \<noteq> []"
    using linkable_options_ok [OF data] data by (simp_all add: options_of_def linkable_data_def)
  have load: "names_in opts g \<and> nums_in opts g" if "load_effect opts p w = Some (g, v)" for g v w
    using that validate_options [OF ok(1,3,2)] available_in by (auto simp: load_effect_def split: if_splits)
  obtain g where g: "names_in opts g" "axis_in opts g"
    "d_filters (fst (run_effects opts items p s)) = repair_filters (options_for opts items (d_filters s)) g"
  proof (cases "load_effect opts p (write_effect p s (d_window s))")
    case None
    then show ?thesis using that [of "d_filters s"] f False by (simp add: run_effects_def repair_effect_def link_filters_def Let_def)
  next
    case (Some gv)
    then obtain g v where "load_effect opts p (write_effect p s (d_window s)) = Some (g, v)" by (cases gv) auto
    then show ?thesis using that [of g] load nums_axis_in False by (simp add: run_effects_def repair_effect_def Let_def)
  qed
  moreover have "cd_key (snd (run_effects opts items p s)) = Some (filter_key (d_filters s))" by (simp add: run_effects_def Let_def)
  moreover have "names_in opts (d_filters s)" using f by (simp add: link_filters_def)
  ultimately show ?thesis
    using repair_nums_in [OF data _ g(2)] repair_axis_in [OF g(2)] repair_names_in [OF g(1)] by (auto simp: link_filters_def)
qed

lemma num_choice_in:
  assumes "list_all linkable_item items" "options_of opts items" "field \<in> {threads, workers, concurrency}"
    and "set xs \<subseteq> set (num_options field items)" "xs \<noteq> []" "v \<in> set (num_choices fallback xs)"
  shows "js_parseInt v \<in> set xs"
proof -
  have "\<forall>x\<in>set xs. whole_num (Val x)"
  proof
    fix x
    assume "x \<in> set xs"
    then obtain i where "i \<in> set items" "field i = Val x" using assms(4) by auto
    moreover have "positive_whole (field i)" using assms(1,3) calculation(1) by (auto simp: list_all_iff linkable_item_def good_item_def)
    ultimately show "whole_num (Val x)" by (simp add: positive_whole_def)
  qed
  then show ?thesis using num_events [OF _ assms(5), of fallback] assms(6) by blast
qed

lemma page_choices_control:
  "(SCpu, v) \<in> page_choices o' tests \<longleftrightarrow> v \<in> set (fo_cpus o')"
  "(SThreads, v) \<in> page_choices o' tests \<longleftrightarrow> v \<in> set (num_choices ''1'' (fo_threads o'))"
  "(SWorkers, v) \<in> page_choices o' tests \<longleftrightarrow> v \<in> set (num_choices ''1'' (fo_workers o'))"
  "(SConcurrency, v) \<in> page_choices o' tests \<longleftrightarrow> v \<in> set (num_choices ''10'' (fo_concurrencyLevels o'))"
  "(SXAxis, v) \<in> page_choices o' tests \<longleftrightarrow> v \<in> {''concurrency'', ''threads'', ''workers''}"
  "(SMetric, v) \<in> page_choices o' tests \<longleftrightarrow> v \<in> {''rps'', ''p95_latency'', ''errorRate''}"
  by (auto simp: page_choices_def)

lemma choice_link:
  assumes data: "linkable_data opts items" "options_of opts items"
    and n: "render lc platform True opts items s = Inr n" "(c, v) \<in> set (choices n)"
    and f: "names_in opts (d_filters s)" "nums_in opts (d_filters s)" "test_case_ok opts items (d_filters s)"
  shows "\<exists>u. value_event c v = FilterChange u \<and> names_in opts (handleFilterChange u (d_filters s)) \<and>
     nums_in opts (handleFilterChange u (d_filters s))"
proof -
  let ?o = "options_for opts items (d_filters s)"
  have "fo_testCases ?o \<noteq> []" using cpu_has_tests [OF data(1)] f(1) by (simp add: names_in_def)
  then have "f_testCase (d_filters s) \<in> set (fo_testCases ?o)" using f(3) by (simp add: test_case_ok_def Let_def)
  then have ok: "options_ok ?o" by (rule options_for_ok [OF data(1)])
  have items: "list_all linkable_item items" using data(1) by (simp add: linkable_data_def)
  note sub = options_for_subset [OF data(2), of "d_filters s"]
  have num: "js_parseInt v \<in> set (num_options field items)"
    if "field \<in> {threads, workers, concurrency}" "set xs \<subseteq> set (num_options field items)" "xs \<noteq> []" "v \<in> set (num_choices fb xs)"
    for field xs fb
    using num_choice_in [OF items data(2) that] that(2) by blast
  obtain tests where v: "(c, v) \<in> page_choices ?o tests" using render_choices [OF n(1)] n(2) by auto
  have cpus: "fo_cpus ?o = fo_cpus opts" by (simp add: options_for_def filterOptions_def Let_def)
  have fields: "fo_threads opts = num_options threads items" "fo_workers opts = num_options workers items"
    "fo_concurrencyLevels opts = num_options concurrency items" using data(2) by (simp_all add: options_of_def)
  have ne: "fo_threads ?o \<noteq> []" "fo_workers ?o \<noteq> []" "fo_concurrencyLevels ?o \<noteq> []" using ok by (simp_all add: options_ok_def)
  have nums: "c = SThreads \<Longrightarrow> js_parseInt v \<in> set (fo_threads opts)" "c = SWorkers \<Longrightarrow> js_parseInt v \<in> set (fo_workers opts)"
    "c = SConcurrency \<Longrightarrow> js_parseInt v \<in> set (fo_concurrencyLevels opts)"
    using num [OF _ sub(2) [unfolded fields] ne(1)] num [OF _ sub(3) [unfolded fields] ne(2)] num [OF _ sub(4) [unfolded fields] ne(3)] v
    unfolding fields by (simp_all add: page_choices_control del: set_num_options)
  have names: "c = SCpu \<Longrightarrow> v \<in> set (fo_cpus opts)" "c = SXAxis \<Longrightarrow> v \<in> set x_axes" "c = SMetric \<Longrightarrow> v \<in> set metric_names"
    using v by (auto simp: page_choices_control cpus x_axes_def metric_names_def)
  show ?thesis using nums names f(1,2) by (cases c) (simp_all add: names_in_def nums_in_def)
qed

lemma fst_set_fill: "fst ` set (fill_visible servers g m) \<subseteq> fst ` set m \<union> set servers"
proof -
  have "fst ` set (foldl (\<lambda>m s. obj_set m s (g s)) m servers) \<subseteq> fst ` set m \<union> set servers" for m
  proof (induction servers arbitrary: m)
    case (Cons s servers)
    have "fst ` set (obj_set m s (g s)) \<subseteq> insert s (fst ` set m)" unfolding obj_set_def by simp blast
    then show ?case using Cons [of "obj_set m s (g s)"] unfolding foldl.simps list.set by blast
  qed simp
  then show ?thesis by (simp add: fill_visible_def)
qed

lemma fill_visible_ok: "visible_ok opts m \<Longrightarrow> visible_ok opts (fill_visible (fo_servers opts) g m)"
  using fst_set_fill [of "fo_servers opts" g m] obj.wf_fill [of m g "fo_servers opts"]
  by (auto simp: visible_ok_def fill_visible_def)

lemma visible_from_url_ok: "visible_ok opts (visible_from_url (fo_servers opts) u)"
proof -
  have "visible_ok opts []" by (simp add: visible_ok_def obj_wf_def)
  then show ?thesis by (simp add: visible_from_url_def fill_visible_ok Let_def split: option.split)
qed

lemma linkable_servers:
  assumes "linkable_data opts items" "options_of opts items" "srv \<in> set (fo_servers opts)"
  shows "plain_key srv" "srv \<noteq> []" "CHR '','' \<notin> set srv"
proof -
  obtain i where i: "i \<in> set items" "server i = Val srv" "srv \<noteq> []" using assms(2,3) by (auto simp: options_of_def)
  then have "linkable_item i" using assms(1) by (simp add: linkable_data_def list_all_iff)
  then show "plain_key srv" "srv \<noteq> []" "CHR '','' \<notin> set srv"
    using i by (auto simp: linkable_item_def good_item_def measurable_def)
qed

lemma legend_click_ok:
  assumes "visible_ok opts prev" "srv \<in> set (fo_servers opts)" "plain_key srv"
  shows "visible_ok opts (handleLegendClick (fo_servers opts) srv ex prev)"
proof -
  have "visible_ok opts []" by (simp add: visible_ok_def obj_wf_def)
  moreover have "srv \<noteq> ''__proto__''" using assms(3) by (auto simp: plain_key_def proto_names_def)
  then have "visible_ok opts (upd srv b prev)" for b
    using assms(1,2) obj.wf_put [of prev srv b] by (auto simp: visible_ok_def obj_set_def)
  ultimately show ?thesis by (simp add: handleLegendClick_def fill_visible_ok)
qed

lemma event_link:
  assumes data: "linkable_data opts items" "options_of opts items"
    and n: "render lc platform True opts items s = Inr n" "raises n e"
    and f: "names_in opts (d_filters s)" "nums_in opts (d_filters s)" "test_case_ok opts items (d_filters s)" "visible_ok opts (d_visible s)"
  shows "names_in opts (d_filters (fst (on_event opts e s))) \<and> nums_in opts (d_filters (fst (on_event opts e s))) \<and>
     visible_ok opts (d_visible (fst (on_event opts e s)))"
  using n(2)
proof cases
  case (choose c v)
  then show ?thesis using choice_link [OF data n(1) _ f(1-3), of c v] f(4) by auto
next
  case (legend srv ctrl)
  have "srv \<in> set (fo_servers opts)" using render_legends [OF n(1) legend(2)] options_for_subset(5) [OF data(2)] by blast
  then show ?thesis using legend(1) f legend_click_ok [OF f(4)] linkable_servers(1) [OF data] by simp
next
  case (zero_bar k p)
  then show ?thesis using f zero_bar_over_cases [OF zero_bar(3)] by (simp add: bar_over_def)
qed (use f in \<open>simp_all add: bar_over_def\<close>)

text \<open>When nothing is left to do, the effects have seen the selected CPU and test case.\<close>

lemma session_quiet_key:
  "session lc platform opts items win s p \<Longrightarrow> quiet p \<Longrightarrow> cd_key p = Some (filter_key (d_filters s))"
proof (induction rule: session.induct)
  case (session_commit s p s' p')
  show ?case
  proof (cases "cd_key p = Some (filter_key (d_filters s))")
    case True
    have "d_filters s' = d_filters s" "cd_key p' = Some (filter_key (d_filters s))"
      using session_commit.hyps(2) unfolding run_effects_quiet [OF True] by (auto simp: prod_eq_iff)
    then show ?thesis by simp
  next
    case False
    then have "cd_filters (snd (run_effects opts items p s))" by (simp add: run_effects_def repair_effect_def Let_def)
    then show ?thesis using session_commit.hyps(2) session_commit.prems by (simp add: quiet_def)
  qed
next
  case (session_event s p n e s' chgF chgV)
  from session_event.hyps(5) session_event.prems show ?case by (cases e) (auto simp: quiet_def)
qed (simp add: quiet_def)

text \<open>What holds in every state of a session over complete data.\<close>

lemma session_link_inv:
  assumes data: "linkable_data opts items" "options_of opts items" and s: "session lc platform opts items win s p"
  shows "link_filters opts p (d_filters s) \<and> visible_ok opts (d_visible s) \<and> test_case_inv opts items p s"
  using s
proof induction
  case session_start
  have ok: "options_ok opts" "list_all (\<lambda>s. s \<noteq> []) (fo_cpus opts)" "fo_cpus opts \<noteq> []"
    using linkable_options_ok [OF data] data by (simp_all add: options_of_def linkable_data_def)
  have "available opts (initial_filters opts win)"
    using validate_options [OF ok(1,3,2)] default_options_available [OF ok(1,3,2)] by (simp add: initial_filters_def split: option.split)
  then show ?case
    using available_in nums_axis_in
    by (auto simp: initial_dash_def link_filters_def initial_visibleServers_def visible_from_url_ok test_case_inv_def)
next
  case (session_commit s p s' p')
  have "visible_ok opts (d_visible (fst (run_effects opts items p s)))"
    using session_commit.IH by (auto simp: run_effects_def Let_def load_effect_def visible_from_url_ok split: option.splits if_splits)
  then show ?case
    using session_commit run_effects_link [OF data, of p s] test_case_inv_step [of opts items p s] by auto
next
  case (session_event s p n e s' chgF chgV)
  have key: "cd_key p = Some (filter_key (d_filters s))" using session_quiet_key session_event.hyps(1,2) by blast
  have pre: "names_in opts (d_filters s)" "nums_in opts (d_filters s)" "test_case_ok opts items (d_filters s)"
    "visible_ok opts (d_visible s)"
    using session_event.IH key by (simp_all add: link_filters_def test_case_inv_def)
  have "names_in opts (d_filters s') \<and> nums_in opts (d_filters s') \<and> visible_ok opts (d_visible s')"
    using event_link [OF data session_event.hyps(3,4) pre(1-4)] session_event.hyps(5) by simp
  then show ?case
    using event_test_case_inv [OF pre(3) session_event.hyps(5)] nums_axis_in
    by (simp add: link_filters_def)
qed

lemma visible_servers_for_url:
  assumes "visible_ok opts visible" "srv \<in> set (visibleServersForUrl visible)"
  shows "srv \<in> set (fo_servers opts)"
proof -
  have "srv \<in> set (obj_keys visible)" using assms(2) by (simp add: visibleServersForUrl_def)
  then have "map_of visible srv \<noteq> None"
    using assms(1) obj.keys_iff [of visible srv] by (auto simp: visible_ok_def obj_get_def split: option.splits if_splits)
  then have "srv \<in> fst ` set visible" by (simp add: map_of_eq_None_iff)
  then show ?thesis using assms(1) by (auto simp: visible_ok_def)
qed

lemma nums_in_whole:
  assumes "linkable_data opts items" "options_of opts items" "nums_in opts f"
  shows "whole_num (f_threads f)" "whole_num (f_workers f)" "whole_num (f_concurrency f)"
proof -
  have w: "whole_num (field i)" if "i \<in> set items" "field \<in> {threads, workers, concurrency}" for field i
    using assms(1) that by (auto simp: linkable_data_def list_all_iff linkable_item_def good_item_def positive_whole_def)
  have "whole_num v" if "includes_num (num_options field items) v" "field \<in> {threads, workers, concurrency}" for field v
    using that(1)
  proof (rule includes_numE)
    fix x assume "v = Val x" "x \<in> set (num_options field items)"
    then show "whole_num v" using w [OF _ that(2)] by force
  qed
  then show "whole_num (f_threads f)" "whole_num (f_workers f)" "whole_num (f_concurrency f)"
    using assms(2,3) unfolding nums_in_def options_of_def by auto
qed

lemma session_available:
  assumes data: "linkable_data opts items" "options_of opts items" and s: "session lc platform opts items win s p" "quiet p"
    and settled: "selection_settled opts items s"
  shows "available opts (shown_filters s)" "shareable (shown_filters s)"
proof -
  let ?f = "d_filters s" and ?o = "options_for opts items (d_filters s)"
  note inv = session_link_inv [OF data s(1)] and key = session_quiet_key [OF s]
  have f: "names_in opts ?f" "nums_in opts ?f" "test_case_ok opts items ?f" "visible_ok opts (d_visible s)"
    using inv key by (simp_all add: link_filters_def test_case_inv_def)
  have "fo_testCases ?o \<noteq> []" using cpu_has_tests [OF data(1)] f(1) by (simp add: names_in_def)
  then have t: "f_testCase ?f \<in> set (fo_testCases ?o)" using f(3) by (simp add: test_case_ok_def Let_def)
  have "selection_ok ?o ?f"
    using repair_ok [OF options_for_ok [OF data(1) t], of ?f] settled by (simp add: selection_settled_def)
  then have "f_http2 ?f \<in> set (fo_http2Options opts)" using options_for_subset(6) [OF data(2)] by (auto simp: selection_ok_def)
  moreover have servers: "\<forall>srv\<in>set (visibleServersForUrl (d_visible s)). srv \<in> set (fo_servers opts)"
    using visible_servers_for_url [OF f(4)] by blast
  moreover have "f_testCase ?f \<in> set (fo_testCases opts)" using t options_for_subset(1) [OF data(2)] by blast
  ultimately show "available opts (shown_filters s)"
    using f(1,2) by (simp add: available_def names_in_def nums_in_def shown_filters_def list_all_iff)
  have "f_cpu ?f \<noteq> []" using f(1) data(2) by (auto simp: names_in_def options_of_def list_all_iff)
  moreover have "f_xAxis ?f \<noteq> []" "f_metric ?f \<noteq> []" using f(1) by (auto simp: names_in_def x_axes_def metric_names_def)
  ultimately show "shareable (shown_filters s)"
    using nums_in_whole [OF data f(2)] testCases_ne [OF t] servers linkable_servers(2,3) [OF data]
    by (simp add: shareable_def shown_filters_def list_all_iff)
qed

section \<open>What the page depends on\<close>

text \<open>The list of servers in the filter state is written to the link only; the page does not read it.\<close>

lemma visibleServers_unread [simp]:
  "keep_item (f\<lparr>f_visibleServers := vs\<rparr>) = keep_item f"
  "data_key (f\<lparr>f_visibleServers := vs\<rparr>) = data_key f"
  "chart_title (f\<lparr>f_visibleServers := vs\<rparr>) = chart_title f"
  "x_axis_view (f\<lparr>f_visibleServers := vs\<rparr>) = x_axis_view f"
  "y_axis_view (f\<lparr>f_visibleServers := vs\<rparr>) = y_axis_view f"
  by (simp_all add: fun_eq_iff keep_item_def data_key_def chart_title_def x_axis_view_def y_axis_view_def)

lemma visibleServers_unread2 [simp]:
  "filteredData items (f\<lparr>f_visibleServers := vs\<rparr>) = filteredData items f"
  "add_to_point (f\<lparr>f_visibleServers := vs\<rparr>) visible = add_to_point f visible"
  "server_keys (f\<lparr>f_visibleServers := vs\<rparr>) visible filtered = server_keys f visible filtered"
  "filters_column o' grouped (f\<lparr>f_visibleServers := vs\<rparr>) stats = filters_column o' grouped f stats"
  "chart_view platform o' (f\<lparr>f_visibleServers := vs\<rparr>) visible k colors points keys = chart_view platform o' f visible k colors points keys"
  by (simp_all add: fun_eq_iff filteredData_def add_to_point_def server_keys_def chart_view_def filters_column_def
      cpu_select_def test_case_select_def threads_select_def workers_select_def concurrency_select_def num_select_def
      http2_select_def x_axis_select_def metric_tabs_def)

lemma visibleServers_unread3 [simp]:
  "chartData lc items (f\<lparr>f_visibleServers := vs\<rparr>) visible = chartData lc items f visible"
  "visibleDataKeys servers (f\<lparr>f_visibleServers := vs\<rparr>) visible filtered = visibleDataKeys servers f visible filtered"
  "topPerformers items (f\<lparr>f_visibleServers := vs\<rparr>) filtered = topPerformers items f filtered"
  "hover_card (f\<lparr>f_visibleServers := vs\<rparr>) colors h b = hover_card f colors h b"
proof -
  have "build_point (f\<lparr>f_visibleServers := vs\<rparr>) visible = build_point f visible" by (simp add: fun_eq_iff build_point_def)
  then show "chartData lc items (f\<lparr>f_visibleServers := vs\<rparr>) visible = chartData lc items f visible" by (simp add: chartData_def)
  have "item_details (f\<lparr>f_visibleServers := vs\<rparr>) colors = item_details f colors" by (simp add: fun_eq_iff item_details_def)
  then have "hover_body (f\<lparr>f_visibleServers := vs\<rparr>) colors h = hover_body f colors h"
    by (simp add: hover_body_def split: option.split point_val.split)
  then show "hover_card (f\<lparr>f_visibleServers := vs\<rparr>) colors h b = hover_card f colors h b" by (simp only: hover_card_def)
qed (simp_all add: visibleDataKeys_def topPerformers_def split: list.split)

text \<open>The visibility table is read for the servers of the data only.\<close>

lemma foldE_cong: "(\<And>x a. x \<in> set xs \<Longrightarrow> g a x = h a x) \<Longrightarrow> foldE g a xs = foldE h a xs"
proof (induction xs arbitrary: a)
  case (Cons x xs)
  then have "g a x = h a x" "foldE g b xs = foldE h b xs" for b by simp_all
  then show ?case by simp
qed simp

lemma mapE_cong: "(\<And>x. x \<in> set xs \<Longrightarrow> g x = h x) \<Longrightarrow> mapE g xs = mapE h xs"
  by (induction xs) simp_all

definition same_visible :: "filter_options \<Rightarrow> bool jsobj \<Rightarrow> bool jsobj \<Rightarrow> bool" where
  "same_visible opts v w \<longleftrightarrow> list_all (\<lambda>srv. truthy_slot (obj_get v srv) = truthy_slot (obj_get w srv)) (fo_servers opts)"

lemma chartData_same_visible:
  assumes data: "linkable_data opts items" "options_of opts items" and f: "f_xAxis f \<in> set x_axes" and vw: "same_visible opts v w"
  shows "chartData lc items f v = chartData lc items f w"
proof -
  let ?key = "\<lambda>i. item_text i (f_xAxis f)"
  have good: "\<forall>i\<in>set (filteredData items f). linkable_item i"
    using data(1) by (simp add: linkable_data_def list_all_iff filteredData_def)
  then have "\<forall>i\<in>set (filteredData items f). chartable f i" using good_item_chartable f by (simp add: linkable_item_def)
  then have "\<forall>i\<in>set (filteredData items f). plain_key (?key i)"
    using item_text_axis [OF f] chartable_axis int_str_plain by metis
  then obtain m where m: "groupedByXAxis (f_xAxis f) (filteredData items f) = Inr m" "grouped_table ?key (filteredData items f) m"
    using foldE_push_group [of "filteredData items f" ?key] unfolding groupedByXAxis_def by blast
  have "str_key (server i) \<in> set (fo_servers opts)" if "i \<in> set (filteredData items f)" for i
    using that good data(2)
    by (cases "server i") (auto simp: linkable_item_def options_of_def filteredData_def)
  then have add: "add_to_point f v p i = add_to_point f w p i" if "i \<in> set (filteredData items f)" for p i
    using that vw by (simp add: add_to_point_def same_visible_def list_all_iff)
  have "build_point f v e = build_point f w e" if "e \<in> set m" for e
    unfolding build_point_def
  proof (rule foldE_cong)
    fix i a
    assume "i \<in> set (snd e)"
    then have "i \<in> set (filteredData items f)" using grouped_table_entry [OF m(2), of "fst e" "snd e"] that by auto
    then show "add_to_point f v a i = add_to_point f w a i" by (rule add)
  qed
  then have "mapE (build_point f v) (obj_entries m) = mapE (build_point f w) (obj_entries m)" by (intro mapE_cong) simp
  then show ?thesis by (simp add: chartData_def m(1))
qed

lemma render_same_visible:
  assumes data: "linkable_data opts items" "options_of opts items" and f: "f_xAxis (d_filters s) \<in> set x_axes"
    and vw: "same_visible opts (d_visible s) w"
  shows "render lc platform True opts items (s\<lparr>d_visible := w\<rparr>) = render lc platform True opts items s"
proof -
  let ?o = "options_for opts items (d_filters s)"
  have srv: "truthy_slot (obj_get (d_visible s) r) = truthy_slot (obj_get w r)" if "r \<in> set (fo_servers ?o)" for r
    using that vw options_for_subset(5) [OF data(2)] by (auto simp: same_visible_def list_all_iff)
  then have "visibleDataKeys (fo_servers ?o) (d_filters s) (d_visible s) filtered = visibleDataKeys (fo_servers ?o) (d_filters s) w filtered" for filtered
    unfolding visibleDataKeys_def by (intro arg_cong [where f = concat] map_cong refl) (simp add: server_keys_def)
  moreover have "map (legend_view platform colors (d_visible s)) (fo_servers ?o) = map (legend_view platform colors w) (fo_servers ?o)" for colors
    by (intro map_cong refl) (simp add: legend_view_def srv)
  then have "chart_view platform ?o (d_filters s) (d_visible s) k colors points keys =
      chart_view platform ?o (d_filters s) w k colors points keys" for k colors points keys
    by (simp add: chart_view_def)
  ultimately show ?thesis
    using chartData_same_visible [OF data f vw, of lc] by (simp add: render_def Let_def)
qed

section \<open>Opening the link\<close>

lemma updateUrlParams_None: "updateUrlParams f win = None \<longleftrightarrow> win = None"
  by (simp add: updateUrlParams_def split: option.split sum.split)

lemma run_effects_window: "d_window (fst (run_effects opts items p s)) = None \<longleftrightarrow> d_window s = None"
  by (simp add: run_effects_def write_effect_def write_visible_effect_def updateUrlParams_None Let_def)

lemma run_effects_no_hover:
  "d_hovered (fst (run_effects opts items p s)) = d_hovered s" "d_activeKey (fst (run_effects opts items p s)) = d_activeKey s"
  by (auto simp: run_effects_def Let_def)

lemma mount_no_hover:
  assumes "mount opts items win = Some s"
  shows "d_hovered s = None" "d_activeKey s = None"
proof -
  let ?I = "\<lambda>p s. d_hovered s = None \<and> d_activeKey s = None"
  have "d_hovered s = None \<and> d_activeKey s = None"
    using settle_invariant [OF assms [unfolded mount_def], of ?I] by (simp add: initial_dash_def run_effects_no_hover)
  then show "d_hovered s = None" "d_activeKey s = None" by simp_all
qed

lemma session_window: "session lc platform opts items win s p \<Longrightarrow> d_window s = None \<longleftrightarrow> win = None"
proof (induction rule: session.induct)
  case (session_commit s p s' p')
  then have "d_window s' = None \<longleftrightarrow> d_window s = None" using run_effects_window [of opts items p s] by simp
  then show ?case using session_commit.IH by simp
next
  case (session_event s p n e s' chgF chgV)
  from session_event.hyps(5) session_event.IH show ?case by (cases e) auto
qed (simp add: initial_dash_def)

lemma render_cong:
  assumes "d_filters s = (d_filters t)\<lparr>f_visibleServers := vs\<rparr>" "d_visible s = d_visible t" "d_hovered s = d_hovered t"
    "d_activeKey s = d_activeKey t"
  shows "render lc platform True opts items s = render lc platform True opts items t"
  by (simp add: render_def assms Let_def)

text \<open>The link of a settled session mounts a dashboard with the same page, except for what the pointer was on.\<close>

lemma link_same_page:
  assumes data: "linkable_data opts items" "options_of opts items" and s: "session lc platform opts items win s p" "quiet p"
    and settled: "selection_settled opts items s" and win: "d_window s = Some l" "visibleServersForUrl (d_visible s) \<noteq> []"
  shows "\<exists>s'. mount opts items (d_window s) = Some s' \<and>
     render lc platform True opts items s' = render lc platform True opts items (s\<lparr>d_hovered := None, d_activeKey := None\<rparr>)"
proof -
  note inv = session_link_inv [OF data s(1)] and avail = session_available [OF data s settled]
  have "url_synced s" "obj_wf (d_visible s)" "f_xAxis (d_filters s) \<in> set x_axes"
    using inv session_synced [OF s] by (simp_all add: visible_ok_def link_filters_def names_in_def)
  moreover have "\<forall>srv\<in>set (fo_servers opts). plain_key srv" using linkable_servers(1) [OF data] by blast
  ultimately obtain s' where s': "mount opts items (d_window s) = Some s'" "d_filters s' = shown_filters s"
    "same_visible opts (d_visible s) (d_visible s')" and axis: "f_xAxis (d_filters s) \<in> set x_axes"
    using reload_restores [OF _ settled win(1) avail(2,1) win(2)] by (auto simp: same_visible_def list_all_iff)
  let ?t = "s\<lparr>d_hovered := None, d_activeKey := None\<rparr>"
  have "render lc platform True opts items s' = render lc platform True opts items (?t\<lparr>d_visible := d_visible s'\<rparr>)"
    by (rule render_cong) (simp_all add: s'(2) shown_filters_def mount_no_hover [OF s'(1)])
  also have "\<dots> = render lc platform True opts items ?t"
    by (rule render_same_visible [OF data]) (simp_all add: axis s'(3))
  finally show ?thesis using s'(1) by blast
qed

end
