(* ===== verification/UI_Aliases.thy ===== *)
theory UI_Aliases
  imports UI_Base
begin

text \<open>
  The components of \<^verbatim>\<open>components/ui\<close> that are a primitive under another name, such as
  \<^verbatim>\<open>const Select = SelectPrimitive.Root\<close>: an element of the component is an element of the primitive,
  with the same props and children.
\<close>

section \<open>Accordion\<close>

definition Accordion :: "('h, 'd) component" where
  "Accordion L ps children = Elem ''AccordionPrimitive.Root'' ps children"

section \<open>Alert dialog\<close>

definition AlertDialog :: "('h, 'd) component" where
  "AlertDialog L ps children = Elem ''AlertDialogPrimitive.Root'' ps children"

definition AlertDialogTrigger :: "('h, 'd) component" where
  "AlertDialogTrigger L ps children = Elem ''AlertDialogPrimitive.Trigger'' ps children"

definition AlertDialogPortal :: "('h, 'd) component" where
  "AlertDialogPortal L ps children = Elem ''AlertDialogPrimitive.Portal'' ps children"

section \<open>Aspect ratio\<close>

definition AspectRatio :: "('h, 'd) component" where
  "AspectRatio L ps children = Elem ''AspectRatioPrimitive.Root'' ps children"

section \<open>Chart\<close>

definition ChartTooltip :: "('h, 'd) component" where
  "ChartTooltip L ps children = Elem ''RechartsPrimitive.Tooltip'' ps children"

definition ChartLegend :: "('h, 'd) component" where
  "ChartLegend L ps children = Elem ''RechartsPrimitive.Legend'' ps children"

section \<open>Collapsible\<close>

definition Collapsible :: "('h, 'd) component" where
  "Collapsible L ps children = Elem ''CollapsiblePrimitive.Root'' ps children"

definition CollapsibleTrigger :: "('h, 'd) component" where
  "CollapsibleTrigger L ps children = Elem ''CollapsiblePrimitive.CollapsibleTrigger'' ps children"

definition CollapsibleContent :: "('h, 'd) component" where
  "CollapsibleContent L ps children = Elem ''CollapsiblePrimitive.CollapsibleContent'' ps children"

section \<open>Context menu\<close>

definition ContextMenu :: "('h, 'd) component" where
  "ContextMenu L ps children = Elem ''ContextMenuPrimitive.Root'' ps children"

definition ContextMenuTrigger :: "('h, 'd) component" where
  "ContextMenuTrigger L ps children = Elem ''ContextMenuPrimitive.Trigger'' ps children"

definition ContextMenuGroup :: "('h, 'd) component" where
  "ContextMenuGroup L ps children = Elem ''ContextMenuPrimitive.Group'' ps children"

definition ContextMenuPortal :: "('h, 'd) component" where
  "ContextMenuPortal L ps children = Elem ''ContextMenuPrimitive.Portal'' ps children"

definition ContextMenuSub :: "('h, 'd) component" where
  "ContextMenuSub L ps children = Elem ''ContextMenuPrimitive.Sub'' ps children"

definition ContextMenuRadioGroup :: "('h, 'd) component" where
  "ContextMenuRadioGroup L ps children = Elem ''ContextMenuPrimitive.RadioGroup'' ps children"

section \<open>Dialog\<close>

definition Dialog :: "('h, 'd) component" where
  "Dialog L ps children = Elem ''DialogPrimitive.Root'' ps children"

definition DialogTrigger :: "('h, 'd) component" where
  "DialogTrigger L ps children = Elem ''DialogPrimitive.Trigger'' ps children"

definition DialogPortal :: "('h, 'd) component" where
  "DialogPortal L ps children = Elem ''DialogPrimitive.Portal'' ps children"

definition DialogClose :: "('h, 'd) component" where
  "DialogClose L ps children = Elem ''DialogPrimitive.Close'' ps children"

section \<open>Drawer\<close>

definition DrawerTrigger :: "('h, 'd) component" where
  "DrawerTrigger L ps children = Elem ''DrawerPrimitive.Trigger'' ps children"

definition DrawerPortal :: "('h, 'd) component" where
  "DrawerPortal L ps children = Elem ''DrawerPrimitive.Portal'' ps children"

definition DrawerClose :: "('h, 'd) component" where
  "DrawerClose L ps children = Elem ''DrawerPrimitive.Close'' ps children"

section \<open>Dropdown menu\<close>

definition DropdownMenu :: "('h, 'd) component" where
  "DropdownMenu L ps children = Elem ''DropdownMenuPrimitive.Root'' ps children"

definition DropdownMenuTrigger :: "('h, 'd) component" where
  "DropdownMenuTrigger L ps children = Elem ''DropdownMenuPrimitive.Trigger'' ps children"

definition DropdownMenuGroup :: "('h, 'd) component" where
  "DropdownMenuGroup L ps children = Elem ''DropdownMenuPrimitive.Group'' ps children"

definition DropdownMenuPortal :: "('h, 'd) component" where
  "DropdownMenuPortal L ps children = Elem ''DropdownMenuPrimitive.Portal'' ps children"

definition DropdownMenuSub :: "('h, 'd) component" where
  "DropdownMenuSub L ps children = Elem ''DropdownMenuPrimitive.Sub'' ps children"

definition DropdownMenuRadioGroup :: "('h, 'd) component" where
  "DropdownMenuRadioGroup L ps children = Elem ''DropdownMenuPrimitive.RadioGroup'' ps children"

section \<open>Form\<close>

definition Form :: "('h, 'd) component" where
  "Form L ps children = Elem ''FormProvider'' ps children"

section \<open>Hover card\<close>

definition HoverCard :: "('h, 'd) component" where
  "HoverCard L ps children = Elem ''HoverCardPrimitive.Root'' ps children"

definition HoverCardTrigger :: "('h, 'd) component" where
  "HoverCardTrigger L ps children = Elem ''HoverCardPrimitive.Trigger'' ps children"

section \<open>Menubar\<close>

definition MenubarMenu :: "('h, 'd) component" where
  "MenubarMenu L ps children = Elem ''MenubarPrimitive.Menu'' ps children"

definition MenubarGroup :: "('h, 'd) component" where
  "MenubarGroup L ps children = Elem ''MenubarPrimitive.Group'' ps children"

definition MenubarPortal :: "('h, 'd) component" where
  "MenubarPortal L ps children = Elem ''MenubarPrimitive.Portal'' ps children"

definition MenubarSub :: "('h, 'd) component" where
  "MenubarSub L ps children = Elem ''MenubarPrimitive.Sub'' ps children"

definition MenubarRadioGroup :: "('h, 'd) component" where
  "MenubarRadioGroup L ps children = Elem ''MenubarPrimitive.RadioGroup'' ps children"

section \<open>Navigation menu\<close>

definition NavigationMenuItem :: "('h, 'd) component" where
  "NavigationMenuItem L ps children = Elem ''NavigationMenuPrimitive.Item'' ps children"

definition NavigationMenuLink :: "('h, 'd) component" where
  "NavigationMenuLink L ps children = Elem ''NavigationMenuPrimitive.Link'' ps children"

section \<open>Popover\<close>

definition Popover :: "('h, 'd) component" where
  "Popover L ps children = Elem ''PopoverPrimitive.Root'' ps children"

definition PopoverTrigger :: "('h, 'd) component" where
  "PopoverTrigger L ps children = Elem ''PopoverPrimitive.Trigger'' ps children"

section \<open>Resizable\<close>

definition ResizablePanel :: "('h, 'd) component" where
  "ResizablePanel L ps children = Elem ''ResizablePrimitive.Panel'' ps children"

section \<open>Select\<close>

definition Select :: "('h, 'd) component" where
  "Select L ps children = Elem ''SelectPrimitive.Root'' ps children"

definition SelectGroup :: "('h, 'd) component" where
  "SelectGroup L ps children = Elem ''SelectPrimitive.Group'' ps children"

definition SelectValue :: "('h, 'd) component" where
  "SelectValue L ps children = Elem ''SelectPrimitive.Value'' ps children"

section \<open>Sheet\<close>

definition Sheet :: "('h, 'd) component" where
  "Sheet L ps children = Elem ''SheetPrimitive.Root'' ps children"

definition SheetTrigger :: "('h, 'd) component" where
  "SheetTrigger L ps children = Elem ''SheetPrimitive.Trigger'' ps children"

definition SheetClose :: "('h, 'd) component" where
  "SheetClose L ps children = Elem ''SheetPrimitive.Close'' ps children"

definition SheetPortal :: "('h, 'd) component" where
  "SheetPortal L ps children = Elem ''SheetPrimitive.Portal'' ps children"

section \<open>Tabs\<close>

definition Tabs :: "('h, 'd) component" where
  "Tabs L ps children = Elem ''TabsPrimitive.Root'' ps children"

section \<open>Toast\<close>

definition ToastProvider :: "('h, 'd) component" where
  "ToastProvider L ps children = Elem ''ToastPrimitives.Provider'' ps children"

section \<open>Tooltip\<close>

definition TooltipProvider :: "('h, 'd) component" where
  "TooltipProvider L ps children = Elem ''TooltipPrimitive.Provider'' ps children"

definition Tooltip :: "('h, 'd) component" where
  "Tooltip L ps children = Elem ''TooltipPrimitive.Root'' ps children"

definition TooltipTrigger :: "('h, 'd) component" where
  "TooltipTrigger L ps children = Elem ''TooltipPrimitive.Trigger'' ps children"

end
