(* ===== verification/Dashboard_Screen.thy ===== *)
theory Dashboard_Screen
  imports Dashboard_Session UI_Aliases UI_Controls UI_Surfaces
begin

text \<open>
  The page on the screen. The tree of the dashboard names components of \<^verbatim>\<open>components/ui\<close>; React calls
  each with its props and renders what it returns. \<open>resolve\<close> does this for the components of a kit,
  \<open>on_screen\<close> for those the dashboard imports. The page that remains has only elements of the DOM, of
  the primitives, of the charts and of the icons, and offers the user what the dashboard's tree does.
\<close>

section \<open>Resolving components\<close>

text \<open>React keeps \<^verbatim>\<open>key\<close> for itself; the other attributes are the props of the component.\<close>

fun resolve :: "(string \<Rightarrow> ('h, 'd) component option) \<Rightarrow> ('h, 'd) class_lib \<Rightarrow> ('h, 'd) vnode \<Rightarrow> ('h, 'd) vnode" where
  "resolve kit L (Text s) = Text s"
| "resolve kit L (Elem t as ks) =
     (case kit t of
        Some c \<Rightarrow> c L (omit [''key''] as) (map (resolve kit L) ks)
      | None \<Rightarrow> Elem t as (map (resolve kit L) ks))"

text \<open>The imports of the dashboard, and the components that \<^verbatim>\<open>SelectContent\<close> uses.\<close>

definition imported :: "(string \<times> ('h, 'd) component) list" where
  "imported =
     [(''Card'', Card), (''CardContent'', CardContent), (''CardHeader'', CardHeader), (''CardTitle'', CardTitle),
      (''Select'', Select), (''SelectContent'', SelectContent), (''SelectItem'', SelectItem), (''SelectTrigger'', SelectTrigger),
      (''SelectValue'', SelectValue), (''SelectGroup'', SelectGroup), (''SelectLabel'', SelectLabel),
      (''Label'', Label), (''Badge'', Badge), (''Tabs'', Tabs), (''TabsList'', TabsList), (''TabsTrigger'', TabsTrigger)]"

definition scroll_buttons :: "(string \<times> ('h, 'd) component) list" where
  "scroll_buttons = [(''SelectScrollUpButton'', SelectScrollUpButton), (''SelectScrollDownButton'', SelectScrollDownButton)]"

definition on_screen :: "('h, 'd) class_lib \<Rightarrow> ('h, 'd) vnode \<Rightarrow> ('h, 'd) vnode" where
  "on_screen L n = resolve (map_of scroll_buttons) L (resolve (map_of imported) L n)"

section \<open>What a page offers\<close>

text \<open>
  The choices of a page, for a given notion of item; with the items of the dashboard's tree they are
  \<open>choices\<close>. The texts are what the page says.
\<close>

definition item_value :: "(string \<Rightarrow> bool) \<Rightarrow> string \<Rightarrow> view_props \<Rightarrow> string list" where
  "item_value item t as = (if item t then case attr as ''value'' of VStr v \<Rightarrow> [v] | _ \<Rightarrow> [] else [])"

fun values_by :: "(string \<Rightarrow> bool) \<Rightarrow> view \<Rightarrow> string list" where
  "values_by item (Text s) = []"
| "values_by item (Elem t as ks) = item_value item t as @ concat (map (values_by item) ks)"

definition offers :: "view_props \<Rightarrow> string list \<Rightarrow> (control \<times> string) list" where
  "offers as vs = (case attr as ''onValueChange'' of VHandler (OnValue c) \<Rightarrow> map (Pair c) vs | _ \<Rightarrow> [])"

fun choices_by :: "(string \<Rightarrow> bool) \<Rightarrow> view \<Rightarrow> (control \<times> string) list" where
  "choices_by item (Text s) = []"
| "choices_by item (Elem t as ks) = offers as (concat (map (values_by item) ks)) @ concat (map (choices_by item) ks)"

fun texts :: "('h, 'd) vnode \<Rightarrow> string list" where
  "texts (Text s) = [s]"
| "texts (Elem t as ks) = concat (map texts ks)"

definition kit_item :: "string \<Rightarrow> bool" where
  "kit_item t \<longleftrightarrow> t = ''SelectItem'' \<or> t = ''TabsTrigger''"

definition primitive_item :: "string \<Rightarrow> bool" where
  "primitive_item t \<longleftrightarrow> t = ''SelectPrimitive.Item'' \<or> t = ''TabsPrimitive.Trigger''"

lemma values_in_each: "concat (map (\<lambda>k. values_in [k]) ks) = values_in ks"
  by (simp add: values_in_def map_concat comp_def) (induction ks; simp)

lemma values_by_kit: "values_by kit_item n = values_in [n]"
proof (induction kit_item n rule: values_by.induct)
  case (2 t as ks)
  then have "concat (map (values_by kit_item) ks) = values_in ks" by (simp add: values_in_each cong: map_cong)
  then show ?case by (simp add: item_value_def kit_item_def)
qed (simp add: values_in_def)

lemma choices_by_kit: "choices_by kit_item n = choices n"
proof (induction kit_item n rule: choices_by.induct)
  case (2 t as ks)
  then have "concat (map (choices_by kit_item) ks) = choices_in ks" by (simp add: choices_in_def cong: map_cong)
  moreover have "concat (map (values_by kit_item) ks) = values_in ks" by (simp add: values_by_kit values_in_each cong: map_cong)
  ultimately show ?case by (simp add: offers_def)
qed simp

section \<open>Props of a component\<close>

definition prop_handlers :: "view_props \<Rightarrow> view_handler list" where
  "prop_handlers as = concat (map (\<lambda>(k, v). case v of VHandler h \<Rightarrow> [h] | _ \<Rightarrow> []) as)"

definition reserved :: "string list" where
  "reserved = [''key'', ''className'', ''variant'', ''position'']"

text \<open>Props whose names differ, with strings for the names the components use themselves.\<close>

definition tidy_props :: "view_props \<Rightarrow> bool" where
  "tidy_props as \<longleftrightarrow> distinct (map fst as) \<and> ''ref'' \<notin> set (map fst as) \<and>
     list_all (\<lambda>(k, v). k \<in> set reserved \<longrightarrow> (\<exists>s. v = VStr s)) as"

lemma handlers_Elem [simp]: "handlers (Elem t as ks) = prop_handlers as @ concat (map handlers ks)"
  by (simp add: handlers_def own_handlers_def prop_handlers_def map_concat comp_def) (induction ks; simp add: handlers_def)

lemma handlers_Text [simp]: "handlers (Text s) = []"
  by (simp add: handlers_def)

lemma prop_handlers_simps [simp]:
  "prop_handlers [] = []" "prop_handlers ((k, VStr s) # as) = prop_handlers as" "prop_handlers ((k, VRef) # as) = prop_handlers as"
  "prop_handlers (as @ bs) = prop_handlers as @ prop_handlers bs"
  by (simp_all add: prop_handlers_def)

lemma upd_fresh: "k \<notin> fst ` set m \<Longrightarrow> upd k v m = m @ [(k, v)]"
  by (induction m) auto

lemma spread_append:
  "distinct (map fst extra) \<Longrightarrow> fst ` set bs \<inter> fst ` set extra = {} \<Longrightarrow> spread bs extra = bs @ extra"
  unfolding spread_def
proof (induction extra arbitrary: bs)
  case (Cons e extra)
  then show ?case using Cons.IH [of "bs @ [e]"] by (cases e) (auto simp: upd_fresh)
qed simp

lemma omit_omit: "omit ks (omit ls as) = omit (ks @ ls) as"
  by (simp add: omit_def conj_commute)

lemma tidy_omit: "tidy_props as \<Longrightarrow> tidy_props (omit ks as)"
  by (auto simp: tidy_props_def omit_def distinct_map_filter list_all_iff)

lemma keys_omit: "fst ` set (omit ks as) = fst ` set as - set ks"
  by (auto simp: omit_def)

lemma outside: "X \<subseteq> insert r S \<Longrightarrow> r \<notin> A \<Longrightarrow> X \<inter> (A - (S \<union> T)) = {}"
  by blast

text \<open>Props merged into the component's own attributes keep the handlers and every name that is not reserved.\<close>

lemma pass_append:
  assumes "tidy_props as" "fst ` set bs \<subseteq> insert ''ref'' (set own)"
  shows "spread bs (omit own (omit [''key''] as)) = bs @ omit (own @ [''key'']) as"
proof -
  have "''ref'' \<notin> fst ` set as" using assms(1) by (simp add: tidy_props_def)
  then have "fst ` set bs \<inter> fst ` set (omit (own @ [''key'']) as) = {}"
    unfolding keys_omit set_append by (rule outside [OF assms(2)])
  then show ?thesis unfolding omit_omit using assms(1) by (intro spread_append) (simp_all add: tidy_props_def)
qed

lemma omit_handlers: "tidy_props as \<Longrightarrow> set own \<subseteq> set reserved \<Longrightarrow> prop_handlers (omit own as) = prop_handlers as"
  by (induction as) (auto simp: tidy_props_def omit_def prop_handlers_def)

lemma attr_append: "attr (bs @ as) k = (if k \<in> fst ` set bs then attr bs k else attr as k)"
  by (auto simp: attr_def map_add_def map_of_eq_None_iff split: option.splits) (metis domI domIff map_of_eq_None_iff option.distinct(1))+

lemma attr_omit: "attr (omit own as) k = (if k \<in> set own then VUndef else attr as k)"
  by (simp add: attr_def map_of_omit)

lemma pass_attr:
  assumes "tidy_props as" "fst ` set bs \<subseteq> insert ''ref'' (set own)" "k \<notin> set reserved" "k \<noteq> ''ref''" "set own \<subseteq> set reserved"
  shows "attr (bs @ omit (own @ [''key'']) as) k = attr as k"
  using assms by (auto simp: attr_append attr_omit reserved_def)

section \<open>Transparent components\<close>

text \<open>
  A component that stands for the element \<open>t\<close> is transparent if what it returns offers the values of
  that element and of its children, with the same handlers, chart data and texts, in the same order.
  A \<open>leaf\<close> is used without children.
\<close>

definition transparent ::
  "bool \<Rightarrow> (string \<Rightarrow> bool) \<Rightarrow> (string \<Rightarrow> bool) \<Rightarrow> string \<Rightarrow> (view_handler, point list) component \<Rightarrow> bool" where
  "transparent leaf item item' t c \<longleftrightarrow> (\<forall>L as ks. tidy_props as \<longrightarrow> (leaf \<longrightarrow> ks = []) \<longrightarrow>
     (let n = c L (omit [''key''] as) ks
      in values_by item' n = item_value item t as @ concat (map (values_by item') ks) \<and>
         choices_by item' n = offers as (concat (map (values_by item') ks)) @ concat (map (choices_by item') ks) \<and>
         handlers n = prop_handlers as @ concat (map handlers ks) \<and>
         charts n = own_charts (Elem t as []) @ concat (map charts ks) \<and>
         texts n = concat (map texts ks)))"

lemma transparentD:
  assumes "transparent leaf item item' t c" "tidy_props as" "leaf \<longrightarrow> ks = []"
  shows "values_by item' (c L (omit [''key''] as) ks) = item_value item t as @ concat (map (values_by item') ks)"
    "choices_by item' (c L (omit [''key''] as) ks) =
       offers as (concat (map (values_by item') ks)) @ concat (map (choices_by item') ks)"
    "handlers (c L (omit [''key''] as) ks) = prop_handlers as @ concat (map handlers ks)"
    "charts (c L (omit [''key''] as) ks) = own_charts (Elem t as []) @ concat (map charts ks)"
    "texts (c L (omit [''key''] as) ks) = concat (map texts ks)"
  using assms unfolding transparent_def Let_def by blast+

text \<open>
  The common shape: one element with the merged props, whose children are those of the caller in
  silent surroundings.
\<close>

definition silent :: "view list \<Rightarrow> view list \<Rightarrow> bool" where
  "silent ns ks \<longleftrightarrow>
     (\<forall>item. concat (map (values_by item) ns) = concat (map (values_by item) ks)) \<and>
     (\<forall>item. concat (map (choices_by item) ns) = concat (map (choices_by item) ks)) \<and>
     concat (map handlers ns) = concat (map handlers ks) \<and> concat (map charts ns) = concat (map charts ks) \<and>
     concat (map texts ns) = concat (map texts ks)"

lemma transparent_pass:
  assumes c: "\<And>L ps ks. c L ps ks = Elem t' (spread (bs L ps) (omit own ps)) (ns L ps ks)"
    and bs: "\<And>L ps. fst ` set (bs L ps) \<subseteq> insert ''ref'' (set own)" "\<And>L ps. tidy_props ps \<Longrightarrow> prop_handlers (bs L ps) = []"
    and ns: "\<And>L ps ks. leaf \<longrightarrow> ks = [] \<Longrightarrow> silent (ns L ps ks) ks" and own: "set own \<subseteq> set reserved" and item: "item' t' = item t"
  shows "transparent leaf item item' t c"
  unfolding transparent_def Let_def
proof (intro allI impI)
  fix L as and ks :: "view list"
  assume tidy: "tidy_props as" and leaf: "leaf \<longrightarrow> ks = []"
  let ?bs = "bs L (omit [''key''] as)"
  note attrs = pass_attr [OF tidy bs(1) _ _ own]
  have "prop_handlers (omit (own @ [''key'']) as) = prop_handlers as"
    using own by (intro omit_handlers [OF tidy]) (simp add: reserved_def)
  moreover have "attr (?bs @ omit (own @ [''key'']) as) ''value'' = attr as ''value''"
    "attr (?bs @ omit (own @ [''key'']) as) ''onValueChange'' = attr as ''onValueChange''"
    "attr (?bs @ omit (own @ [''key'']) as) ''data'' = attr as ''data''"
    by (rule attrs; simp add: reserved_def)+
  ultimately show "values_by item' (c L (omit [''key''] as) ks) = item_value item t as @ concat (map (values_by item') ks) \<and>
     choices_by item' (c L (omit [''key''] as) ks) =
       offers as (concat (map (values_by item') ks)) @ concat (map (choices_by item') ks) \<and>
     handlers (c L (omit [''key''] as) ks) = prop_handlers as @ concat (map handlers ks) \<and>
     charts (c L (omit [''key''] as) ks) = own_charts (Elem t as []) @ concat (map charts ks) \<and>
     texts (c L (omit [''key''] as) ks) = concat (map texts ks)"
    using ns [OF leaf, of L "omit [''key''] as"] bs(2) [OF tidy_omit [OF tidy], of L "[''key'']"] item
    unfolding c pass_append [OF tidy bs(1)] silent_def charts_Elem charts_in_def
    by (simp add: item_value_def offers_def)
qed

lemma silent_same [simp]: "silent ks ks"
  by (simp add: silent_def)

lemma transparent_styled:
  assumes "\<And>L ps ks. c L ps ks = styled L t' [] classes ps ks" "item' t' = item t"
  shows "transparent leaf item item' t c"
  by (rule transparent_pass [OF assms(1) [unfolded styled_def]]) (simp_all add: assms(2) reserved_def)

lemma transparent_alias:
  assumes "\<And>L ps ks. c L ps ks = Elem t' ps ks" "item' t' = item t"
  shows "transparent leaf item item' t c"
  using assms(2)
  by (simp add: transparent_def Let_def assms(1) attr_omit item_value_def offers_def charts_in_def omit_handlers reserved_def)

lemma transparent_wrap:
  assumes "transparent leaf item item' t c" "\<And>L ps ks. d L ps ks = Elem p [] [c L ps ks]" "\<not> item' p"
  shows "transparent leaf item item' t d"
  using assms(1,3) by (simp add: transparent_def Let_def assms(2) item_value_def offers_def)

section \<open>The components of the dashboard are transparent\<close>

lemma card_transparent:
  "transparent False kit_item primitive_item ''Card'' Card" "transparent False kit_item primitive_item ''CardContent'' CardContent"
  "transparent False kit_item primitive_item ''CardHeader'' CardHeader" "transparent False kit_item primitive_item ''CardTitle'' CardTitle"
  "transparent False kit_item primitive_item ''SelectLabel'' SelectLabel" "transparent False kit_item primitive_item ''TabsList'' TabsList"
  "transparent False kit_item primitive_item ''TabsTrigger'' TabsTrigger"
  by (rule transparent_styled, rule Card_def CardContent_def CardHeader_def CardTitle_def SelectLabel_def TabsList_def TabsTrigger_def,
      simp add: kit_item_def primitive_item_def)+

lemma alias_transparent:
  "transparent False kit_item primitive_item ''Select'' Select" "transparent False kit_item primitive_item ''SelectValue'' SelectValue"
  "transparent False kit_item primitive_item ''SelectGroup'' SelectGroup" "transparent False kit_item primitive_item ''Tabs'' Tabs"
  by (rule transparent_alias, rule Select_def SelectValue_def SelectGroup_def Tabs_def, simp add: kit_item_def primitive_item_def)+

lemma silent_parts [simp]:
  "silent [Elem p [(''className'', VStr a)] [Elem q [] [Elem r [(''className'', VStr b)] []]], Elem t [] ks] ks"
  "silent (ks @ [Elem p [(''asChild'', VBool True)] [Elem q [(''className'', VStr b)] []]]) ks"
  "silent [Elem p [] [], Elem q [(''className'', VStr a)] ks, Elem r [] []] ks"
  "silent [Elem p [(''className'', VStr a)] []] []"
  by (simp_all add: silent_def item_value_def offers_def charts_in_def prop_handlers_def)

lemma part_transparent:
  "transparent False kit_item primitive_item ''Label'' Label" "transparent False kit_item primitive_item ''Badge'' Badge"
  "transparent False kit_item primitive_item ''SelectItem'' SelectItem" "transparent False kit_item primitive_item ''SelectTrigger'' SelectTrigger"
  by (rule transparent_pass, rule Label_def [unfolded Let_def] Badge_def [unfolded Let_def] SelectItem_def [unfolded Let_def]
      SelectTrigger_def [unfolded Let_def], simp_all add: reserved_def kit_item_def primitive_item_def)+

lemma tidy_reserved:
  assumes "tidy_props ps" "k \<in> set reserved"
  shows "\<exists>s. attr_or ps k (VStr d) = VStr s"
proof (cases "map_of ps k")
  case (Some v)
  have "(k, v) \<in> set ps" using map_of_SomeD [OF Some] .
  then obtain s where "v = VStr s" using assms by (auto simp: tidy_props_def list_all_iff)
  then show ?thesis using Some by (simp add: attr_or_def attr_def)
qed (simp add: attr_or_def attr_def)

lemma SelectContent_transparent: "transparent False kit_item primitive_item ''SelectContent'' SelectContent"
proof (rule transparent_wrap [OF _ SelectContent_def [unfolded Let_def]], rule transparent_pass, rule refl)
  fix L :: "(view_handler, point list) class_lib" and ps :: view_props
  assume "tidy_props ps"
  then obtain s where "attr_or ps ''position'' (VStr ''popper'') = VStr s" using tidy_reserved [of ps] by (auto simp: reserved_def)
  then show "prop_handlers [(''ref'', VRef), (''className'', VStr c), (''position'', attr_or ps ''position'' (VStr ''popper''))] = []" for c
    by simp
qed (simp_all add: reserved_def kit_item_def primitive_item_def)

lemma scroll_button_transparent:
  "transparent True primitive_item primitive_item ''SelectScrollUpButton'' SelectScrollUpButton"
  "transparent True primitive_item primitive_item ''SelectScrollDownButton'' SelectScrollDownButton"
  by (rule transparent_pass, rule SelectScrollUpButton_def [unfolded Let_def] SelectScrollDownButton_def [unfolded Let_def],
      simp_all add: reserved_def primitive_item_def)+

section \<open>A kit of transparent components\<close>

text \<open>A page uses a kit well if its components have tidy props and no element has a foreign name.\<close>

fun used_well :: "(string \<Rightarrow> (view_handler, point list) component option) \<Rightarrow> bool \<Rightarrow> string list \<Rightarrow> view \<Rightarrow> bool" where
  "used_well kit leaf foreign (Text s) \<longleftrightarrow> True"
| "used_well kit leaf foreign (Elem t as ks) \<longleftrightarrow>
     (kit t \<noteq> None \<longrightarrow> tidy_props as \<and> (leaf \<longrightarrow> ks = [])) \<and> t \<notin> set foreign \<and> list_all (used_well kit leaf foreign) ks"

locale transparent_kit =
  fixes kit :: "string \<Rightarrow> (view_handler, point list) component option" and leaf :: bool and foreign :: "string list"
    and item item' :: "string \<Rightarrow> bool"
  assumes components: "kit t = Some c \<Longrightarrow> transparent leaf item item' t c"
    and others: "kit t = None \<Longrightarrow> t \<notin> set foreign \<Longrightarrow> item' t = item t"
begin

lemma resolve_same:
  "used_well kit leaf foreign n \<Longrightarrow>
     values_by item' (resolve kit L n) = values_by item n \<and> choices_by item' (resolve kit L n) = choices_by item n \<and>
     handlers (resolve kit L n) = handlers n \<and> charts (resolve kit L n) = charts n \<and> texts (resolve kit L n) = texts n"
proof (induction n rule: elems.induct)
  case (2 t as ks)
  let ?ks = "map (resolve kit L) ks"
  have each: "used_well kit leaf foreign k" if "k \<in> set ks" for k using 2(2) that by (simp add: list_all_iff)
  have kids: "concat (map (values_by item') ?ks) = concat (map (values_by item) ks)"
    "concat (map (choices_by item') ?ks) = concat (map (choices_by item) ks)"
    "concat (map handlers ?ks) = concat (map handlers ks)" "concat (map charts ?ks) = concat (map charts ks)"
    "concat (map texts ?ks) = concat (map texts ks)"
    using 2(1) each by (simp_all add: comp_def cong: map_cong)
  show ?case
  proof (cases "kit t")
    case None
    then have "item' t = item t" using others 2(2) by simp
    then show ?thesis using None kids by (simp add: item_value_def charts_in_def del: map_map)
  next
    case (Some c)
    have tidy: "tidy_props as" "leaf \<longrightarrow> ?ks = []" using 2(2) Some by simp_all
    show ?thesis using transparentD [OF components [OF Some] tidy, of L] Some kids by (simp add: charts_in_def del: map_map)
  qed
qed simp

end

text \<open>The names that the tree of the dashboard must not use.\<close>

definition foreign_names :: "string list" where
  "foreign_names = [''SelectPrimitive.Item'', ''TabsPrimitive.Trigger'', ''SelectScrollUpButton'', ''SelectScrollDownButton'']"

lemma imported_transparent: "list_all (\<lambda>(t, c). transparent False kit_item primitive_item t c) imported"
  by (simp add: imported_def card_transparent alias_transparent part_transparent SelectContent_transparent)

lemma scroll_buttons_transparent: "list_all (\<lambda>(t, c). transparent True primitive_item primitive_item t c) scroll_buttons"
  by (simp add: scroll_buttons_def scroll_button_transparent)

interpretation dashboard_kit: transparent_kit "map_of imported" False foreign_names kit_item primitive_item
proof
  fix t c
  show "transparent False kit_item primitive_item t c" if "map_of imported t = Some c"
    using imported_transparent map_of_SomeD [OF that] unfolding list_all_iff by blast
  show "primitive_item t = kit_item t" if "map_of imported t = None" "t \<notin> set foreign_names"
  proof -
    have "map_of imported ''SelectItem'' \<noteq> None" "map_of imported ''TabsTrigger'' \<noteq> None" by (simp_all add: imported_def)
    then have "t \<noteq> ''SelectItem''" "t \<noteq> ''TabsTrigger''" using that(1) by metis+
    then show ?thesis using that(2) by (simp add: primitive_item_def kit_item_def foreign_names_def)
  qed
qed

interpretation select_kit: transparent_kit "map_of scroll_buttons" True "[]" primitive_item primitive_item
proof
  fix t c
  show "transparent True primitive_item primitive_item t c" if "map_of scroll_buttons t = Some c"
    using scroll_buttons_transparent map_of_SomeD [OF that] unfolding list_all_iff by blast
qed simp

section \<open>The elements that remain\<close>

fun tags :: "('h, 'd) vnode \<Rightarrow> string list" where
  "tags (Text s) = []"
| "tags (Elem t as ks) = t # concat (map tags ks)"

text \<open>What holds of every component's output and of every other element holds of the resolved page.\<close>

lemma resolve_all:
  assumes "\<And>t c L ps ks. kit t = Some c \<Longrightarrow> list_all P ks \<Longrightarrow> P (c L ps ks)"
    and "\<And>t as ks. kit t = None \<Longrightarrow> R t \<Longrightarrow> list_all P ks \<Longrightarrow> P (Elem t as ks)" "\<And>s. P (Text s)"
  shows "list_all R (tags n) \<Longrightarrow> P (resolve kit L n)"
proof (induction n rule: elems.induct)
  case (2 t as ks)
  then have "list_all P (map (resolve kit L) ks)" by (auto simp: list_all_iff)
  then show ?case using assms(1,2) 2(2) by (cases "kit t") simp_all
qed (simp add: assms(3))

definition resolved_tag :: "string \<Rightarrow> bool" where
  "resolved_tag t \<longleftrightarrow> t \<notin> set (map fst (imported :: (string \<times> (view_handler, point list) component) list))"

definition on_screen_tag :: "string \<Rightarrow> bool" where
  "on_screen_tag t \<longleftrightarrow> resolved_tag t \<and> t \<notin> {''SelectScrollUpButton'', ''SelectScrollDownButton''}"

lemmas imported_components = Card_def CardContent_def CardHeader_def CardTitle_def Select_def SelectContent_def SelectItem_def
  SelectTrigger_def SelectValue_def SelectGroup_def SelectLabel_def Label_def Badge_def Tabs_def TabsList_def TabsTrigger_def
  styled_def Let_def

lemma list_all_concat_map: "list_all P (concat (map f xs)) \<longleftrightarrow> list_all (\<lambda>x. list_all P (f x)) xs"
  by (induction xs) simp_all

lemma imported_tags:
  "list_all (\<lambda>(t, c). \<forall>L ps ks. list_all (\<lambda>k. list_all resolved_tag (tags k)) ks \<longrightarrow>
     list_all resolved_tag (tags (c L ps ks :: view))) imported"
  unfolding imported_def by (simp add: imported_components list_all_concat_map) (simp add: resolved_tag_def imported_def)

lemma resolved_tags: "list_all resolved_tag (tags (resolve (map_of imported) L n :: view))"
proof (rule resolve_all [where P = "\<lambda>n. list_all resolved_tag (tags n)" and R = "\<lambda>_. True"])
  fix t L ps and ks :: "view list" and c :: "(view_handler, point list) component"
  assume "map_of imported t = Some c" "list_all (\<lambda>k. list_all resolved_tag (tags k)) ks"
  then show "list_all resolved_tag (tags (c L ps ks :: view))"
    using imported_tags map_of_SomeD [of imported t c] unfolding list_all_iff by blast
next
  fix t as and ks :: "view list"
  assume "map_of imported t = (None :: (view_handler, point list) component option)" "list_all (\<lambda>k. list_all resolved_tag (tags k)) ks"
  then show "list_all resolved_tag (tags (Elem t as ks))"
    by (simp add: resolved_tag_def list_all_concat_map map_of_eq_None_iff)
qed (simp_all add: list_all_iff)

lemma on_screen_tags: "list_all on_screen_tag (tags (on_screen L n :: view))"
  unfolding on_screen_def
proof (rule resolve_all [where P = "\<lambda>n. list_all on_screen_tag (tags n)" and R = resolved_tag])
  fix t L ps and ks :: "view list" and c :: "(view_handler, point list) component"
  assume "map_of scroll_buttons t = Some c"
  then have "c = SelectScrollUpButton \<or> c = SelectScrollDownButton" by (simp add: scroll_buttons_def split: if_splits)
  then show "list_all on_screen_tag (tags (c L ps ks :: view))"
    by (auto simp: SelectScrollUpButton_def SelectScrollDownButton_def Let_def on_screen_tag_def resolved_tag_def imported_def)
next
  fix t as and ks :: "view list"
  assume "map_of scroll_buttons t = (None :: (view_handler, point list) component option)" "resolved_tag t"
    "list_all (\<lambda>k. list_all on_screen_tag (tags k)) ks"
  then show "list_all on_screen_tag (tags (Elem t as ks))"
    by (auto simp: on_screen_tag_def list_all_concat_map scroll_buttons_def split: if_splits)
qed (simp_all add: resolved_tags)

section \<open>The tree of the dashboard is tidy\<close>

fun tidy :: "view \<Rightarrow> bool" where
  "tidy (Text s) \<longleftrightarrow> True"
| "tidy (Elem t as ks) \<longleftrightarrow> tidy_props as \<and> t \<notin> set foreign_names \<and> list_all tidy ks"

lemma tidy_used_well: "tidy n \<Longrightarrow> used_well kit False foreign_names n"
  by (induction n rule: elems.induct) (auto simp: list_all_iff)

lemma tidy_tags: "tidy n \<Longrightarrow> list_all (\<lambda>t. t \<notin> set foreign_names) (tags n)"
  by (induction n rule: elems.induct) (auto simp: list_all_iff)

lemma imported_scroll:
  "list_all (\<lambda>(t, c). \<forall>L ps ks. list_all (used_well (map_of scroll_buttons) True []) ks \<longrightarrow>
     used_well (map_of scroll_buttons) True [] (c L ps ks)) imported"
  unfolding imported_def by (simp add: imported_components scroll_buttons_def tidy_props_def)

lemma scroll_used_well:
  assumes "tidy n"
  shows "used_well (map_of scroll_buttons) True [] (resolve (map_of imported) L n)"
proof (rule resolve_all [where P = "used_well (map_of scroll_buttons) True []", OF _ _ _ tidy_tags [OF assms]])
  fix t L ps and ks :: "view list" and c :: "(view_handler, point list) component"
  assume "map_of imported t = Some c" "list_all (used_well (map_of scroll_buttons) True []) ks"
  then show "used_well (map_of scroll_buttons) True [] (c L ps ks)"
    using imported_scroll map_of_SomeD [of imported t c] unfolding list_all_iff by blast
next
  fix t as and ks :: "view list"
  assume "t \<notin> set foreign_names" "list_all (used_well (map_of scroll_buttons) True []) ks"
  then show "used_well (map_of scroll_buttons) True [] (Elem t as ks)"
    by (simp add: scroll_buttons_def foreign_names_def)
qed simp

lemma on_screen_same:
  assumes "tidy n"
  shows "choices_by primitive_item (on_screen L n) = choices n" "handlers (on_screen L n) = handlers n"
    "charts (on_screen L n) = charts n" "texts (on_screen L n) = texts n"
  using select_kit.resolve_same [OF scroll_used_well [OF assms], of L L] dashboard_kit.resolve_same [OF tidy_used_well [OF assms], of L]
  by (simp_all add: on_screen_def choices_by_kit)

lemma tidy_props_Nil [simp]: "tidy_props []"
  by (simp add: tidy_props_def)

lemma tidy_cls [simp]: "tidy_props (cls s)"
  by (simp add: tidy_props_def cls_def)

lemma tidy_names [simp]: "t \<notin> set foreign_names"
  if "t \<in> {''div'', ''span'', ''p'', ''br'', ''Card'', ''CardContent'', ''CardHeader'', ''CardTitle'', ''Select'', ''SelectContent'',
     ''SelectItem'', ''SelectTrigger'', ''SelectValue'', ''SelectGroup'', ''SelectLabel'', ''Label'', ''Badge'', ''Tabs'', ''TabsList'',
     ''TabsTrigger'', ''Bar'', ''BarChart'', ''XAxis'', ''YAxis'', ''CartesianGrid'', ''ResponsiveContainer'', ''InfoIcon'', ''TagIcon''}"
  using that by (auto simp: foreign_names_def)

lemma tidy_icon [simp]: "icon_name i \<notin> set foreign_names"
  by (cases i) (simp_all add: foreign_names_def)

lemma tidy_words [simp]: "list_all tidy (words s)" "list_all tidy (words_opt v)"
  by (simp add: words_def, cases v) (simp_all add: words_def)

lemma tidy_props_Cons:
  "tidy_props ((k, v) # as) \<longleftrightarrow> k \<notin> set (map fst as) \<and> k \<noteq> ''ref'' \<and> (k \<in> set reserved \<longrightarrow> (\<exists>s. v = VStr s)) \<and> tidy_props as"
  by (auto simp: tidy_props_def)

lemmas tidy_simps = tidy_props_Cons reserved_def list.pred_map comp_def list.pred_True

lemma item_tidy [simp]:
  "list_all tidy ks \<Longrightarrow> tidy (keyed_item c v ks)" "list_all tidy ks \<Longrightarrow> tidy (select_item v ks)"
  by (simp_all add: keyed_item_def select_item_def tidy_simps)

lemma filter_select_tidy:
  "list_all tidy items \<Longrightarrow> tidy (filter_select label i v c [] placeholder items)"
  "list_all tidy items \<Longrightarrow> tidy (filter_select label i v c [(''disabled'', VBool b)] placeholder items)"
  by (simp_all add: filter_select_def tidy_simps)

lemma num_select_tidy: "num_select label i axis v c placeholder f xs fallback = Inr n \<Longrightarrow> tidy n"
  by (auto simp: num_select_def bindE_eq_Inr num_items_def tidy_simps filter_select_tidy)

lemma test_group_tidy: "test_group groups g = Inr n \<Longrightarrow> tidy n"
  by (auto simp: test_group_def tidy_simps split: slot.splits)

lemma test_groups_tidy: "mapE (test_group groups) order = Inr ns \<Longrightarrow> list_all tidy ns"
  by (induction order arbitrary: ns) (auto simp: bindE_eq_Inr test_group_tidy)

lemma controls_tidy [simp]: "tidy (cpu_select o' f)" "tidy (http2_select o' f)" "tidy (x_axis_select f)" "tidy (metric_tabs f)"
  by (simp_all add: cpu_select_def http2_select_def x_axis_select_def metric_tabs_def metric_tab_def filter_select_tidy
      tidy_simps)

lemma summary_view_tidy [simp]: "list_all tidy (summary_view fmt stats)"
  by (simp add: summary_view_def summary_row_def split: option.split)

lemma filters_column_tidy:
  assumes "filters_column o' grouped f stats = Inr n"
  shows "tidy n"
proof -
  obtain groups ths wks con where parts: "mapE (test_group (fst grouped)) (snd grouped) = Inr groups"
    "threads_select o' f = Inr ths" "workers_select o' f = Inr wks" "concurrency_select o' f = Inr con"
    and n: "n = Elem ''div'' (cls ''md:col-span-3'')
       [Elem ''Card'' (cls ''shadow-sm h-full'')
          [Elem ''CardHeader'' (cls ''py-2 px-3'') [Elem ''CardTitle'' (cls ''text-sm'') [Text ''Filters'']],
           Elem ''CardContent'' (cls ''p-2'')
             [Elem ''div'' (cls ''space-y-2'')
                ([cpu_select o' f,
                  filter_select ''Test Case'' ''test-case-filter'' (f_testCase f) STestCase [] ''Select test'' groups,
                  Elem ''div'' (cls ''grid grid-cols-2 gap-2'') [ths, wks],
                  Elem ''div'' (cls ''grid grid-cols-2 gap-2'') [con, http2_select o' f],
                  x_axis_select f, metric_tabs f] @
                 summary_view (mi_formatter (metricInfo (f_metric f))) stats)]]]"
    using assms by (auto simp: filters_column_def test_case_select_def bindE_eq_Inr)
  have "tidy ths" "tidy wks" "tidy con"
    using parts(2-4) by (auto simp: threads_select_def workers_select_def concurrency_select_def dest: num_select_tidy)
  then show ?thesis unfolding n using test_groups_tidy [OF parts(1)] by (simp add: filter_select_tidy)
qed

lemma hover_card_tidy:
  assumes "hover_card f colors h b = Inr n"
  shows "tidy n"
proof -
  have "tidy (error_view d)" for d by (simp add: error_view_def error_row_def Let_def split_beta tidy_simps)
  then have "list_all tidy ns" if "metrics_view r = Inr ns" for r ns
    using that by (auto simp: metrics_view_def detail_row_def split: jopt.splits)
  then have "tidy m" if "item_details f colors i = Inr m" for i m
    using that by (auto simp: item_details_def badge_def tidy_simps bindE_eq_Inr split: jopt.splits)
  then have "tidy m" if "hover_body f colors h = Inr m" for m
    using that by (auto simp: hover_body_def split: option.splits point_val.splits)
  then show ?thesis using assms by (auto simp: hover_card_def bindE_eq_Inr)
qed

lemma performers_card_tidy: "performers_card colors filtered ranking = Inr ns \<Longrightarrow> list_all tidy ns"
  by (auto simp: performers_card_def performer_view_def split_beta tidy_simps split: if_splits list.splits)

lemma chart_view_tidy: "tidy (chart_view platform o' f visible k colors points keys)"
  by (simp add: chart_view_def x_axis_view_def y_axis_view_def bar_view_def hover_bar_view_def legend_view_def
      split_beta tidy_simps)

lemma render_tidy:
  assumes "render lc platform given opts items s = Inr n"
  shows "tidy n"
proof -
  have "tidy empty_view" "tidy (chart_title f)" for f by (simp_all add: empty_view_def chart_title_def)
  then show ?thesis
    using assms
    by (auto simp: render_def Let_def bindE_eq_Inr chart_view_tidy dest!: filters_column_tidy hover_card_tidy performers_card_tidy
        split: if_splits)
qed

text \<open>
  C7 (the page on the screen). When React has called the components that the dashboard imports, no
  element of the page is one of them any more, and the page is the one the dashboard described: the
  values that the items of its selects and tabs pass to the handlers, all handlers, the points its
  charts draw and the texts are those of the dashboard's tree, in the same order. This holds for any
  class-name library.
\<close>

theorem on_screen_offers_page:
  assumes "render lc platform given opts items s = Inr n"
  shows "choices_by primitive_item (on_screen L n) = choices n \<and> handlers (on_screen L n) = handlers n \<and>
     charts (on_screen L n) = charts n \<and> texts (on_screen L n) = texts n \<and>
     list_all on_screen_tag (tags (on_screen L n))"
  using on_screen_same [OF render_tidy [OF assms]] on_screen_tags by blast

definition sample_lib :: "(view_handler, point list) class_lib" where
  "sample_lib = \<lparr>lib_clsx = (\<lambda>vs. concat (map (\<lambda>v. case v of VStr s \<Rightarrow> s @ '' '' | _ \<Rightarrow> []) vs)), lib_twMerge = id,
     lib_cva = (\<lambda>b _ _ _. b)\<rparr>"

theorem on_screen_offers_page_witness:
  "\<exists>n. render (\<lambda>_ _. 0) ''Linux'' True sample_dash_options sample_items sample_dash = Inr n \<and>
     (SMetric, ''rps'') \<in> set (choices_by primitive_item (on_screen sample_lib n)) \<and>
     texts (on_screen sample_lib n) = texts n \<and> list_all on_screen_tag (tags (on_screen sample_lib n))"
proof -
  obtain n where n: "render (\<lambda>_ _. 0) ''Linux'' True sample_dash_options sample_items sample_dash = Inr n"
    using render_total [OF sample_renderable] by blast
  have "(SMetric, ''rps'') \<in> set (choices n)" using render_choices [OF n] by (auto simp: page_choices_def)
  then show ?thesis using n on_screen_offers_page [OF n, of sample_lib] by auto
qed

end
