(* ===== verification/Api_Route.thy ===== *)
theory Api_Route
  imports JS_Prelude
begin

text \<open>
  \<^verbatim>\<open>app/api/benchmarks/route.ts\<close>, the route that answers with benchmark data. \<^verbatim>\<open>NextResponse.json\<close> is an
  argument: it builds a response from a value and an optional status, or throws.
\<close>

datatype json = JBool bool | JStr string | JArr "json list" | JObj "(string \<times> json) list"

record route_log =
  console_errors :: "(string \<times> js_error) list"

text \<open>The response, or the exception that leaves the handler, with what was written to the console.\<close>

definition GET :: "(json \<Rightarrow> nat option \<Rightarrow> 'r result) \<Rightarrow> 'r result \<times> route_log" where
  "GET response_json =
     (case response_json (JObj [(''success'', JBool True), (''data'', JArr [])]) None of
        Inr r \<Rightarrow> (Inr r, \<lparr>console_errors = []\<rparr>)
      | Inl error \<Rightarrow>
          (response_json (JObj [(''success'', JBool False), (''error'', JStr ''Failed to fetch benchmark data'')]) (Some 500),
           \<lparr>console_errors = [(''Error fetching benchmark data:'', error)]\<rparr>))"

text \<open>The route answers with status 500 and a logged error exactly when the normal response cannot be built.\<close>

lemma GET_falls_back:
  assumes "response_json (JObj [(''success'', JBool True), (''data'', JArr [])]) None = Inl e"
    and "\<And>v. \<exists>r. response_json v (Some 500) = Inr r"
  shows "\<exists>r. GET response_json = (Inr r, \<lparr>console_errors = [(''Error fetching benchmark data:'', e)]\<rparr>)"
  using assms(1) assms(2) [of "JObj [(''success'', JBool False), (''error'', JStr ''Failed to fetch benchmark data'')]"]
  by (auto simp: GET_def)

end
