(* ===== verification/Toast.thy ===== *)
theory Toast
  imports JS_Object
begin

text \<open>
  The toast store of \<^verbatim>\<open>hooks/use-toast.ts\<close>: the reducer with its side effect on the removal queue, the
  module-level state with its listeners, the identifiers, the timers, and the hook's subscription.
  Content that the store only passes on (titles, nodes, styling) is the type parameter \<open>'n\<close>. Time
  is a number of milliseconds; a timer is an entry of \<^verbatim>\<open>toastTimeouts\<close> with the time it is due.
\<close>

section \<open>Constants and types\<close>

definition TOAST_LIMIT :: nat where "TOAST_LIMIT = 1"

definition TOAST_REMOVE_DELAY :: nat where "TOAST_REMOVE_DELAY = 1000000"

definition MAX_SAFE_INTEGER :: int where "MAX_SAFE_INTEGER = 2 ^ 53 - 1"

text \<open>What \<^verbatim>\<open>onOpenChange\<close> does when the toast closes: dismiss an identifier, or foreign code.\<close>

datatype close_handler = DismissOnClose string | ForeignHandler

record 'n toaster_toast =
  tt_id :: string
  tt_open :: "bool jopt"
  tt_onOpenChange :: "close_handler option"
  tt_rest :: "'n jsobj"

text \<open>\<^verbatim>\<open>Partial<ToasterToast>\<close>: \<open>None\<close> is a property that is not there.\<close>

record 'n toast_patch =
  tp_id :: "string option"
  tp_open :: "bool jopt option"
  tp_onOpenChange :: "close_handler option option"
  tp_rest :: "'n jsobj"

datatype 'n toast_action =
    AddToast "'n toaster_toast"
  | UpdateToast "'n toast_patch"
  | DismissToast "string option"
  | RemoveToast "string option"

text \<open>The module: toasts, the timers in order of creation, the counter, the listeners and what each component shows.\<close>

record 'n toast_store =
  memoryState :: "'n toaster_toast list"
  toastTimeouts :: "(string \<times> nat) list"
  id_count :: int
  listeners :: "nat list"
  shown :: "nat \<Rightarrow> 'n toaster_toast list"
  clock :: nat

definition initial_store :: "'n toast_store" where
  "initial_store = \<lparr>memoryState = [], toastTimeouts = [], id_count = 0, listeners = [], shown = (\<lambda>_. []), clock = 0\<rparr>"

section \<open>Operations\<close>

definition genId :: "int \<Rightarrow> string \<times> int" where
  "genId c = (let c' = (c + 1) mod MAX_SAFE_INTEGER in (int_str c', c'))"

definition addToRemoveQueue :: "nat \<Rightarrow> string \<Rightarrow> (string \<times> nat) list \<Rightarrow> (string \<times> nat) list" where
  "addToRemoveQueue now toastId timeouts =
     (if toastId \<in> fst ` set timeouts then timeouts else timeouts @ [(toastId, now + TOAST_REMOVE_DELAY)])"

text \<open>\<^verbatim>\<open>{ ...t, ...patch }\<close>\<close>

definition patch_toast :: "'n toast_patch \<Rightarrow> 'n toaster_toast \<Rightarrow> 'n toaster_toast" where
  "patch_toast p t =
     \<lparr>tt_id = (case tp_id p of Some i \<Rightarrow> i | None \<Rightarrow> tt_id t),
      tt_open = (case tp_open p of Some v \<Rightarrow> v | None \<Rightarrow> tt_open t),
      tt_onOpenChange = (case tp_onOpenChange p of Some h \<Rightarrow> h | None \<Rightarrow> tt_onOpenChange t),
      tt_rest = foldl (\<lambda>m (k, v). upd k v m) (tt_rest t) (tp_rest p)\<rparr>"

text \<open>The reducer, with the removal queue that its dismissal case changes.\<close>

fun reducer ::
  "nat \<Rightarrow> 'n toaster_toast list \<times> (string \<times> nat) list \<Rightarrow> 'n toast_action \<Rightarrow> 'n toaster_toast list \<times> (string \<times> nat) list" where
  "reducer now (toasts, q) (AddToast t) = (take TOAST_LIMIT (t # toasts), q)"
| "reducer now (toasts, q) (UpdateToast p) =
     (map (\<lambda>t. if tp_id p = Some (tt_id t) then patch_toast p t else t) toasts, q)"
| "reducer now (toasts, q) (DismissToast toastId) =
     (map (\<lambda>t. if toastId = Some (tt_id t) \<or> toastId = None then t\<lparr>tt_open := Val False\<rparr> else t) toasts,
      case toastId of
        Some i \<Rightarrow> if i \<noteq> [] then addToRemoveQueue now i q
                  else foldl (\<lambda>q t. addToRemoveQueue now (tt_id t) q) q toasts
      | None \<Rightarrow> foldl (\<lambda>q t. addToRemoveQueue now (tt_id t) q) q toasts)"
| "reducer now (toasts, q) (RemoveToast toastId) =
     (case toastId of None \<Rightarrow> [] | Some i \<Rightarrow> filter (\<lambda>t. tt_id t \<noteq> i) toasts, q)"

definition dispatch :: "'n toast_action \<Rightarrow> 'n toast_store \<Rightarrow> 'n toast_store" where
  "dispatch action s =
     (let (toasts, q) = reducer (clock s) (memoryState s, toastTimeouts s) action
      in s\<lparr>memoryState := toasts, toastTimeouts := q,
           shown := (\<lambda>c. if c \<in> set (listeners s) then toasts else shown s c)\<rparr>)"

text \<open>\<^verbatim>\<open>toast(props)\<close> returns the identifier; \<^verbatim>\<open>dismiss\<close> and \<^verbatim>\<open>update\<close> are its two methods.\<close>

definition toast :: "'n toast_patch \<Rightarrow> 'n toast_store \<Rightarrow> string \<times> 'n toast_store" where
  "toast props s =
     (let (i, c) = genId (id_count s)
      in (i, dispatch (AddToast \<lparr>tt_id = i, tt_open = Val True, tt_onOpenChange = Some (DismissOnClose i),
                tt_rest = tp_rest props\<rparr>) (s\<lparr>id_count := c\<rparr>)))"

definition toast_update :: "string \<Rightarrow> 'n toast_patch \<Rightarrow> 'n toast_store \<Rightarrow> 'n toast_store" where
  "toast_update i props s = dispatch (UpdateToast (props\<lparr>tp_id := Some i\<rparr>)) s"

definition toast_dismiss :: "string \<Rightarrow> 'n toast_store \<Rightarrow> 'n toast_store" where
  "toast_dismiss i s = dispatch (DismissToast (Some i)) s"

definition onOpenChange :: "close_handler \<Rightarrow> bool \<Rightarrow> 'n toast_store \<Rightarrow> 'n toast_store" where
  "onOpenChange h is_open s =
     (case h of DismissOnClose i \<Rightarrow> if is_open then s else toast_dismiss i s | ForeignHandler \<Rightarrow> s)"

text \<open>
  A timer fires: its entry is deleted and the toast removed. Letting time pass fires the timers
  that become due, in order of creation, which is the order of their due times.
\<close>

definition fire :: "'n toast_store \<Rightarrow> string \<Rightarrow> 'n toast_store" where
  "fire s i = dispatch (RemoveToast (Some i)) (s\<lparr>toastTimeouts := filter (\<lambda>e. fst e \<noteq> i) (toastTimeouts s)\<rparr>)"

definition elapse :: "nat \<Rightarrow> 'n toast_store \<Rightarrow> 'n toast_store" where
  "elapse n s =
     (let now = clock s + n; due = filter (\<lambda>e. snd e \<le> now) (toastTimeouts s)
      in foldl fire (s\<lparr>clock := now\<rparr>) (map fst due))"

section \<open>The hook\<close>

text \<open>First render: the component shows the module's state; its effect subscribes afterwards.\<close>

definition useToast_render :: "nat \<Rightarrow> 'n toast_store \<Rightarrow> 'n toast_store" where
  "useToast_render c s = s\<lparr>shown := (shown s)(c := memoryState s)\<rparr>"

definition useToast_subscribe :: "nat \<Rightarrow> 'n toast_store \<Rightarrow> 'n toast_store" where
  "useToast_subscribe c s = s\<lparr>listeners := listeners s @ [c]\<rparr>"

definition useToast_cleanup :: "nat \<Rightarrow> 'n toast_store \<Rightarrow> 'n toast_store" where
  "useToast_cleanup c s = s\<lparr>listeners := remove1 c (listeners s)\<rparr>"

text \<open>The effect depends on the state: after a change it cleans up and subscribes again.\<close>

definition useToast_resubscribe :: "nat \<Rightarrow> 'n toast_store \<Rightarrow> 'n toast_store" where
  "useToast_resubscribe c s = useToast_subscribe c (useToast_cleanup c s)"

definition useToast_dismiss :: "string option \<Rightarrow> 'n toast_store \<Rightarrow> 'n toast_store" where
  "useToast_dismiss toastId s = dispatch (DismissToast toastId) s"

section \<open>Steps and invariant\<close>

text \<open>
  The steps of the store. A component renders and subscribes in one step here; the gap between
  the two is examined at the end.
\<close>

inductive toast_step :: "'n toast_store \<Rightarrow> 'n toast_store \<Rightarrow> bool" where
  step_toast: "toast_step s (snd (toast props s))"
| step_update: "toast_step s (toast_update i props s)"
| step_dismiss: "toast_step s (toast_dismiss i s)"
| step_open_change: "toast_step s (onOpenChange h is_open s)"
| step_hook_dismiss: "toast_step s (useToast_dismiss j s)"
| step_elapse: "toast_step s (elapse n s)"
| step_mount: "toast_step s (useToast_subscribe c (useToast_render c s))"
| step_resubscribe: "c \<in> set (listeners s) \<Longrightarrow> toast_step s (useToast_resubscribe c s)"
| step_unmount: "toast_step s (useToast_cleanup c s)"

inductive toast_reachable :: "'n toast_store \<Rightarrow> bool" where
  toast_init: "toast_reachable initial_store"
| toast_next: "toast_reachable s \<Longrightarrow> toast_step s s' \<Longrightarrow> toast_reachable s'"

definition queue_ok :: "nat \<Rightarrow> (string \<times> nat) list \<Rightarrow> bool" where
  "queue_ok now q \<longleftrightarrow> distinct (map fst q) \<and> (\<forall>e\<in>set q. snd e \<le> now + TOAST_REMOVE_DELAY)"

definition toast_inv :: "'n toast_store \<Rightarrow> bool" where
  "toast_inv s \<longleftrightarrow> length (memoryState s) \<le> TOAST_LIMIT \<and> queue_ok (clock s) (toastTimeouts s)
     \<and> 0 \<le> id_count s \<and> id_count s < MAX_SAFE_INTEGER \<and> (\<forall>c\<in>set (listeners s). shown s c = memoryState s)"

lemma queue_ok_add: "queue_ok now q \<Longrightarrow> queue_ok now (addToRemoveQueue now i q)"
  by (auto simp: queue_ok_def addToRemoveQueue_def)

lemma queue_ok_add_all: "queue_ok now q \<Longrightarrow> queue_ok now (foldl (\<lambda>q t. addToRemoveQueue now (tt_id t) q) q ts)"
  by (induction ts arbitrary: q) (auto intro: queue_ok_add)

lemma queue_ok_filter: "queue_ok now q \<Longrightarrow> queue_ok now (filter P q)"
  by (auto simp: queue_ok_def distinct_map_filter)

lemma queue_ok_later: "queue_ok now q \<Longrightarrow> queue_ok (now + n) q"
  by (force simp: queue_ok_def)

lemma reducer_ok:
  assumes "length ts \<le> TOAST_LIMIT" "queue_ok now q" "reducer now (ts, q) a = (ts', q')"
  shows "length ts' \<le> TOAST_LIMIT \<and> queue_ok now q'"
proof (cases a)
  case (DismissToast i)
  then show ?thesis using assms by (auto simp: queue_ok_add queue_ok_add_all split: option.splits)
next
  case (RemoveToast i)
  then show ?thesis using assms by (auto split: option.splits intro: le_trans [OF length_filter_le])
qed (use assms in auto)

lemma dispatch_inv: "toast_inv s \<Longrightarrow> toast_inv (dispatch a s)"
  using reducer_ok [of "memoryState s" "clock s" "toastTimeouts s" a]
  by (auto simp: toast_inv_def dispatch_def split: prod.split)

lemma toast_dispatch_inv: "toast_inv s \<Longrightarrow> toast_inv (snd (toast props s))"
proof -
  assume "toast_inv s"
  then have "toast_inv (s\<lparr>id_count := (id_count s + 1) mod MAX_SAFE_INTEGER\<rparr>)"
    by (simp add: toast_inv_def MAX_SAFE_INTEGER_def)
  then show ?thesis by (simp add: toast_def genId_def Let_def dispatch_inv)
qed

lemma fire_inv: "toast_inv s \<Longrightarrow> toast_inv (fire s i)"
  unfolding fire_def by (intro dispatch_inv) (simp add: toast_inv_def queue_ok_filter)

lemma elapse_inv: "toast_inv s \<Longrightarrow> toast_inv (elapse n s)"
proof -
  assume "toast_inv s"
  then have "toast_inv (s\<lparr>clock := clock s + n\<rparr>)" by (simp add: toast_inv_def queue_ok_later)
  then have "toast_inv (foldl fire (s\<lparr>clock := clock s + n\<rparr>) is)" for "is"
    by (induction "is" rule: rev_induct) (auto intro: fire_inv)
  then show ?thesis by (simp add: elapse_def Let_def)
qed

lemma step_inv: "toast_step s s' \<Longrightarrow> toast_inv s \<Longrightarrow> toast_inv s'"
proof (induction rule: toast_step.induct)
  case (step_open_change s h is_open)
  then show ?case by (cases h) (auto simp: onOpenChange_def toast_dismiss_def dispatch_inv)
next
  case (step_mount s c)
  then show ?case by (auto simp: toast_inv_def useToast_subscribe_def useToast_render_def)
next
  case (step_resubscribe c s)
  then show ?case
    by (auto simp: toast_inv_def useToast_resubscribe_def useToast_subscribe_def useToast_cleanup_def
        dest: notin_set_remove1)
next
  case (step_unmount s c)
  then show ?case by (auto simp: toast_inv_def useToast_cleanup_def dest: notin_set_remove1)
qed (auto simp: toast_dispatch_inv toast_update_def toast_dismiss_def useToast_dismiss_def dispatch_inv elapse_inv)

lemma reachable_inv: "toast_reachable s \<Longrightarrow> toast_inv s"
proof (induction rule: toast_reachable.induct)
  case toast_init
  then show ?case by (simp add: toast_inv_def initial_store_def queue_ok_def MAX_SAFE_INTEGER_def)
next
  case (toast_next s s')
  then show ?case using step_inv by blast
qed

text \<open>
  The invariant of the store: in every reachable state of the store at most one toast is kept, each
  identifier has at most one pending removal, due within the removal delay, the counter is a safe
  integer, and every subscribed component shows the current toasts.
\<close>

theorem toast_reachable_inv: "toast_reachable s \<Longrightarrow> toast_inv s"
  by (rule reachable_inv)

definition demo_props :: "string toast_patch" where
  "demo_props = \<lparr>tp_id = None, tp_open = None, tp_onOpenChange = None, tp_rest = [(''title'', ''Saved'')]\<rparr>"

definition demo_store :: "string toast_store" where
  "demo_store = snd (toast demo_props (snd (toast demo_props initial_store)))"

lemma demo_reachable: "toast_reachable demo_store"
  unfolding demo_store_def by (rule toast_next [OF toast_next [OF toast_init step_toast] step_toast])

theorem toast_reachable_inv_witness: "toast_reachable demo_store \<and> length (memoryState demo_store) \<le> 1"
  using toast_reachable_inv [OF demo_reachable] demo_reachable by (simp add: toast_inv_def TOAST_LIMIT_def)

section \<open>Dismissal\<close>

lemma fire_state:
  "memoryState (fire s i) = filter (\<lambda>t. tt_id t \<noteq> i) (memoryState s)"
  "toastTimeouts (fire s i) = filter (\<lambda>e. fst e \<noteq> i) (toastTimeouts s)"
  by (simp_all add: fire_def dispatch_def)

lemma foldl_fire_state:
  "memoryState (foldl fire s is) = filter (\<lambda>t. tt_id t \<notin> set is) (memoryState s)"
  "toastTimeouts (foldl fire s is) = filter (\<lambda>e. fst e \<notin> set is) (toastTimeouts s)"
  by (induction "is" rule: rev_induct) (auto simp: fire_state intro!: filter_cong)

lemma toast_dismiss_state:
  assumes "i \<noteq> []"
  shows "i \<in> fst ` set (toastTimeouts (toast_dismiss i s))" "clock (toast_dismiss i s) = clock s"
    "\<forall>t\<in>set (memoryState (toast_dismiss i s)). tt_id t = i \<longrightarrow> tt_open t = Val False"
  using assms by (auto simp: toast_dismiss_def dispatch_def addToRemoveQueue_def)

text \<open>
  C29 (a dismissed toast goes away). Dismissing an identifier closes its toast at once, and when the
  removal delay has passed neither the toast nor its timer is left.
\<close>

theorem dismissed_toast_removed:
  assumes "toast_reachable s" "i \<noteq> []" "TOAST_REMOVE_DELAY \<le> n"
  shows "(\<forall>t\<in>set (memoryState (toast_dismiss i s)). tt_id t = i \<longrightarrow> tt_open t = Val False)
     \<and> (\<forall>t\<in>set (memoryState (elapse n (toast_dismiss i s))). tt_id t \<noteq> i)
     \<and> i \<notin> fst ` set (toastTimeouts (elapse n (toast_dismiss i s)))"
proof -
  let ?s = "toast_dismiss i s"
  let ?due = "map fst (filter (\<lambda>e. snd e \<le> clock ?s + n) (toastTimeouts ?s))"
  have "queue_ok (clock ?s) (toastTimeouts ?s)"
    using dispatch_inv [OF reachable_inv [OF assms(1)], of "DismissToast (Some i)"]
    by (simp add: toast_dismiss_def toast_inv_def)
  then have "i \<in> set ?due"
    using toast_dismiss_state(1) [OF assms(2)] assms(3) by (fastforce simp: queue_ok_def)
  moreover have "memoryState (elapse n ?s) = filter (\<lambda>t. tt_id t \<notin> set ?due) (memoryState ?s)"
    "toastTimeouts (elapse n ?s) = filter (\<lambda>e. fst e \<notin> set ?due) (toastTimeouts ?s)"
    unfolding elapse_def Let_def foldl_fire_state by simp_all
  ultimately have "\<forall>t\<in>set (memoryState (elapse n ?s)). tt_id t \<noteq> i" "i \<notin> fst ` set (toastTimeouts (elapse n ?s))"
    by (auto simp del: set_map)
  then show ?thesis using toast_dismiss_state(3) [OF assms(2)] by blast
qed

theorem dismissed_toast_removed_witness:
  "''2'' \<notin> tt_id ` set (memoryState (elapse 1000000 (toast_dismiss ''2'' demo_store)))"
  using dismissed_toast_removed [OF demo_reachable, of "''2''" 1000000] by (auto simp: TOAST_REMOVE_DELAY_def)

section \<open>Identifiers\<close>

fun gen_ids :: "nat \<Rightarrow> int \<Rightarrow> string list" where
  "gen_ids 0 c = []"
| "gen_ids (Suc n) c = fst (genId c) # gen_ids n (snd (genId c))"

lemma gen_ids_eq: "gen_ids n c = map (\<lambda>k. int_str ((c + 1 + int k) mod MAX_SAFE_INTEGER)) [0..<n]"
proof (induction n arbitrary: c)
  case (Suc n)
  have "((c + 1) mod MAX_SAFE_INTEGER + 1 + int k) mod MAX_SAFE_INTEGER = (c + 1 + int (Suc k)) mod MAX_SAFE_INTEGER" for k
    using mod_add_left_eq [of "c + 1" MAX_SAFE_INTEGER "1 + int k"] by (simp add: algebra_simps)
  then show ?case using Suc by (simp add: genId_def Let_def map_upt_Suc del: upt_Suc)
qed simp

text \<open>
  C30 (identifiers are fresh). Any \<^verbatim>\<open>Number.MAX_SAFE_INTEGER\<close> consecutive identifiers are pairwise
  different, although the counter wraps around.
\<close>

theorem gen_ids_distinct:
  assumes "int n \<le> MAX_SAFE_INTEGER"
  shows "distinct (gen_ids n c)"
proof -
  have "int_str ((c + 1 + int j) mod MAX_SAFE_INTEGER) \<noteq> int_str ((c + 1 + int k) mod MAX_SAFE_INTEGER)"
    if "j < n" "k < n" "j \<noteq> k" for j k
  proof
    let ?a = "(c + 1 + int j) mod MAX_SAFE_INTEGER" and ?b = "(c + 1 + int k) mod MAX_SAFE_INTEGER"
    assume eq: "int_str ?a = int_str ?b"
    have "0 \<le> ?a" "?a < MAX_SAFE_INTEGER" "0 \<le> ?b" "?b < MAX_SAFE_INTEGER" by (simp_all add: MAX_SAFE_INTEGER_def)
    then have "?a = ?b" using eq by (intro int_str_inj) (simp_all add: MAX_SAFE_INTEGER_def)
    then have "MAX_SAFE_INTEGER dvd int j - int k" by (simp add: mod_eq_dvd_iff)
    moreover have "0 < \<bar>int j - int k\<bar>" "\<bar>int j - int k\<bar> < MAX_SAFE_INTEGER" using that assms by linarith+
    ultimately show False using zdvd_not_zless [of "\<bar>int j - int k\<bar>" MAX_SAFE_INTEGER] by simp
  qed
  then have "inj_on (\<lambda>k. int_str ((c + 1 + int k) mod MAX_SAFE_INTEGER)) {0..<n}"
    unfolding inj_on_def Ball_def atLeastLessThan_iff by blast
  then show ?thesis unfolding gen_ids_eq by (simp add: distinct_map)
qed

theorem gen_ids_distinct_witness: "distinct (gen_ids 3 (MAX_SAFE_INTEGER - 2))"
  by (rule gen_ids_distinct) (simp add: MAX_SAFE_INTEGER_def)

section \<open>The gap between rendering and subscribing\<close>

text \<open>
  A toast raised after a component has rendered and before its effect has subscribed is not shown
  by that component until something else happens to the store.
\<close>

lemma missed_toast:
  assumes "c \<notin> set (listeners s)" "s' = useToast_subscribe c (snd (toast props (useToast_render c s)))"
  shows "shown s' c = memoryState s" "memoryState s' = take TOAST_LIMIT (hd (memoryState s') # memoryState s)"
  using assms by (simp_all add: useToast_subscribe_def useToast_render_def toast_def genId_def dispatch_def Let_def TOAST_LIMIT_def)

end
