(* ===== verification/Toast_Spec.thy ===== *)
theory Toast_Spec
  imports Toast
begin

text \<open>
  What the toast store promises, without its lists, timers and listeners: there is at most one
  toast, closing it sets a deadline unless it has one, and a toast is gone when time reaches the
  deadline of its identifier. The store of \<open>Toast\<close> refines this specification through \<open>toast_abs\<close>,
  operation by operation; subscribing and unsubscribing are invisible.
\<close>

section \<open>The specification\<close>

record 'n toast_spec =
  current :: "'n toaster_toast option"
  deadline :: "string \<Rightarrow> nat option"
  now :: nat

definition spec_show :: "'n toaster_toast \<Rightarrow> 'n toast_spec \<Rightarrow> 'n toast_spec" where
  "spec_show t a = a\<lparr>current := Some t\<rparr>"

definition spec_change :: "'n toast_patch \<Rightarrow> 'n toast_spec \<Rightarrow> 'n toast_spec" where
  "spec_change p a = a\<lparr>current := map_option (\<lambda>t. if tp_id p = Some (tt_id t) then patch_toast p t else t) (current a)\<rparr>"

definition spec_schedule :: "string \<Rightarrow> 'n toast_spec \<Rightarrow> 'n toast_spec" where
  "spec_schedule i a =
     (case deadline a i of None \<Rightarrow> a\<lparr>deadline := (deadline a)(i \<mapsto> now a + TOAST_REMOVE_DELAY)\<rparr> | Some _ \<Rightarrow> a)"

text \<open>Close one identifier, or whatever there is (\<open>None\<close>, or an empty identifier for the deadline).\<close>

definition spec_close :: "string option \<Rightarrow> 'n toast_spec \<Rightarrow> 'n toast_spec" where
  "spec_close j a =
     (let b = (case (j, current a) of
                 (Some (c # i), _) \<Rightarrow> spec_schedule (c # i) a
               | (_, Some t) \<Rightarrow> spec_schedule (tt_id t) a
               | (_, None) \<Rightarrow> a)
      in b\<lparr>current := map_option (\<lambda>t. if j = Some (tt_id t) \<or> j = None then t\<lparr>tt_open := Val False\<rparr> else t) (current a)\<rparr>)"

definition overdue :: "nat \<Rightarrow> 'n toast_spec \<Rightarrow> string \<Rightarrow> bool" where
  "overdue time a i = (case deadline a i of Some d \<Rightarrow> d \<le> time | None \<Rightarrow> False)"

definition spec_wait :: "nat \<Rightarrow> 'n toast_spec \<Rightarrow> 'n toast_spec" where
  "spec_wait n a =
     a\<lparr>now := now a + n,
       deadline := (\<lambda>i. if overdue (now a + n) a i then None else deadline a i),
       current := (case current a of
          Some t \<Rightarrow> if overdue (now a + n) a (tt_id t) then None else Some t | None \<Rightarrow> None)\<rparr>"

inductive spec_step :: "'n toast_spec \<Rightarrow> 'n toast_spec \<Rightarrow> bool" where
  spec_show: "tt_open t = Val True \<Longrightarrow> spec_step a (spec_show t a)"
| spec_change: "spec_step a (spec_change p a)"
| spec_close: "spec_step a (spec_close j a)"
| spec_wait: "spec_step a (spec_wait n a)"
| spec_skip: "spec_step a a"

section \<open>The refinement\<close>

definition toast_abs :: "'n toast_store \<Rightarrow> 'n toast_spec" where
  "toast_abs s =
     \<lparr>current = (case memoryState s of [] \<Rightarrow> None | t # _ \<Rightarrow> Some t), deadline = map_of (toastTimeouts s), now = clock s\<rparr>"

lemma single_toast:
  assumes "toast_inv s"
  obtains "memoryState s = []" | t where "memoryState s = [t]"
  using assms by (cases "memoryState s") (auto simp: toast_inv_def TOAST_LIMIT_def)

lemma map_of_addToRemoveQueue:
  "map_of (addToRemoveQueue t i q) = (case map_of q i of None \<Rightarrow> (map_of q)(i \<mapsto> t + TOAST_REMOVE_DELAY) | Some _ \<Rightarrow> map_of q)"
  by (auto simp: addToRemoveQueue_def map_add_def fun_eq_iff map_of_eq_None_iff split: option.split)
     (metis domI dom_map_of_conv_image_fst map_of_eq_None_iff option.distinct(1))+

lemma abs_toast:
  "toast_abs (snd (toast props s)) =
     spec_show \<lparr>tt_id = fst (toast props s), tt_open = Val True, tt_onOpenChange = Some (DismissOnClose (fst (toast props s))),
       tt_rest = tp_rest props\<rparr> (toast_abs s)"
  by (simp add: toast_def genId_def dispatch_def toast_abs_def spec_show_def TOAST_LIMIT_def Let_def)

lemma abs_update: "toast_abs (toast_update i props s) = spec_change (props\<lparr>tp_id := Some i\<rparr>) (toast_abs s)"
  by (simp add: toast_update_def dispatch_def toast_abs_def spec_change_def split: list.split)

lemma abs_dismiss:
  assumes "toast_inv s"
  shows "toast_abs (dispatch (DismissToast j) s) = spec_close j (toast_abs s)"
  using assms
  by (rule single_toast; cases j; cases "the j")
    (simp_all add: dispatch_def toast_abs_def spec_close_def spec_schedule_def map_of_addToRemoveQueue split: option.split)

lemma clock_foldl_fire: "clock (foldl fire s is) = clock s"
  by (induction "is" rule: rev_induct) (auto simp: fire_def dispatch_def split: prod.split)

lemma map_of_filter_fst: "map_of (filter (\<lambda>e. P (fst e)) q) i = (if P i then map_of q i else None)"
  by (induction q) auto

lemma abs_elapse:
  assumes "toast_inv s"
  shows "toast_abs (elapse n s) = spec_wait n (toast_abs s)"
proof -
  let ?due = "map fst (filter (\<lambda>e. snd e \<le> clock s + n) (toastTimeouts s))"
  have q: "distinct (map fst (toastTimeouts s))" using assms by (simp add: toast_inv_def queue_ok_def)
  have due: "i \<in> set ?due \<longleftrightarrow> overdue (clock s + n) (toast_abs s) i" for i
    using q by (auto simp: overdue_def toast_abs_def map_of_eq_Some_iff image_iff split: option.split
        dest: map_of_SomeD eq_key_imp_eq_value)
  have m: "memoryState (elapse n s) = filter (\<lambda>t. \<not> overdue (clock s + n) (toast_abs s) (tt_id t)) (memoryState s)"
    "toastTimeouts (elapse n s) = filter (\<lambda>e. \<not> overdue (clock s + n) (toast_abs s) (fst e)) (toastTimeouts s)"
    unfolding elapse_def Let_def foldl_fire_state due by simp_all
  have "clock (elapse n s) = clock s + n" by (simp add: elapse_def Let_def clock_foldl_fire)
  moreover have "map_of (toastTimeouts (elapse n s)) =
      (\<lambda>i. if overdue (clock s + n) (toast_abs s) i then None else deadline (toast_abs s) i)"
    unfolding m using map_of_filter_fst [of "\<lambda>i. \<not> overdue (clock s + n) (toast_abs s) i" "toastTimeouts s"]
    by (intro ext) (simp add: toast_abs_def)
  moreover from assms have "(case filter P (memoryState s) of [] \<Rightarrow> None | t # _ \<Rightarrow> Some t) =
      (case current (toast_abs s) of Some t \<Rightarrow> if P t then Some t else None | None \<Rightarrow> None)" for P
    by (rule single_toast) (simp_all add: toast_abs_def)
  moreover have "now (toast_abs s) = clock s" by (simp add: toast_abs_def)
  ultimately show ?thesis
    by (intro toast_spec.equality) (simp_all add: m(1) toast_abs_def [of "elapse n s"] spec_wait_def split: option.split)
qed

text \<open>What a component that shows the current toast renders.\<close>

lemma shown_current:
  assumes "toast_inv s" "c \<in> set (listeners s)"
  shows "shown s c = (case current (toast_abs s) of None \<Rightarrow> [] | Some t \<Rightarrow> [t])"
  using assms(1) by (rule single_toast) (use assms in \<open>simp_all add: toast_inv_def toast_abs_def\<close>)



end
