(* ===== verification/Toast_View.thy ===== *)
theory Toast_View
  imports Toast UI_Base
begin

text \<open>
  The \<^verbatim>\<open>Toaster\<close> of \<^verbatim>\<open>components/ui/toaster.tsx\<close>, which renders the toasts of the store, and its
  composition with the store.
\<close>

type_synonym 'd toast_content = "(close_handler, 'd) aval"

fun open_attr :: "bool jopt \<Rightarrow> ('h, 'd) aval" where
  "open_attr Undef = VUndef"
| "open_attr Null = VNull"
| "open_attr (Val b) = VBool b"

definition toast_props :: "'d toast_content toaster_toast \<Rightarrow> (close_handler, 'd) props" where
  "toast_props t =
     spread (omit [''title'', ''description'', ''action''] (tt_rest t))
       [(''open'', open_attr (tt_open t)),
        (''onOpenChange'', case tt_onOpenChange t of Some h \<Rightarrow> VHandler h | None \<Rightarrow> VUndef)]"

definition shown_if :: "string \<Rightarrow> ('h, 'd) aval \<Rightarrow> ('h, 'd) vnode list" where
  "shown_if tag v = (if truthy_attr v then [Elem tag [] (node_of v)] else node_of v)"

definition toast_row :: "'d toast_content toaster_toast \<Rightarrow> (close_handler, 'd) vnode" where
  "toast_row t =
     Elem ''Toast'' (spread [(''key'', VStr (tt_id t))] (toast_props t))
       ([Elem ''div'' [(''className'', VStr ''grid gap-1'')]
           (shown_if ''ToastTitle'' (attr (tt_rest t) ''title'') @
            shown_if ''ToastDescription'' (attr (tt_rest t) ''description''))] @
        node_of (attr (tt_rest t) ''action'') @
        [Elem ''ToastClose'' [] []])"

definition Toaster :: "'d toast_content toaster_toast list \<Rightarrow> (close_handler, 'd) vnode" where
  "Toaster toasts = Elem ''ToastProvider'' [] (map toast_row toasts @ [Elem ''ToastViewport'' [] []])"

text \<open>Closing the element that stands for a toast of the store dismisses that toast.\<close>

lemma map_of_toast_props:
  "map_of (toast_props t) ''onOpenChange'' = Some (case tt_onOpenChange t of Some h \<Rightarrow> VHandler h | None \<Rightarrow> VUndef)"
  "map_of (toast_props t) ''open'' = Some (open_attr (tt_open t))"
  by (simp_all add: toast_props_def map_of_spread)

lemma distinct_foldl_upd:
  "distinct (map fst m) \<Longrightarrow> distinct (map fst (foldl (\<lambda>m (k, v). upd k v m) m kvs))"
  by (induction kvs arbitrary: m) auto

lemma distinct_spread: "distinct (map fst base) \<Longrightarrow> distinct (map fst (spread base extra))"
  by (simp add: spread_def distinct_foldl_upd)

lemma toast_element_closes:
  assumes "distinct (map fst (tt_rest t))" "tt_onOpenChange t = Some (DismissOnClose i)"
  shows "\<exists>as ks. toast_row t = Elem ''Toast'' as ks \<and> attr as ''onOpenChange'' = VHandler (DismissOnClose i) \<and>
     onOpenChange (DismissOnClose i) False s = toast_dismiss i s"
proof -
  have d: "distinct (map fst (toast_props t))"
    using assms(1) by (simp add: toast_props_def distinct_spread)
  have "attr (spread [(''key'', VStr (tt_id t))] (toast_props t)) ''onOpenChange'' = VHandler (DismissOnClose i)"
    by (simp add: attr_spread [OF d] map_of_toast_props assms(2))
  then show ?thesis by (simp add: toast_row_def onOpenChange_def)
qed

text \<open>In every run, a subscribed \<^verbatim>\<open>Toaster\<close> renders the store, with at most one toast.\<close>

lemma toaster_at_most_one:
  assumes "toast_reachable s" "c \<in> set (listeners s)"
  shows "\<exists>rows. Toaster (shown s c) = Elem ''ToastProvider'' [] (rows @ [Elem ''ToastViewport'' [] []]) \<and>
     rows = map toast_row (memoryState s) \<and> length rows \<le> TOAST_LIMIT"
  using reachable_inv [OF assms(1)] assms(2) by (simp add: Toaster_def toast_inv_def)

end
