(* ===== verification/UI_Menus.thy ===== *)
theory UI_Menus
  imports UI_Base
begin

text \<open>
  The menus of \<^verbatim>\<open>components/ui\<close>: \<^verbatim>\<open>menubar.tsx\<close>, \<^verbatim>\<open>dropdown-menu.tsx\<close>, \<^verbatim>\<open>context-menu.tsx\<close>,
  \<^verbatim>\<open>navigation-menu.tsx\<close>, \<^verbatim>\<open>command.tsx\<close>.
\<close>

section \<open>Components\<close>

subsection \<open>Menubar\<close>

definition Menubar :: "('h, 'd) component" where
  "Menubar L ps children =
     styled L ''MenubarPrimitive.Root''
       []
       [''flex h-10 items-center space-x-1 rounded-md border bg-background p-1'']
       ps children"

definition MenubarTrigger :: "('h, 'd) component" where
  "MenubarTrigger L ps children =
     styled L ''MenubarPrimitive.Trigger''
       []
       [''flex cursor-default select-none items-center rounded-sm px-3 py-1.5 text-sm font-medium outline-none focus:bg-accent focus:text-accent-foreground data-[state=open]:bg-accent data-[state=open]:text-accent-foreground'']
       ps children"

definition MenubarSubTrigger :: "('h, 'd) component" where
  "MenubarSubTrigger L ps children =
     (let className = attr ps ''className'';
          inset = attr ps ''inset'';
          props = omit [''className'', ''inset''] ps
      in Elem ''MenubarPrimitive.SubTrigger''
           (spread
             [(''ref'', VRef),
              (''className'',
               VStr
                 (cn L
                   [VStr
                      ''flex cursor-default select-none items-center rounded-sm px-2 py-1.5 text-sm outline-none focus:bg-accent focus:text-accent-foreground data-[state=open]:bg-accent data-[state=open]:text-accent-foreground'',
                    js_and inset (VStr ''pl-8''),
                    className]))]
             props)
           (children @ [Elem ''ChevronRight'' [(''className'', VStr ''ml-auto h-4 w-4'')] []]))"

definition MenubarSubContent :: "('h, 'd) component" where
  "MenubarSubContent L ps children =
     styled L ''MenubarPrimitive.SubContent''
       []
       [''z-50 min-w-[8rem] overflow-hidden rounded-md border bg-popover p-1 text-popover-foreground data-[state=open]:animate-in data-[state=closed]:animate-out data-[state=closed]:fade-out-0 data-[state=open]:fade-in-0 data-[state=closed]:zoom-out-95 data-[state=open]:zoom-in-95 data-[side=bottom]:slide-in-from-top-2 data-[side=left]:slide-in-from-right-2 data-[side=right]:slide-in-from-left-2 data-[side=top]:slide-in-from-bottom-2'']
       ps children"

definition MenubarContent :: "('h, 'd) component" where
  "MenubarContent L ps children =
     (let className = attr ps ''className'';
          align = attr_or ps ''align'' (VStr ''start'');
          alignOffset = attr_or ps ''alignOffset'' (VNum (Fin (- 4)));
          sideOffset = attr_or ps ''sideOffset'' (VNum (Fin 8));
          props = omit [''className'', ''align'', ''alignOffset'', ''sideOffset''] ps
      in Elem ''MenubarPrimitive.Portal''
           []
           [Elem ''MenubarPrimitive.Content''
              (spread
                [(''ref'', VRef),
                 (''align'', align),
                 (''alignOffset'', alignOffset),
                 (''sideOffset'', sideOffset),
                 (''className'',
                  VStr
                    (cn L
                      [VStr
                         ''z-50 min-w-[12rem] overflow-hidden rounded-md border bg-popover p-1 text-popover-foreground shadow-md data-[state=open]:animate-in data-[state=closed]:fade-out-0 data-[state=open]:fade-in-0 data-[state=closed]:zoom-out-95 data-[state=open]:zoom-in-95 data-[side=bottom]:slide-in-from-top-2 data-[side=left]:slide-in-from-right-2 data-[side=right]:slide-in-from-left-2 data-[side=top]:slide-in-from-bottom-2'',
                       className]))]
                props)
              children])"

definition MenubarItem :: "('h, 'd) component" where
  "MenubarItem L ps children =
     (let className = attr ps ''className'';
          inset = attr ps ''inset'';
          props = omit [''className'', ''inset''] ps
      in Elem ''MenubarPrimitive.Item''
           (spread
             [(''ref'', VRef),
              (''className'',
               VStr
                 (cn L
                   [VStr
                      ''relative flex cursor-default select-none items-center rounded-sm px-2 py-1.5 text-sm outline-none focus:bg-accent focus:text-accent-foreground data-[disabled]:pointer-events-none data-[disabled]:opacity-50'',
                    js_and inset (VStr ''pl-8''),
                    className]))]
             props)
           children)"

definition MenubarCheckboxItem :: "('h, 'd) component" where
  "MenubarCheckboxItem L ps children =
     (let className = attr ps ''className'';
          checked = attr ps ''checked'';
          props = omit [''className'', ''checked''] ps
      in Elem ''MenubarPrimitive.CheckboxItem''
           (spread
             [(''ref'', VRef),
              (''className'',
               VStr
                 (cn L
                   [VStr
                      ''relative flex cursor-default select-none items-center rounded-sm py-1.5 pl-8 pr-2 text-sm outline-none focus:bg-accent focus:text-accent-foreground data-[disabled]:pointer-events-none data-[disabled]:opacity-50'',
                    className])),
              (''checked'', checked)]
             props)
           ([Elem ''span''
               [(''className'', VStr ''absolute left-2 flex h-3.5 w-3.5 items-center justify-center'')]
               [Elem ''MenubarPrimitive.ItemIndicator''
                  []
                  [Elem ''Check'' [(''className'', VStr ''h-4 w-4'')] []]]] @
            children))"

definition MenubarRadioItem :: "('h, 'd) component" where
  "MenubarRadioItem L ps children =
     (let className = attr ps ''className'';
          props = omit [''className''] ps
      in Elem ''MenubarPrimitive.RadioItem''
           (spread
             [(''ref'', VRef),
              (''className'',
               VStr
                 (cn L
                   [VStr
                      ''relative flex cursor-default select-none items-center rounded-sm py-1.5 pl-8 pr-2 text-sm outline-none focus:bg-accent focus:text-accent-foreground data-[disabled]:pointer-events-none data-[disabled]:opacity-50'',
                    className]))]
             props)
           ([Elem ''span''
               [(''className'', VStr ''absolute left-2 flex h-3.5 w-3.5 items-center justify-center'')]
               [Elem ''MenubarPrimitive.ItemIndicator''
                  []
                  [Elem ''Circle'' [(''className'', VStr ''h-2 w-2 fill-current'')] []]]] @
            children))"

definition MenubarLabel :: "('h, 'd) component" where
  "MenubarLabel L ps children =
     (let className = attr ps ''className'';
          inset = attr ps ''inset'';
          props = omit [''className'', ''inset''] ps
      in Elem ''MenubarPrimitive.Label''
           (spread
             [(''ref'', VRef),
              (''className'',
               VStr
                 (cn L
                   [VStr ''px-2 py-1.5 text-sm font-semibold'', js_and inset (VStr ''pl-8''), className]))]
             props)
           children)"

definition MenubarSeparator :: "('h, 'd) component" where
  "MenubarSeparator L ps children =
     styled L ''MenubarPrimitive.Separator'' [] [''-mx-1 my-1 h-px bg-muted''] ps children"

definition MenubarShortcut :: "('h, 'd) component" where
  "MenubarShortcut L ps children =
     (let className = attr ps ''className'';
          props = omit [''className''] ps
      in Elem ''span''
           (spread
             [(''className'',
               VStr (cn L [VStr ''ml-auto text-xs tracking-widest text-muted-foreground'', className]))]
             props)
           children)"

subsection \<open>Dropdown menu\<close>

definition DropdownMenuSubTrigger :: "('h, 'd) component" where
  "DropdownMenuSubTrigger L ps children =
     (let className = attr ps ''className'';
          inset = attr ps ''inset'';
          props = omit [''className'', ''inset''] ps
      in Elem ''DropdownMenuPrimitive.SubTrigger''
           (spread
             [(''ref'', VRef),
              (''className'',
               VStr
                 (cn L
                   [VStr
                      ''flex cursor-default gap-2 select-none items-center rounded-sm px-2 py-1.5 text-sm outline-none focus:bg-accent data-[state=open]:bg-accent [&_svg]:pointer-events-none [&_svg]:size-4 [&_svg]:shrink-0'',
                    js_and inset (VStr ''pl-8''),
                    className]))]
             props)
           (children @ [Elem ''ChevronRight'' [(''className'', VStr ''ml-auto'')] []]))"

definition DropdownMenuSubContent :: "('h, 'd) component" where
  "DropdownMenuSubContent L ps children =
     styled L ''DropdownMenuPrimitive.SubContent''
       []
       [''z-50 min-w-[8rem] overflow-hidden rounded-md border bg-popover p-1 text-popover-foreground shadow-lg data-[state=open]:animate-in data-[state=closed]:animate-out data-[state=closed]:fade-out-0 data-[state=open]:fade-in-0 data-[state=closed]:zoom-out-95 data-[state=open]:zoom-in-95 data-[side=bottom]:slide-in-from-top-2 data-[side=left]:slide-in-from-right-2 data-[side=right]:slide-in-from-left-2 data-[side=top]:slide-in-from-bottom-2'']
       ps children"

definition DropdownMenuContent :: "('h, 'd) component" where
  "DropdownMenuContent L ps children =
     (let className = attr ps ''className'';
          sideOffset = attr_or ps ''sideOffset'' (VNum (Fin 4));
          props = omit [''className'', ''sideOffset''] ps
      in Elem ''DropdownMenuPrimitive.Portal''
           []
           [Elem ''DropdownMenuPrimitive.Content''
              (spread
                [(''ref'', VRef),
                 (''sideOffset'', sideOffset),
                 (''className'',
                  VStr
                    (cn L
                      [VStr
                         ''z-50 min-w-[8rem] overflow-hidden rounded-md border bg-popover p-1 text-popover-foreground shadow-md data-[state=open]:animate-in data-[state=closed]:animate-out data-[state=closed]:fade-out-0 data-[state=open]:fade-in-0 data-[state=closed]:zoom-out-95 data-[state=open]:zoom-in-95 data-[side=bottom]:slide-in-from-top-2 data-[side=left]:slide-in-from-right-2 data-[side=right]:slide-in-from-left-2 data-[side=top]:slide-in-from-bottom-2'',
                       className]))]
                props)
              children])"

definition DropdownMenuItem :: "('h, 'd) component" where
  "DropdownMenuItem L ps children =
     (let className = attr ps ''className'';
          inset = attr ps ''inset'';
          props = omit [''className'', ''inset''] ps
      in Elem ''DropdownMenuPrimitive.Item''
           (spread
             [(''ref'', VRef),
              (''className'',
               VStr
                 (cn L
                   [VStr
                      ''relative flex cursor-default select-none items-center gap-2 rounded-sm px-2 py-1.5 text-sm outline-none transition-colors focus:bg-accent focus:text-accent-foreground data-[disabled]:pointer-events-none data-[disabled]:opacity-50 [&_svg]:pointer-events-none [&_svg]:size-4 [&_svg]:shrink-0'',
                    js_and inset (VStr ''pl-8''),
                    className]))]
             props)
           children)"

definition DropdownMenuCheckboxItem :: "('h, 'd) component" where
  "DropdownMenuCheckboxItem L ps children =
     (let className = attr ps ''className'';
          checked = attr ps ''checked'';
          props = omit [''className'', ''checked''] ps
      in Elem ''DropdownMenuPrimitive.CheckboxItem''
           (spread
             [(''ref'', VRef),
              (''className'',
               VStr
                 (cn L
                   [VStr
                      ''relative flex cursor-default select-none items-center rounded-sm py-1.5 pl-8 pr-2 text-sm outline-none transition-colors focus:bg-accent focus:text-accent-foreground data-[disabled]:pointer-events-none data-[disabled]:opacity-50'',
                    className])),
              (''checked'', checked)]
             props)
           ([Elem ''span''
               [(''className'', VStr ''absolute left-2 flex h-3.5 w-3.5 items-center justify-center'')]
               [Elem ''DropdownMenuPrimitive.ItemIndicator''
                  []
                  [Elem ''Check'' [(''className'', VStr ''h-4 w-4'')] []]]] @
            children))"

definition DropdownMenuRadioItem :: "('h, 'd) component" where
  "DropdownMenuRadioItem L ps children =
     (let className = attr ps ''className'';
          props = omit [''className''] ps
      in Elem ''DropdownMenuPrimitive.RadioItem''
           (spread
             [(''ref'', VRef),
              (''className'',
               VStr
                 (cn L
                   [VStr
                      ''relative flex cursor-default select-none items-center rounded-sm py-1.5 pl-8 pr-2 text-sm outline-none transition-colors focus:bg-accent focus:text-accent-foreground data-[disabled]:pointer-events-none data-[disabled]:opacity-50'',
                    className]))]
             props)
           ([Elem ''span''
               [(''className'', VStr ''absolute left-2 flex h-3.5 w-3.5 items-center justify-center'')]
               [Elem ''DropdownMenuPrimitive.ItemIndicator''
                  []
                  [Elem ''Circle'' [(''className'', VStr ''h-2 w-2 fill-current'')] []]]] @
            children))"

definition DropdownMenuLabel :: "('h, 'd) component" where
  "DropdownMenuLabel L ps children =
     (let className = attr ps ''className'';
          inset = attr ps ''inset'';
          props = omit [''className'', ''inset''] ps
      in Elem ''DropdownMenuPrimitive.Label''
           (spread
             [(''ref'', VRef),
              (''className'',
               VStr
                 (cn L
                   [VStr ''px-2 py-1.5 text-sm font-semibold'', js_and inset (VStr ''pl-8''), className]))]
             props)
           children)"

definition DropdownMenuSeparator :: "('h, 'd) component" where
  "DropdownMenuSeparator L ps children =
     styled L ''DropdownMenuPrimitive.Separator'' [] [''-mx-1 my-1 h-px bg-muted''] ps children"

definition DropdownMenuShortcut :: "('h, 'd) component" where
  "DropdownMenuShortcut L ps children =
     (let className = attr ps ''className'';
          props = omit [''className''] ps
      in Elem ''span''
           (spread
             [(''className'',
               VStr (cn L [VStr ''ml-auto text-xs tracking-widest opacity-60'', className]))]
             props)
           children)"

subsection \<open>Context menu\<close>

definition ContextMenuSubTrigger :: "('h, 'd) component" where
  "ContextMenuSubTrigger L ps children =
     (let className = attr ps ''className'';
          inset = attr ps ''inset'';
          props = omit [''className'', ''inset''] ps
      in Elem ''ContextMenuPrimitive.SubTrigger''
           (spread
             [(''ref'', VRef),
              (''className'',
               VStr
                 (cn L
                   [VStr
                      ''flex cursor-default select-none items-center rounded-sm px-2 py-1.5 text-sm outline-none focus:bg-accent focus:text-accent-foreground data-[state=open]:bg-accent data-[state=open]:text-accent-foreground'',
                    js_and inset (VStr ''pl-8''),
                    className]))]
             props)
           (children @ [Elem ''ChevronRight'' [(''className'', VStr ''ml-auto h-4 w-4'')] []]))"

definition ContextMenuSubContent :: "('h, 'd) component" where
  "ContextMenuSubContent L ps children =
     styled L ''ContextMenuPrimitive.SubContent''
       []
       [''z-50 min-w-[8rem] overflow-hidden rounded-md border bg-popover p-1 text-popover-foreground shadow-md data-[state=open]:animate-in data-[state=closed]:animate-out data-[state=closed]:fade-out-0 data-[state=open]:fade-in-0 data-[state=closed]:zoom-out-95 data-[state=open]:zoom-in-95 data-[side=bottom]:slide-in-from-top-2 data-[side=left]:slide-in-from-right-2 data-[side=right]:slide-in-from-left-2 data-[side=top]:slide-in-from-bottom-2'']
       ps children"

definition ContextMenuContent :: "('h, 'd) component" where
  "ContextMenuContent L ps children =
     (let className = attr ps ''className'';
          props = omit [''className''] ps
      in Elem ''ContextMenuPrimitive.Portal''
           []
           [Elem ''ContextMenuPrimitive.Content''
              (spread
                [(''ref'', VRef),
                 (''className'',
                  VStr
                    (cn L
                      [VStr
                         ''z-50 min-w-[8rem] overflow-hidden rounded-md border bg-popover p-1 text-popover-foreground shadow-md animate-in fade-in-80 data-[state=open]:animate-in data-[state=closed]:animate-out data-[state=closed]:fade-out-0 data-[state=open]:fade-in-0 data-[state=closed]:zoom-out-95 data-[state=open]:zoom-in-95 data-[side=bottom]:slide-in-from-top-2 data-[side=left]:slide-in-from-right-2 data-[side=right]:slide-in-from-left-2 data-[side=top]:slide-in-from-bottom-2'',
                       className]))]
                props)
              children])"

definition ContextMenuItem :: "('h, 'd) component" where
  "ContextMenuItem L ps children =
     (let className = attr ps ''className'';
          inset = attr ps ''inset'';
          props = omit [''className'', ''inset''] ps
      in Elem ''ContextMenuPrimitive.Item''
           (spread
             [(''ref'', VRef),
              (''className'',
               VStr
                 (cn L
                   [VStr
                      ''relative flex cursor-default select-none items-center rounded-sm px-2 py-1.5 text-sm outline-none focus:bg-accent focus:text-accent-foreground data-[disabled]:pointer-events-none data-[disabled]:opacity-50'',
                    js_and inset (VStr ''pl-8''),
                    className]))]
             props)
           children)"

definition ContextMenuCheckboxItem :: "('h, 'd) component" where
  "ContextMenuCheckboxItem L ps children =
     (let className = attr ps ''className'';
          checked = attr ps ''checked'';
          props = omit [''className'', ''checked''] ps
      in Elem ''ContextMenuPrimitive.CheckboxItem''
           (spread
             [(''ref'', VRef),
              (''className'',
               VStr
                 (cn L
                   [VStr
                      ''relative flex cursor-default select-none items-center rounded-sm py-1.5 pl-8 pr-2 text-sm outline-none focus:bg-accent focus:text-accent-foreground data-[disabled]:pointer-events-none data-[disabled]:opacity-50'',
                    className])),
              (''checked'', checked)]
             props)
           ([Elem ''span''
               [(''className'', VStr ''absolute left-2 flex h-3.5 w-3.5 items-center justify-center'')]
               [Elem ''ContextMenuPrimitive.ItemIndicator''
                  []
                  [Elem ''Check'' [(''className'', VStr ''h-4 w-4'')] []]]] @
            children))"

definition ContextMenuRadioItem :: "('h, 'd) component" where
  "ContextMenuRadioItem L ps children =
     (let className = attr ps ''className'';
          props = omit [''className''] ps
      in Elem ''ContextMenuPrimitive.RadioItem''
           (spread
             [(''ref'', VRef),
              (''className'',
               VStr
                 (cn L
                   [VStr
                      ''relative flex cursor-default select-none items-center rounded-sm py-1.5 pl-8 pr-2 text-sm outline-none focus:bg-accent focus:text-accent-foreground data-[disabled]:pointer-events-none data-[disabled]:opacity-50'',
                    className]))]
             props)
           ([Elem ''span''
               [(''className'', VStr ''absolute left-2 flex h-3.5 w-3.5 items-center justify-center'')]
               [Elem ''ContextMenuPrimitive.ItemIndicator''
                  []
                  [Elem ''Circle'' [(''className'', VStr ''h-2 w-2 fill-current'')] []]]] @
            children))"

definition ContextMenuLabel :: "('h, 'd) component" where
  "ContextMenuLabel L ps children =
     (let className = attr ps ''className'';
          inset = attr ps ''inset'';
          props = omit [''className'', ''inset''] ps
      in Elem ''ContextMenuPrimitive.Label''
           (spread
             [(''ref'', VRef),
              (''className'',
               VStr
                 (cn L
                   [VStr ''px-2 py-1.5 text-sm font-semibold text-foreground'',
                    js_and inset (VStr ''pl-8''),
                    className]))]
             props)
           children)"

definition ContextMenuSeparator :: "('h, 'd) component" where
  "ContextMenuSeparator L ps children =
     styled L ''ContextMenuPrimitive.Separator'' [] [''-mx-1 my-1 h-px bg-border''] ps children"

definition ContextMenuShortcut :: "('h, 'd) component" where
  "ContextMenuShortcut L ps children =
     (let className = attr ps ''className'';
          props = omit [''className''] ps
      in Elem ''span''
           (spread
             [(''className'',
               VStr (cn L [VStr ''ml-auto text-xs tracking-widest text-muted-foreground'', className]))]
             props)
           children)"

subsection \<open>Navigation menu\<close>

definition NavigationMenu :: "('h, 'd) component" where
  "NavigationMenu L ps children =
     (let className = attr ps ''className'';
          props = omit [''className''] ps
      in Elem ''NavigationMenuPrimitive.Root''
           (spread
             [(''ref'', VRef),
              (''className'',
               VStr
                 (cn L
                   [VStr ''relative z-10 flex max-w-max flex-1 items-center justify-center'', className]))]
             props)
           (children @ [Elem ''NavigationMenuViewport'' [] []]))"

definition NavigationMenuList :: "('h, 'd) component" where
  "NavigationMenuList L ps children =
     styled L ''NavigationMenuPrimitive.List''
       []
       [''group flex flex-1 list-none items-center justify-center space-x-1'']
       ps children"

definition navigationMenuTriggerStyle :: "('h, 'd) class_lib \<Rightarrow> ('h, 'd) props \<Rightarrow> string" where
  "navigationMenuTriggerStyle L ps =
     lib_cva L
       ''group inline-flex h-10 w-max items-center justify-center rounded-md bg-background px-4 py-2 text-sm font-medium transition-colors hover:bg-accent hover:text-accent-foreground focus:bg-accent focus:text-accent-foreground focus:outline-none disabled:pointer-events-none disabled:opacity-50 data-[active]:bg-accent/50 data-[state=open]:bg-accent/50''
       []
       []
       ps"

definition NavigationMenuTrigger :: "('h, 'd) component" where
  "NavigationMenuTrigger L ps children =
     (let className = attr ps ''className'';
          props = omit [''className''] ps
      in Elem ''NavigationMenuPrimitive.Trigger''
           (spread
             [(''ref'', VRef),
              (''className'',
               VStr (cn L [VStr (navigationMenuTriggerStyle L []), VStr ''group'', className]))]
             props)
           (children @
            [Text '' '',
             Elem ''ChevronDown''
               [(''className'',
                 VStr
                   ''relative top-[1px] ml-1 h-3 w-3 transition duration-200 group-data-[state=open]:rotate-180''),
                (''aria-hidden'', VStr ''true'')]
               []]))"

definition NavigationMenuContent :: "('h, 'd) component" where
  "NavigationMenuContent L ps children =
     styled L ''NavigationMenuPrimitive.Content''
       []
       [''left-0 top-0 w-full data-[motion^=from-]:animate-in data-[motion^=to-]:animate-out data-[motion^=from-]:fade-in data-[motion^=to-]:fade-out data-[motion=from-end]:slide-in-from-right-52 data-[motion=from-start]:slide-in-from-left-52 data-[motion=to-end]:slide-out-to-right-52 data-[motion=to-start]:slide-out-to-left-52 md:absolute md:w-auto '']
       ps children"

definition NavigationMenuViewport :: "('h, 'd) component" where
  "NavigationMenuViewport L ps children =
     (let className = attr ps ''className'';
          props = omit [''className''] ps
      in Elem ''div''
           [(''className'', VStr (cn L [VStr ''absolute left-0 top-full flex justify-center'']))]
           [Elem ''NavigationMenuPrimitive.Viewport''
              (spread
                [(''className'',
                  VStr
                    (cn L
                      [VStr
                         ''origin-top-center relative mt-1.5 h-[var(--radix-navigation-menu-viewport-height)] w-full overflow-hidden rounded-md border bg-popover text-popover-foreground shadow-lg data-[state=open]:animate-in data-[state=closed]:animate-out data-[state=closed]:zoom-out-95 data-[state=open]:zoom-in-90 md:w-[var(--radix-navigation-menu-viewport-width)]'',
                       className])),
                 (''ref'', VRef)]
                props)
              children])"

definition NavigationMenuIndicator :: "('h, 'd) component" where
  "NavigationMenuIndicator L ps children =
     (let className = attr ps ''className'';
          props = omit [''className''] ps
      in Elem ''NavigationMenuPrimitive.Indicator''
           (spread
             [(''ref'', VRef),
              (''className'',
               VStr
                 (cn L
                   [VStr
                      ''top-full z-[1] flex h-1.5 items-end justify-center overflow-hidden data-[state=visible]:animate-in data-[state=hidden]:animate-out data-[state=hidden]:fade-out data-[state=visible]:fade-in'',
                    className]))]
             props)
           [Elem ''div''
              [(''className'',
                VStr ''relative top-[60%] h-2 w-2 rotate-45 rounded-tl-sm bg-border shadow-md'')]
              []])"

subsection \<open>Command\<close>

definition Command :: "('h, 'd) component" where
  "Command L ps children =
     styled L ''CommandPrimitive''
       []
       [''flex h-full w-full flex-col overflow-hidden rounded-md bg-popover text-popover-foreground'']
       ps children"

definition CommandDialog :: "('h, 'd) component" where
  "CommandDialog L ps children =
     Elem ''Dialog'' ps
       [Elem ''DialogContent''
          [(''className'', VStr ''overflow-hidden p-0 shadow-lg'')]
          [Elem ''Command''
             [(''className'',
               VStr
                 ''[&_[cmdk-group-heading]]:px-2 [&_[cmdk-group-heading]]:font-medium [&_[cmdk-group-heading]]:text-muted-foreground [&_[cmdk-group]:not([hidden])_~[cmdk-group]]:pt-0 [&_[cmdk-group]]:px-2 [&_[cmdk-input-wrapper]_svg]:h-5 [&_[cmdk-input-wrapper]_svg]:w-5 [&_[cmdk-input]]:h-12 [&_[cmdk-item]]:px-2 [&_[cmdk-item]]:py-3 [&_[cmdk-item]_svg]:h-5 [&_[cmdk-item]_svg]:w-5'')]
             children]]"

definition CommandInput :: "('h, 'd) component" where
  "CommandInput L ps children =
     (let className = attr ps ''className'';
          props = omit [''className''] ps
      in Elem ''div''
           [(''className'', VStr ''flex items-center border-b px-3''),
            (''cmdk-input-wrapper'', VStr '''')]
           [Elem ''Search'' [(''className'', VStr ''mr-2 h-4 w-4 shrink-0 opacity-50'')] [],
            Elem ''CommandPrimitive.Input''
              (spread
                [(''ref'', VRef),
                 (''className'',
                  VStr
                    (cn L
                      [VStr
                         ''flex h-11 w-full rounded-md bg-transparent py-3 text-sm outline-none placeholder:text-muted-foreground disabled:cursor-not-allowed disabled:opacity-50'',
                       className]))]
                props)
              children])"

definition CommandList :: "('h, 'd) component" where
  "CommandList L ps children =
     styled L ''CommandPrimitive.List''
       []
       [''max-h-[300px] overflow-y-auto overflow-x-hidden'']
       ps children"

definition CommandEmpty :: "('h, 'd) component" where
  "CommandEmpty L ps children =
     Elem ''CommandPrimitive.Empty''
       (spread [(''ref'', VRef), (''className'', VStr ''py-6 text-center text-sm'')] ps)
       children"

definition CommandGroup :: "('h, 'd) component" where
  "CommandGroup L ps children =
     styled L ''CommandPrimitive.Group''
       []
       [''overflow-hidden p-1 text-foreground [&_[cmdk-group-heading]]:px-2 [&_[cmdk-group-heading]]:py-1.5 [&_[cmdk-group-heading]]:text-xs [&_[cmdk-group-heading]]:font-medium [&_[cmdk-group-heading]]:text-muted-foreground'']
       ps children"

definition CommandSeparator :: "('h, 'd) component" where
  "CommandSeparator L ps children =
     styled L ''CommandPrimitive.Separator'' [] [''-mx-1 h-px bg-border''] ps children"

definition CommandItem :: "('h, 'd) component" where
  "CommandItem L ps children =
     styled L ''CommandPrimitive.Item''
       []
       [''relative flex cursor-default gap-2 select-none items-center rounded-sm px-2 py-1.5 text-sm outline-none data-[disabled=true]:pointer-events-none data-[selected='true']:bg-accent data-[selected=true]:text-accent-foreground data-[disabled=true]:opacity-50 [&_svg]:pointer-events-none [&_svg]:size-4 [&_svg]:shrink-0'']
       ps children"

definition CommandShortcut :: "('h, 'd) component" where
  "CommandShortcut L ps children =
     (let className = attr ps ''className'';
          props = omit [''className''] ps
      in Elem ''span''
           (spread
             [(''className'',
               VStr (cn L [VStr ''ml-auto text-xs tracking-widest text-muted-foreground'', className]))]
             props)
           children)"

section \<open>Props are passed on\<close>

text \<open>
  The menu components with the props each uses itself: those that merge the caller's class name
  last, and the others.
\<close>

definition menu_components :: "(string list \<times> ('h, 'd) component) list" where
  "menu_components =
     [([''className''], Menubar),
      ([''className''], MenubarTrigger),
      ([''className''], MenubarSubContent),
      ([''className''], MenubarRadioItem),
      ([''className''], MenubarSeparator),
      ([''className''], MenubarShortcut),
      ([''className''], DropdownMenuSubContent),
      ([''className''], DropdownMenuRadioItem),
      ([''className''], DropdownMenuSeparator),
      ([''className''], DropdownMenuShortcut),
      ([''className''], ContextMenuSubContent),
      ([''className''], ContextMenuContent),
      ([''className''], ContextMenuRadioItem),
      ([''className''], ContextMenuSeparator),
      ([''className''], ContextMenuShortcut),
      ([''className''], NavigationMenu),
      ([''className''], NavigationMenuList),
      ([''className''], NavigationMenuTrigger),
      ([''className''], NavigationMenuContent),
      ([''className''], NavigationMenuViewport),
      ([''className''], NavigationMenuIndicator),
      ([''className''], Command),
      ([''className''], CommandInput),
      ([''className''], CommandList),
      ([''className''], CommandGroup),
      ([''className''], CommandSeparator),
      ([''className''], CommandItem),
      ([''className''], CommandShortcut),
      ([''className'', ''inset''], MenubarSubTrigger),
      ([''className'', ''inset''], MenubarItem),
      ([''className'', ''inset''], MenubarLabel),
      ([''className'', ''inset''], DropdownMenuSubTrigger),
      ([''className'', ''inset''], DropdownMenuItem),
      ([''className'', ''inset''], DropdownMenuLabel),
      ([''className'', ''inset''], ContextMenuSubTrigger),
      ([''className'', ''inset''], ContextMenuItem),
      ([''className'', ''inset''], ContextMenuLabel),
      ([''className'', ''align'', ''alignOffset'', ''sideOffset''], MenubarContent),
      ([''className'', ''checked''], MenubarCheckboxItem),
      ([''className'', ''checked''], DropdownMenuCheckboxItem),
      ([''className'', ''checked''], ContextMenuCheckboxItem),
      ([''className'', ''sideOffset''], DropdownMenuContent)]"

definition plain_menu_components :: "(string list \<times> ('h, 'd) component) list" where
  "plain_menu_components =
     [([], CommandDialog),
      ([], CommandEmpty)]"

lemmas menu_defs =
  Menubar_def MenubarTrigger_def MenubarSubTrigger_def MenubarSubContent_def MenubarContent_def
  MenubarItem_def MenubarCheckboxItem_def MenubarRadioItem_def MenubarLabel_def
  MenubarSeparator_def MenubarShortcut_def DropdownMenuSubTrigger_def DropdownMenuSubContent_def
  DropdownMenuContent_def DropdownMenuItem_def DropdownMenuCheckboxItem_def
  DropdownMenuRadioItem_def DropdownMenuLabel_def DropdownMenuSeparator_def
  DropdownMenuShortcut_def ContextMenuSubTrigger_def ContextMenuSubContent_def
  ContextMenuContent_def ContextMenuItem_def ContextMenuCheckboxItem_def ContextMenuRadioItem_def
  ContextMenuLabel_def ContextMenuSeparator_def ContextMenuShortcut_def NavigationMenu_def
  NavigationMenuList_def NavigationMenuTrigger_def NavigationMenuContent_def
  NavigationMenuViewport_def NavigationMenuIndicator_def Command_def CommandInput_def
  CommandList_def CommandGroup_def CommandSeparator_def CommandItem_def CommandShortcut_def

lemma menu_forward: "list_all (\<lambda>(own, c). forwards_class own c) menu_components"
  by (simp add: menu_components_def forwards_class_def menu_defs Let_def)

lemmas plain_menu_defs =
  CommandDialog_def CommandEmpty_def

lemma plain_menu_forward: "list_all (\<lambda>(own, c). forwards own c) plain_menu_components"
  by (simp add: plain_menu_components_def forwards_def plain_menu_defs Let_def)

end
