(* ===== verification/UI_Overlays.thy ===== *)
theory UI_Overlays
  imports UI_Controls
begin

text \<open>
  The overlays of \<^verbatim>\<open>components/ui\<close>: dialogs, alert dialogs, sheets, drawers, popovers, hover
  cards, tooltips and the parts of a toast.
\<close>

section \<open>Components\<close>

subsection \<open>Dialog\<close>

definition DialogOverlay :: "('h, 'd) component" where
  "DialogOverlay L ps children =
     styled L ''DialogPrimitive.Overlay''
       []
       [''fixed inset-0 z-50 bg-black/80  data-[state=open]:animate-in data-[state=closed]:animate-out data-[state=closed]:fade-out-0 data-[state=open]:fade-in-0'']
       ps children"

definition DialogContent :: "('h, 'd) component" where
  "DialogContent L ps children =
     (let className = attr ps ''className'';
          props = omit [''className''] ps
      in Elem ''DialogPortal''
           []
           [Elem ''DialogOverlay'' [] [],
            Elem ''DialogPrimitive.Content''
              (spread
                [(''ref'', VRef),
                 (''className'',
                  VStr
                    (cn L
                      [VStr
                         ''fixed left-[50%] top-[50%] z-50 grid w-full max-w-lg translate-x-[-50%] translate-y-[-50%] gap-4 border bg-background p-6 shadow-lg duration-200 data-[state=open]:animate-in data-[state=closed]:animate-out data-[state=closed]:fade-out-0 data-[state=open]:fade-in-0 data-[state=closed]:zoom-out-95 data-[state=open]:zoom-in-95 data-[state=closed]:slide-out-to-left-1/2 data-[state=closed]:slide-out-to-top-[48%] data-[state=open]:slide-in-from-left-1/2 data-[state=open]:slide-in-from-top-[48%] sm:rounded-lg'',
                       className]))]
                props)
              (children @
               [Elem ''DialogPrimitive.Close''
                  [(''className'',
                    VStr
                      ''absolute right-4 top-4 rounded-sm opacity-70 ring-offset-background transition-opacity hover:opacity-100 focus:outline-none focus:ring-2 focus:ring-ring focus:ring-offset-2 disabled:pointer-events-none data-[state=open]:bg-accent data-[state=open]:text-muted-foreground'')]
                  [Elem ''X'' [(''className'', VStr ''h-4 w-4'')] [],
                   Elem ''span'' [(''className'', VStr ''sr-only'')] [Text ''Close'']]])])"

definition DialogHeader :: "('h, 'd) component" where
  "DialogHeader L ps children =
     (let className = attr ps ''className'';
          props = omit [''className''] ps
      in Elem ''div''
           (spread
             [(''className'',
               VStr (cn L [VStr ''flex flex-col space-y-1.5 text-center sm:text-left'', className]))]
             props)
           children)"

definition DialogFooter :: "('h, 'd) component" where
  "DialogFooter L ps children =
     (let className = attr ps ''className'';
          props = omit [''className''] ps
      in Elem ''div''
           (spread
             [(''className'',
               VStr
                 (cn L
                   [VStr ''flex flex-col-reverse sm:flex-row sm:justify-end sm:space-x-2'', className]))]
             props)
           children)"

definition DialogTitle :: "('h, 'd) component" where
  "DialogTitle L ps children =
     styled L ''DialogPrimitive.Title''
       []
       [''text-lg font-semibold leading-none tracking-tight'']
       ps children"

definition DialogDescription :: "('h, 'd) component" where
  "DialogDescription L ps children =
     styled L ''DialogPrimitive.Description'' [] [''text-sm text-muted-foreground''] ps children"

subsection \<open>Alert dialog\<close>

definition AlertDialogOverlay :: "('h, 'd) component" where
  "AlertDialogOverlay L ps children =
     (let className = attr ps ''className'';
          props = omit [''className''] ps
      in Elem ''AlertDialogPrimitive.Overlay''
           (spread
             (spread
               [(''className'',
                 VStr
                   (cn L
                     [VStr
                        ''fixed inset-0 z-50 bg-black/80  data-[state=open]:animate-in data-[state=closed]:animate-out data-[state=closed]:fade-out-0 data-[state=open]:fade-in-0'',
                      className]))]
               props)
             [(''ref'', VRef)])
           children)"

definition AlertDialogContent :: "('h, 'd) component" where
  "AlertDialogContent L ps children =
     (let className = attr ps ''className'';
          props = omit [''className''] ps
      in Elem ''AlertDialogPortal''
           []
           [Elem ''AlertDialogOverlay'' [] [],
            Elem ''AlertDialogPrimitive.Content''
              (spread
                [(''ref'', VRef),
                 (''className'',
                  VStr
                    (cn L
                      [VStr
                         ''fixed left-[50%] top-[50%] z-50 grid w-full max-w-lg translate-x-[-50%] translate-y-[-50%] gap-4 border bg-background p-6 shadow-lg duration-200 data-[state=open]:animate-in data-[state=closed]:animate-out data-[state=closed]:fade-out-0 data-[state=open]:fade-in-0 data-[state=closed]:zoom-out-95 data-[state=open]:zoom-in-95 data-[state=closed]:slide-out-to-left-1/2 data-[state=closed]:slide-out-to-top-[48%] data-[state=open]:slide-in-from-left-1/2 data-[state=open]:slide-in-from-top-[48%] sm:rounded-lg'',
                       className]))]
                props)
              children])"

definition AlertDialogHeader :: "('h, 'd) component" where
  "AlertDialogHeader L ps children =
     (let className = attr ps ''className'';
          props = omit [''className''] ps
      in Elem ''div''
           (spread
             [(''className'',
               VStr (cn L [VStr ''flex flex-col space-y-2 text-center sm:text-left'', className]))]
             props)
           children)"

definition AlertDialogFooter :: "('h, 'd) component" where
  "AlertDialogFooter L ps children =
     (let className = attr ps ''className'';
          props = omit [''className''] ps
      in Elem ''div''
           (spread
             [(''className'',
               VStr
                 (cn L
                   [VStr ''flex flex-col-reverse sm:flex-row sm:justify-end sm:space-x-2'', className]))]
             props)
           children)"

definition AlertDialogTitle :: "('h, 'd) component" where
  "AlertDialogTitle L ps children =
     styled L ''AlertDialogPrimitive.Title'' [] [''text-lg font-semibold''] ps children"

definition AlertDialogDescription :: "('h, 'd) component" where
  "AlertDialogDescription L ps children =
     styled L ''AlertDialogPrimitive.Description'' [] [''text-sm text-muted-foreground''] ps children"

definition AlertDialogAction :: "('h, 'd) component" where
  "AlertDialogAction L ps children =
     (let className = attr ps ''className'';
          props = omit [''className''] ps
      in Elem ''AlertDialogPrimitive.Action''
           (spread
             [(''ref'', VRef), (''className'', VStr (cn L [VStr (buttonVariants L []), className]))]
             props)
           children)"

definition AlertDialogCancel :: "('h, 'd) component" where
  "AlertDialogCancel L ps children =
     (let className = attr ps ''className'';
          props = omit [''className''] ps
      in Elem ''AlertDialogPrimitive.Cancel''
           (spread
             [(''ref'', VRef),
              (''className'',
               VStr
                 (cn L
                   [VStr (buttonVariants L [(''variant'', VStr ''outline'')]),
                    VStr ''mt-2 sm:mt-0'',
                    className]))]
             props)
           children)"

subsection \<open>Sheet\<close>

definition SheetOverlay :: "('h, 'd) component" where
  "SheetOverlay L ps children =
     (let className = attr ps ''className'';
          props = omit [''className''] ps
      in Elem ''SheetPrimitive.Overlay''
           (spread
             (spread
               [(''className'',
                 VStr
                   (cn L
                     [VStr
                        ''fixed inset-0 z-50 bg-black/80  data-[state=open]:animate-in data-[state=closed]:animate-out data-[state=closed]:fade-out-0 data-[state=open]:fade-in-0'',
                      className]))]
               props)
             [(''ref'', VRef)])
           children)"

definition sheetVariants :: "('h, 'd) class_lib \<Rightarrow> ('h, 'd) props \<Rightarrow> string" where
  "sheetVariants L ps =
     lib_cva L
       ''fixed z-50 gap-4 bg-background p-6 shadow-lg transition ease-in-out data-[state=open]:animate-in data-[state=closed]:animate-out data-[state=closed]:duration-300 data-[state=open]:duration-500''
       [(''side'',
         [(''top'',
           ''inset-x-0 top-0 border-b data-[state=closed]:slide-out-to-top data-[state=open]:slide-in-from-top''),
          (''bottom'',
           ''inset-x-0 bottom-0 border-t data-[state=closed]:slide-out-to-bottom data-[state=open]:slide-in-from-bottom''),
          (''left'',
           ''inset-y-0 left-0 h-full w-3/4 border-r data-[state=closed]:slide-out-to-left data-[state=open]:slide-in-from-left sm:max-w-sm''),
          (''right'',
           ''inset-y-0 right-0 h-full w-3/4  border-l data-[state=closed]:slide-out-to-right data-[state=open]:slide-in-from-right sm:max-w-sm'')])]
       [(''side'', ''right'')]
       ps"

definition SheetContent :: "('h, 'd) component" where
  "SheetContent L ps children =
     (let side = attr_or ps ''side'' (VStr ''right'');
          className = attr ps ''className'';
          props = omit [''side'', ''className''] ps
      in Elem ''SheetPortal''
           []
           [Elem ''SheetOverlay'' [] [],
            Elem ''SheetPrimitive.Content''
              (spread
                [(''ref'', VRef),
                 (''className'', VStr (cn L [VStr (sheetVariants L [(''side'', side)]), className]))]
                props)
              (children @
               [Elem ''SheetPrimitive.Close''
                  [(''className'',
                    VStr
                      ''absolute right-4 top-4 rounded-sm opacity-70 ring-offset-background transition-opacity hover:opacity-100 focus:outline-none focus:ring-2 focus:ring-ring focus:ring-offset-2 disabled:pointer-events-none data-[state=open]:bg-secondary'')]
                  [Elem ''X'' [(''className'', VStr ''h-4 w-4'')] [],
                   Elem ''span'' [(''className'', VStr ''sr-only'')] [Text ''Close'']]])])"

definition SheetHeader :: "('h, 'd) component" where
  "SheetHeader L ps children =
     (let className = attr ps ''className'';
          props = omit [''className''] ps
      in Elem ''div''
           (spread
             [(''className'',
               VStr (cn L [VStr ''flex flex-col space-y-2 text-center sm:text-left'', className]))]
             props)
           children)"

definition SheetFooter :: "('h, 'd) component" where
  "SheetFooter L ps children =
     (let className = attr ps ''className'';
          props = omit [''className''] ps
      in Elem ''div''
           (spread
             [(''className'',
               VStr
                 (cn L
                   [VStr ''flex flex-col-reverse sm:flex-row sm:justify-end sm:space-x-2'', className]))]
             props)
           children)"

definition SheetTitle :: "('h, 'd) component" where
  "SheetTitle L ps children =
     styled L ''SheetPrimitive.Title'' [] [''text-lg font-semibold text-foreground''] ps children"

definition SheetDescription :: "('h, 'd) component" where
  "SheetDescription L ps children =
     styled L ''SheetPrimitive.Description'' [] [''text-sm text-muted-foreground''] ps children"

subsection \<open>Drawer\<close>

definition Drawer :: "('h, 'd) component" where
  "Drawer L ps children =
     (let shouldScaleBackground = attr_or ps ''shouldScaleBackground'' (VBool True);
          props = omit [''shouldScaleBackground''] ps
      in Elem ''DrawerPrimitive.Root''
           (spread [(''shouldScaleBackground'', shouldScaleBackground)] props)
           children)"

definition DrawerOverlay :: "('h, 'd) component" where
  "DrawerOverlay L ps children =
     styled L ''DrawerPrimitive.Overlay'' [] [''fixed inset-0 z-50 bg-black/80''] ps children"

definition DrawerContent :: "('h, 'd) component" where
  "DrawerContent L ps children =
     (let className = attr ps ''className'';
          props = omit [''className''] ps
      in Elem ''DrawerPortal''
           []
           [Elem ''DrawerOverlay'' [] [],
            Elem ''DrawerPrimitive.Content''
              (spread
                [(''ref'', VRef),
                 (''className'',
                  VStr
                    (cn L
                      [VStr
                         ''fixed inset-x-0 bottom-0 z-50 mt-24 flex h-auto flex-col rounded-t-[10px] border bg-background'',
                       className]))]
                props)
              ([Elem ''div''
                  [(''className'', VStr ''mx-auto mt-4 h-2 w-[100px] rounded-full bg-muted'')]
                  []] @
               children)])"

definition DrawerHeader :: "('h, 'd) component" where
  "DrawerHeader L ps children =
     (let className = attr ps ''className'';
          props = omit [''className''] ps
      in Elem ''div''
           (spread
             [(''className'',
               VStr (cn L [VStr ''grid gap-1.5 p-4 text-center sm:text-left'', className]))]
             props)
           children)"

definition DrawerFooter :: "('h, 'd) component" where
  "DrawerFooter L ps children =
     (let className = attr ps ''className'';
          props = omit [''className''] ps
      in Elem ''div''
           (spread
             [(''className'', VStr (cn L [VStr ''mt-auto flex flex-col gap-2 p-4'', className]))]
             props)
           children)"

definition DrawerTitle :: "('h, 'd) component" where
  "DrawerTitle L ps children =
     styled L ''DrawerPrimitive.Title''
       []
       [''text-lg font-semibold leading-none tracking-tight'']
       ps children"

definition DrawerDescription :: "('h, 'd) component" where
  "DrawerDescription L ps children =
     styled L ''DrawerPrimitive.Description'' [] [''text-sm text-muted-foreground''] ps children"

subsection \<open>Popover\<close>

definition PopoverContent :: "('h, 'd) component" where
  "PopoverContent L ps children =
     (let className = attr ps ''className'';
          align = attr_or ps ''align'' (VStr ''center'');
          sideOffset = attr_or ps ''sideOffset'' (VNum (Fin 4));
          props = omit [''className'', ''align'', ''sideOffset''] ps
      in Elem ''PopoverPrimitive.Portal''
           []
           [Elem ''PopoverPrimitive.Content''
              (spread
                [(''ref'', VRef),
                 (''align'', align),
                 (''sideOffset'', sideOffset),
                 (''className'',
                  VStr
                    (cn L
                      [VStr
                         ''z-50 w-72 rounded-md border bg-popover p-4 text-popover-foreground shadow-md outline-none data-[state=open]:animate-in data-[state=closed]:animate-out data-[state=closed]:fade-out-0 data-[state=open]:fade-in-0 data-[state=closed]:zoom-out-95 data-[state=open]:zoom-in-95 data-[side=bottom]:slide-in-from-top-2 data-[side=left]:slide-in-from-right-2 data-[side=right]:slide-in-from-left-2 data-[side=top]:slide-in-from-bottom-2'',
                       className]))]
                props)
              children])"

subsection \<open>Hover card\<close>

definition HoverCardContent :: "('h, 'd) component" where
  "HoverCardContent L ps children =
     (let className = attr ps ''className'';
          align = attr_or ps ''align'' (VStr ''center'');
          sideOffset = attr_or ps ''sideOffset'' (VNum (Fin 4));
          props = omit [''className'', ''align'', ''sideOffset''] ps
      in Elem ''HoverCardPrimitive.Content''
           (spread
             [(''ref'', VRef),
              (''align'', align),
              (''sideOffset'', sideOffset),
              (''className'',
               VStr
                 (cn L
                   [VStr
                      ''z-50 w-64 rounded-md border bg-popover p-4 text-popover-foreground shadow-md outline-none data-[state=open]:animate-in data-[state=closed]:animate-out data-[state=closed]:fade-out-0 data-[state=open]:fade-in-0 data-[state=closed]:zoom-out-95 data-[state=open]:zoom-in-95 data-[side=bottom]:slide-in-from-top-2 data-[side=left]:slide-in-from-right-2 data-[side=right]:slide-in-from-left-2 data-[side=top]:slide-in-from-bottom-2'',
                    className]))]
             props)
           children)"

subsection \<open>Tooltip\<close>

definition TooltipContent :: "('h, 'd) component" where
  "TooltipContent L ps children =
     (let className = attr ps ''className'';
          sideOffset = attr_or ps ''sideOffset'' (VNum (Fin 4));
          props = omit [''className'', ''sideOffset''] ps
      in Elem ''TooltipPrimitive.Content''
           (spread
             [(''ref'', VRef),
              (''sideOffset'', sideOffset),
              (''className'',
               VStr
                 (cn L
                   [VStr
                      ''z-50 overflow-hidden rounded-md border bg-popover px-3 py-1.5 text-sm text-popover-foreground shadow-md animate-in fade-in-0 zoom-in-95 data-[state=closed]:animate-out data-[state=closed]:fade-out-0 data-[state=closed]:zoom-out-95 data-[side=bottom]:slide-in-from-top-2 data-[side=left]:slide-in-from-right-2 data-[side=right]:slide-in-from-left-2 data-[side=top]:slide-in-from-bottom-2'',
                    className]))]
             props)
           children)"

subsection \<open>Toast\<close>

definition ToastViewport :: "('h, 'd) component" where
  "ToastViewport L ps children =
     styled L ''ToastPrimitives.Viewport''
       []
       [''fixed top-0 z-[100] flex max-h-screen w-full flex-col-reverse p-4 sm:bottom-0 sm:right-0 sm:top-auto sm:flex-col md:max-w-[420px]'']
       ps children"

definition toastVariants :: "('h, 'd) class_lib \<Rightarrow> ('h, 'd) props \<Rightarrow> string" where
  "toastVariants L ps =
     lib_cva L
       ''group pointer-events-auto relative flex w-full items-center justify-between space-x-4 overflow-hidden rounded-md border p-6 pr-8 shadow-lg transition-all data-[swipe=cancel]:translate-x-0 data-[swipe=end]:translate-x-[var(--radix-toast-swipe-end-x)] data-[swipe=move]:translate-x-[var(--radix-toast-swipe-move-x)] data-[swipe=move]:transition-none data-[state=open]:animate-in data-[state=closed]:animate-out data-[swipe=end]:animate-out data-[state=closed]:fade-out-80 data-[state=closed]:slide-out-to-right-full data-[state=open]:slide-in-from-top-full data-[state=open]:sm:slide-in-from-bottom-full''
       [(''variant'',
         [(''default'', ''border bg-background text-foreground''),
          (''destructive'',
           ''destructive group border-destructive bg-destructive text-destructive-foreground'')])]
       [(''variant'', ''default'')]
       ps"

definition Toast :: "('h, 'd) component" where
  "Toast L ps children =
     (let className = attr ps ''className'';
          variant = attr ps ''variant'';
          props = omit [''className'', ''variant''] ps
      in Elem ''ToastPrimitives.Root''
           (spread
             [(''ref'', VRef),
              (''className'', VStr (cn L [VStr (toastVariants L [(''variant'', variant)]), className]))]
             props)
           children)"

definition ToastAction :: "('h, 'd) component" where
  "ToastAction L ps children =
     styled L ''ToastPrimitives.Action''
       []
       [''inline-flex h-8 shrink-0 items-center justify-center rounded-md border bg-transparent px-3 text-sm font-medium ring-offset-background transition-colors hover:bg-secondary focus:outline-none focus:ring-2 focus:ring-ring focus:ring-offset-2 disabled:pointer-events-none disabled:opacity-50 group-[.destructive]:border-muted/40 group-[.destructive]:hover:border-destructive/30 group-[.destructive]:hover:bg-destructive group-[.destructive]:hover:text-destructive-foreground group-[.destructive]:focus:ring-destructive'']
       ps children"

definition ToastClose :: "('h, 'd) component" where
  "ToastClose L ps children =
     (let className = attr ps ''className'';
          props = omit [''className''] ps
      in Elem ''ToastPrimitives.Close''
           (spread
             [(''ref'', VRef),
              (''className'',
               VStr
                 (cn L
                   [VStr
                      ''absolute right-2 top-2 rounded-md p-1 text-foreground/50 opacity-0 transition-opacity hover:text-foreground focus:opacity-100 focus:outline-none focus:ring-2 group-hover:opacity-100 group-[.destructive]:text-red-300 group-[.destructive]:hover:text-red-50 group-[.destructive]:focus:ring-red-400 group-[.destructive]:focus:ring-offset-red-600'',
                    className])),
              (''toast-close'', VStr '''')]
             props)
           [Elem ''X'' [(''className'', VStr ''h-4 w-4'')] []])"

definition ToastTitle :: "('h, 'd) component" where
  "ToastTitle L ps children =
     styled L ''ToastPrimitives.Title'' [] [''text-sm font-semibold''] ps children"

definition ToastDescription :: "('h, 'd) component" where
  "ToastDescription L ps children =
     styled L ''ToastPrimitives.Description'' [] [''text-sm opacity-90''] ps children"

subsection \<open>Sonner\<close>

text \<open>
  The \<^verbatim>\<open>Toaster\<close> of \<^verbatim>\<open>sonner.tsx\<close>; what \<^verbatim>\<open>useTheme()\<close> of the package \<^verbatim>\<open>next-themes\<close> returns is an argument.
\<close>

definition SonnerToaster :: "('h, 'd) props \<Rightarrow> ('h, 'd) component" where
  "SonnerToaster themeContext L ps children =
     (let theme = attr_or themeContext ''theme'' (VStr ''system'')
      in Elem ''Sonner''
           (spread
             [(''theme'', theme),
              (''className'', VStr ''toaster group''),
              (''toastOptions'',
               VObj [(''classNames'',
                 VObj
                   [(''toast'',
                     VStr ''group toast group-[.toaster]:bg-background group-[.toaster]:text-foreground group-[.toaster]:border-border group-[.toaster]:shadow-lg''),
                    (''description'', VStr ''group-[.toast]:text-muted-foreground''),
                    (''actionButton'', VStr ''group-[.toast]:bg-primary group-[.toast]:text-primary-foreground''),
                    (''cancelButton'', VStr ''group-[.toast]:bg-muted group-[.toast]:text-muted-foreground'')])])]
             ps)
           children)"

section \<open>Props are passed on\<close>

text \<open>
  The overlay components with the props each uses itself: those that merge the caller's class name
  last, and the others.
\<close>

definition overlay_components :: "(string list \<times> ('h, 'd) component) list" where
  "overlay_components =
     [([''className''], DialogOverlay),
      ([''className''], DialogContent),
      ([''className''], DialogHeader),
      ([''className''], DialogFooter),
      ([''className''], DialogTitle),
      ([''className''], DialogDescription),
      ([''className''], AlertDialogOverlay),
      ([''className''], AlertDialogContent),
      ([''className''], AlertDialogHeader),
      ([''className''], AlertDialogFooter),
      ([''className''], AlertDialogTitle),
      ([''className''], AlertDialogDescription),
      ([''className''], AlertDialogAction),
      ([''className''], AlertDialogCancel),
      ([''className''], SheetOverlay),
      ([''className''], SheetHeader),
      ([''className''], SheetFooter),
      ([''className''], SheetTitle),
      ([''className''], SheetDescription),
      ([''className''], DrawerOverlay),
      ([''className''], DrawerContent),
      ([''className''], DrawerHeader),
      ([''className''], DrawerFooter),
      ([''className''], DrawerTitle),
      ([''className''], DrawerDescription),
      ([''className''], ToastViewport),
      ([''className''], ToastAction),
      ([''className''], ToastClose),
      ([''className''], ToastTitle),
      ([''className''], ToastDescription),
      ([''side'', ''className''], SheetContent),
      ([''className'', ''align'', ''sideOffset''], PopoverContent),
      ([''className'', ''align'', ''sideOffset''], HoverCardContent),
      ([''className'', ''sideOffset''], TooltipContent),
      ([''className'', ''variant''], Toast)]"

definition plain_overlay_components :: "(string list \<times> ('h, 'd) component) list" where
  "plain_overlay_components =
     [([''shouldScaleBackground''], Drawer)]"

lemmas overlay_defs =
  DialogOverlay_def DialogContent_def DialogHeader_def DialogFooter_def DialogTitle_def
  DialogDescription_def AlertDialogOverlay_def AlertDialogContent_def AlertDialogHeader_def
  AlertDialogFooter_def AlertDialogTitle_def AlertDialogDescription_def AlertDialogAction_def
  AlertDialogCancel_def SheetOverlay_def SheetContent_def SheetHeader_def SheetFooter_def
  SheetTitle_def SheetDescription_def DrawerOverlay_def DrawerContent_def DrawerHeader_def
  DrawerFooter_def DrawerTitle_def DrawerDescription_def PopoverContent_def HoverCardContent_def
  TooltipContent_def ToastViewport_def Toast_def ToastAction_def ToastClose_def ToastTitle_def
  ToastDescription_def

lemma overlay_forward: "list_all (\<lambda>(own, c). forwards_class own c) overlay_components"
  by (simp add: overlay_components_def forwards_class_def overlay_defs Let_def)

lemmas plain_overlay_defs =
  Drawer_def

lemma plain_overlay_forward: "list_all (\<lambda>(own, c). forwards own c) plain_overlay_components"
  by (simp add: plain_overlay_components_def forwards_def plain_overlay_defs Let_def)

end
