(* ===== verification/UI_Kit.thy ===== *)
theory UI_Kit
  imports UI_Surfaces UI_Menus UI_Overlays
begin

text \<open>
  The components of \<^verbatim>\<open>components/ui\<close> together: what all of them do with the props of their caller.
\<close>

definition class_components :: "(string list \<times> ('h, 'd) component) list" where
  "class_components = control_components @ surface_components @ menu_components @ overlay_components"

definition plain_components :: "(string list \<times> ('h, 'd) component) list" where
  "plain_components =
     plain_control_components @ plain_surface_components @ plain_menu_components @ plain_overlay_components"

lemma class_components_forward: "list_all (\<lambda>(own, c). forwards_class own c) class_components"
  by (simp add: class_components_def control_forward surface_forward menu_forward overlay_forward)

lemma plain_components_forward: "list_all (\<lambda>(own, c). forwards own c) plain_components"
  by (simp add: plain_components_def plain_control_forward plain_surface_forward plain_menu_forward
        plain_overlay_forward)

lemma components_forward: "(own, c) \<in> set (class_components @ plain_components) \<Longrightarrow> forwards own c"
  using class_components_forward plain_components_forward
  by (auto simp: list_all_iff intro: forwards_classD)

lemma class_component: "(own, c) \<in> set class_components \<Longrightarrow> forwards_class own c"
  using class_components_forward by (auto simp: list_all_iff)


definition sample_lib :: "('h, 'd) class_lib" where
  "sample_lib = \<lparr>lib_clsx = (\<lambda>vs. concat (map (\<lambda>v. case v of VStr s \<Rightarrow> s @ '' '' | _ \<Rightarrow> []) vs)),
     lib_twMerge = (\<lambda>s. s), lib_cva = (\<lambda>base _ _ _. base)\<rparr>"


end
