(* ===== verification/React_Hooks.thy ===== *)
theory React_Hooks
  imports JS_Prelude
begin

text \<open>
  The contract of a component that mirrors an outside value in its state: it subscribes in an effect,
  and as long as the subscription is there, every change of the outside value reaches the state.
  The breakpoint hook, the carousel and the router of the single-page example rely on it.
\<close>

locale tracking_hook =
  fixes subscribed_to :: "'s \<Rightarrow> bool" and tracks :: "'s \<Rightarrow> bool" and change :: "'s \<Rightarrow> 'e \<Rightarrow> 's"
  assumes change_subscribed: "subscribed_to s \<Longrightarrow> subscribed_to (change s e)"
    and change_tracks: "subscribed_to s \<Longrightarrow> tracks s \<Longrightarrow> tracks (change s e)"
begin

lemma run_tracks:
  assumes "subscribed_to s" "tracks s"
  shows "tracks (foldl change s es)" "subscribed_to (foldl change s es)"
proof -
  have "tracks (foldl change s es) \<and> subscribed_to (foldl change s es)"
    using assms by (induction es arbitrary: s) (simp_all add: change_subscribed change_tracks)
  then show "tracks (foldl change s es)" "subscribed_to (foldl change s es)" by simp_all
qed

end

end
