(* ===== verification/Use_Mobile.thy ===== *)
theory Use_Mobile
  imports JS_Object React_Hooks
begin

text \<open>
  The hook of \<^verbatim>\<open>hooks/use-mobile.tsx\<close>: the window's inner width in whole pixels, the media query on it
  with its change listener, and the state the hook keeps. The browser fires \<^verbatim>\<open>change\<close> when the query
  starts or stops to match.
\<close>

definition MOBILE_BREAKPOINT :: nat where "MOBILE_BREAKPOINT = 768"

record mobile_hook =
  innerWidth :: nat
  mobile_state :: "bool option"
  mobile_listening :: bool

definition mql_matches :: "nat \<Rightarrow> bool" where
  "mql_matches w = (w \<le> MOBILE_BREAKPOINT - 1)"

definition mobile_onChange :: "mobile_hook \<Rightarrow> mobile_hook" where
  "mobile_onChange h = h\<lparr>mobile_state := Some (innerWidth h < MOBILE_BREAKPOINT)\<rparr>"

definition mobile_initial :: "nat \<Rightarrow> mobile_hook" where
  "mobile_initial w = \<lparr>innerWidth = w, mobile_state = None, mobile_listening = False\<rparr>"

definition mobile_effect :: "mobile_hook \<Rightarrow> mobile_hook" where
  "mobile_effect h = mobile_onChange (h\<lparr>mobile_listening := True\<rparr>)"

definition mobile_cleanup :: "mobile_hook \<Rightarrow> mobile_hook" where
  "mobile_cleanup h = h\<lparr>mobile_listening := False\<rparr>"

definition mobile_resize :: "nat \<Rightarrow> mobile_hook \<Rightarrow> mobile_hook" where
  "mobile_resize w h =
     (let h' = h\<lparr>innerWidth := w\<rparr>
      in if mobile_listening h \<and> mql_matches (innerWidth h) \<noteq> mql_matches w then mobile_onChange h' else h')"

definition useIsMobile :: "mobile_hook \<Rightarrow> bool" where
  "useIsMobile h = (case mobile_state h of Some b \<Rightarrow> b | None \<Rightarrow> False)"

text \<open>While the listener is there, the hook follows the width of the window.\<close>

definition mobile_tracks :: "mobile_hook \<Rightarrow> bool" where
  "mobile_tracks h = (mobile_state h = Some (innerWidth h < MOBILE_BREAKPOINT))"

lemma innerWidth_resize [simp]: "innerWidth (mobile_resize w h) = w"
  by (simp add: mobile_resize_def mobile_onChange_def Let_def)

lemma mobile_effect_tracks: "mobile_listening (mobile_effect h)" "mobile_tracks (mobile_effect h)" "innerWidth (mobile_effect h) = innerWidth h"
  by (simp_all add: mobile_tracks_def mobile_effect_def mobile_onChange_def)

interpretation mobile: tracking_hook mobile_listening mobile_tracks "\<lambda>h w. mobile_resize w h"
  by unfold_locales
    (auto simp: mobile_tracks_def mobile_resize_def mobile_onChange_def mql_matches_def MOBILE_BREAKPOINT_def Let_def)

lemma innerWidth_foldl: "innerWidth (foldl (\<lambda>h w. mobile_resize w h) h ws) = last (innerWidth h # ws)"
  by (induction ws arbitrary: h) simp_all

lemma useIsMobile_follows:
  "useIsMobile (foldl (\<lambda>h w. mobile_resize w h) (mobile_effect (mobile_initial w0)) ws) \<longleftrightarrow>
     last (w0 # ws) < MOBILE_BREAKPOINT"
proof -
  let ?h = "mobile_effect (mobile_initial w0)"
  have "innerWidth ?h = w0" by (simp add: mobile_effect_tracks mobile_initial_def)
  with mobile.run_tracks(1) [OF mobile_effect_tracks(1,2), of "mobile_initial w0" ws] show ?thesis
    by (simp add: useIsMobile_def mobile_tracks_def innerWidth_foldl)
qed

end
