(* ===== verification/UI_Sidebar.thy ===== *)
theory UI_Sidebar
  imports UI_Base Use_Mobile
begin

text \<open>
  The sidebar of \<^verbatim>\<open>components/ui/sidebar.tsx\<close>: the provider's state (open on the desktop, open on a
  mobile screen, the cookie, the callback of a controlled sidebar), its keyboard shortcut, and the
  components that read it through \<^verbatim>\<open>useSidebar\<close>.

  A handler is a symbolic value; \<open>run_handler\<close> says what it does to the provider's state. The
  functions a render creates close over the values of that render, which \<open>snapshot\<close> keeps.
\<close>

section \<open>State of the provider\<close>

definition SIDEBAR_COOKIE_NAME :: string where "SIDEBAR_COOKIE_NAME = ''sidebar:state''"
definition SIDEBAR_COOKIE_MAX_AGE :: int where "SIDEBAR_COOKIE_MAX_AGE = 60 * 60 * 24 * 7"
definition SIDEBAR_WIDTH :: string where "SIDEBAR_WIDTH = ''16rem''"
definition SIDEBAR_WIDTH_MOBILE :: string where "SIDEBAR_WIDTH_MOBILE = ''18rem''"
definition SIDEBAR_WIDTH_ICON :: string where "SIDEBAR_WIDTH_ICON = ''3rem''"
definition SIDEBAR_KEYBOARD_SHORTCUT :: string where "SIDEBAR_KEYBOARD_SHORTCUT = ''b''"

text \<open>
  \<open>sb_openProp\<close> and \<open>sb_controlled\<close> are the props \<^verbatim>\<open>open\<close> and whether \<^verbatim>\<open>onOpenChange\<close> is given. \<open>sb_calls\<close>
  are the arguments of the calls of \<^verbatim>\<open>onOpenChange\<close>, \<open>sb_cookies\<close> the strings assigned to
  \<^verbatim>\<open>document.cookie\<close>, both in order.
\<close>

record sidebar =
  sb_open :: bool
  sb_openMobile :: bool
  sb_isMobile :: bool
  sb_openProp :: "bool jopt"
  sb_controlled :: bool
  sb_calls :: "bool list"
  sb_cookies :: "string list"

definition is_open :: "sidebar \<Rightarrow> bool" where
  "is_open s = (case sb_openProp s of Val b \<Rightarrow> b | _ \<Rightarrow> sb_open s)"

definition initial_sidebar :: "bool jopt \<Rightarrow> bool jopt \<Rightarrow> bool \<Rightarrow> bool \<Rightarrow> sidebar" where
  "initial_sidebar defaultOpen openProp controlled isMobile =
     \<lparr>sb_open = (case defaultOpen of Undef \<Rightarrow> True | Null \<Rightarrow> False | Val b \<Rightarrow> b), sb_openMobile = False,
      sb_isMobile = isMobile, sb_openProp = openProp, sb_controlled = controlled, sb_calls = [], sb_cookies = []\<rparr>"

text \<open>What \<^verbatim>\<open>useSidebar()\<close> gives: the values of a render, which its functions close over.\<close>

record snapshot =
  ctx_state :: string
  ctx_open :: bool
  ctx_openMobile :: bool
  ctx_isMobile :: bool
  ctx_controlled :: bool

definition render_context :: "sidebar \<Rightarrow> snapshot" where
  "render_context s =
     \<lparr>ctx_state = (if is_open s then ''expanded'' else ''collapsed''), ctx_open = is_open s,
      ctx_openMobile = sb_openMobile s, ctx_isMobile = sb_isMobile s, ctx_controlled = sb_controlled s\<rparr>"

definition useSidebar :: "snapshot option \<Rightarrow> snapshot result" where
  "useSidebar context =
     (case context of None \<Rightarrow> Inl (ContextError ''useSidebar must be used within a SidebarProvider.'') | Some c \<Rightarrow> Inr c)"

section \<open>Operations\<close>

definition bool_text :: "bool \<Rightarrow> string" where
  "bool_text b = (if b then ''true'' else ''false'')"

definition sidebar_cookie :: "bool \<Rightarrow> string" where
  "sidebar_cookie openState =
     SIDEBAR_COOKIE_NAME @ ''='' @ bool_text openState @ ''; path=/; max-age='' @ int_str SIDEBAR_COOKIE_MAX_AGE"

datatype set_open_arg = SetTo bool | Updater "bool \<Rightarrow> bool"

definition setOpen :: "snapshot \<Rightarrow> set_open_arg \<Rightarrow> sidebar \<Rightarrow> sidebar" where
  "setOpen c val s =
     (let openState = (case val of SetTo b \<Rightarrow> b | Updater f \<Rightarrow> f (ctx_open c));
          s' = (if ctx_controlled c then s\<lparr>sb_calls := sb_calls s @ [openState]\<rparr> else s\<lparr>sb_open := openState\<rparr>)
      in s'\<lparr>sb_cookies := sb_cookies s @ [sidebar_cookie openState]\<rparr>)"

definition setOpenMobile :: "(bool \<Rightarrow> bool) \<Rightarrow> sidebar \<Rightarrow> sidebar" where
  "setOpenMobile f s = s\<lparr>sb_openMobile := f (sb_openMobile s)\<rparr>"

definition toggleSidebar :: "snapshot \<Rightarrow> sidebar \<Rightarrow> sidebar" where
  "toggleSidebar c s = (if ctx_isMobile c then setOpenMobile Not s else setOpen c (Updater Not) s)"

record key_event =
  ev_key :: string
  ev_meta :: bool
  ev_ctrl :: bool

text \<open>The key handler returns whether it prevents the default action.\<close>

definition handleKeyDown :: "snapshot \<Rightarrow> key_event \<Rightarrow> sidebar \<Rightarrow> bool \<times> sidebar" where
  "handleKeyDown c ev s =
     (if ev_key ev = SIDEBAR_KEYBOARD_SHORTCUT \<and> (ev_meta ev \<or> ev_ctrl ev)
      then (True, toggleSidebar c s) else (False, s))"

text \<open>
  The handlers the components install: the caller's own, the toggle, the mobile sheet's, and the
  trigger's, which first calls the caller's \<^verbatim>\<open>onClick\<close>. \<open>run_handler\<close> returns the caller's handlers that
  are called; \<open>arg\<close> is the argument of \<^verbatim>\<open>onOpenChange\<close>.
\<close>

datatype 'h sb_handler = Caller 'h | ToggleSidebar | SetOpenMobile | CallThenToggle "'h option"

fun run_handler :: "snapshot \<Rightarrow> 'h sb_handler \<Rightarrow> bool \<Rightarrow> sidebar \<Rightarrow> 'h list \<times> sidebar" where
  "run_handler c (Caller h) arg s = ([h], s)"
| "run_handler c ToggleSidebar arg s = ([], toggleSidebar c s)"
| "run_handler c SetOpenMobile arg s = ([], setOpenMobile (\<lambda>_. arg) s)"
| "run_handler c (CallThenToggle h) arg s = (case h of None \<Rightarrow> [] | Some h \<Rightarrow> [h], toggleSidebar c s)"

section \<open>Components\<close>

type_synonym ('h, 'd) sb_node = "('h sb_handler, 'd) vnode"
type_synonym ('h, 'd) sb_component =
  "('h sb_handler, 'd) class_lib \<Rightarrow> ('h sb_handler, 'd) props \<Rightarrow> ('h, 'd) sb_node list \<Rightarrow> ('h, 'd) sb_node result"

definition SidebarProvider_view :: "('h, 'd) component" where
  "SidebarProvider_view L ps children =
     (let className = attr ps ''className'';
          style = attr ps ''style'';
          props = omit [''defaultOpen'', ''open'', ''onOpenChange'', ''className'', ''style''] ps
      in Elem ''SidebarContext.Provider'' []
           [Elem ''TooltipProvider'' [(''delayDuration'', VNum (Fin 0))]
              [Elem ''div''
                 (spread
                   [(''style'',
                     VObj
                       (spread
                         [(''--sidebar-width'', VStr SIDEBAR_WIDTH),
                          (''--sidebar-width-icon'', VStr SIDEBAR_WIDTH_ICON)]
                         (obj_of style))),
                    (''className'',
                     VStr
                       (cn L
                         [VStr
                            (''group/sidebar-wrapper flex min-h-svh w-full has-['' @ ''[data-variant=inset]]:bg-sidebar''),
                          className])),
                    (''ref'', VRef)]
                   props)
                 children]])"

definition Sidebar_desktop ::
  "snapshot \<Rightarrow> ('h, 'd) aval \<Rightarrow> ('h, 'd) aval \<Rightarrow> ('h, 'd) aval \<Rightarrow> ('h, 'd) aval \<Rightarrow> ('h, 'd) component" where
  "Sidebar_desktop c side variant collapsible className L props children =
     (let floating = (variant = VStr ''floating'' \<or> variant = VStr ''inset'')
      in Elem ''div''
           [(''ref'', VRef),
            (''className'', VStr ''group peer hidden md:block text-sidebar-foreground''),
            (''data-state'', VStr (ctx_state c)),
            (''data-collapsible'', if ctx_state c = ''collapsed'' then collapsible else VStr []),
            (''data-variant'', variant),
            (''data-side'', side)]
           [Elem ''div''
              [(''className'',
                VStr
                  (cn L
                    [VStr
                       ''duration-200 relative h-svh w-[--sidebar-width] bg-transparent transition-[width] ease-linear'',
                     VStr ''group-data-[collapsible=offcanvas]:w-0'',
                     VStr ''group-data-[side=right]:rotate-180'',
                     if floating
                     then VStr ''group-data-[collapsible=icon]:w-[calc(var(--sidebar-width-icon)_+_theme(spacing.4))]''
                     else VStr ''group-data-[collapsible=icon]:w-[--sidebar-width-icon]'']))]
              [],
            Elem ''div''
              (spread
                [(''className'',
                  VStr
                    (cn L
                      [VStr
                         ''duration-200 fixed inset-y-0 z-10 hidden h-svh w-[--sidebar-width] transition-[left,right,width] ease-linear md:flex'',
                       if side = VStr ''left''
                       then VStr ''left-0 group-data-[collapsible=offcanvas]:left-[calc(var(--sidebar-width)*-1)]''
                       else VStr ''right-0 group-data-[collapsible=offcanvas]:right-[calc(var(--sidebar-width)*-1)]'',
                       if floating
                       then VStr ''p-2 group-data-[collapsible=icon]:w-[calc(var(--sidebar-width-icon)_+_theme(spacing.4)_+2px)]''
                       else VStr ''group-data-[collapsible=icon]:w-[--sidebar-width-icon] group-data-[side=left]:border-r group-data-[side=right]:border-l'',
                       className]))]
                props)
              [Elem ''div''
                 [(''data-sidebar'', VStr ''sidebar''),
                  (''className'',
                   VStr ''flex h-full w-full flex-col bg-sidebar group-data-[variant=floating]:rounded-lg group-data-[variant=floating]:border group-data-[variant=floating]:border-sidebar-border group-data-[variant=floating]:shadow'')]
                 children]])"

definition Sidebar :: "snapshot option \<Rightarrow> ('h, 'd) sb_component" where
  "Sidebar context L ps children =
     bindE (useSidebar context) (\<lambda>c.
       let side = attr_or ps ''side'' (VStr ''left'');
           variant = attr_or ps ''variant'' (VStr ''sidebar'');
           collapsible = attr_or ps ''collapsible'' (VStr ''offcanvas'');
           className = attr ps ''className'';
           props = omit [''side'', ''variant'', ''collapsible'', ''className''] ps
       in Inr
            (if collapsible = VStr ''none''
             then Elem ''div''
                    (spread
                      [(''className'',
                        VStr
                          (cn L
                            [VStr ''flex h-full w-[--sidebar-width] flex-col bg-sidebar text-sidebar-foreground'',
                             className])),
                       (''ref'', VRef)]
                      props)
                    children
             else if ctx_isMobile c
             then Elem ''Sheet''
                    (spread
                      [(''open'', VBool (ctx_openMobile c)), (''onOpenChange'', VHandler SetOpenMobile)]
                      props)
                    [Elem ''SheetContent''
                       [(''data-sidebar'', VStr ''sidebar''),
                        (''data-mobile'', VStr ''true''),
                        (''className'',
                         VStr ''w-[--sidebar-width] bg-sidebar p-0 text-sidebar-foreground [&>button]:hidden''),
                        (''style'', VObj [(''--sidebar-width'', VStr SIDEBAR_WIDTH_MOBILE)]),
                        (''side'', side)]
                       [Elem ''div'' [(''className'', VStr ''flex h-full w-full flex-col'')] children]]
             else Sidebar_desktop c side variant collapsible className L props children))"

text \<open>A caller's \<^verbatim>\<open>onClick\<close> that is not a function is not called.\<close>

fun caller_of :: "('h sb_handler, 'd) aval \<Rightarrow> 'h option" where
  "caller_of (VHandler (Caller h)) = Some h"
| "caller_of _ = None"

definition SidebarTrigger :: "snapshot option \<Rightarrow> ('h, 'd) sb_component" where
  "SidebarTrigger context L ps children =
     bindE (useSidebar context) (\<lambda>c.
       let className = attr ps ''className'';
           onClick = attr ps ''onClick'';
           props = omit [''className'', ''onClick''] ps
       in Inr (Elem ''Button''
            (spread
              [(''ref'', VRef),
               (''data-sidebar'', VStr ''trigger''),
               (''variant'', VStr ''ghost''),
               (''size'', VStr ''icon''),
               (''className'', VStr (cn L [VStr ''h-7 w-7'', className])),
               (''onClick'', VHandler (CallThenToggle (caller_of onClick)))]
              props)
            [Elem ''PanelLeft'' [] [], Elem ''span'' [(''className'', VStr ''sr-only'')] [Text ''Toggle Sidebar'']]))"

definition SidebarRail :: "snapshot option \<Rightarrow> ('h, 'd) sb_component" where
  "SidebarRail context L ps children =
     bindE (useSidebar context) (\<lambda>c.
       let className = attr ps ''className'';
           props = omit [''className''] ps
       in Inr (Elem ''button''
            (spread
              [(''ref'', VRef),
               (''data-sidebar'', VStr ''rail''),
               (''aria-label'', VStr ''Toggle Sidebar''),
               (''tabIndex'', VNum (Fin (- 1))),
               (''onClick'', VHandler ToggleSidebar),
               (''title'', VStr ''Toggle Sidebar''),
               (''className'',
                VStr
                  (cn L
                    [VStr
                       ''absolute inset-y-0 z-20 hidden w-4 -translate-x-1/2 transition-all ease-linear after:absolute after:inset-y-0 after:left-1/2 after:w-[2px] hover:after:bg-sidebar-border group-data-[side=left]:-right-4 group-data-[side=right]:left-0 sm:flex'',
                     VStr (''['' @ ''[data-side=left]_&]:cursor-w-resize ['' @ ''[data-side=right]_&]:cursor-e-resize''),
                     VStr
                       (''['' @ ''[data-side=left][data-state=collapsed]_&]:cursor-e-resize ['' @ ''[data-side=right][data-state=collapsed]_&]:cursor-w-resize''),
                     VStr
                       ''group-data-[collapsible=offcanvas]:translate-x-0 group-data-[collapsible=offcanvas]:after:left-full group-data-[collapsible=offcanvas]:hover:bg-sidebar'',
                     VStr (''['' @ ''[data-side=left][data-collapsible=offcanvas]_&]:-right-2''),
                     VStr (''['' @ ''[data-side=right][data-collapsible=offcanvas]_&]:-left-2''),
                     className]))]
              props)
            children))"

definition SidebarInset :: "('h, 'd) component" where
  "SidebarInset L ps children =
     styled L ''main''
       []
       [''relative flex min-h-svh flex-1 flex-col bg-background'',
        ''peer-data-[variant=inset]:min-h-[calc(100svh-theme(spacing.4))] md:peer-data-[variant=inset]:m-2 md:peer-data-[state=collapsed]:peer-data-[variant=inset]:ml-2 md:peer-data-[variant=inset]:ml-0 md:peer-data-[variant=inset]:rounded-xl md:peer-data-[variant=inset]:shadow'']
       ps children"

definition SidebarInput :: "('h, 'd) component" where
  "SidebarInput L ps children =
     styled L ''Input''
       [(''data-sidebar'', VStr ''input'')]
       [''h-8 w-full bg-background shadow-none focus-visible:ring-2 focus-visible:ring-sidebar-ring'']
       ps children"

definition SidebarHeader :: "('h, 'd) component" where
  "SidebarHeader L ps children =
     styled L ''div'' [(''data-sidebar'', VStr ''header'')] [''flex flex-col gap-2 p-2''] ps children"

definition SidebarFooter :: "('h, 'd) component" where
  "SidebarFooter L ps children =
     styled L ''div'' [(''data-sidebar'', VStr ''footer'')] [''flex flex-col gap-2 p-2''] ps children"

definition SidebarSeparator :: "('h, 'd) component" where
  "SidebarSeparator L ps children =
     styled L ''Separator''
       [(''data-sidebar'', VStr ''separator'')]
       [''mx-2 w-auto bg-sidebar-border'']
       ps children"

definition SidebarContent :: "('h, 'd) component" where
  "SidebarContent L ps children =
     styled L ''div''
       [(''data-sidebar'', VStr ''content'')]
       [''flex min-h-0 flex-1 flex-col gap-2 overflow-auto group-data-[collapsible=icon]:overflow-hidden'']
       ps children"

definition SidebarGroup :: "('h, 'd) component" where
  "SidebarGroup L ps children =
     styled L ''div''
       [(''data-sidebar'', VStr ''group'')]
       [''relative flex w-full min-w-0 flex-col p-2'']
       ps children"

definition SidebarGroupLabel :: "('h, 'd) component" where
  "SidebarGroupLabel L ps children =
     (let className = attr ps ''className'';
          asChild = attr_or ps ''asChild'' (VBool False);
          props = omit [''className'', ''asChild''] ps;
          Comp = (if truthy_attr asChild then ''Slot'' else ''div'')
      in Elem Comp
           (spread
             [(''ref'', VRef),
              (''data-sidebar'', VStr ''group-label''),
              (''className'',
               VStr
                 (cn L
                   [VStr
                      ''duration-200 flex h-8 shrink-0 items-center rounded-md px-2 text-xs font-medium text-sidebar-foreground/70 outline-none ring-sidebar-ring transition-[margin,opa] ease-linear focus-visible:ring-2 [&>svg]:size-4 [&>svg]:shrink-0'',
                    VStr ''group-data-[collapsible=icon]:-mt-8 group-data-[collapsible=icon]:opacity-0'',
                    className]))]
             props)
           children)"

definition SidebarGroupAction :: "('h, 'd) component" where
  "SidebarGroupAction L ps children =
     (let className = attr ps ''className'';
          asChild = attr_or ps ''asChild'' (VBool False);
          props = omit [''className'', ''asChild''] ps;
          Comp = (if truthy_attr asChild then ''Slot'' else ''button'')
      in Elem Comp
           (spread
             [(''ref'', VRef),
              (''data-sidebar'', VStr ''group-action''),
              (''className'',
               VStr
                 (cn L
                   [VStr
                      ''absolute right-3 top-3.5 flex aspect-square w-5 items-center justify-center rounded-md p-0 text-sidebar-foreground outline-none ring-sidebar-ring transition-transform hover:bg-sidebar-accent hover:text-sidebar-accent-foreground focus-visible:ring-2 [&>svg]:size-4 [&>svg]:shrink-0'',
                    VStr ''after:absolute after:-inset-2 after:md:hidden'',
                    VStr ''group-data-[collapsible=icon]:hidden'',
                    className]))]
             props)
           children)"

definition SidebarGroupContent :: "('h, 'd) component" where
  "SidebarGroupContent L ps children =
     styled L ''div'' [(''data-sidebar'', VStr ''group-content'')] [''w-full text-sm''] ps children"

definition SidebarMenu :: "('h, 'd) component" where
  "SidebarMenu L ps children =
     styled L ''ul''
       [(''data-sidebar'', VStr ''menu'')]
       [''flex w-full min-w-0 flex-col gap-1'']
       ps children"

definition SidebarMenuItem :: "('h, 'd) component" where
  "SidebarMenuItem L ps children =
     styled L ''li'' [(''data-sidebar'', VStr ''menu-item'')] [''group/menu-item relative''] ps children"

definition sidebarMenuButtonVariants :: "('h, 'd) class_lib \<Rightarrow> ('h, 'd) props \<Rightarrow> string" where
  "sidebarMenuButtonVariants L ps =
     lib_cva L
       (''peer/menu-button flex w-full items-center gap-2 overflow-hidden rounded-md p-2 text-left text-sm outline-none ring-sidebar-ring transition-[width,height,padding] hover:bg-sidebar-accent hover:text-sidebar-accent-foreground focus-visible:ring-2 active:bg-sidebar-accent active:text-sidebar-accent-foreground disabled:pointer-events-none disabled:opacity-50 group-has-['' @ ''[data-sidebar=menu-action]]/menu-item:pr-8 aria-disabled:pointer-events-none aria-disabled:opacity-50 data-[active=true]:bg-sidebar-accent data-[active=true]:font-medium data-[active=true]:text-sidebar-accent-foreground data-[state=open]:hover:bg-sidebar-accent data-[state=open]:hover:text-sidebar-accent-foreground group-data-[collapsible=icon]:!size-8 group-data-[collapsible=icon]:!p-2 [&>span:last-child]:truncate [&>svg]:size-4 [&>svg]:shrink-0'')
       [(''variant'',
         [(''default'', ''hover:bg-sidebar-accent hover:text-sidebar-accent-foreground''),
          (''outline'',
           ''bg-background shadow-[0_0_0_1px_hsl(var(--sidebar-border))] hover:bg-sidebar-accent hover:text-sidebar-accent-foreground hover:shadow-[0_0_0_1px_hsl(var(--sidebar-accent))]'')]),
        (''size'',
         [(''default'', ''h-8 text-sm''),
          (''sm'', ''h-7 text-xs''),
          (''lg'', ''h-12 text-sm group-data-[collapsible=icon]:!p-0'')])]
       [(''variant'', ''default''), (''size'', ''default'')]
       ps"

text \<open>The button alone, then with the tooltip: a string stands for an object with that child.\<close>

definition SidebarMenuButton_button :: "('h, 'd) component" where
  "SidebarMenuButton_button L ps children =
     (let asChild = attr_or ps ''asChild'' (VBool False);
          isActive = attr_or ps ''isActive'' (VBool False);
          variant = attr_or ps ''variant'' (VStr ''default'');
          size = attr_or ps ''size'' (VStr ''default'');
          className = attr ps ''className'';
          props = omit [''asChild'', ''isActive'', ''variant'', ''size'', ''tooltip'', ''className''] ps;
          Comp = (if truthy_attr asChild then ''Slot'' else ''button'')
      in Elem Comp
           (spread
             [(''ref'', VRef),
              (''data-sidebar'', VStr ''menu-button''),
              (''data-size'', size),
              (''data-active'', isActive),
              (''className'',
               VStr
                 (cn L [VStr (sidebarMenuButtonVariants L [(''variant'', variant), (''size'', size)]), className]))]
             props)
           children)"

definition tooltip_object :: "('h, 'd) aval \<Rightarrow> ('h, 'd) props" where
  "tooltip_object tooltip = (case tooltip of VStr s \<Rightarrow> [(''children'', VStr s)] | v \<Rightarrow> obj_of v)"

definition SidebarMenuButton :: "snapshot option \<Rightarrow> ('h, 'd) sb_component" where
  "SidebarMenuButton context L ps children =
     bindE (useSidebar context) (\<lambda>c.
       let tooltip = attr ps ''tooltip'';
           button = SidebarMenuButton_button L ps children
       in Inr
            (if \<not> truthy_attr tooltip then button
             else Elem ''Tooltip'' []
                    [Elem ''TooltipTrigger'' [(''asChild'', VBool True)] [button],
                     Elem ''TooltipContent''
                       (spread
                         [(''side'', VStr ''right''),
                          (''align'', VStr ''center''),
                          (''hidden'', VBool (ctx_state c \<noteq> ''collapsed'' \<or> ctx_isMobile c))]
                         (omit [''children''] (tooltip_object tooltip)))
                       (node_of (attr (tooltip_object tooltip) ''children''))]))"

definition SidebarMenuAction :: "('h, 'd) component" where
  "SidebarMenuAction L ps children =
     (let className = attr ps ''className'';
          asChild = attr_or ps ''asChild'' (VBool False);
          showOnHover = attr_or ps ''showOnHover'' (VBool False);
          props = omit [''className'', ''asChild'', ''showOnHover''] ps;
          Comp = (if truthy_attr asChild then ''Slot'' else ''button'')
      in Elem Comp
           (spread
             [(''ref'', VRef),
              (''data-sidebar'', VStr ''menu-action''),
              (''className'',
               VStr
                 (cn L
                   [VStr
                      ''absolute right-1 top-1.5 flex aspect-square w-5 items-center justify-center rounded-md p-0 text-sidebar-foreground outline-none ring-sidebar-ring transition-transform hover:bg-sidebar-accent hover:text-sidebar-accent-foreground focus-visible:ring-2 peer-hover/menu-button:text-sidebar-accent-foreground [&>svg]:size-4 [&>svg]:shrink-0'',
                    VStr ''after:absolute after:-inset-2 after:md:hidden'',
                    VStr ''peer-data-[size=sm]/menu-button:top-1'',
                    VStr ''peer-data-[size=default]/menu-button:top-1.5'',
                    VStr ''peer-data-[size=lg]/menu-button:top-2.5'',
                    VStr ''group-data-[collapsible=icon]:hidden'',
                    js_and showOnHover
                      (VStr
                        ''group-focus-within/menu-item:opacity-100 group-hover/menu-item:opacity-100 data-[state=open]:opacity-100 peer-data-[active=true]/menu-button:text-sidebar-accent-foreground md:opacity-0''),
                    className]))]
             props)
           children)"

definition SidebarMenuBadge :: "('h, 'd) component" where
  "SidebarMenuBadge L ps children =
     styled L ''div''
       [(''data-sidebar'', VStr ''menu-badge'')]
       [''absolute right-1 flex h-5 min-w-5 items-center justify-center rounded-md px-1 text-xs font-medium tabular-nums text-sidebar-foreground select-none pointer-events-none'',
        ''peer-hover/menu-button:text-sidebar-accent-foreground peer-data-[active=true]/menu-button:text-sidebar-accent-foreground'',
        ''peer-data-[size=sm]/menu-button:top-1'',
        ''peer-data-[size=default]/menu-button:top-1.5'',
        ''peer-data-[size=lg]/menu-button:top-2.5'',
        ''group-data-[collapsible=icon]:hidden'']
       ps children"

text \<open>The random width: \<open>r\<close> is the number \<^verbatim>\<open>Math.random()\<close> returned.\<close>

fun num_floor :: "jsnum \<Rightarrow> jsnum" where
  "num_floor (Fin x) = Fin (of_int \<lfloor>x\<rfloor>)"
| "num_floor x = x"

definition skeleton_percent :: "jsnum \<Rightarrow> jsnum" where
  "skeleton_percent r = num_add (num_floor (num_mul r (Fin 40))) (Fin 50)"

definition SidebarMenuSkeleton :: "jsnum \<Rightarrow> ('h, 'd) component" where
  "SidebarMenuSkeleton r L ps children =
     (let className = attr ps ''className'';
          showIcon = attr_or ps ''showIcon'' (VBool False);
          props = omit [''className'', ''showIcon''] ps;
          width = num_to_string (skeleton_percent r) @ ''%''
      in Elem ''div''
           (spread
             [(''ref'', VRef),
              (''data-sidebar'', VStr ''menu-skeleton''),
              (''className'', VStr (cn L [VStr ''rounded-md h-8 flex gap-2 px-2 items-center'', className]))]
             props)
           ((if truthy_attr showIcon
             then [Elem ''Skeleton''
                     [(''className'', VStr ''size-4 rounded-md''),
                      (''data-sidebar'', VStr ''menu-skeleton-icon'')]
                     []]
             else []) @
            [Elem ''Skeleton''
               [(''className'', VStr ''h-4 flex-1 max-w-[--skeleton-width]''),
                (''data-sidebar'', VStr ''menu-skeleton-text''),
                (''style'', VObj [(''--skeleton-width'', VStr width)])]
               []]))"

definition SidebarMenuSub :: "('h, 'd) component" where
  "SidebarMenuSub L ps children =
     styled L ''ul''
       [(''data-sidebar'', VStr ''menu-sub'')]
       [''mx-3.5 flex min-w-0 translate-x-px flex-col gap-1 border-l border-sidebar-border px-2.5 py-0.5'',
        ''group-data-[collapsible=icon]:hidden'']
       ps children"

definition SidebarMenuSubItem :: "('h, 'd) component" where
  "SidebarMenuSubItem L ps children =
     Elem ''li'' (spread [(''ref'', VRef)] ps) children"

definition SidebarMenuSubButton :: "('h, 'd) component" where
  "SidebarMenuSubButton L ps children =
     (let asChild = attr_or ps ''asChild'' (VBool False);
          size = attr_or ps ''size'' (VStr ''md'');
          isActive = attr ps ''isActive'';
          className = attr ps ''className'';
          props = omit [''asChild'', ''size'', ''isActive'', ''className''] ps;
          Comp = (if truthy_attr asChild then ''Slot'' else ''a'')
      in Elem Comp
           (spread
             [(''ref'', VRef),
              (''data-sidebar'', VStr ''menu-sub-button''),
              (''data-size'', size),
              (''data-active'', isActive),
              (''className'',
               VStr
                 (cn L
                   [VStr
                      ''flex h-7 min-w-0 -translate-x-px items-center gap-2 overflow-hidden rounded-md px-2 text-sidebar-foreground outline-none ring-sidebar-ring hover:bg-sidebar-accent hover:text-sidebar-accent-foreground focus-visible:ring-2 active:bg-sidebar-accent active:text-sidebar-accent-foreground disabled:pointer-events-none disabled:opacity-50 aria-disabled:pointer-events-none aria-disabled:opacity-50 [&>span:last-child]:truncate [&>svg]:size-4 [&>svg]:shrink-0 [&>svg]:text-sidebar-accent-foreground'',
                    VStr
                      ''data-[active=true]:bg-sidebar-accent data-[active=true]:text-sidebar-accent-foreground'',
                    js_and (VBool (size = (VStr ''sm''))) (VStr ''text-xs''),
                    js_and (VBool (size = (VStr ''md''))) (VStr ''text-sm''),
                    VStr ''group-data-[collapsible=icon]:hidden'',
                    className]))]
             props)
           children)"

section \<open>Runs of the provider\<close>

text \<open>
  Each step is an action on the values of the last render: a toggle, a call of \<^verbatim>\<open>setOpen\<close>, a key, the
  mobile sheet closing or opening, the screen becoming mobile or not, the parent rendering again
  with another \<^verbatim>\<open>open\<close>.
\<close>

inductive sidebar_step :: "sidebar \<Rightarrow> sidebar \<Rightarrow> bool" where
  step_toggle: "sidebar_step s (toggleSidebar (render_context s) s)"
| step_set: "sidebar_step s (setOpen (render_context s) v s)"
| step_key: "sidebar_step s (snd (handleKeyDown (render_context s) ev s))"
| step_sheet: "sidebar_step s (setOpenMobile f s)"
| step_media: "sidebar_step s (s\<lparr>sb_isMobile := b\<rparr>)"
| step_parent: "sidebar_step s (s\<lparr>sb_openProp := p\<rparr>)"

inductive sidebar_reachable :: "bool jopt \<Rightarrow> bool jopt \<Rightarrow> bool \<Rightarrow> sidebar \<Rightarrow> bool" for d p0 ctl where
  sr_init: "sidebar_reachable d p0 ctl (initial_sidebar d p0 ctl False)"
| sr_step: "sidebar_reachable d p0 ctl s \<Longrightarrow> sidebar_step s s' \<Longrightarrow> sidebar_reachable d p0 ctl s'"

definition sidebar_inv :: "bool \<Rightarrow> sidebar \<Rightarrow> bool" where
  "sidebar_inv ctl s \<longleftrightarrow>
     sb_controlled s = ctl \<and>
     (if ctl then sb_cookies s = map sidebar_cookie (sb_calls s)
      else sb_calls s = [] \<and> (sb_cookies s \<noteq> [] \<longrightarrow> last (sb_cookies s) = sidebar_cookie (sb_open s)))"

lemma bool_text_inj: "bool_text b = bool_text b' \<longleftrightarrow> b = b'"
  by (auto simp: bool_text_def)

lemma sidebar_cookie_inj: "sidebar_cookie b = sidebar_cookie b' \<longleftrightarrow> b = b'"
  by (auto simp: sidebar_cookie_def bool_text_def)

lemma controlled_render [simp]: "ctx_controlled (render_context s) = sb_controlled s"
  and open_render [simp]: "ctx_open (render_context s) = is_open s"
  and mobile_render [simp]: "ctx_isMobile (render_context s) = sb_isMobile s"
  by (simp_all add: render_context_def)

lemma setOpen_inv: "sidebar_inv ctl s \<Longrightarrow> sidebar_inv ctl (setOpen (render_context s) v s)"
  by (auto simp: sidebar_inv_def setOpen_def Let_def split: if_splits)

lemma setOpenMobile_inv: "sidebar_inv ctl s \<Longrightarrow> sidebar_inv ctl (setOpenMobile f s)"
  by (simp add: sidebar_inv_def setOpenMobile_def)

lemma toggle_inv: "sidebar_inv ctl s \<Longrightarrow> sidebar_inv ctl (toggleSidebar (render_context s) s)"
  by (simp add: toggleSidebar_def setOpen_inv setOpenMobile_inv)

lemma sidebar_step_inv: "sidebar_step s s' \<Longrightarrow> sidebar_inv ctl s \<Longrightarrow> sidebar_inv ctl s'"
proof (induction rule: sidebar_step.induct)
  case (step_key s ev)
  then show ?case by (simp add: handleKeyDown_def toggle_inv)
next
  case (step_media s b)
  then show ?case by (simp add: sidebar_inv_def)
next
  case (step_parent s p)
  then show ?case by (simp add: sidebar_inv_def)
qed (simp_all add: toggle_inv setOpen_inv setOpenMobile_inv)

lemma sidebar_reachable_invI: "sidebar_reachable d p0 ctl s \<Longrightarrow> sidebar_inv ctl s"
proof (induction rule: sidebar_reachable.induct)
  case sr_init
  show ?case by (simp add: sidebar_inv_def initial_sidebar_def)
qed (rule sidebar_step_inv)

section \<open>Properties\<close>

text \<open>
  C31 (the sidebar's cookie): in every run of an uncontrolled sidebar, once the desktop state has been
  set, the last cookie written names the state the sidebar is in, unless the parent forces one; a
  controlled sidebar writes one cookie for each call of its callback, with the same value, and
  keeps no state of its own.
\<close>

theorem sidebar_cookie_tracks:
  assumes "sidebar_reachable d p0 ctl s"
  shows "if ctl then sb_cookies s = map sidebar_cookie (sb_calls s)
         else sb_calls s = [] \<and>
           (sb_cookies s \<noteq> [] \<and> jopt_nullish (sb_openProp s) \<longrightarrow>
              (last (sb_cookies s) = sidebar_cookie True) = is_open s \<and>
              (last (sb_cookies s) = sidebar_cookie False) = (\<not> is_open s))"
  using sidebar_reachable_invI [OF assms]
  by (cases "sb_openProp s") (auto simp: sidebar_inv_def is_open_def sidebar_cookie_inj)

definition demo_sidebar :: sidebar where
  "demo_sidebar = (let s = initial_sidebar Undef Undef False False in toggleSidebar (render_context s) s)"

theorem sidebar_cookie_tracks_witness:
  "sidebar_reachable Undef Undef False demo_sidebar \<and> sb_cookies demo_sidebar \<noteq> [] \<and>
   last (sb_cookies demo_sidebar) = sidebar_cookie False \<and> \<not> is_open demo_sidebar"
proof -
  have r: "sidebar_reachable Undef Undef False demo_sidebar"
    unfolding demo_sidebar_def Let_def by (rule sr_step [OF sr_init step_toggle])
  have o: "\<not> is_open demo_sidebar" "sb_cookies demo_sidebar \<noteq> []" "sb_openProp demo_sidebar = Undef"
    by (simp_all add: demo_sidebar_def initial_sidebar_def toggleSidebar_def setOpen_def render_context_def
          is_open_def Let_def)
  with sidebar_cookie_tracks [OF r] r show ?thesis by simp
qed

lemma toggle_opens: "jopt_nullish (sb_openProp s) \<Longrightarrow> \<not> sb_controlled s \<Longrightarrow>
     (if sb_isMobile s then sb_openMobile (toggleSidebar (render_context s) s) = (\<not> sb_openMobile s)
      else is_open (toggleSidebar (render_context s) s) = (\<not> is_open s))"
  by (cases "sb_openProp s") (simp_all add: toggleSidebar_def setOpen_def setOpenMobile_def is_open_def Let_def)

text \<open>
  Two toggles before the next render: on a mobile screen they cancel out, on a desktop they act as
  one, as the second computes its value from the same render.
\<close>

lemma batched_toggles:
  assumes "jopt_nullish (sb_openProp s)" "\<not> sb_controlled s"
  shows "sb_isMobile s \<Longrightarrow>
           sb_openMobile (toggleSidebar (render_context s) (toggleSidebar (render_context s) s)) = sb_openMobile s"
    and "\<not> sb_isMobile s \<Longrightarrow>
           is_open (toggleSidebar (render_context s) (toggleSidebar (render_context s) s)) = (\<not> is_open s)"
  using assms
  by (cases "sb_openProp s"; simp add: toggleSidebar_def setOpen_def setOpenMobile_def is_open_def Let_def)+

text \<open>The trigger always toggles, after the caller's own handler; so does the shortcut.\<close>

lemma SidebarTrigger_toggles:
  assumes "distinct (map fst ps)"
  shows "\<exists>as ks h. SidebarTrigger (Some c) L ps kids = Inr (Elem ''Button'' as ks) \<and>
           map_of as ''onClick'' = Some (VHandler h) \<and>
           run_handler c h arg s =
             (case caller_of (attr ps ''onClick'') of None \<Rightarrow> [] | Some g \<Rightarrow> [g], toggleSidebar c s)"
  using assms by (simp add: SidebarTrigger_def useSidebar_def Let_def map_of_spread map_of_omit)

lemma shortcut_toggles:
  "handleKeyDown c ev s = (if ev_key ev = ''b'' \<and> (ev_meta ev \<or> ev_ctrl ev) then (True, toggleSidebar c s) else (False, s))"
  by (simp add: handleKeyDown_def SIDEBAR_KEYBOARD_SHORTCUT_def)

lemma sidebar_parts_need_provider:
  "Sidebar None L ps kids = Inl (ContextError ''useSidebar must be used within a SidebarProvider.'')"
  "SidebarTrigger None L ps kids = Inl (ContextError ''useSidebar must be used within a SidebarProvider.'')"
  "SidebarRail None L ps kids = Inl (ContextError ''useSidebar must be used within a SidebarProvider.'')"
  "SidebarMenuButton None L ps kids = Inl (ContextError ''useSidebar must be used within a SidebarProvider.'')"
  by (simp_all add: Sidebar_def SidebarTrigger_def SidebarRail_def SidebarMenuButton_def useSidebar_def)

text \<open>A width between 50\% and 90\%, for every number from 0 up to 1.\<close>

lemma skeleton_percent_bounds:
  assumes "0 \<le> x" "x \<le> 1"
  shows "\<exists>n. skeleton_percent (Fin x) = Fin (of_int n) \<and> 50 \<le> n \<and> n \<le> 90"
proof -
  have r: "0 \<le> rnd (x * 40)" "rnd (x * 40) \<le> 40"
    using assms rnd_mono [of "x * 40" 40] rnd_int [of 40] by (auto intro: rnd_nonneg)
  then have f: "fl (x * 40) = Fin (rnd (x * 40))"
    by (simp add: fl_eq_Fin)
  have n: "0 \<le> \<lfloor>rnd (x * 40)\<rfloor>" "\<lfloor>rnd (x * 40)\<rfloor> \<le> 40" using r by (simp_all add: floor_le_iff)
  have "fl (of_int \<lfloor>rnd (x * 40)\<rfloor> + 50) = Fin (of_int (\<lfloor>rnd (x * 40)\<rfloor> + 50))"
    using n fl_int [of "\<lfloor>rnd (x * 40)\<rfloor> + 50"] by simp
  with f n show ?thesis
    by (intro exI [of _ "\<lfloor>rnd (x * 40)\<rfloor> + 50"]) (simp add: skeleton_percent_def)
qed

end
