(* ===== verification/UI_Form.thy ===== *)
theory UI_Form
  imports UI_Base
begin

text \<open>
  The form parts of \<^verbatim>\<open>components/ui/form.tsx\<close>. A part reads three contexts: the field's (its name), the
  item's (its identifier) and the form's, from which \<^verbatim>\<open>react-hook-form\<close> gives the state of a field. The
  last is not part of the repository: \<open>getFieldState\<close> is an argument, \<open>None\<close> outside a form. The two
  others are plain objects, empty outside their providers.
\<close>

section \<open>The hook\<close>

type_synonym ('h, 'd) form_context = "(('h, 'd) aval \<Rightarrow> ('h, 'd) props) option"

record ('h, 'd) field_env =
  fe_field :: "('h, 'd) props"
  fe_item :: "('h, 'd) props"
  fe_form :: "('h, 'd) form_context"

definition useFormField :: "('h, 'd) field_env \<Rightarrow> ('h, 'd) props result" where
  "useFormField e =
     (case fe_form e of
        None \<Rightarrow> Inl TypeError
      | Some getFieldState \<Rightarrow>
          let name = attr (fe_field e) ''name'';
              fieldState = getFieldState name;
              i = attr (fe_item e) ''id''
          in if \<not> truthy_attr (VObj (fe_field e) :: ('h, 'd) aval)
             then Inl (ContextError ''useFormField should be used within <FormField>'')
             else Inr (spread
               [(''id'', i),
                (''name'', name),
                (''formItemId'', VStr (text_of i @ ''-form-item'')),
                (''formDescriptionId'', VStr (text_of i @ ''-form-item-description'')),
                (''formMessageId'', VStr (text_of i @ ''-form-item-message''))]
               fieldState))"

section \<open>Components\<close>

definition FormField :: "('h, 'd) component" where
  "FormField L ps children =
     Elem ''FormFieldContext.Provider'' [(''value'', VObj [(''name'', attr ps ''name'')])]
       [Elem ''Controller'' ps children]"

text \<open>\<open>uid\<close> is the identifier \<^verbatim>\<open>React.useId()\<close> returned.\<close>

definition FormItem :: "string \<Rightarrow> ('h, 'd) component" where
  "FormItem uid L ps children =
     (let className = attr ps ''className'';
          props = omit [''className''] ps
      in Elem ''FormItemContext.Provider'' [(''value'', VObj [(''id'', VStr uid)])]
           [Elem ''div''
              (spread [(''ref'', VRef), (''className'', VStr (cn L [VStr ''space-y-2'', className]))] props)
              children])"

definition FormLabel ::
  "('h, 'd) field_env \<Rightarrow> ('h, 'd) class_lib \<Rightarrow> ('h, 'd) props \<Rightarrow> ('h, 'd) vnode list \<Rightarrow> ('h, 'd) vnode result" where
  "FormLabel e L ps children =
     bindE (useFormField e) (\<lambda>f.
       let className = attr ps ''className'';
           props = omit [''className''] ps
       in Inr (Elem ''Label''
            (spread
              [(''ref'', VRef),
               (''className'', VStr (cn L [js_and (attr f ''error'') (VStr ''text-destructive''), className])),
               (''htmlFor'', attr f ''formItemId'')]
              props)
            children))"

definition FormControl ::
  "('h, 'd) field_env \<Rightarrow> ('h, 'd) class_lib \<Rightarrow> ('h, 'd) props \<Rightarrow> ('h, 'd) vnode list \<Rightarrow> ('h, 'd) vnode result" where
  "FormControl e L ps children =
     bindE (useFormField e) (\<lambda>f.
       let err = attr f ''error''
       in Inr (Elem ''Slot''
            (spread
              [(''ref'', VRef),
               (''id'', attr f ''formItemId''),
               (''aria-describedby'',
                VStr (if \<not> truthy_attr err then text_of (attr f ''formDescriptionId'')
                      else text_of (attr f ''formDescriptionId'') @ '' '' @ text_of (attr f ''formMessageId''))),
               (''aria-invalid'', VBool (truthy_attr err))]
              ps)
            children))"

definition FormDescription ::
  "('h, 'd) field_env \<Rightarrow> ('h, 'd) class_lib \<Rightarrow> ('h, 'd) props \<Rightarrow> ('h, 'd) vnode list \<Rightarrow> ('h, 'd) vnode result" where
  "FormDescription e L ps children =
     bindE (useFormField e) (\<lambda>f.
       let className = attr ps ''className'';
           props = omit [''className''] ps
       in Inr (Elem ''p''
            (spread
              [(''ref'', VRef),
               (''id'', attr f ''formDescriptionId''),
               (''className'', VStr (cn L [VStr ''text-sm text-muted-foreground'', className]))]
              props)
            children))"

text \<open>\<open>None\<close> is the \<^verbatim>\<open>null\<close> that renders nothing.\<close>

definition FormMessage ::
  "('h, 'd) field_env \<Rightarrow> ('h, 'd) class_lib \<Rightarrow> ('h, 'd) props \<Rightarrow> ('h, 'd) vnode list \<Rightarrow> ('h, 'd) vnode option result" where
  "FormMessage e L ps children =
     bindE (useFormField e) (\<lambda>f.
       let err = attr f ''error'';
           body = (if truthy_attr err then node_of (VStr (text_of (attr (obj_of err) ''message''))) else children);
           className = attr ps ''className'';
           props = omit [''className''] ps
       in if body = [] then Inr None
          else Inr (Some (Elem ''p''
            (spread
              [(''ref'', VRef),
               (''id'', attr f ''formMessageId''),
               (''className'', VStr (cn L [VStr ''text-sm font-medium text-destructive'', className]))]
              props)
            body)))"

section \<open>Lemmas\<close>

text \<open>
  What \<^verbatim>\<open>react-hook-form\<close> returns for a field: an object with \<open>invalid\<close>, \<open>isDirty\<close>, \<open>isTouched\<close>,
  \<open>isValidating\<close> and \<open>error\<close>.
\<close>

definition field_state_names :: "string list" where
  "field_state_names = [''invalid'', ''isDirty'', ''isTouched'', ''isValidating'', ''error'']"

definition field_state :: "('h, 'd) props \<Rightarrow> bool" where
  "field_state fs \<longleftrightarrow> distinct (map fst fs) \<and> set (map fst fs) \<subseteq> set field_state_names"

lemma field_state_other:
  assumes "field_state fs" "k \<notin> set field_state_names"
  shows "map_of fs k = None"
  using assms by (auto simp: field_state_def map_of_eq_None_iff)

lemma useFormField_in_form:
  assumes form: "fe_form e = Some g" and state: "field_state (g (attr (fe_field e) ''name''))"
  obtains f where "useFormField e = Inr f"
    and "attr f ''formItemId'' = VStr (text_of (attr (fe_item e) ''id'') @ ''-form-item'')"
    and "attr f ''formDescriptionId'' = VStr (text_of (attr (fe_item e) ''id'') @ ''-form-item-description'')"
    and "attr f ''formMessageId'' = VStr (text_of (attr (fe_item e) ''id'') @ ''-form-item-message'')"
    and "attr f ''error'' = attr (g (attr (fe_field e) ''name'')) ''error''"
proof -
  let ?fs = "g (attr (fe_field e) ''name'')" and ?i = "attr (fe_item e) ''id''"
  let ?own = "[(''id'', ?i), (''name'', attr (fe_field e) ''name''),
    (''formItemId'', VStr (text_of ?i @ ''-form-item'')),
    (''formDescriptionId'', VStr (text_of ?i @ ''-form-item-description'')),
    (''formMessageId'', VStr (text_of ?i @ ''-form-item-message''))]"
  note other = field_state_other [OF state]
  have d: "distinct (map fst ?fs)" using state by (simp add: field_state_def)
  have own: "attr (spread ?own ?fs) k = attr ?own k" if "k \<notin> set field_state_names" for k
    using other [OF that] by (simp add: attr_spread [OF d])
  have e: "attr (spread ?own ?fs) ''error'' = attr ?fs ''error''"
    by (simp add: attr_spread [OF d]) (simp add: attr_def split: option.split)
  have u: "useFormField e = Inr (spread ?own ?fs)" by (simp add: useFormField_def form Let_def)
  show ?thesis by (rule that [OF u]) (simp_all add: own e field_state_names_def)
qed

text \<open>The guard of \<^verbatim>\<open>useFormField\<close> never holds: the default of the context is an object, which is truthy.\<close>

lemma useFormField_guard_unreachable: "useFormField e \<noteq> Inl (ContextError m)"
  by (simp add: useFormField_def Let_def split: option.split)

text \<open>An error without a message is shown as the word undefined.\<close>

lemma FormMessage_undefined:
  assumes "fe_form e = Some (\<lambda>_. [(''error'', VObj [(''type'', VStr ''custom'')])])"
  shows "\<exists>as. FormMessage e L [] children = Inr (Some (Elem ''p'' as [Text ''undefined'']))"
  using assms by (simp add: FormMessage_def useFormField_def Let_def spread_def attr_def)

section \<open>Properties\<close>


definition demo_field :: "(unit, unit) field_env" where
  "demo_field = \<lparr>fe_field = [(''name'', VStr ''email'')], fe_item = [(''id'', VStr ''r1'')],
     fe_form = Some (\<lambda>_. [(''invalid'', VBool True), (''error'', VObj [(''message'', VStr ''Required'')])])\<rparr>"


end
