(* ===== verification/UI_Carousel.thy ===== *)
theory UI_Carousel
  imports UI_Base React_Hooks
begin

text \<open>
  The carousel of \<^verbatim>\<open>components/ui/carousel.tsx\<close>: its state on top of the scrolling engine, its effects and
  keys, and its components. The engine is the package \<^verbatim>\<open>embla-carousel-react\<close>, which is not part of the
  repository: the record \<open>embla\<close> of its methods is an argument. A method that scrolls returns the
  engine's new state and the events it emits.
\<close>

section \<open>State and operations\<close>

record 'a embla =
  em_canScrollPrev :: "'a \<Rightarrow> bool"
  em_canScrollNext :: "'a \<Rightarrow> bool"
  em_scrollPrev :: "'a \<Rightarrow> 'a \<times> string list"
  em_scrollNext :: "'a \<Rightarrow> 'a \<times> string list"

text \<open>
  \<open>car_api\<close> is the engine, missing until it is mounted; \<open>car_subs\<close> are the events \<^verbatim>\<open>onSelect\<close> is registered
  for, \<open>car_setApi\<close> the number of calls of the caller's \<^verbatim>\<open>setApi\<close>.
\<close>

record 'a carousel =
  car_api :: "'a option"
  canScrollPrev :: bool
  canScrollNext :: bool
  car_subs :: "string list"
  car_setApi :: nat

definition initial_carousel :: "'a option \<Rightarrow> 'a carousel" where
  "initial_carousel api =
     \<lparr>car_api = api, canScrollPrev = False, canScrollNext = False, car_subs = [], car_setApi = 0\<rparr>"

definition embla_options :: "('h, 'd) props \<Rightarrow> ('h, 'd) aval \<Rightarrow> ('h, 'd) props" where
  "embla_options opts orientation =
     spread opts [(''axis'', if orientation = VStr ''horizontal'' then VStr ''x'' else VStr ''y'')]"

definition onSelect :: "'a embla \<Rightarrow> 'a carousel \<Rightarrow> 'a carousel" where
  "onSelect E s =
     (case car_api s of None \<Rightarrow> s
      | Some a \<Rightarrow> s\<lparr>canScrollPrev := em_canScrollPrev E a, canScrollNext := em_canScrollNext E a\<rparr>)"

text \<open>The engine calls a listener once for each registration for the event.\<close>

definition emit :: "'a embla \<Rightarrow> string list \<Rightarrow> 'a carousel \<Rightarrow> 'a carousel" where
  "emit E evs s = foldl (\<lambda>s ev. foldl (\<lambda>s _. onSelect E s) s (filter (\<lambda>x. x = ev) (car_subs s))) s evs"

definition run_api :: "'a embla \<Rightarrow> ('a \<Rightarrow> 'a \<times> string list) \<Rightarrow> 'a carousel \<Rightarrow> 'a carousel" where
  "run_api E f s =
     (case car_api s of None \<Rightarrow> s
      | Some a \<Rightarrow> (let (a', evs) = f a in emit E evs (s\<lparr>car_api := Some a'\<rparr>)))"

definition scrollPrev :: "'a embla \<Rightarrow> 'a carousel \<Rightarrow> 'a carousel" where
  "scrollPrev E s = run_api E (em_scrollPrev E) s"

definition scrollNext :: "'a embla \<Rightarrow> 'a carousel \<Rightarrow> 'a carousel" where
  "scrollNext E s = run_api E (em_scrollNext E) s"

text \<open>The key handler returns whether it prevents the default action.\<close>

definition carousel_handleKeyDown :: "'a embla \<Rightarrow> string \<Rightarrow> 'a carousel \<Rightarrow> bool \<times> 'a carousel" where
  "carousel_handleKeyDown E key s =
     (if key = ''ArrowLeft'' then (True, scrollPrev E s)
      else if key = ''ArrowRight'' then (True, scrollNext E s)
      else (False, s))"

definition setApi_effect :: "bool \<Rightarrow> 'a carousel \<Rightarrow> 'a carousel" where
  "setApi_effect given s = (if car_api s = None \<or> \<not> given then s else s\<lparr>car_setApi := car_setApi s + 1\<rparr>)"

definition select_effect :: "'a embla \<Rightarrow> 'a carousel \<Rightarrow> 'a carousel" where
  "select_effect E s =
     (if car_api s = None then s
      else (onSelect E s)\<lparr>car_subs := car_subs s @ [''reInit'', ''select'']\<rparr>)"

definition select_cleanup :: "'a carousel \<Rightarrow> 'a carousel" where
  "select_cleanup s = s\<lparr>car_subs := filter (\<lambda>x. x \<noteq> ''select'') (car_subs s)\<rparr>"

section \<open>Components\<close>

datatype 'h car_handler = CarCaller 'h | ScrollPrev | ScrollNext | CarKeyDown

record ('h, 'd) car_context =
  cc_orientation :: "('h, 'd) aval"
  cc_canScrollPrev :: bool
  cc_canScrollNext :: bool

definition useCarousel :: "('h, 'd) car_context option \<Rightarrow> ('h, 'd) car_context result" where
  "useCarousel context =
     (case context of None \<Rightarrow> Inl (ContextError ''useCarousel must be used within a <Carousel />'') | Some c \<Rightarrow> Inr c)"

definition carousel_context :: "'a carousel \<Rightarrow> ('h, 'd) props \<Rightarrow> ('h, 'd) car_context" where
  "carousel_context s ps =
     (let orientation = attr_or ps ''orientation'' (VStr ''horizontal'');
          opts = attr ps ''opts''
      in \<lparr>cc_orientation =
            js_or orientation (if attr (obj_of opts) ''axis'' = VStr ''y'' then VStr ''vertical'' else VStr ''horizontal''),
          cc_canScrollPrev = canScrollPrev s, cc_canScrollNext = canScrollNext s\<rparr>)"

definition Carousel ::
  "('h car_handler, 'd) component" where
  "Carousel L ps children =
     (let className = attr ps ''className'';
          props = omit [''orientation'', ''opts'', ''setApi'', ''plugins'', ''className''] ps
      in Elem ''CarouselContext.Provider'' []
           [Elem ''div''
              (spread
                [(''ref'', VRef),
                 (''onKeyDownCapture'', VHandler CarKeyDown),
                 (''className'', VStr (cn L [VStr ''relative'', className])),
                 (''role'', VStr ''region''),
                 (''aria-roledescription'', VStr ''carousel'')]
                props)
              children])"

type_synonym ('h, 'd) car_component =
  "('h car_handler, 'd) car_context option \<Rightarrow> ('h car_handler, 'd) class_lib \<Rightarrow> ('h car_handler, 'd) props
     \<Rightarrow> ('h car_handler, 'd) vnode list \<Rightarrow> ('h car_handler, 'd) vnode result"

definition CarouselContent :: "('h, 'd) car_component" where
  "CarouselContent context L ps children =
     bindE (useCarousel context) (\<lambda>c.
       let className = attr ps ''className'';
           props = omit [''className''] ps
       in Inr (Elem ''div'' [(''ref'', VRef), (''className'', VStr ''overflow-hidden'')]
            [Elem ''div''
               (spread
                 [(''ref'', VRef),
                  (''className'',
                   VStr (cn L [VStr ''flex'',
                     if cc_orientation c = VStr ''horizontal'' then VStr ''-ml-4'' else VStr ''-mt-4 flex-col'',
                     className]))]
                 props)
               children]))"

definition CarouselItem :: "('h, 'd) car_component" where
  "CarouselItem context L ps children =
     bindE (useCarousel context) (\<lambda>c.
       let className = attr ps ''className'';
           props = omit [''className''] ps
       in Inr (Elem ''div''
            (spread
              [(''ref'', VRef),
               (''role'', VStr ''group''),
               (''aria-roledescription'', VStr ''slide''),
               (''className'',
                VStr (cn L [VStr ''min-w-0 shrink-0 grow-0 basis-full'',
                  if cc_orientation c = VStr ''horizontal'' then VStr ''pl-4'' else VStr ''pt-4'',
                  className]))]
              props)
            children))"

definition CarouselPrevious :: "('h, 'd) car_component" where
  "CarouselPrevious context L ps children =
     bindE (useCarousel context) (\<lambda>c.
       let className = attr ps ''className'';
           variant = attr_or ps ''variant'' (VStr ''outline'');
           size = attr_or ps ''size'' (VStr ''icon'');
           props = omit [''className'', ''variant'', ''size''] ps
       in Inr (Elem ''Button''
            (spread
              [(''ref'', VRef),
               (''variant'', variant),
               (''size'', size),
               (''className'',
                VStr (cn L [VStr ''absolute  h-8 w-8 rounded-full'',
                  if cc_orientation c = VStr ''horizontal'' then VStr ''-left-12 top-1/2 -translate-y-1/2''
                  else VStr ''-top-12 left-1/2 -translate-x-1/2 rotate-90'',
                  className])),
               (''disabled'', VBool (\<not> cc_canScrollPrev c)),
               (''onClick'', VHandler ScrollPrev)]
              props)
            [Elem ''ArrowLeft'' [(''className'', VStr ''h-4 w-4'')] [],
             Elem ''span'' [(''className'', VStr ''sr-only'')] [Text ''Previous slide'']]))"

definition CarouselNext :: "('h, 'd) car_component" where
  "CarouselNext context L ps children =
     bindE (useCarousel context) (\<lambda>c.
       let className = attr ps ''className'';
           variant = attr_or ps ''variant'' (VStr ''outline'');
           size = attr_or ps ''size'' (VStr ''icon'');
           props = omit [''className'', ''variant'', ''size''] ps
       in Inr (Elem ''Button''
            (spread
              [(''ref'', VRef),
               (''variant'', variant),
               (''size'', size),
               (''className'',
                VStr (cn L [VStr ''absolute h-8 w-8 rounded-full'',
                  if cc_orientation c = VStr ''horizontal'' then VStr ''-right-12 top-1/2 -translate-y-1/2''
                  else VStr ''-bottom-12 left-1/2 -translate-x-1/2 rotate-90'',
                  className])),
               (''disabled'', VBool (\<not> cc_canScrollNext c)),
               (''onClick'', VHandler ScrollNext)]
              props)
            [Elem ''ArrowRight'' [(''className'', VStr ''h-4 w-4'')] [],
             Elem ''span'' [(''className'', VStr ''sr-only'')] [Text ''Next slide'']]))"

section \<open>Lemmas\<close>

text \<open>
  The engine is documented to emit \<open>select\<close> when another slide is selected and \<open>reInit\<close> when it is
  set up again: what it can scroll to changes with one of the two only.
\<close>

definition announces :: "'a embla \<Rightarrow> ('a \<Rightarrow> 'a \<times> string list) \<Rightarrow> bool" where
  "announces E f \<longleftrightarrow>
     (\<forall>a a' evs. f a = (a', evs) \<longrightarrow> ''select'' \<in> set evs \<or> ''reInit'' \<in> set evs \<or>
        em_canScrollPrev E a' = em_canScrollPrev E a \<and> em_canScrollNext E a' = em_canScrollNext E a)"

definition in_sync :: "'a embla \<Rightarrow> 'a carousel \<Rightarrow> bool" where
  "in_sync E s \<longleftrightarrow>
     (case car_api s of None \<Rightarrow> \<not> canScrollPrev s \<and> \<not> canScrollNext s
      | Some a \<Rightarrow> canScrollPrev s = em_canScrollPrev E a \<and> canScrollNext s = em_canScrollNext E a)"

definition subscribed :: "'a carousel \<Rightarrow> bool" where
  "subscribed s \<longleftrightarrow> (car_api s \<noteq> None \<longrightarrow> ''select'' \<in> set (car_subs s) \<and> ''reInit'' \<in> set (car_subs s))"

lemma onSelect_frame [simp]: "car_api (onSelect E s) = car_api s" "car_subs (onSelect E s) = car_subs s"
  by (simp_all add: onSelect_def split: option.split)

lemma onSelect_idem [simp]: "onSelect E (onSelect E s) = onSelect E s"
  by (simp add: onSelect_def split: option.split)

lemma foldl_onSelect: "foldl (\<lambda>s _. onSelect E s) s xs = (if xs = [] then s else onSelect E s)"
  by (induction xs arbitrary: s) simp_all

lemma emit_eq: "emit E evs s = (if \<exists>ev\<in>set evs. ev \<in> set (car_subs s) then onSelect E s else s)"
proof (induction evs arbitrary: s)
  case (Cons ev evs)
  have "emit E (ev # evs) s = emit E evs (if ev \<in> set (car_subs s) then onSelect E s else s)"
    by (auto simp: emit_def foldl_onSelect filter_empty_conv)
  then show ?case using Cons by auto
qed (simp add: emit_def)

lemma onSelect_in_sync: "car_api s \<noteq> None \<Longrightarrow> in_sync E (onSelect E s)"
  by (auto simp: in_sync_def onSelect_def)

lemma run_api_subs [simp]: "car_subs (run_api E f s) = car_subs s"
  by (simp add: run_api_def emit_eq split: option.split prod.split)

lemma run_api_None [simp]: "car_api (run_api E f s) = None \<longleftrightarrow> car_api s = None"
  by (simp add: run_api_def emit_eq split: option.split prod.split)

lemma run_api_in_sync:
  assumes "announces E f" "subscribed s" "in_sync E s"
  shows "in_sync E (run_api E f s)"
proof (cases "car_api s")
  case (Some a)
  obtain a' evs where f: "f a = (a', evs)" by fastforce
  have sub: "''select'' \<in> set (car_subs s)" "''reInit'' \<in> set (car_subs s)"
    using assms(2) Some by (simp_all add: subscribed_def)
  show ?thesis
  proof (cases "\<exists>ev\<in>set evs. ev \<in> set (car_subs s)")
    case True
    then show ?thesis by (simp add: run_api_def Some f emit_eq onSelect_in_sync)
  next
    case False
    then have "''select'' \<notin> set evs" "''reInit'' \<notin> set evs" using sub by auto
    then have "em_canScrollPrev E a' = em_canScrollPrev E a" "em_canScrollNext E a' = em_canScrollNext E a"
      using assms(1) f unfolding announces_def by blast+
    then show ?thesis using False assms(3) by (simp add: run_api_def Some f emit_eq in_sync_def)
  qed
qed (use assms(3) in \<open>simp add: run_api_def\<close>)

text \<open>
  The two buttons are enabled exactly when the engine can scroll that way, after the effect has run
  and whatever the user then does with the keys and the buttons.
\<close>

datatype car_action = Prev | Next | Key string

fun car_act :: "'a embla \<Rightarrow> 'a carousel \<Rightarrow> car_action \<Rightarrow> 'a carousel" where
  "car_act E s Prev = scrollPrev E s"
| "car_act E s Next = scrollNext E s"
| "car_act E s (Key k) = snd (carousel_handleKeyDown E k s)"

lemma carousel_tracking:
  assumes "announces E (em_scrollPrev E)" "announces E (em_scrollNext E)"
  shows "tracking_hook subscribed (in_sync (E :: 'a embla)) (car_act E)"
proof
  fix s :: "'a carousel" and x
  assume s: "subscribed s"
  have r: "subscribed (run_api E f s)" for f using s by (simp add: subscribed_def)
  show "subscribed (car_act E s x)"
    using r s by (cases x) (simp_all add: scrollPrev_def scrollNext_def carousel_handleKeyDown_def)
  assume "in_sync E s"
  then show "in_sync E (car_act E s x)"
    using run_api_in_sync [OF assms(1) s] run_api_in_sync [OF assms(2) s]
    by (cases x) (simp_all add: scrollPrev_def scrollNext_def carousel_handleKeyDown_def)
qed

lemma carousel_buttons_in_sync:
  assumes "announces E (em_scrollPrev E)" "announces E (em_scrollNext E)"
  shows "in_sync E (foldl (car_act E) (select_effect E (initial_carousel api)) xs)"
proof (rule tracking_hook.run_tracks(1) [OF carousel_tracking [OF assms]])
  show "subscribed (select_effect E (initial_carousel api))" "in_sync E (select_effect E (initial_carousel api))"
    by (cases api; simp add: select_effect_def initial_carousel_def subscribed_def in_sync_def onSelect_def)+
qed

text \<open>The cleanup leaves the registration for \<open>reInit\<close> behind: each run of the effect adds one.\<close>

lemma select_cleanup_leaks:
  assumes "car_api s \<noteq> None" "''select'' \<notin> set (car_subs s)"
  shows "car_subs (select_cleanup (select_effect E s)) = car_subs s @ [''reInit'']"
  using assms by (auto simp: select_cleanup_def select_effect_def filter_id_conv)

text \<open>An axis given in \<^verbatim>\<open>opts\<close> never decides the orientation, as the default is already there.\<close>

lemma orientation_ignores_axis:
  "attr ps ''orientation'' = VUndef \<Longrightarrow> cc_orientation (carousel_context s ps) = VStr ''horizontal''"
  by (simp add: carousel_context_def attr_or_def js_or_def)

lemma carousel_parts_need_carousel:
  "CarouselContent None L ps kids = Inl (ContextError ''useCarousel must be used within a <Carousel />'')"
  "CarouselItem None L ps kids = Inl (ContextError ''useCarousel must be used within a <Carousel />'')"
  "CarouselPrevious None L ps kids = Inl (ContextError ''useCarousel must be used within a <Carousel />'')"
  "CarouselNext None L ps kids = Inl (ContextError ''useCarousel must be used within a <Carousel />'')"
  by (simp_all add: CarouselContent_def CarouselItem_def CarouselPrevious_def CarouselNext_def useCarousel_def)

end
