(* ===== verification/UI_Chart.thy ===== *)
theory UI_Chart
  imports UI_Base
begin

text \<open>
  The chart parts of \<^verbatim>\<open>components/ui/chart.tsx\<close>: the configuration of the series, the style sheet made from
  it, the lookup of a payload's configuration, the tooltip and the legend. The items of a payload
  are plain objects, as the charting library passes them. What the caller or the run-time
  system computes is an argument: the two formatters and \<^verbatim>\<open>toLocaleString\<close>.
\<close>

section \<open>Configuration\<close>

definition THEMES :: "(string \<times> string) list" where
  "THEMES = [(''light'', ''''), (''dark'', ''.dark'')]"

text \<open>A label is any renderable value, an icon the name of a component, a theme a colour per theme name.\<close>

record ('h, 'd) chart_entry =
  ce_label :: "('h, 'd) aval"
  ce_icon :: "string option"
  ce_color :: "('h, 'd) aval"
  ce_theme :: "string jsobj option"

type_synonym ('h, 'd) chart_config = "('h, 'd) chart_entry jsobj"

text \<open>
  A property lookup in the configuration, where a name that every object inherits gives a value
  without label, icon and colours.
\<close>

definition blank_entry :: "('h, 'd) chart_entry" where
  "blank_entry = \<lparr>ce_label = VUndef, ce_icon = None, ce_color = VUndef, ce_theme = None\<rparr>"

definition config_get :: "('h, 'd) chart_config \<Rightarrow> string \<Rightarrow> ('h, 'd) chart_entry option" where
  "config_get config k =
     (case obj_get config k of Own e \<Rightarrow> Some e | Inherited \<Rightarrow> Some blank_entry | Absent \<Rightarrow> None)"

definition useChart :: "('h, 'd) chart_config option \<Rightarrow> ('h, 'd) chart_config result" where
  "useChart context =
     (case context of None \<Rightarrow> Inl (ContextError ''useChart must be used within a <ChartContainer />'') | Some c \<Rightarrow> Inr c)"

section \<open>Style sheet and container\<close>

definition newline :: string where
  "newline = [CHR 0x0A]"

definition has_color :: "('h, 'd) chart_entry \<Rightarrow> bool" where
  "has_color e \<longleftrightarrow> ce_theme e \<noteq> None \<or> truthy_attr (ce_color e)"

definition theme_color :: "string \<Rightarrow> ('h, 'd) chart_entry \<Rightarrow> ('h, 'd) aval" where
  "theme_color theme e =
     js_or (case ce_theme e of None \<Rightarrow> VUndef
            | Some t \<Rightarrow> (case map_of t theme of Some c \<Rightarrow> VStr c | None \<Rightarrow> VUndef)) (ce_color e)"

text \<open>A series without a colour for the theme gives \<^verbatim>\<open>null\<close>, which \<^verbatim>\<open>join\<close> makes an empty line.\<close>

definition color_line :: "string \<Rightarrow> string \<times> ('h, 'd) chart_entry \<Rightarrow> string" where
  "color_line theme = (\<lambda>(key, e).
     let color = theme_color theme e
     in if truthy_attr color then ''  --color-'' @ key @ '': '' @ text_of color @ '';'' else [])"

definition theme_block :: "string \<Rightarrow> ('h, 'd) chart_config \<Rightarrow> string \<times> string \<Rightarrow> string" where
  "theme_block i colorConfig = (\<lambda>(theme, prefix).
     newline @ prefix @ '' [data-chart='' @ i @ ''] {'' @ newline @
     js_join newline (map (color_line theme) colorConfig) @ newline @ ''}'' @ newline)"

definition ChartStyle :: "string \<Rightarrow> ('h, 'd) chart_config \<Rightarrow> ('h, 'd) vnode option" where
  "ChartStyle i config =
     (let colorConfig = filter (\<lambda>e. has_color (snd e)) (obj_entries config)
      in if colorConfig = [] then None
         else Some (Elem ''style''
           [(''dangerouslySetInnerHTML'',
             VObj [(''__html'', VStr (js_join newline (map (theme_block i colorConfig) THEMES)))])] []))"

text \<open>\<open>uid\<close> is the identifier \<^verbatim>\<open>React.useId()\<close> returned.\<close>

definition chart_id :: "string \<Rightarrow> ('h, 'd) aval \<Rightarrow> string" where
  "chart_id uid i =
     ''chart-'' @ text_of (js_or i (VStr (filter (\<lambda>c. c \<noteq> CHR '':'') uid) :: ('h, 'd) aval))"

definition ChartContainer :: "string \<Rightarrow> ('h, 'd) aval \<Rightarrow> ('h, 'd) component" where
  "ChartContainer uid config L ps children =
     (let i = attr ps ''id'';
          className = attr ps ''className'';
          props = omit [''id'', ''className'', ''config''] ps;
          chartId = chart_id uid i
      in Elem ''ChartContext.Provider'' [(''value'', VObj [(''config'', config)])]
           [Elem ''div''
              (spread
                [(''data-chart'', VStr chartId),
                 (''ref'', VRef),
                 (''className'',
                  VStr
                    (cn L
                      [VStr
                         ''flex aspect-video justify-center text-xs [&_.recharts-cartesian-axis-tick_text]:fill-muted-foreground [&_.recharts-cartesian-grid_line[stroke='#ccc']]:stroke-border/50 [&_.recharts-curve.recharts-tooltip-cursor]:stroke-border [&_.recharts-dot[stroke='#fff']]:stroke-transparent [&_.recharts-layer]:outline-none [&_.recharts-polar-grid_[stroke='#ccc']]:stroke-border [&_.recharts-radial-bar-background-sector]:fill-muted [&_.recharts-rectangle.recharts-tooltip-cursor]:fill-muted [&_.recharts-reference-line_[stroke='#ccc']]:stroke-border [&_.recharts-sector[stroke='#fff']]:stroke-transparent [&_.recharts-sector]:outline-none [&_.recharts-surface]:outline-none'',
                       className]))]
                props)
              [Elem ''ChartStyle'' [(''id'', VStr chartId), (''config'', config)] [],
               Elem ''RechartsPrimitive.ResponsiveContainer'' [] children]])"

section \<open>The configuration of a payload\<close>

definition string_prop :: "('h, 'd) props \<Rightarrow> string \<Rightarrow> string option" where
  "string_prop m k = (case attr m k of VStr s \<Rightarrow> Some s | _ \<Rightarrow> None)"

text \<open>
  A name that \<^verbatim>\<open>in\<close> finds on the prototype has no string value, so only own properties count; a
  payload that is not an object has no configuration.
\<close>

definition getPayloadConfigFromPayload ::
  "('h, 'd) chart_config \<Rightarrow> ('h, 'd) aval \<Rightarrow> string \<Rightarrow> ('h, 'd) chart_entry option" where
  "getPayloadConfigFromPayload config payload key =
     (case payload of
        VObj p \<Rightarrow>
          let configLabelKey =
                (case string_prop p key of Some s \<Rightarrow> s
                 | None \<Rightarrow> (case attr p ''payload'' of
                     VObj pp \<Rightarrow> (case string_prop pp key of Some s \<Rightarrow> s | None \<Rightarrow> key)
                   | _ \<Rightarrow> key))
          in (case obj_get config configLabelKey of
                Absent \<Rightarrow> config_get config key
              | _ \<Rightarrow> config_get config configLabelKey)
      | _ \<Rightarrow> None)"

definition entry_label :: "('h, 'd) chart_entry option \<Rightarrow> ('h, 'd) aval" where
  "entry_label e = (case e of None \<Rightarrow> VUndef | Some c \<Rightarrow> ce_label c)"

definition entry_icon :: "('h, 'd) chart_entry option \<Rightarrow> string option" where
  "entry_icon e = (case e of None \<Rightarrow> None | Some c \<Rightarrow> ce_icon c)"

section \<open>Tooltip\<close>

record ('h, 'd) tooltip_props =
  tip_active :: bool
  tip_payload :: "('h, 'd) props list"
  tip_className :: "('h, 'd) aval"
  tip_indicator :: "('h, 'd) aval"
  tip_hideLabel :: bool
  tip_hideIndicator :: bool
  tip_label :: "('h, 'd) aval"
  tip_labelFormatter :: "(('h, 'd) aval \<Rightarrow> ('h, 'd) props list \<Rightarrow> ('h, 'd) vnode list) option"
  tip_labelClassName :: "('h, 'd) aval"
  tip_formatter :: "(('h, 'd) aval \<Rightarrow> ('h, 'd) aval \<Rightarrow> ('h, 'd) props \<Rightarrow> nat \<Rightarrow> ('h, 'd) aval \<Rightarrow> ('h, 'd) vnode list) option"
  tip_color :: "('h, 'd) aval"
  tip_nameKey :: "('h, 'd) aval"
  tip_labelKey :: "('h, 'd) aval"

definition tooltipLabel ::
  "('h, 'd) class_lib \<Rightarrow> ('h, 'd) chart_config \<Rightarrow> ('h, 'd) tooltip_props \<Rightarrow> ('h, 'd) vnode list" where
  "tooltipLabel L config t =
     (if tip_hideLabel t \<or> tip_payload t = [] then []
      else
        let item = hd (tip_payload t);
            key = text_of (js_or (js_or (js_or (tip_labelKey t) (attr item ''dataKey'')) (attr item ''name'')) (VStr ''value''));
            itemConfig = getPayloadConfigFromPayload config (VObj item) key;
            val = (case (truthy_attr (tip_labelKey t), tip_label t) of
                     (False, VStr s) \<Rightarrow> js_or (entry_label (config_get config s)) (VStr s)
                   | _ \<Rightarrow> entry_label itemConfig)
        in case tip_labelFormatter t of
             Some f \<Rightarrow> [Elem ''div'' [(''className'', VStr (cn L [VStr ''font-medium'', tip_labelClassName t]))] (f val (tip_payload t))]
           | None \<Rightarrow>
               if \<not> truthy_attr val then []
               else [Elem ''div'' [(''className'', VStr (cn L [VStr ''font-medium'', tip_labelClassName t]))] (node_of val)])"

text \<open>\<^verbatim>\<open>color || item.payload.fill || item.color\<close>, where reading a property of a missing payload throws.\<close>

definition indicator_color :: "('h, 'd) aval \<Rightarrow> ('h, 'd) props \<Rightarrow> ('h, 'd) aval result" where
  "indicator_color color item =
     (if truthy_attr color then Inr color
      else case attr item ''payload'' of
        VUndef \<Rightarrow> Inl TypeError
      | VNull \<Rightarrow> Inl TypeError
      | p \<Rightarrow> Inr (js_or (attr (obj_of p) ''fill'') (attr item ''color'')))"

definition indicator_box ::
  "('h, 'd) class_lib \<Rightarrow> ('h, 'd) aval \<Rightarrow> bool \<Rightarrow> ('h, 'd) aval \<Rightarrow> ('h, 'd) vnode" where
  "indicator_box L indicator nestLabel color =
     Elem ''div''
       [(''className'',
         VStr
           (cn L
             [VStr ''shrink-0 rounded-[2px] border-[--color-border] bg-[--color-bg]'',
              VObj
                [(''h-2.5 w-2.5'', VBool (indicator = VStr ''dot'')),
                 (''w-1'', VBool (indicator = VStr ''line'')),
                 (''w-0 border-[1.5px] border-dashed bg-transparent'', VBool (indicator = VStr ''dashed'')),
                 (''my-0.5'', VBool (nestLabel \<and> indicator = VStr ''dashed''))]])),
        (''style'', VObj [(''--color-bg'', color), (''--color-border'', color)])]
       []"

definition tooltip_row ::
  "(('h, 'd) aval \<Rightarrow> string) \<Rightarrow> ('h, 'd) class_lib \<Rightarrow> ('h, 'd) chart_config \<Rightarrow> ('h, 'd) tooltip_props \<Rightarrow> bool \<Rightarrow> nat
     \<Rightarrow> ('h, 'd) props \<Rightarrow> ('h, 'd) vnode result" where
  "tooltip_row locale L config t nestLabel index item =
     (let key = text_of (js_or (js_or (js_or (tip_nameKey t) (attr item ''name'')) (attr item ''dataKey'')) (VStr ''value''));
          itemConfig = getPayloadConfigFromPayload config (VObj item) key;
          val = attr item ''value''
      in bindE (indicator_color (tip_color t) item) (\<lambda>indicatorColor.
        Inr (Elem ''div''
          [(''key'', attr item ''dataKey''),
           (''className'',
            VStr
              (cn L
                [VStr ''flex w-full flex-wrap items-stretch gap-2 [&>svg]:h-2.5 [&>svg]:w-2.5 [&>svg]:text-muted-foreground'',
                 js_and (VBool (tip_indicator t = VStr ''dot'')) (VStr ''items-center'')]))]
          (case (tip_formatter t, val \<noteq> VUndef \<and> truthy_attr (attr item ''name'')) of
             (Some f, True) \<Rightarrow> f val (attr item ''name'') item index (attr item ''payload'')
           | _ \<Rightarrow>
               (case entry_icon itemConfig of
                  Some icon \<Rightarrow> [Elem icon [] []]
                | None \<Rightarrow> if tip_hideIndicator t then [] else [indicator_box L (tip_indicator t) nestLabel indicatorColor]) @
               [Elem ''div''
                  [(''className'',
                    VStr
                      (cn L
                        [VStr ''flex flex-1 justify-between leading-none'',
                         if nestLabel then VStr ''items-end'' else VStr ''items-center'']))]
                  (Elem ''div'' [(''className'', VStr ''grid gap-1.5'')]
                     ((if nestLabel then tooltipLabel L config t else []) @
                      [Elem ''span'' [(''className'', VStr ''text-muted-foreground'')]
                         (node_of (js_or (entry_label itemConfig) (attr item ''name'')))]) #
                   (if truthy_attr val
                    then [Elem ''span''
                            [(''className'', VStr ''font-mono font-medium tabular-nums text-foreground'')]
                            [Text (locale val)]]
                    else node_of val))]))))"

definition ChartTooltipContent ::
  "(('h, 'd) aval \<Rightarrow> string) \<Rightarrow> ('h, 'd) chart_config option \<Rightarrow> ('h, 'd) class_lib \<Rightarrow> ('h, 'd) tooltip_props
     \<Rightarrow> ('h, 'd) vnode option result" where
  "ChartTooltipContent locale context L t =
     bindE (useChart context) (\<lambda>config.
       if \<not> tip_active t \<or> tip_payload t = [] then Inr None
       else
         let nestLabel = (length (tip_payload t) = 1 \<and> tip_indicator t \<noteq> VStr ''dot'')
         in bindE (mapE (\<lambda>(index, item). tooltip_row locale L config t nestLabel index item)
                     (List.enumerate 0 (tip_payload t))) (\<lambda>rows.
              Inr (Some (Elem ''div''
                [(''ref'', VRef),
                 (''className'',
                  VStr
                    (cn L
                      [VStr
                         ''grid min-w-[8rem] items-start gap-1.5 rounded-lg border border-border/50 bg-background px-2.5 py-1.5 text-xs shadow-xl'',
                       tip_className t]))]
                ((if \<not> nestLabel then tooltipLabel L config t else []) @
                 [Elem ''div'' [(''className'', VStr ''grid gap-1.5'')] rows])))))"

section \<open>Legend\<close>

record ('h, 'd) legend_props =
  leg_className :: "('h, 'd) aval"
  leg_hideIcon :: bool
  leg_payload :: "('h, 'd) props list"
  leg_verticalAlign :: "('h, 'd) aval"
  leg_nameKey :: "('h, 'd) aval"

definition legend_row ::
  "('h, 'd) class_lib \<Rightarrow> ('h, 'd) chart_config \<Rightarrow> ('h, 'd) legend_props \<Rightarrow> ('h, 'd) props \<Rightarrow> ('h, 'd) vnode" where
  "legend_row L config l item =
     (let key = text_of (js_or (js_or (leg_nameKey l) (attr item ''dataKey'')) (VStr ''value''));
          itemConfig = getPayloadConfigFromPayload config (VObj item) key
      in Elem ''div''
           [(''key'', attr item ''value''),
            (''className'',
             VStr (cn L [VStr ''flex items-center gap-1.5 [&>svg]:h-3 [&>svg]:w-3 [&>svg]:text-muted-foreground'']))]
           ((case (entry_icon itemConfig, leg_hideIcon l) of
               (Some icon, False) \<Rightarrow> [Elem icon [] []]
             | _ \<Rightarrow> [Elem ''div''
                      [(''className'', VStr ''h-2 w-2 shrink-0 rounded-[2px]''),
                       (''style'', VObj [(''backgroundColor'', attr item ''color'')])]
                      []]) @
            node_of (entry_label itemConfig)))"

definition ChartLegendContent ::
  "('h, 'd) chart_config option \<Rightarrow> ('h, 'd) class_lib \<Rightarrow> ('h, 'd) legend_props \<Rightarrow> ('h, 'd) vnode option result" where
  "ChartLegendContent context L l =
     bindE (useChart context) (\<lambda>config.
       if leg_payload l = [] then Inr None
       else Inr (Some (Elem ''div''
         [(''ref'', VRef),
          (''className'',
           VStr
             (cn L
               [VStr ''flex items-center justify-center gap-4'',
                if leg_verticalAlign l = VStr ''top'' then VStr ''pb-3'' else VStr ''pt-3'',
                leg_className l]))]
         (map (legend_row L config l) (leg_payload l)))))"

section \<open>Lemmas\<close>

text \<open>
  The configuration that is found is the one named by the payload when the payload, or the object
  inside it, names one that is configured, and else the one of the key.
\<close>

definition named_by :: "('h, 'd) props \<Rightarrow> string \<Rightarrow> string option" where
  "named_by p key =
     (case string_prop p key of Some s \<Rightarrow> Some s
      | None \<Rightarrow> (case attr p ''payload'' of VObj pp \<Rightarrow> string_prop pp key | _ \<Rightarrow> None))"

lemma payload_config_spec:
  "getPayloadConfigFromPayload config (VObj p) key =
     (case named_by p key of
        Some s \<Rightarrow> if config_get config s \<noteq> None then config_get config s else config_get config key
      | None \<Rightarrow> config_get config key)"
  by (auto simp: getPayloadConfigFromPayload_def named_by_def config_get_def Let_def
        split: option.split slot.split aval.split)

text \<open>A style sheet is rendered exactly when some series has a colour.\<close>

lemma obj_entries_empty_filter: "filter P (obj_entries m) = [] \<longleftrightarrow> (\<forall>e\<in>set m. \<not> P e)"
  by (auto simp: filter_empty_conv)

lemma ChartStyle_None_iff: "ChartStyle i config = None \<longleftrightarrow> (\<forall>(k, e)\<in>set config. \<not> has_color e)"
  by (auto simp: ChartStyle_def Let_def obj_entries_empty_filter split_beta)

text \<open>The tooltip throws exactly when it has no colour of its own and an item has no payload.\<close>

lemma indicator_color_throws:
  "(\<exists>e. indicator_color color item = Inl e) \<longleftrightarrow>
     \<not> truthy_attr color \<and> attr item ''payload'' \<in> {VUndef, VNull}"
  by (auto simp: indicator_color_def split: aval.split)

lemma tooltip_shows_payload:
  assumes "ChartTooltipContent locale (Some config) L t = Inr (Some n)"
  shows "tip_active t \<and> tip_payload t \<noteq> [] \<and>
    (\<exists>as ks rows. n = Elem ''div'' as (ks @ [Elem ''div'' [(''className'', VStr ''grid gap-1.5'')] rows]) \<and>
       length rows = length (tip_payload t))"
  using assms
  by (auto simp: ChartTooltipContent_def useChart_def Let_def bindE_eq_Inr split: if_splits dest!: mapE_length)

end
