(* ===== verification/Benchmark_Stats.thy ===== *)
theory Benchmark_Stats
  imports Benchmark_Data
begin

text \<open>
  The statistics of \<^verbatim>\<open>lib/benchmark-utils.ts\<close>. The metric is the name of a numeric field of the results;
  \<^verbatim>\<open>errorDistribution\<close>, whose values are objects, is not among the metrics modelled. The entries of the
  returned object are computed in order, so the sort in place comes last.
\<close>

definition metric_field :: "string \<Rightarrow> metrics \<Rightarrow> jsnum jopt" where
  "metric_field metric r =
     (if metric = ''successRate'' then successRate r
      else if metric = ''total'' then total r
      else if metric = ''slowest'' then slowest r
      else if metric = ''fastest'' then fastest r
      else if metric = ''average'' then average r
      else if metric = ''requestsPerSec'' then requestsPerSec r
      else if metric = ''totalData'' then totalData r
      else if metric = ''sizePerRequest'' then sizePerRequest r
      else if metric = ''sizePerSec'' then sizePerSec r
      else if metric = ''p95_latency'' then p95_latency r
      else Undef)"

record stats =
  st_count :: nat
  st_min :: jsnum
  st_max :: jsnum
  st_avg :: jsnum
  st_median :: "jsnum jopt"

text \<open>\<^verbatim>\<open>values.sort((a, b) => a - b)\<close>: undefined values come last, without a call of the comparator.\<close>

definition sort_values :: "jsnum jopt list \<Rightarrow> jsnum jopt list" where
  "sort_values vs =
     js_sort (\<lambda>a b. num_after (to_num a) (to_num b)) (filter (\<lambda>v. v \<noteq> Undef) vs) @ filter (\<lambda>v. v = Undef) vs"

definition calculateStats :: "benchmark_result list \<Rightarrow> string \<Rightarrow> stats option result" where
  "calculateStats data metric =
     (if data = [] then Inr None
      else bindE (mapE (\<lambda>item. case results item of Val r \<Rightarrow> Inr (metric_field metric r) | _ \<Rightarrow> Inl TypeError) data)
        (\<lambda>vs. let nums = map to_num vs in
           Inr (Some \<lparr>st_count = length vs,
                     st_min = math_min nums,
                     st_max = math_max nums,
                     st_avg = num_div (num_sum nums) (num_of_int (int (length vs))),
                     st_median = sort_values vs ! (length vs div 2)\<rparr>)))"

definition loadBenchmarkData :: "benchmark_result list" where
  "loadBenchmarkData = []"

section \<open>Lemmas\<close>

lemma js_insert_Val: "js_insert (\<lambda>a b. num_after (to_num a) (to_num b)) (Val x) (map Val xs) = map Val (js_insert num_after x xs)"
  by (induction xs) simp_all

lemma js_sort_Val: "js_sort (\<lambda>a b. num_after (to_num a) (to_num b)) (map Val xs) = map Val (js_sort num_after xs)"
  by (induction xs) (simp_all add: js_insert_Val)

lemma sort_values_Val: "sort_values (map Val xs) = map Val (js_sort num_after xs)"
  by (simp add: sort_values_def js_sort_Val filter_map comp_def)

section \<open>Properties\<close>

text \<open>The values of a metric, where every result has it as a number.\<close>

definition metric_values :: "string \<Rightarrow> benchmark_result list \<Rightarrow> jsnum list \<Rightarrow> bool" where
  "metric_values metric data xs \<longleftrightarrow>
     list_all2 (\<lambda>item x. \<exists>r. results item = Val r \<and> metric_field metric r = Val x \<and> wf_num x \<and> x \<noteq> NaN) data xs"

lemma metric_values_run:
  assumes "metric_values metric data xs"
  shows "mapE (\<lambda>item. case results item of Val r \<Rightarrow> Inr (metric_field metric r) | _ \<Rightarrow> Inl TypeError) data = Inr (map Val xs)"
    "length xs = length data" "\<forall>x\<in>set xs. wf_num x \<and> x \<noteq> NaN"
proof -
  have "mapE (\<lambda>item. case results item of Val r \<Rightarrow> Inr (metric_field metric r) | _ \<Rightarrow> Inl TypeError) data = Inr (map Val xs) \<and>
      length xs = length data \<and> (\<forall>x\<in>set xs. wf_num x \<and> x \<noteq> NaN)"
    using assms unfolding metric_values_def by (induction rule: list_all2_induct) auto
  then show "mapE (\<lambda>item. case results item of Val r \<Rightarrow> Inr (metric_field metric r) | _ \<Rightarrow> Inl TypeError) data = Inr (map Val xs)"
    "length xs = length data" "\<forall>x\<in>set xs. wf_num x \<and> x \<noteq> NaN" by blast+
qed

text \<open>
  C34 (the statistics). For results that all have the metric as a number, the statistics are their
  count, the least and the greatest value, the sum divided by the count, and as the median the
  value at half the count in ascending order.
\<close>

theorem calculateStats_median:
  assumes "metric_values metric data xs" "data \<noteq> []"
  shows "calculateStats data metric = Inr (Some \<lparr>st_count = length xs, st_min = Min (set xs), st_max = Max (set xs),
     st_avg = num_div (num_sum xs) (num_of_int (int (length xs))), st_median = Val (sort xs ! (length xs div 2))\<rparr>)"
proof -
  note run = metric_values_run [OF assms(1)]
  have ne: "xs \<noteq> []" and nan: "NaN \<notin> set xs" using run(2,3) assms(2) by auto
  then have "length xs div 2 < length (sort xs)" by simp
  then show ?thesis
    using run(1) assms(2) math_min_Min [OF nan ne] math_max_Max [OF nan ne] js_sort_sort [OF run(3)]
    by (simp add: calculateStats_def Let_def comp_def sort_values_Val del: of_nat_eq_id)
qed

definition stats_data :: "benchmark_result list" where
  "stats_data = [sample_result ''itsi'' ''hello'' 1 2 10 True 500, sample_result ''puma'' ''hello'' 1 2 10 False 300]"

lemma stats_data_values: "metric_values ''requestsPerSec'' stats_data [Fin 500, Fin 300]"
  by (simp add: metric_values_def stats_data_def sample_result_def sample_metrics_def metric_field_def)

theorem calculateStats_median_witness:
  "\<exists>s. calculateStats stats_data ''requestsPerSec'' = Inr (Some s) \<and> st_min s = Fin 300 \<and> st_median s = Val (Fin 500)"
  using calculateStats_median [OF stats_data_values] by (simp add: stats_data_def)

text \<open>
  For an even number of results the value returned is the upper of the two in the middle, not
  their mean, as the two results of the example show.
\<close>

lemma median_even_upper:
  assumes "metric_values metric data [x, y]" "x < y"
  shows "\<exists>s. calculateStats data metric = Inr (Some s) \<and> st_median s = Val y"
proof -
  note run = metric_values_run [OF assms(1)]
  have "data \<noteq> []" using run(2) by auto
  moreover have "sort_values [Val x, Val y] = [Val x, Val y]"
    using sort_values_Val [of "[x, y]"] js_sort_sort [OF run(3)] less_imp_le [OF assms(2)] by simp
  ultimately show ?thesis using run(1,2) by (simp add: calculateStats_def Let_def)
qed

end
