(* ===== verification/Spa_Router.thy ===== *)
theory Spa_Router
  imports UI_Base React_Hooks
begin

text \<open>
  The single-page example \<^verbatim>\<open>examples/spa\<close>: its router on the session history of the browser. The history
  is the list of the pathnames of the document's entries with the position of the current one.
  \<^verbatim>\<open>pushState\<close> drops the entries after the current one and appends its own without an event; a
  traversal (back, forward, \<^verbatim>\<open>history.go\<close>) to an entry of the document moves the position and fires
  \<^verbatim>\<open>popstate\<close>.
\<close>

section \<open>State and operations\<close>

record spa =
  spa_entries :: "string list"
  spa_pos :: nat
  spa_path :: string
  spa_listening :: bool

definition spa_location :: "spa \<Rightarrow> string" where
  "spa_location a = spa_entries a ! spa_pos a"

definition initial_spa :: "string list \<Rightarrow> nat \<Rightarrow> spa" where
  "initial_spa es i = \<lparr>spa_entries = es, spa_pos = i, spa_path = es ! i, spa_listening = False\<rparr>"

definition onPop :: "spa \<Rightarrow> spa" where
  "onPop a = a\<lparr>spa_path := spa_location a\<rparr>"

definition spa_effect :: "spa \<Rightarrow> spa" where
  "spa_effect a = a\<lparr>spa_listening := True\<rparr>"

definition spa_cleanup :: "spa \<Rightarrow> spa" where
  "spa_cleanup a = a\<lparr>spa_listening := False\<rparr>"

definition pushState :: "string \<Rightarrow> spa \<Rightarrow> spa" where
  "pushState dest a =
     a\<lparr>spa_entries := take (spa_pos a + 1) (spa_entries a) @ [dest], spa_pos := spa_pos a + 1\<rparr>"

definition navigate :: "string \<Rightarrow> spa \<Rightarrow> spa" where
  "navigate dest a = (pushState dest a)\<lparr>spa_path := dest\<rparr>"

definition traverse :: "int \<Rightarrow> spa \<Rightarrow> spa" where
  "traverse d a =
     (let p = int (spa_pos a) + d
      in if d \<noteq> 0 \<and> 0 \<le> p \<and> p < int (length (spa_entries a))
         then let b = a\<lparr>spa_pos := nat p\<rparr> in if spa_listening a then onPop b else b
         else a)"

section \<open>View\<close>

text \<open>The handler of a link, as the destination it navigates to, and the element of the app.\<close>

datatype spa_handler = GoTo string

fun run_link :: "spa_handler \<Rightarrow> spa \<Rightarrow> spa" where
  "run_link (GoTo dest) = navigate dest"

definition page_of :: "string \<Rightarrow> string" where
  "page_of path = (if path = ''/about'' then ''About'' else ''Home'')"

definition App :: "spa \<Rightarrow> (spa_handler, unit) vnode" where
  "App a =
     Elem ''div'' [(''style'', VObj [(''padding'', VNum (Fin 20)), (''fontFamily'', VStr ''sans-serif'')])]
       [Elem ''nav'' [(''style'', VObj [(''marginBottom'', VNum (Fin 20))])]
          [Elem ''a'' [(''href'', VStr ''/''), (''onClick'', VHandler (GoTo ''/'')),
                       (''style'', VObj [(''marginRight'', VNum (Fin 10))])] [Text ''Home''],
           Elem ''a'' [(''href'', VStr ''/about''), (''onClick'', VHandler (GoTo ''/about''))] [Text ''About'']],
        Elem (page_of (spa_path a)) [] []]"

definition spa_Home :: "(spa_handler, unit) vnode" where
  "spa_Home = Elem ''div'' [] [Elem ''h1'' [] [Text ''Home''], Elem ''p'' [] [Text ''Welcome to the minimal React SPA.'']]"

definition spa_About :: "(spa_handler, unit) vnode" where
  "spa_About = Elem ''div'' [] [Elem ''h1'' [] [Text ''About''], Elem ''p'' [] [Text ''This is the About page.'']]"

text \<open>The links of the app with their handlers.\<close>

fun links :: "(spa_handler, unit) vnode \<Rightarrow> (string \<times> spa_handler) list" where
  "links (Text s) = []"
| "links (Elem t ps ks) =
     (case (t = ''a'', attr ps ''href'', attr ps ''onClick'') of
        (True, VStr s, VHandler h) \<Rightarrow> [(s, h)] | _ \<Rightarrow> []) @ concat (map links ks)"

section \<open>Runs\<close>

inductive spa_step :: "spa \<Rightarrow> spa \<Rightarrow> bool" where
  click: "(s, h) \<in> set (links (App a)) \<Longrightarrow> spa_step a (run_link h a)"
| traversal: "spa_step a (traverse d a)"
| unmount: "spa_step a (spa_cleanup a)"

inductive spa_reachable :: "spa \<Rightarrow> bool" where
  mount: "i < length es \<Longrightarrow> spa_reachable (spa_effect (initial_spa es i))"
| step: "spa_reachable a \<Longrightarrow> spa_step a b \<Longrightarrow> spa_reachable b"

lemma links_App: "links (App a) = [(''/'', GoTo ''/''), (''/about'', GoTo ''/about'')]"
  by (simp add: App_def attr_def page_of_def)

text \<open>Following a link has the location and the handler agree: both are the destination of the link.\<close>

lemma link_goes_to_href:
  assumes "(s, h) \<in> set (links (App a))" "spa_pos a < length (spa_entries a)"
  shows "spa_location (run_link h a) = s" "spa_path (run_link h a) = s"
  using assms by (auto simp: links_App spa_location_def navigate_def pushState_def nth_append)

text \<open>The app as a hook on the history: following a link or traversing keeps its path the current one.\<close>

datatype spa_event = Follow spa_handler | Go int

fun spa_change :: "spa \<Rightarrow> spa_event \<Rightarrow> spa" where
  "spa_change a (Follow (GoTo dest)) = navigate dest a"
| "spa_change a (Go d) = traverse d a"

definition spa_wf :: "spa \<Rightarrow> bool" where
  "spa_wf a \<longleftrightarrow> spa_pos a < length (spa_entries a)"

definition spa_subscribed :: "spa \<Rightarrow> bool" where
  "spa_subscribed a \<longleftrightarrow> spa_wf a \<and> spa_listening a"

definition spa_tracks :: "spa \<Rightarrow> bool" where
  "spa_tracks a \<longleftrightarrow> spa_path a = spa_location a"

lemma run_link_change: "run_link h a = spa_change a (Follow h)"
  by (cases h) simp

lemma spa_change_wf: "spa_wf a \<Longrightarrow> spa_wf (spa_change a e)"
  by (induction a e rule: spa_change.induct)
    (auto simp: spa_wf_def traverse_def onPop_def Let_def nat_less_iff navigate_def pushState_def)

lemma spa_change_listening: "spa_listening (spa_change a e) = spa_listening a"
  by (induction a e rule: spa_change.induct) (auto simp: traverse_def onPop_def Let_def navigate_def pushState_def)

interpretation router: tracking_hook spa_subscribed spa_tracks spa_change
proof
  show "spa_subscribed (spa_change a e)" if "spa_subscribed a" for a e
    using that by (simp add: spa_subscribed_def spa_change_wf spa_change_listening)
  show "spa_tracks (spa_change a e)" if "spa_subscribed a" "spa_tracks a" for a e
    using that
    by (induction a e rule: spa_change.induct)
      (auto simp: spa_subscribed_def spa_wf_def spa_tracks_def spa_location_def traverse_def onPop_def Let_def navigate_def
        pushState_def nth_append)
qed

lemma spa_step_inv:
  assumes "spa_step a b" "spa_wf a \<and> (spa_listening a \<longrightarrow> spa_tracks a)"
  shows "spa_wf b \<and> (spa_listening b \<longrightarrow> spa_tracks b)"
proof -
  have change: ?thesis if "b = spa_change a e" for e
    using that assms(2) spa_change_wf router.change_tracks [of a e] by (simp add: spa_change_listening spa_subscribed_def)
  show ?thesis using assms(1)
  proof cases
    case (click s h)
    then show ?thesis using change [of "Follow h"] by (simp add: run_link_change)
  next
    case (traversal d)
    then show ?thesis using change [of "Go d"] by simp
  next
    case unmount
    then show ?thesis using assms(2) by (simp add: spa_wf_def spa_cleanup_def)
  qed
qed

lemma spa_reachable_inv:
  assumes "spa_reachable a"
  shows "spa_wf a \<and> (spa_listening a \<longrightarrow> spa_tracks a)"
  using assms
proof induction
  case (mount i es)
  then show ?case by (simp add: spa_wf_def spa_tracks_def spa_effect_def initial_spa_def spa_location_def)
next
  case (step a b)
  then show ?case using spa_step_inv by simp
qed

text \<open>
  C33 (the app shows the location). While it is mounted, after any sequence of clicks on its links and
  of traversals of the history, the app shows the page of the current entry below its navigation.
\<close>

theorem spa_shows_location:
  assumes "spa_reachable a" "spa_listening a"
  shows "spa_pos a < length (spa_entries a) \<and>
     (\<exists>as nav. App a = Elem ''div'' as [nav, Elem (if spa_entries a ! spa_pos a = ''/about'' then ''About'' else ''Home'') [] []])"
  using spa_reachable_inv [OF assms(1)] assms(2)
  by (simp add: spa_wf_def spa_tracks_def spa_location_def App_def page_of_def)

theorem spa_shows_location_witness:
  "\<exists>a as nav. a = traverse (- 1) (navigate ''/about'' (spa_effect (initial_spa [''/''] 0))) \<and> spa_reachable a \<and>
     App a = Elem ''div'' as [nav, Elem ''Home'' [] []]"
proof -
  let ?a = "spa_effect (initial_spa [''/''] 0)"
  have "spa_reachable ?a" by (rule mount) simp
  moreover have "spa_step ?a (navigate ''/about'' ?a)" using click [of "''/about''" "GoTo ''/about''" ?a] by (simp add: links_App)
  ultimately have r: "spa_reachable (traverse (- 1) (navigate ''/about'' ?a))" using step traversal by blast
  have "spa_listening (traverse (- 1) (navigate ''/about'' ?a))"
    "spa_entries (traverse (- 1) (navigate ''/about'' ?a)) ! spa_pos (traverse (- 1) (navigate ''/about'' ?a)) = ''/''"
    by (simp_all add: traverse_def navigate_def pushState_def onPop_def spa_effect_def initial_spa_def Let_def)
  then show ?thesis using spa_shows_location [OF r] r by auto
qed

text \<open>Going back after a link returns to the page before it.\<close>

lemma back_after_link:
  assumes "spa_subscribed a" "spa_tracks a"
  shows "spa_path (traverse (- 1) (navigate dest a)) = spa_path a"
  using assms by (simp add: spa_subscribed_def spa_wf_def spa_tracks_def traverse_def navigate_def pushState_def onPop_def spa_location_def Let_def nth_append)

text \<open>A traversal between the first render and its effect is missed.\<close>

lemma missed_popstate:
  "\<exists>a. a = spa_effect (traverse (- 1) (initial_spa [''/about'', ''/''] 1)) \<and> spa_location a = ''/about'' \<and> page_of (spa_path a) = ''Home''"
  by (simp add: initial_spa_def traverse_def spa_effect_def spa_location_def page_of_def Let_def)

end
