(* ===== verification/Spec2Isabelle.thy ===== *)
theory Spec2Isabelle
  imports Home_Page Dashboard_Link Dashboard_Screen Api_Route Toast_Spec Toast_View UI_Kit UI_Sidebar UI_Form UI_Carousel UI_Chart Benchmark_Stats Spa_Router
begin

text \<open>
  Verification of the JavaScript of the repository: the benchmark dashboard of the documentation
  site (\<^verbatim>\<open>src/docs/benchmark-dashboard\<close>) and the single-page example (\<^verbatim>\<open>src/examples/spa\<close>).

  \<^bold>\<open>The program.\<close> \<^verbatim>\<open>embed.tsx\<close> (on the documentation site) and \<^verbatim>\<open>app/page.tsx\<close> (the demonstration page)
  mount one component, \<^verbatim>\<open>components/benchmark-dashboard.tsx\<close>, with a tree of benchmark results. The
  dashboard flattens the tree, offers filters for what the results have, keeps the selection in
  React state and in the query string, draws a bar chart of the selected results and ranks the
  servers. It is built from the components of \<^verbatim>\<open>components/ui\<close>, which wrap third-party primitives;
  some of these have state of their own (toasts, sidebar, carousel, form fields, charts).

  \<^bold>\<open>Theories.\<close>
  \<^item> \<open>JS_Prelude\<close>, \<open>JS_Number\<close>, \<open>JS_Order\<close>, \<open>JS_Object\<close>, \<open>Web_Url\<close>: what the source uses of the language and the
    browser. A missing or null field is a value of \<open>jopt\<close>, an exception a value of \<open>result\<close>, a number an
    IEEE double (\<open>jsnum\<close>, every operation rounded by \<open>fl\<close>), an object an association list in creation
    order whose lookup falls back to the names every object inherits. Numbers are a linear order
    (\<open>JS_Order\<close>), in which \<^verbatim>\<open>Math.min\<close>, \<^verbatim>\<open>Math.max\<close> and \<^verbatim>\<open>sort\<close> are those of the library. The locales \<open>js_comparator\<close>
    (what \<^verbatim>\<open>sort\<close> needs of its argument), \<open>js_dict\<close> (a dictionary) and \<open>param_store\<close> (a parameter list) are
    the contracts the components use, each interpreted on the model's definitions.
  \<^item> \<open>Benchmark_Data\<close>: \<open>flattenedData\<close> and \<open>allFilterOptions\<close>. The flattening keeps exactly the results of
    the tree, the options are exactly the values that occur, and the one input that throws is named.
  \<^item> \<open>Dashboard_Filters\<close>: the filter state, \<open>parseUrlParams\<close>, \<open>updateUrlParams\<close>,
    \<open>validateAndSanitizeFilters\<close>, the options for a CPU and test case, and \<open>repair_filters\<close> (the updater of
    the effect that repairs a selection). Round trips through the query string, what validation and
    repair establish, and where they do not.
  \<^item> \<open>Dashboard_Chart\<close>, \<open>Dashboard_Points\<close>, \<open>Dashboard_Summary\<close>: the memoised values. Colours, the grouped
    test cases, \<open>filteredData\<close>, the chart points against a reference definition, the data keys, the hover
    handler, the summary numbers and the ranking, each with its specification and its error cases.
  \<^item> \<open>Dashboard_State\<close>: the component as a state machine. \<open>dash\<close> is its state, \<open>run_effects\<close> one commit with
    the four effects in source order, \<open>settle\<close> the renders until a commit queues no update, \<open>mount\<close> and
    \<open>dispatch_event\<close> the runs after the mount and after an event, \<open>dash_reachable\<close> the reachable states.
    Rendering always settles, and in every reachable state the query string shows the filters.
  \<^item> \<open>Dashboard_View\<close>: the element tree the component returns, with symbolic handlers.
    \<open>Dashboard_Controls\<close>: the choices a rendered page offers are exactly the options of the data.
    \<open>Dashboard_Session\<close>: a user can raise only events of the rendered page (\<open>raises\<close>, \<open>session\<close>); the
    states of a session stay renderable and their events are answered. \<open>Dashboard_Link\<close>: over complete
    data (\<open>linkable_data\<close>) the selections of a session exist in the data, so that its URL can be opened
    again; the page drawn from it is the same, since rendering reads of the visible servers only which
    are shown (\<open>render_same_visible\<close>). The properties below put this together.
  \<^item> \<open>Dashboard_Screen\<close>: the page after React has called the components the dashboard imports. The locale
    \<open>transparent_kit\<close> is the contract of components that hide nothing from the user; the imports of the
    dashboard and the parts of the select meet it.
  \<^item> \<open>Home_Page\<close>: the sample data, the page around the dashboard, layout, theme provider and embedding.
  \<^item> \<open>Benchmark_Stats\<close>: \<^verbatim>\<open>lib/benchmark-utils.ts\<close>.
  \<^item> \<open>Toast\<close>, \<open>Toast_View\<close>: \<^verbatim>\<open>hooks/use-toast.ts\<close> as a store with timers, identifiers and listeners, and the
    toaster that shows it. \<open>Toast_Spec\<close>: the store refines one toast with its removal times. \<open>React_Hooks\<close>: the contract of a hook that follows an outside value
    (\<open>tracking_hook\<close>), which \<open>Use_Mobile\<close>, \<open>UI_Carousel\<close> and \<open>Spa_Router\<close> meet.
  \<^item> \<open>UI_Base\<close>: elements, props and class names. \<open>UI_Controls\<close>, \<open>UI_Surfaces\<close>, \<open>UI_Menus\<close>, \<open>UI_Overlays\<close>: the
    stateless components, one definition each; \<open>UI_Aliases\<close>: those that rename a primitive. \<open>UI_Kit\<close>: what they share (the caller's props reach the
    element, the caller's class is merged last). \<open>UI_Sidebar\<close>, \<open>UI_Form\<close>, \<open>UI_Carousel\<close>, \<open>UI_Chart\<close>: the
    components with state or context, their operations and their views.
  \<^item> \<open>Api_Route\<close>: the handler of \<^verbatim>\<open>app/api/benchmarks/route.ts\<close>.
  \<^item> \<open>Spa_Router\<close>: the router of the single-page example on the session history.

  \<^bold>\<open>Correspondence.\<close> Definitions carry the names of the source; a helper that names a part of a larger
  function is described where it is defined. A component of the kit is a function from its props and
  children to the element it returns, one level deep; \<open>on_screen\<close> resolves them. Handlers in a tree are symbols, and a
  function next to the tree gives the operation of each.

  \<^bold>\<open>Parameters.\<close> Code outside the repository is an argument: the class-name libraries (\<open>class_lib\<close>), the
  carousel engine (\<open>embla\<close>), the form library's field state, \<^verbatim>\<open>localeCompare\<close>, \<^verbatim>\<open>navigator.platform\<close>, the
  response of \<^verbatim>\<open>fetch\<close>, \<^verbatim>\<open>NextResponse.json\<close>. The primitives of Radix, recharts and the icons are element names.

  \<^bold>\<open>Termination.\<close> No definition has fuel. The only loop without a structural measure is \<open>settle\<close>, an
  option-valued partial function; that it returns is proved.

  \<^bold>\<open>Bounds.\<close> Whole numbers are exact up to 2 to the 53rd, the bound in \<open>whole_num\<close>; statements on numeric
  filters assume it where printing and parsing must agree. The identifiers of toasts wrap at the
  largest safe integer.

  \<^bold>\<open>Not modelled.\<close> The minified bundles (\<^verbatim>\<open>docs/static/scripts\<close>, \<^verbatim>\<open>dist\<close>) are generated from these sources.
  The configuration files of the build tools hold constants. \<^verbatim>\<open>components/ui/use-toast.ts\<close> and
  \<^verbatim>\<open>components/ui/use-mobile.tsx\<close> repeat the files of \<^verbatim>\<open>hooks\<close>, which are modelled. The
  JavaScript of the Rails examples is what the Rails generator writes, and their service workers are
  commented out. The layout and painting of the browser, React's scheduler beyond the order of
  effects and updates, and the animations are outside the model. The Ruby gem and the Rust crates
  of the web server share no code with the JavaScript and are not part of this development.
\<close>

section \<open>The demonstration page\<close>

text \<open>The data of the demonstration page, opened from a link that asks for one server.\<close>

definition home_linked :: filter_state where
  "home_linked = (repair_filters (options_for home_options home_items home_filters) home_filters)\<lparr>f_visibleServers := [''falcon'']\<rparr>"

lemma home_linked_eq:
  "home_linked =
     \<lparr>f_cpu = ''apple_m1_pro'', f_testCase = ''hello_world'', f_threads = Val (Fin 2), f_workers = Val (Fin 2),
      f_concurrency = Val (Fin 10), f_http2 = All, f_xAxis = ''concurrency'', f_metric = ''rps'', f_visibleServers = [''falcon'']\<rparr>"
  unfolding home_linked_def home_options_for by (simp add: home_filters_eq repair_filters_def first_or_def num_truthy_def)

lemma home_linked_ok:
  "shareable home_linked" "available home_options home_linked"
  "repair_filters (options_for home_options home_items home_linked) home_linked = home_linked"
proof -
  show "shareable home_linked" "available home_options home_linked"
    by (simp_all add: home_linked_eq shareable_def available_def home_options_def whole_num_def x_axes_def metric_names_def)
  have "options_for home_options home_items home_linked = options_for home_options home_items home_filters"
    by (simp add: options_for_def home_linked_eq home_filters_eq)
  then show "repair_filters (options_for home_options home_items home_linked) home_linked = home_linked"
    unfolding home_options_for by (simp add: home_linked_eq repair_filters_def)
qed

lemma home_linkable: "linkable_data home_options home_items"
proof -
  have "list_all linkable_item home_items"
    using home_good by (simp add: home_items_eq linkable_item_def)
  then show ?thesis by (simp add: linkable_data_def home_options_def home_items_eq)
qed

lemmas home_no_zero = good_items_no_zero [OF home_good [unfolded home_items_def] home_allFilterOptions]

lemma home_mounted:
  obtains l s p where "quiet p" "session lc platform home_options home_items (Some l) s p"
    "visibleServersForUrl (d_visible s) \<noteq> []" "selection_settled home_options home_items s"
proof -
  obtain l where l: "params_show home_linked (search_params l)"
    using updateUrlParams_shows [OF shareable_printable [OF home_linked_ok(1)]] by blast
  obtain s where s: "mount home_options home_items (Some l) = Some s" "d_filters s = home_linked"
    "d_visible s = visible_from_url (fo_servers home_options) (Some (url_form home_linked))"
    using mount_from_shown [OF home_linked_ok(1,2) _ home_linked_ok(3) l] by (auto simp: home_linked_eq)
  obtain p where p: "quiet p" "session lc platform home_options home_items (Some l) s p" using mount_session [OF s(1)] by blast
  have keys: "\<forall>srv\<in>set (fo_servers home_options). plain_key srv" using home_names by (simp add: home_options_def)
  then have "truthy_slot (obj_get (d_visible s) ''falcon'')"
    by (simp add: s(3) visible_from_url_def url_form_def fill_visible_get home_linked_eq home_options_def)
  moreover have "obj_wf (d_visible s)" using visible_from_url_ok [of home_options] unfolding s(3) visible_ok_def by blast
  ultimately have "''falcon'' \<in> set (visibleServersForUrl (d_visible s))"
    using visible_for_url_iff home_names [of "''falcon''"] by simp
  then have "visibleServersForUrl (d_visible s) \<noteq> []" by auto
  moreover have "selection_settled home_options home_items s" by (simp add: selection_settled_def s(2) home_linked_ok(3))
  ultimately show thesis using that p by blast
qed

lemma metric_event: "render lc platform True opts items s = Inr n \<Longrightarrow> raises n (FilterChange (UMetric ''p95_latency''))"
  using render_choices [of lc platform opts items s n] raises.choose [of SMetric "''p95_latency''" n]
  by (auto simp: page_choices_def)

section \<open>A session with the dashboard\<close>

text \<open>
  C4 (a session never throws). Take data whose results have what the page reads: positive whole
  numbers for threads, workers and concurrency, a server whose shown name is neither an axis nor
  ends in \<^verbatim>\<open>_data\<close>, a request rate, and group and test names that are not names every object
  inherits. Start the dashboard from any URL, let its effects run, and let the user raise any events
  that the rendered page has handlers for, in any order. Then every render, those between the
  effects included, returns a page.
\<close>

theorem session_never_throws:
  assumes "list_all good_item (flattenedData data)" "allFilterOptions data = Inr opts"
    and "session lc platform opts (flattenedData data) win s p"
  shows "\<exists>n. render lc platform True opts (flattenedData data) s = Inr n"
proof (rule render_total)
  show "renderable (flattenedData data) s"
    using session_renderable [OF assms(1) good_items_no_zero [OF assms(1,2)] assms(3)] .
qed

text \<open>The demonstration page, after the first commit has repaired the default selection.\<close>

theorem session_never_throws_witness:
  "\<exists>s p. session (\<lambda>_ _. 0) ''Linux'' home_options (flattenedData sampleHierarchicalData) None s p \<and>
     length (filteredData (flattenedData sampleHierarchicalData) (d_filters s)) = 1 \<and>
     (\<exists>n. render (\<lambda>_ _. 0) ''Linux'' True home_options (flattenedData sampleHierarchicalData) s = Inr n)"
proof -
  let ?f = "repair_filters (options_for home_options home_items home_filters) home_filters"
  let ?s = "(initial_dash home_options None)\<lparr>d_filters := ?f\<rparr>"
  obtain p where p: "session (\<lambda>_ _. 0) ''Linux'' home_options home_items None ?s p"
    using session_commit [OF session_start home_first_commit] by blast
  moreover have "length (filteredData home_items (d_filters ?s)) = 1" by (simp add: home_filtered(2))
  ultimately show ?thesis
    using session_never_throws [OF home_good [unfolded home_items_def] home_allFilterOptions, of "\<lambda>_ _. 0" "''Linux''" None ?s p]
    unfolding home_items_def by blast
qed

text \<open>
  C5 (the page always responds). On the same data, any event the rendered page has a handler for is
  answered: the renders it sets off come to rest, and the page shown then is rendered without an
  exception, belongs to the session and has its filters in the query string.
\<close>

theorem session_responds:
  assumes "list_all good_item (flattenedData data)" "allFilterOptions data = Inr opts"
    and "session lc platform opts (flattenedData data) win s p" "quiet p"
    and "render lc platform True opts (flattenedData data) s = Inr n" "raises n e"
  shows "\<exists>s' p' n'. dispatch_event opts (flattenedData data) e s = Some s' \<and> quiet p' \<and>
     session lc platform opts (flattenedData data) win s' p' \<and> url_synced s' \<and>
     render lc platform True opts (flattenedData data) s' = Inr n'"
proof -
  obtain s' where s': "dispatch_event opts (flattenedData data) e s = Some s'"
    by (cases "on_event opts e s") (use settle_total in \<open>fastforce simp: dispatch_event_def\<close>)
  obtain p' where p': "quiet p'" "session lc platform opts (flattenedData data) win s' p'"
    using dispatch_session [OF assms(3-6) s'] by blast
  have "url_synced s'" using session_synced [OF p'(2,1)] .
  then show ?thesis
    using s' p' render_total [OF session_renderable [OF assms(1) good_items_no_zero [OF assms(1,2)] p'(2)]] by blast
qed

theorem session_responds_witness:
  "\<exists>l s s' p' n n'. render (\<lambda>_ _. 0) ''Linux'' True home_options (flattenedData sampleHierarchicalData) s = Inr n \<and>
     raises n (FilterChange (UMetric ''p95_latency'')) \<and>
     dispatch_event home_options (flattenedData sampleHierarchicalData) (FilterChange (UMetric ''p95_latency'')) s = Some s' \<and>
     session (\<lambda>_ _. 0) ''Linux'' home_options (flattenedData sampleHierarchicalData) (Some l) s' p' \<and>
     render (\<lambda>_ _. 0) ''Linux'' True home_options (flattenedData sampleHierarchicalData) s' = Inr n'"
proof -
  obtain l s p where s: "quiet p" "session (\<lambda>_ _. 0) ''Linux'' home_options home_items (Some l) s p"
    by (rule home_mounted)
  obtain n where n: "render (\<lambda>_ _. 0) ''Linux'' True home_options home_items s = Inr n"
    using render_total [OF session_renderable [OF home_good home_no_zero s(2)]] by blast
  show ?thesis
    using session_responds [OF home_good [unfolded home_items_def] home_allFilterOptions s(2,1) [unfolded home_items_def]
        n [unfolded home_items_def] metric_event [OF n]] n metric_event [OF n]
    unfolding home_items_def by blast
qed

text \<open>
  C6 (a shared link shows the page). Take data whose results also have a test case and a server
  whose name has no comma, on CPUs that all have results. When a session has come to rest with a
  selection that needs no repair and at least one server shown, opening its URL in a new window
  renders the very page the session shows with the pointer off the chart.
\<close>

theorem shared_link_shows_page:
  assumes "linkable_data opts (flattenedData data)" "allFilterOptions data = Inr opts"
    and "session lc platform opts (flattenedData data) (Some l) s p" "quiet p"
    and "selection_settled opts (flattenedData data) s" "visibleServersForUrl (d_visible s) \<noteq> []"
  shows "\<exists>s' n. mount opts (flattenedData data) (d_window s) = Some s' \<and>
     render lc platform True opts (flattenedData data) s' = Inr n \<and>
     render lc platform True opts (flattenedData data) (s\<lparr>d_hovered := None, d_activeKey := None\<rparr>) = Inr n"
proof -
  let ?items = "flattenedData data"
  have of_data: "options_of opts ?items" using allFilterOptions_of [OF assms(2)] assms(1) by (simp add: linkable_data_def)
  obtain s' where s': "mount opts ?items (d_window s) = Some s'"
    "render lc platform True opts ?items s' = render lc platform True opts ?items (s\<lparr>d_hovered := None, d_activeKey := None\<rparr>)"
    using link_same_page [OF assms(1) of_data assms(3-5) _ assms(6)] session_window [OF assms(3)] by auto
  have good: "list_all good_item ?items" using assms(1) by (auto simp: linkable_data_def linkable_item_def list_all_iff)
  obtain p' where "session lc platform opts ?items (d_window s) s' p'" using mount_session [OF s'(1)] by blast
  then show ?thesis
    using s' render_total [OF session_renderable [OF good good_items_no_zero [OF good assms(2)]]] by metis
qed

theorem shared_link_shows_page_witness:
  "\<exists>l s p s' n. session (\<lambda>_ _. 0) ''Linux'' home_options (flattenedData sampleHierarchicalData) (Some l) s p \<and> quiet p \<and>
     visibleServersForUrl (d_visible s) \<noteq> [] \<and> mount home_options (flattenedData sampleHierarchicalData) (d_window s) = Some s' \<and>
     render (\<lambda>_ _. 0) ''Linux'' True home_options (flattenedData sampleHierarchicalData) s' = Inr n \<and>
     render (\<lambda>_ _. 0) ''Linux'' True home_options (flattenedData sampleHierarchicalData) (s\<lparr>d_hovered := None, d_activeKey := None\<rparr>) = Inr n"
proof -
  obtain l s p where s: "quiet p" "session (\<lambda>_ _. 0) ''Linux'' home_options home_items (Some l) s p"
    "visibleServersForUrl (d_visible s) \<noteq> []" "selection_settled home_options home_items s"
    by (rule home_mounted)
  then show ?thesis
    using shared_link_shows_page [OF home_linkable [unfolded home_items_def] home_allFilterOptions, of "\<lambda>_ _. 0" "''Linux''" l s p]
    unfolding home_items_def by blast
qed

end
